(* ===== verification/Prelude.thy ===== *)
theory Prelude
  imports Main "HOL-Library.Word" "HOL-Library.Signed_Division"
begin

text \<open>
  Shared vocabulary of the development: Go's fixed-width integers, error values, panics,
  instants and durations, and the generic lemmas about them that the component theories use.

  Go's \<open>int32\<close>, \<open>int64\<close> and \<open>int\<close> (64 bits on every supported platform) are words read with
  \<open>sint\<close>; addition and subtraction wrap. An error value keeps what the code observes of it:
  its text, the Kubernetes status reason, and the error it wraps. A function that can panic
  returns an \<open>outcome\<close>. Logging is not modelled: no code path reads it back.
\<close>

section \<open>Fixed-width integers\<close>

type_synonym int32 = "32 word"
type_synonym int64 = "64 word"

named_theorems wrap_simps
  \<comment> \<open>exact integer values of word expressions that do not overflow\<close>

text \<open>Go's \<open>/\<close> on signed integers truncates towards zero.\<close>

definition go_div :: "'a::len word \<Rightarrow> 'a word \<Rightarrow> 'a word" where
  "go_div a b = word_of_int (sint a sdiv sint b)"

text \<open>Go's \<open>%\<close> has the sign of the dividend.\<close>

definition go_mod :: "'a::len word \<Rightarrow> 'a word \<Rightarrow> 'a word" where
  "go_mod a b = word_of_int (sint a smod sint b)"

text \<open>The conversions \<open>int32(x)\<close> of an \<open>int64\<close> and \<open>int64(x)\<close> of an \<open>int32\<close>.\<close>

definition to_int32 :: "int64 \<Rightarrow> int32" where
  "to_int32 x = word_of_int (sint x)"

definition to_int64 :: "int32 \<Rightarrow> int64" where
  "to_int64 x = word_of_int (sint x)"

lemma sint_of_int_64:
  assumes "- (2 ^ 63) \<le> k" and "k < 2 ^ 63"
  shows "sint (word_of_int k :: int64) = k"
  using assms by (simp add: sint_sbintrunc' signed_take_bit_int_eq_self)

lemma sint_of_int_32:
  assumes "- (2 ^ 31) \<le> k" and "k < 2 ^ 31"
  shows "sint (word_of_int k :: int32) = k"
  using assms by (simp add: sint_sbintrunc' signed_take_bit_int_eq_self)

lemma sint_range_64: "- (2 ^ 63) \<le> sint (x :: int64)" "sint (x :: int64) < 2 ^ 63"
  using sint_ge [of x] sint_lt [of x] by simp_all

lemma sint_range_32: "- (2 ^ 31) \<le> sint (x :: int32)" "sint (x :: int32) < 2 ^ 31"
  using sint_ge [of x] sint_lt [of x] by simp_all

lemma sint_to_int64 [simp]: "sint (to_int64 x) = sint x"
  using sint_range_32 [of x] unfolding to_int64_def
  by (intro sint_of_int_64) simp_all

lemma sint_to_int32:
  assumes "- (2 ^ 31) \<le> sint x" and "sint x < 2 ^ 31"
  shows "sint (to_int32 x) = sint x"
  using assms unfolding to_int32_def by (rule sint_of_int_32)

lemma sint_add_64 [wrap_simps]:
  fixes a b :: int64
  assumes "- (2 ^ 63) \<le> sint a + sint b" and "sint a + sint b < 2 ^ 63"
  shows "sint (a + b) = sint a + sint b"
  using assms by (simp add: sint_word_add signed_take_bit_int_eq_self)

lemma sint_add_32 [wrap_simps]:
  fixes a b :: int32
  assumes "- (2 ^ 31) \<le> sint a + sint b" and "sint a + sint b < 2 ^ 31"
  shows "sint (a + b) = sint a + sint b"
  using assms by (simp add: sint_word_add signed_take_bit_int_eq_self)

lemma sint_Suc_32:
  fixes a b :: int32
  assumes "sint a < sint b"
  shows "sint (a + 1) = sint a + 1"
proof -
  have "sint (1 :: int32) = 1" by simp
  with assms sint_range_32 [of a] sint_range_32 [of b] show ?thesis
    by (subst sint_add_32) simp_all
qed

section \<open>Errors and panics\<close>

text \<open>
  \<open>StatusError\<close> is a Kubernetes API error with the reason that the predicates
  \<open>apierrors.IsNotFound\<close> and \<open>apierrors.IsAlreadyExists\<close> read; \<open>WrapError m e\<close> is
  \<open>fmt.Errorf("m: %w", e)\<close>.
\<close>

datatype status_reason = ReasonNotFound | ReasonAlreadyExists | ReasonOther

datatype error =
    PlainError string
  | StatusError status_reason string
  | WrapError string error

fun error_text :: "error \<Rightarrow> string" where
  "error_text (PlainError m) = m"
| "error_text (StatusError r m) = m"
| "error_text (WrapError m e) = m @ '': '' @ error_text e"

fun error_reason :: "error \<Rightarrow> status_reason option" where
  "error_reason (PlainError m) = None"
| "error_reason (StatusError r m) = Some r"
| "error_reason (WrapError m e) = error_reason e"

definition IsNotFound :: "error \<Rightarrow> bool" where
  "IsNotFound e \<longleftrightarrow> error_reason e = Some ReasonNotFound"

definition IsAlreadyExists :: "error \<Rightarrow> bool" where
  "IsAlreadyExists e \<longleftrightarrow> error_reason e = Some ReasonAlreadyExists"

datatype 'a outcome = Return 'a | Panic string

text \<open>A call on the outside world: it may fail, and it may change the world either way.\<close>

type_synonym ('w, 'a) io = "'w \<Rightarrow> (error + 'a) \<times> 'w"

section \<open>Instants and durations\<close>

text \<open>
  An instant is the number of nanoseconds since Go's zero time (1 January of year 1, UTC);
  \<open>*metav1.Time\<close> is an option, and its \<open>IsZero\<close> holds of nil and of the zero time.
\<close>

type_synonym instant = int
type_synonym duration = int64

definition IsZero :: "instant option \<Rightarrow> bool" where
  "IsZero t \<longleftrightarrow> (case t of None \<Rightarrow> True | Some x \<Rightarrow> x = 0)"

definition seconds :: "nat \<Rightarrow> duration" where
  "seconds n = of_nat n * 1000000000"

end
