(* ===== verification/Go_Text.thy ===== *)
theory Go_Text
  imports Prelude
begin

text \<open>
  The functions of Go's \<open>strconv\<close> and \<open>strings\<close> packages that the code calls. A Go string is
  its bytes, so it is a \<open>char list\<close>. Errors of the number parsers are discarded by every caller,
  so the parsers return options. The main facts are the round trip of \<open>Itoa\<close> and \<open>Atoi\<close> and the
  value of a string of digits.
\<close>

section \<open>Decimal numbers\<close>

definition is_digit :: "char \<Rightarrow> bool" where
  "is_digit c \<longleftrightarrow> 48 \<le> (of_char c :: nat) \<and> (of_char c :: nat) \<le> 57"

definition digit_val :: "char \<Rightarrow> nat" where
  "digit_val c = of_char c - 48"

definition digit_char :: "nat \<Rightarrow> char" where
  "digit_char d = char_of (48 + d)"

fun nat_digits :: "nat \<Rightarrow> string" where
  "nat_digits n = (if n < 10 then [digit_char n] else nat_digits (n div 10) @ [digit_char (n mod 10)])"

declare nat_digits.simps [simp del]

definition digits_val :: "string \<Rightarrow> nat" where
  "digits_val s = foldl (\<lambda>a c. 10 * a + digit_val c) 0 s"

definition Itoa :: "int \<Rightarrow> string" where
  "Itoa i = (if i < 0 then CHR ''-'' # nat_digits (nat (- i)) else nat_digits (nat i))"

lemma digit_char_inverse:
  assumes "d < 10"
  shows "digit_val (digit_char d) = d" "is_digit (digit_char d)"
  using assms by (simp_all add: digit_val_def digit_char_def is_digit_def of_char_of)

lemma digits_val_snoc [simp]: "digits_val (s @ [c]) = 10 * digits_val s + digit_val c"
  by (simp add: digits_val_def)

lemma nat_digits_digits: "list_all is_digit (nat_digits n)"
proof (induction n rule: nat_digits.induct)
  case (1 n)
  then show ?case
    by (subst nat_digits.simps) (simp add: digit_char_inverse)
qed

lemma nat_digits_nonempty: "nat_digits n \<noteq> []"
  by (subst nat_digits.simps) simp

lemma digits_val_nat_digits: "digits_val (nat_digits n) = n"
proof (induction n rule: nat_digits.induct)
  case (1 n)
  show ?case
  proof (cases "n < 10")
    case True
    then show ?thesis
      by (subst nat_digits.simps) (simp add: digits_val_def digit_char_inverse)
  next
    case False
    with 1 show ?thesis
      by (subst nat_digits.simps) (simp add: digit_char_inverse)
  qed
qed

lemma inj_nat_digits: "nat_digits m = nat_digits n \<longleftrightarrow> m = n"
  by (metis digits_val_nat_digits)

text \<open>
  \<open>strconv.ParseInt(s, 10, bits)\<close>: an optional sign, at least one digit and nothing else, and a
  value that fits in \<open>bits\<close> bits.
\<close>

definition parse_digits :: "string \<Rightarrow> nat option" where
  "parse_digits s = (if s \<noteq> [] \<and> list_all is_digit s then Some (digits_val s) else None)"

definition ParseInt :: "nat \<Rightarrow> string \<Rightarrow> int option" where
  "ParseInt bits s =
     (let neg = (s \<noteq> [] \<and> hd s = CHR ''-'');
          body = (if s \<noteq> [] \<and> (hd s = CHR ''-'' \<or> hd s = CHR ''+'') then tl s else s)
      in case parse_digits body of
           None \<Rightarrow> None
         | Some n \<Rightarrow>
             if neg then (if int n \<le> 2 ^ (bits - 1) then Some (- int n) else None)
             else (if int n < 2 ^ (bits - 1) then Some (int n) else None))"

definition Atoi :: "string \<Rightarrow> int option" where
  "Atoi s = ParseInt 64 s"

lemma digit_not_sign: "is_digit c \<Longrightarrow> c \<noteq> CHR ''-'' \<and> c \<noteq> CHR ''+''"
  by (auto simp: is_digit_def)

lemma ParseInt_digits:
  assumes "s \<noteq> []" and "list_all is_digit s" and "int (digits_val s) < 2 ^ (bits - 1)"
  shows "ParseInt bits s = Some (int (digits_val s))"
proof -
  from assms(1,2) have "hd s \<noteq> CHR ''-'' \<and> hd s \<noteq> CHR ''+''"
    by (cases s) (auto dest: digit_not_sign)
  with assms show ?thesis by (simp add: ParseInt_def parse_digits_def)
qed

lemma ParseInt_digits_iff:
  assumes "s \<noteq> []" and "list_all is_digit s"
  shows "ParseInt bits s = (if int (digits_val s) < 2 ^ (bits - 1) then Some (int (digits_val s)) else None)"
proof -
  from assms have "hd s \<noteq> CHR ''-'' \<and> hd s \<noteq> CHR ''+''"
    by (cases s) (auto dest: digit_not_sign)
  with assms show ?thesis by (simp add: ParseInt_def parse_digits_def)
qed

lemma Atoi_Itoa:
  assumes "- (2 ^ 63) \<le> i" and "i < 2 ^ 63"
  shows "Atoi (Itoa i) = Some i"
proof (cases "i < 0")
  case True
  with assms(1) show ?thesis
    by (simp add: Atoi_def Itoa_def ParseInt_def parse_digits_def nat_digits_digits
        nat_digits_nonempty digits_val_nat_digits)
next
  case False
  with assms(2) show ?thesis
    using ParseInt_digits [of "nat_digits (nat i)" 64]
    by (simp add: Atoi_def Itoa_def nat_digits_digits nat_digits_nonempty digits_val_nat_digits)
qed

lemma Itoa_sint_inject: "Itoa (sint (a :: int64)) = Itoa (sint b) \<longleftrightarrow> a = b"
  using Atoi_Itoa [of "sint a"] Atoi_Itoa [of "sint b"] sint_range_64 [of a] sint_range_64 [of b]
  by (metis option.inject signed_word_eqI)

lemma Atoi_range: "Atoi s = Some i \<Longrightarrow> - (2 ^ 63) \<le> i \<and> i < 2 ^ 63"
  by (auto simp: Atoi_def ParseInt_def Let_def split: option.splits if_splits)

section \<open>Strings\<close>

definition TrimPrefix :: "string \<Rightarrow> string \<Rightarrow> string" where
  "TrimPrefix s p = (if take (length p) s = p then drop (length p) s else s)"

text \<open>\<open>strings.Split(s, c)\<close> and \<open>strings.SplitN(s, c, 2)\<close> for a one-byte separator.\<close>

fun Split :: "char \<Rightarrow> string \<Rightarrow> string list" where
  "Split c [] = [[]]"
| "Split c (x # xs) =
     (if x = c then [] # Split c xs
      else case Split c xs of [] \<Rightarrow> [[x]] | y # ys \<Rightarrow> (x # y) # ys)"

definition SplitN2 :: "char \<Rightarrow> string \<Rightarrow> string list" where
  "SplitN2 c s =
     (let pre = takeWhile (\<lambda>x. x \<noteq> c) s in
      if c \<in> set s then [pre, drop (Suc (length pre)) s] else [s])"

text \<open>
  \<open>strings.ToLower\<close> on ASCII letters. The only non-ASCII letters that lower to ASCII are the
  Kelvin sign (to \<open>k\<close>) and the dotted capital I, and no string the code compares with has them.
\<close>

definition ToLower :: "string \<Rightarrow> string" where
  "ToLower s = map (\<lambda>c. if 65 \<le> (of_char c :: nat) \<and> (of_char c :: nat) \<le> 90
                         then char_of ((of_char c :: nat) + 32) else c) s"

fun Join :: "string \<Rightarrow> string list \<Rightarrow> string" where
  "Join sep [] = []"
| "Join sep [x] = x"
| "Join sep (x # y # ys) = x @ sep @ Join sep (y # ys)"

lemma Split_nonempty [simp]: "Split c s \<noteq> []"
  by (induction s) (auto split: list.splits)

lemma Split_no_sep: "c \<notin> set s \<Longrightarrow> Split c s = [s]"
  by (induction s) auto

lemma Split_append: "c \<notin> set h \<Longrightarrow> Split c (h @ c # r) = h # Split c r"
  by (induction h) auto

lemma Join_Split: "Join [c] (Split c s) = s"
proof (induction s)
  case (Cons x xs)
  obtain y ys where "Split c xs = y # ys" by (cases "Split c xs") auto
  with Cons show ?case by (cases ys) auto
qed simp

lemma SplitN2_append: "c \<notin> set h \<Longrightarrow> SplitN2 c (h @ c # r) = [h, r]"
proof -
  assume "c \<notin> set h"
  then have "takeWhile (\<lambda>x. x \<noteq> c) (h @ c # r) = h" by (subst takeWhile_append2) auto
  then show ?thesis by (simp add: SplitN2_def)
qed

lemma SplitN2_no_sep: "c \<notin> set s \<Longrightarrow> SplitN2 c s = [s]"
  by (simp add: SplitN2_def)

lemma hd_Split: "hd (Split c s) = takeWhile (\<lambda>x. x \<noteq> c) s"
proof (induction s)
  case (Cons x xs)
  then show ?case by (cases "Split c xs") auto
qed simp

end
