(* ===== verification/Regex.thy ===== *)
theory Regex
  imports Prelude
begin

text \<open>
  Anchored regular expressions, as the validators use them through Go's \<open>regexp\<close> package: an
  executable matcher by derivatives (\<open>MatchString\<close>) and its correctness against the set of
  strings an expression denotes (\<open>lang\<close>). Every pattern of the code is anchored at both ends, so
  matching is membership. Character classes are lists of byte ranges, as written in the patterns.
\<close>

datatype rx =
    Empty
  | Class "(char \<times> char) list"
  | Alt rx rx
  | Cat rx rx
  | Star rx
  | Fail

definition in_class :: "(char \<times> char) list \<Rightarrow> char \<Rightarrow> bool" where
  "in_class rs c \<longleftrightarrow>
     list_ex (\<lambda>(lo, hi). (of_char lo :: nat) \<le> of_char c \<and> (of_char c :: nat) \<le> of_char hi) rs"

text \<open>The derived forms \<open>r+\<close>, \<open>r?\<close> and \<open>r{0,n}\<close>, and a literal byte.\<close>

definition Plus :: "rx \<Rightarrow> rx" where
  "Plus r = Cat r (Star r)"

definition Opt :: "rx \<Rightarrow> rx" where
  "Opt r = Alt Empty r"

fun Upto :: "nat \<Rightarrow> rx \<Rightarrow> rx" where
  "Upto 0 r = Empty"
| "Upto (Suc n) r = Opt (Cat r (Upto n r))"

definition Lit :: "char \<Rightarrow> rx" where
  "Lit c = Class [(c, c)]"

fun nullable :: "rx \<Rightarrow> bool" where
  "nullable Empty = True"
| "nullable (Class rs) = False"
| "nullable (Alt r s) = (nullable r \<or> nullable s)"
| "nullable (Cat r s) = (nullable r \<and> nullable s)"
| "nullable (Star r) = True"
| "nullable Fail = False"

fun deriv :: "char \<Rightarrow> rx \<Rightarrow> rx" where
  "deriv c Empty = Fail"
| "deriv c (Class rs) = (if in_class rs c then Empty else Fail)"
| "deriv c (Alt r s) = Alt (deriv c r) (deriv c s)"
| "deriv c (Cat r s) = (if nullable r then Alt (Cat (deriv c r) s) (deriv c s) else Cat (deriv c r) s)"
| "deriv c (Star r) = Cat (deriv c r) (Star r)"
| "deriv c Fail = Fail"

fun MatchString :: "rx \<Rightarrow> string \<Rightarrow> bool" where
  "MatchString r [] = nullable r"
| "MatchString r (c # cs) = MatchString (deriv c r) cs"

section \<open>Denotation\<close>

inductive_set star_lang :: "string set \<Rightarrow> string set" for A where
  star_Nil: "[] \<in> star_lang A"
| star_append: "u \<in> A \<Longrightarrow> v \<in> star_lang A \<Longrightarrow> u @ v \<in> star_lang A"

fun lang :: "rx \<Rightarrow> string set" where
  "lang Empty = {[]}"
| "lang (Class rs) = {[c] |c. in_class rs c}"
| "lang (Alt r s) = lang r \<union> lang s"
| "lang (Cat r s) = {u @ v |u v. u \<in> lang r \<and> v \<in> lang s}"
| "lang (Star r) = star_lang (lang r)"
| "lang Fail = {}"

lemma nullable_lang: "nullable r \<longleftrightarrow> [] \<in> lang r"
  by (induction r) (auto intro: star_Nil)

lemma star_lang_Cons:
  "c # s \<in> star_lang A \<longleftrightarrow> (\<exists>u v. s = u @ v \<and> c # u \<in> A \<and> v \<in> star_lang A)"
proof
  assume "c # s \<in> star_lang A"
  then show "\<exists>u v. s = u @ v \<and> c # u \<in> A \<and> v \<in> star_lang A"
  proof (induction "c # s" arbitrary: s)
    case (star_append u v)
    then show ?case by (cases u) auto
  qed
next
  assume "\<exists>u v. s = u @ v \<and> c # u \<in> A \<and> v \<in> star_lang A"
  then obtain u v where "s = u @ v" "c # u \<in> A" "v \<in> star_lang A" by blast
  then show "c # s \<in> star_lang A" using star_append [of "c # u" A v] by simp
qed

lemma deriv_lang: "s \<in> lang (deriv c r) \<longleftrightarrow> c # s \<in> lang r"
proof (induction r arbitrary: s)
  case (Cat r1 r2)
  have "c # s \<in> lang (Cat r1 r2) \<longleftrightarrow>
      (\<exists>u v. s = u @ v \<and> c # u \<in> lang r1 \<and> v \<in> lang r2) \<or> ([] \<in> lang r1 \<and> c # s \<in> lang r2)"
    by (auto simp: Cons_eq_append_conv)
  with Cat show ?case by (auto simp: nullable_lang)
next
  case (Star r)
  then show ?case by (auto simp: star_lang_Cons)
qed auto

lemma MatchString_lang: "MatchString r s \<longleftrightarrow> s \<in> lang r"
  by (induction r s rule: MatchString.induct) (simp_all add: nullable_lang deriv_lang)

section \<open>The shapes the patterns have\<close>

lemma lang_Opt [simp]: "s \<in> lang (Opt r) \<longleftrightarrow> s = [] \<or> s \<in> lang r"
  by (auto simp: Opt_def)

lemma in_class_single [simp]: "in_class [(c, c)] d \<longleftrightarrow> d = c"
proof
  assume "in_class [(c, c)] d"
  then have "(of_char d :: nat) = of_char c" by (intro antisym) (simp_all add: in_class_def)
  then show "d = c" by simp
qed (simp add: in_class_def)

lemma lang_Lit [simp]: "s \<in> lang (Lit c) \<longleftrightarrow> s = [c]"
  by (auto simp: Lit_def)

lemma lang_Star_Class: "s \<in> lang (Star (Class rs)) \<longleftrightarrow> list_all (in_class rs) s"
proof (induction s)
  case Nil
  then show ?case by (simp add: star_Nil)
next
  case (Cons c s)
  then show ?case by (auto simp: star_lang_Cons)
qed

lemma lang_Cat_Class: "s \<in> lang (Cat (Class rs) r) \<longleftrightarrow> (\<exists>c t. s = c # t \<and> in_class rs c \<and> t \<in> lang r)"
proof
  assume "\<exists>c t. s = c # t \<and> in_class rs c \<and> t \<in> lang r"
  then obtain c t where "s = [c] @ t" "in_class rs c" "t \<in> lang r" by auto
  then show "s \<in> lang (Cat (Class rs) r)"
    unfolding lang.simps by (intro CollectI exI [of _ "[c]"] exI [of _ t]) simp
qed auto

lemma lang_Plus_Class: "s \<in> lang (Plus (Class rs)) \<longleftrightarrow> s \<noteq> [] \<and> list_all (in_class rs) s"
  unfolding Plus_def lang_Cat_Class lang_Star_Class by (cases s) auto

lemma lang_Upto_Class:
  "s \<in> lang (Upto n (Class rs)) \<longleftrightarrow> length s \<le> n \<and> list_all (in_class rs) s"
proof (induction n arbitrary: s)
  case 0
  then show ?case by auto
next
  case (Suc n)
  then show ?case
    unfolding Upto.simps lang_Opt lang_Cat_Class by (cases s) auto
qed

text \<open>Two alternatives for the same byte are one class.\<close>

lemma in_class_append: "in_class (rs @ qs) c \<longleftrightarrow> in_class rs c \<or> in_class qs c"
  by (simp add: in_class_def)

lemma lang_Alt_Class: "lang (Alt (Class rs) (Class qs)) = lang (Class (rs @ qs))"
  by (auto simp: in_class_append)

lemma lang_Cat_assoc: "lang (Cat a (Cat b c)) = lang (Cat (Cat a b) c)"
  unfolding lang.simps(4) by (auto, metis append.assoc) (metis append.assoc)

lemma lang_Plus_cong: "lang r = lang r' \<Longrightarrow> lang (Plus r) = lang (Plus r')"
  by (simp add: Plus_def)

end
