(* ===== verification/CloudTask_Types.thy ===== *)
theory CloudTask_Types
  imports Go_Text Regex
begin

text \<open>
  The CloudTask resource (\<open>module2-orchestrator/api/v1\<close>): its types, the schema its kubebuilder
  markers generate, and the admission webhook (\<open>Default\<close>, \<open>ValidateCreate\<close>, \<open>ValidateUpdate\<close>,
  \<open>ValidateDelete\<close>).

  Kubernetes types the code only copies are opaque (\<open>typedecl\<close>); of \<open>ObjectMeta\<close> the fields that
  the code reads or writes are kept. A nil pointer is \<open>None\<close>. Go maps are partial functions; nil
  and empty maps behave alike in every use.
\<close>

section \<open>Kubernetes types\<close>

typedecl VolumeMount
typedecl Condition
typedecl EnvVarSource

record core_EnvVar =
  cev_Name :: string
  cev_Value :: string
  cev_ValueFrom :: "EnvVarSource option"

record OwnerReference =
  or_APIVersion :: string
  or_Kind :: string
  or_Name :: string
  or_Controller :: "bool option"

record ObjectMeta =
  om_Name :: string
  om_Namespace :: string
  om_Labels :: "string \<rightharpoonup> string"
  om_Annotations :: "string \<rightharpoonup> string"
  om_CreationTimestamp :: instant
  om_DeletionTimestamp :: "instant option"
  om_Finalizers :: "string list"
  om_OwnerReferences :: "OwnerReference list"

definition zero_ObjectMeta :: ObjectMeta where
  "zero_ObjectMeta =
     \<lparr>om_Name = '''', om_Namespace = '''', om_Labels = Map.empty, om_Annotations = Map.empty,
      om_CreationTimestamp = 0, om_DeletionTimestamp = None, om_Finalizers = [],
      om_OwnerReferences = []\<rparr>"

section \<open>The CloudTask resource\<close>

type_synonym CloudTaskPhase = string

definition PhasePending :: CloudTaskPhase where "PhasePending = ''Pending''"
definition PhaseRunning :: CloudTaskPhase where "PhaseRunning = ''Running''"
definition PhaseCompleted :: CloudTaskPhase where "PhaseCompleted = ''Completed''"
definition PhaseFailed :: CloudTaskPhase where "PhaseFailed = ''Failed''"

lemmas phase_defs = PhasePending_def PhaseRunning_def PhaseCompleted_def PhaseFailed_def

record ResourceList =
  rl_CPU :: string
  rl_Memory :: string

record ResourceRequirements =
  rr_Requests :: "ResourceList option"
  rr_Limits :: "ResourceList option"

record CloudTaskSpec =
  sp_Image :: string
  sp_Command :: "string list"
  sp_Args :: "string list"
  sp_Resources :: "ResourceRequirements option"
  sp_Retries :: int32
  sp_Timeout :: string
  sp_TenantID :: string
  sp_Priority :: int32
  sp_Env :: "core_EnvVar list"
  sp_VolumeMounts :: "VolumeMount list"
  sp_Labels :: "string \<rightharpoonup> string"
  sp_Annotations :: "string \<rightharpoonup> string"

record CloudTaskStatus =
  st_Phase :: CloudTaskPhase
  st_PodName :: string
  st_StartTime :: "instant option"
  st_CompletionTime :: "instant option"
  st_RetryCount :: int32
  st_Message :: string
  st_LastUpdateTime :: "instant option"
  st_Conditions :: "Condition list"

record CloudTask =
  ct_Meta :: ObjectMeta
  ct_Spec :: CloudTaskSpec
  ct_Status :: CloudTaskStatus

definition zero_CloudTaskSpec :: CloudTaskSpec where
  "zero_CloudTaskSpec =
     \<lparr>sp_Image = '''', sp_Command = [], sp_Args = [], sp_Resources = None, sp_Retries = 0,
      sp_Timeout = '''', sp_TenantID = '''', sp_Priority = 0, sp_Env = [], sp_VolumeMounts = [],
      sp_Labels = Map.empty, sp_Annotations = Map.empty\<rparr>"

definition zero_CloudTaskStatus :: CloudTaskStatus where
  "zero_CloudTaskStatus =
     \<lparr>st_Phase = '''', st_PodName = '''', st_StartTime = None, st_CompletionTime = None,
      st_RetryCount = 0, st_Message = '''', st_LastUpdateTime = None, st_Conditions = []\<rparr>"

text \<open>The schema of the spec that the kubebuilder validation markers declare.\<close>

definition digits_rx :: rx where
  "digits_rx = Class [(CHR ''0'', CHR ''9'')]"

definition schema_cpu_rx :: rx where
  "schema_cpu_rx = Cat (Plus digits_rx) (Opt (Lit CHR ''m''))"

definition schema_memory_rx :: rx where
  "schema_memory_rx = Cat (Plus digits_rx) (Cat (Lit CHR ''M'') (Lit CHR ''i''))"

definition schema_timeout_rx :: rx where
  "schema_timeout_rx =
     Cat (Plus digits_rx) (Class [(CHR ''s'', CHR ''s''), (CHR ''m'', CHR ''m''), (CHR ''h'', CHR ''h'')])"

text \<open>An optional string is absent from the object when it is empty (\<open>omitempty\<close>).\<close>

definition schema_optional :: "rx \<Rightarrow> string \<Rightarrow> bool" where
  "schema_optional r s \<longleftrightarrow> s = [] \<or> MatchString r s"

definition schema_list_ok :: "ResourceList option \<Rightarrow> bool" where
  "schema_list_ok l \<longleftrightarrow>
     (case l of None \<Rightarrow> True
      | Some r \<Rightarrow> schema_optional schema_cpu_rx (rl_CPU r) \<and> schema_optional schema_memory_rx (rl_Memory r))"

definition schema_ok :: "CloudTaskSpec \<Rightarrow> bool" where
  "schema_ok sp \<longleftrightarrow>
     sp_Image sp \<noteq> [] \<and> sp_TenantID sp \<noteq> [] \<and>
     0 \<le> sint (sp_Retries sp) \<and> sint (sp_Retries sp) \<le> 10 \<and>
     0 \<le> sint (sp_Priority sp) \<and> sint (sp_Priority sp) \<le> 100 \<and>
     schema_optional schema_timeout_rx (sp_Timeout sp) \<and>
     (case sp_Resources sp of None \<Rightarrow> True
      | Some r \<Rightarrow> schema_list_ok (rr_Requests r) \<and> schema_list_ok (rr_Limits r))"

section \<open>The admission webhook\<close>

definition Default :: "CloudTask \<Rightarrow> CloudTask" where
  "Default r =
     (let sp = ct_Spec r;
          sp = (if sp_Retries sp = 0 then sp\<lparr>sp_Retries := 3\<rparr> else sp);
          sp = (if sp_Priority sp = 0 then sp\<lparr>sp_Priority := 50\<rparr> else sp);
          sp = (if sp_Timeout sp = [] then sp\<lparr>sp_Timeout := ''5m''\<rparr> else sp)
      in r\<lparr>ct_Spec := sp\<rparr>)"

definition admission_result :: "string list \<Rightarrow> string list \<times> error option" where
  "admission_result allErr =
     (if 0 < length allErr then (allErr, Some (PlainError ''cloudtask validation failed'')) else ([], None))"

definition range_errors :: "CloudTaskSpec \<Rightarrow> string list" where
  "range_errors sp =
     (if sint (sp_Retries sp) < 0 \<or> 10 < sint (sp_Retries sp)
      then [''retries must be between 0 and 10''] else []) @
     (if sint (sp_Priority sp) < 0 \<or> 100 < sint (sp_Priority sp)
      then [''priority must be between 0 and 100''] else [])"

definition ValidateCreate :: "CloudTask \<Rightarrow> string list \<times> error option" where
  "ValidateCreate r =
     (let sp = ct_Spec r in
      admission_result
        ((if sp_Image sp = [] then [''image is required''] else []) @
         (if sp_TenantID sp = [] then [''tenantID is required''] else []) @
         range_errors sp))"

definition ValidateUpdate :: "CloudTask \<Rightarrow> CloudTask \<Rightarrow> string list \<times> error option" where
  "ValidateUpdate r old =
     (let sp = ct_Spec r in
      admission_result
        ((if sp_Image sp \<noteq> sp_Image (ct_Spec old) then [''image cannot be changed after creation''] else []) @
         (if sp_TenantID sp \<noteq> sp_TenantID (ct_Spec old) then [''tenantID cannot be changed''] else []) @
         range_errors sp))"

definition ValidateDelete :: "CloudTask \<Rightarrow> string list \<times> error option" where
  "ValidateDelete r = ([], None)"

section \<open>Properties of the webhook\<close>

lemma admission_result_ok: "snd (admission_result es) = None \<longleftrightarrow> es = []"
  by (simp add: admission_result_def)

lemma range_errors_empty:
  "range_errors sp = [] \<longleftrightarrow>
     0 \<le> sint (sp_Retries sp) \<and> sint (sp_Retries sp) \<le> 10 \<and>
     0 \<le> sint (sp_Priority sp) \<and> sint (sp_Priority sp) \<le> 100"
  by (auto simp: range_errors_def)

lemma ValidateCreate_iff:
  "snd (ValidateCreate r) = None \<longleftrightarrow>
     sp_Image (ct_Spec r) \<noteq> [] \<and> sp_TenantID (ct_Spec r) \<noteq> [] \<and> range_errors (ct_Spec r) = []"
  by (simp add: ValidateCreate_def Let_def admission_result_ok)

lemma ValidateUpdate_iff:
  "snd (ValidateUpdate r old) = None \<longleftrightarrow>
     sp_Image (ct_Spec r) = sp_Image (ct_Spec old) \<and>
     sp_TenantID (ct_Spec r) = sp_TenantID (ct_Spec old) \<and> range_errors (ct_Spec r) = []"
  by (simp add: ValidateUpdate_def Let_def admission_result_ok)

lemma Default_fields [simp]:
  "ct_Meta (Default r) = ct_Meta r" "ct_Status (Default r) = ct_Status r"
  "sp_Image (ct_Spec (Default r)) = sp_Image (ct_Spec r)"
  "sp_TenantID (ct_Spec (Default r)) = sp_TenantID (ct_Spec r)"
  "sp_Resources (ct_Spec (Default r)) = sp_Resources (ct_Spec r)"
  "sp_Retries (ct_Spec (Default r)) = (if sp_Retries (ct_Spec r) = 0 then 3 else sp_Retries (ct_Spec r))"
  "sp_Priority (ct_Spec (Default r)) = (if sp_Priority (ct_Spec r) = 0 then 50 else sp_Priority (ct_Spec r))"
  "sp_Timeout (ct_Spec (Default r)) = (if sp_Timeout (ct_Spec r) = [] then ''5m'' else sp_Timeout (ct_Spec r))"
  by (simp_all add: Default_def Let_def)

end
