(* ===== verification/Effects.thy ===== *)
theory Effects
  imports Prelude "HOL-Library.State_Monad"
begin

text \<open>
  Programs that call the outside world. The state of a program is a world \<open>'w\<close>, on which the
  clients are functions, and a log of the calls with their replies, a history variable that no
  definition reads. Two calculi follow the structure of a program: \<open>wlog\<close> for what its log
  satisfies whatever the world does, and \<open>triple\<close> for what it does to the world.
\<close>

section \<open>Calls\<close>

type_synonym ('w, 'e, 'a) act = "('w \<times> 'e list, 'a) state"

definition logged :: "('w \<Rightarrow> 'a \<times> 'w) \<Rightarrow> ('a \<Rightarrow> 'e) \<Rightarrow> ('w, 'e, 'a) act" where
  "logged f entry = State (\<lambda>(w, tr). let (r, w') = f w in (r, (w', tr @ [entry r])))"

definition silent :: "('w \<Rightarrow> 'a \<times> 'w) \<Rightarrow> ('w, 'e, 'a) act" where
  "silent f = State (\<lambda>(w, tr). let (r, w') = f w in (r, (w', tr)))"

section \<open>Evaluating a run\<close>

lemma run_bind: "run_state (State_Monad.bind f g) s = (case run_state f s of (a, s') \<Rightarrow> run_state (g a) s')"
  by (simp add: State_Monad.bind_def)

lemma run_return: "run_state (State_Monad.return a) s = (a, s)"
  by (simp add: State_Monad.return_def)

lemma run_logged: "run_state (logged f e) (w, tr) = (case f w of (r, w') \<Rightarrow> (r, (w', tr @ [e r])))"
  by (simp add: logged_def)

lemma run_silent: "run_state (silent f) (w, tr) = (case f w of (r, w') \<Rightarrow> (r, (w', tr)))"
  by (simp add: silent_def)

lemmas run_simps = run_bind run_return run_logged run_silent

section \<open>Reasoning about the log\<close>

text \<open>
  \<open>wlog f P\<close>: whatever the world does, \<open>f\<close> appends to the log a list of entries that, with the
  result, satisfies \<open>P\<close>. The rules below follow the structure of a program.
\<close>

definition wlog :: "('w, 'e, 'a) act \<Rightarrow> ('e list \<Rightarrow> 'a \<Rightarrow> bool) \<Rightarrow> bool" where
  "wlog f P \<longleftrightarrow>
     (\<forall>w tr. \<exists>es a w'. run_state f (w, tr) = (a, (w', tr @ es)) \<and> P es a)"

named_theorems wlog_intros

lemma wlogD:
  assumes "wlog f P" and "run_state f (w, []) = (a, (w', tr))"
  shows "P tr a"
  using assms unfolding wlog_def by (metis Pair_inject append_Nil)

lemma wlog_return [wlog_intros]: "P [] a \<Longrightarrow> wlog (State_Monad.return a) P"
  by (simp add: wlog_def State_Monad.return_def)

lemma wlog_bind:
  assumes "wlog f (\<lambda>es a. wlog (g a) (\<lambda>es' b. P (es @ es') b))"
  shows "wlog (State_Monad.bind f g) P"
  unfolding wlog_def
proof (intro allI)
  fix w tr
  from assms obtain es a w' where f: "run_state f (w, tr) = (a, (w', tr @ es))"
    and g: "wlog (g a) (\<lambda>es' b. P (es @ es') b)" unfolding wlog_def by blast
  from g obtain es' b w'' where "run_state (g a) (w', tr @ es) = (b, (w'', (tr @ es) @ es'))"
    and "P (es @ es') b" unfolding wlog_def by blast
  with f show "\<exists>es a w'. run_state (State_Monad.bind f g) (w, tr) = (a, (w', tr @ es)) \<and> P es a"
    by (auto simp: State_Monad.bind_def)
qed

lemma wlog_logged [wlog_intros]:
  assumes "\<And>a. P [entry a] a"
  shows "wlog (logged f entry) P"
  using assms by (auto simp: wlog_def logged_def split: prod.split)

lemma wlog_silent [wlog_intros]:
  assumes "\<And>a. P [] a"
  shows "wlog (silent f) P"
  using assms by (auto simp: wlog_def silent_def split: prod.split)

lemma wlog_mono:
  assumes "wlog f Q" and "\<And>es a. Q es a \<Longrightarrow> P es a"
  shows "wlog f P"
  using assms unfolding wlog_def by meson

lemma wlog_const: "Q \<Longrightarrow> wlog f P \<Longrightarrow> wlog f (\<lambda>es a. Q \<and> P es a)"
  by (simp add: wlog_def)

lemma wlog_seq:
  assumes "wlog f Q" and "\<And>es a. Q es a \<Longrightarrow> wlog (g a) (\<lambda>es' b. P (es @ es') b)"
  shows "wlog (State_Monad.bind f g) P"
  using wlog_mono [OF assms] by (rule wlog_bind)

lemma wlog_if [wlog_intros]:
  assumes "b \<Longrightarrow> wlog f P" and "\<not> b \<Longrightarrow> wlog g P"
  shows "wlog (if b then f else g) P"
  using assms by simp

lemma wlog_case_sum [wlog_intros]:
  assumes "\<And>e. x = Inl e \<Longrightarrow> wlog (f e) P" and "\<And>a. x = Inr a \<Longrightarrow> wlog (g a) P"
  shows "wlog (case x of Inl e \<Rightarrow> f e | Inr a \<Rightarrow> g a) P"
  using assms by (cases x) simp_all

lemma wlog_case_option [wlog_intros]:
  assumes "x = None \<Longrightarrow> wlog f P" and "\<And>a. x = Some a \<Longrightarrow> wlog (g a) P"
  shows "wlog (case x of None \<Rightarrow> f | Some a \<Rightarrow> g a) P"
  using assms by (cases x) simp_all

lemma wlog_case_prod [wlog_intros]:
  assumes "\<And>a b. x = (a, b) \<Longrightarrow> wlog (f a b) P"
  shows "wlog (case x of (a, b) \<Rightarrow> f a b) P"
  using assms by (cases x) simp

section \<open>Reasoning about the world\<close>

text \<open>
  \<open>triple I f Q\<close>: from a world that satisfies \<open>I\<close>, \<open>f\<close> reaches a world that, with the entries it
  appends and its result, satisfies \<open>Q\<close>.
\<close>

definition triple :: "('w \<Rightarrow> bool) \<Rightarrow> ('w, 'e, 'a) act \<Rightarrow> ('e list \<Rightarrow> 'a \<Rightarrow> 'w \<Rightarrow> bool) \<Rightarrow> bool" where
  "triple I f Q \<longleftrightarrow>
     (\<forall>w tr. I w \<longrightarrow> (\<exists>es a w'. run_state f (w, tr) = (a, (w', tr @ es)) \<and> Q es a w'))"

named_theorems triple_intros

lemma tripleD:
  assumes "triple I f Q" and "I w" and "run_state f (w, []) = (a, (w', tr))"
  shows "Q tr a w'"
  using assms unfolding triple_def by (metis Pair_inject append_Nil)

lemma triple_return [triple_intros]: "(\<And>w. I w \<Longrightarrow> Q [] a w) \<Longrightarrow> triple I (State_Monad.return a) Q"
  by (simp add: triple_def run_return)

lemma triple_logged [triple_intros]:
  assumes "\<And>w a w'. I w \<Longrightarrow> f w = (a, w') \<Longrightarrow> Q [entry a] a w'"
  shows "triple I (logged f entry) Q"
  using assms by (auto simp: triple_def run_logged split: prod.split)

lemma triple_silent [triple_intros]:
  assumes "\<And>w a w'. I w \<Longrightarrow> f w = (a, w') \<Longrightarrow> Q [] a w'"
  shows "triple I (silent f) Q"
  using assms by (auto simp: triple_def run_silent split: prod.split)

lemma triple_seq:
  assumes "triple I f R" and "\<And>es a. triple (R es a) (g a) (\<lambda>es' b w. Q (es @ es') b w)"
  shows "triple I (State_Monad.bind f g) Q"
  unfolding triple_def
proof (intro allI impI)
  fix w tr
  assume "I w"
  with assms(1) obtain es a w1 where f: "run_state f (w, tr) = (a, (w1, tr @ es))" "R es a w1"
    unfolding triple_def by blast
  with assms(2) [of es a] obtain es' b w2 where
    "run_state (g a) (w1, tr @ es) = (b, (w2, (tr @ es) @ es'))" "Q (es @ es') b w2"
    unfolding triple_def by blast
  with f(1) show "\<exists>es a w'. run_state (State_Monad.bind f g) (w, tr) = (a, (w', tr @ es)) \<and> Q es a w'"
    by (auto simp: run_bind)
qed

lemma triple_conseq:
  assumes "triple I' f Q'" and "\<And>w. I w \<Longrightarrow> I' w" and "\<And>es a w. Q' es a w \<Longrightarrow> Q es a w"
  shows "triple I f Q"
  using assms unfolding triple_def by meson

lemma triple_pre: "(\<And>w. I w \<Longrightarrow> b) \<Longrightarrow> (b \<Longrightarrow> triple I f Q) \<Longrightarrow> triple I f Q"
  unfolding triple_def by blast

end
