(* ===== verification/Kube_Client.thy ===== *)
theory Kube_Client
  imports Complex_Main CloudTask_Types Effects
begin

text \<open>
  The Kubernetes types and client the reconcilers and the API handlers use. The API server and its
  client library are not part of the repository: a client is a record of functions on an arbitrary
  world \<open>'w\<close>, a parameter of every definition that calls it. A call may fail, may see any
  interference between two calls, and returns the server's copy of the object.

  Every call of the code goes through a wrapper that appends the call and its reply to a log, a
  history variable that no definition reads. Properties of a reconciler are stated about the log it
  leaves, so they hold for every behaviour of the server.
\<close>

section \<open>Pods\<close>

text \<open>A \<open>resource.Quantity\<close> is a number with the format it was written in.\<close>

record quantity =
  q_Value :: rat
  q_Format :: string

definition zero_quantity :: quantity where
  "zero_quantity = \<lparr>q_Value = 0, q_Format = ''''\<rparr>"

record CoreResourceRequirements =
  crr_Requests :: "string \<rightharpoonup> quantity"
  crr_Limits :: "string \<rightharpoonup> quantity"

record Container =
  cn_Name :: string
  cn_Image :: string
  cn_Command :: "string list"
  cn_Args :: "string list"
  cn_Env :: "core_EnvVar list"
  cn_Resources :: CoreResourceRequirements
  cn_VolumeMounts :: "VolumeMount list"
  cn_ImagePullPolicy :: string

record PodSpec =
  ps_RestartPolicy :: string
  ps_Containers :: "Container list"
  ps_ActiveDeadlineSeconds :: "int64 option"
  ps_TerminationGracePeriodSeconds :: "int64 option"

record ContainerStateTerminated =
  ter_Reason :: string
  ter_ExitCode :: int32

record ContainerStatus =
  cs_Terminated :: "ContainerStateTerminated option"

record PodStatus =
  pst_Phase :: string
  pst_Reason :: string
  pst_ContainerStatuses :: "ContainerStatus list"

record Pod =
  pod_Meta :: ObjectMeta
  pod_Spec :: PodSpec
  pod_Status :: PodStatus

definition PodPending :: string where "PodPending = ''Pending''"
definition PodRunning :: string where "PodRunning = ''Running''"
definition PodSucceeded :: string where "PodSucceeded = ''Succeeded''"
definition PodFailed :: string where "PodFailed = ''Failed''"

lemmas pod_phase_defs = PodPending_def PodRunning_def PodSucceeded_def PodFailed_def

definition zero_PodStatus :: PodStatus where
  "zero_PodStatus = \<lparr>pst_Phase = '''', pst_Reason = '''', pst_ContainerStatuses = []\<rparr>"

definition zero_PodSpec :: PodSpec where
  "zero_PodSpec =
     \<lparr>ps_RestartPolicy = '''', ps_Containers = [], ps_ActiveDeadlineSeconds = None,
      ps_TerminationGracePeriodSeconds = None\<rparr>"

definition zero_Pod :: Pod where
  "zero_Pod = \<lparr>pod_Meta = zero_ObjectMeta, pod_Spec = zero_PodSpec, pod_Status = zero_PodStatus\<rparr>"

definition zero_resources :: CoreResourceRequirements where
  "zero_resources = \<lparr>crr_Requests = Map.empty, crr_Limits = Map.empty\<rparr>"

definition zero_Container :: Container where
  "zero_Container =
     \<lparr>cn_Name = '''', cn_Image = '''', cn_Command = [], cn_Args = [], cn_Env = [],
      cn_Resources = zero_resources, cn_VolumeMounts = [], cn_ImagePullPolicy = ''''\<rparr>"

section \<open>The client\<close>

record NamespacedName =
  nn_Namespace :: string
  nn_Name :: string

record ('o, 'w) client =
  cl_Get :: "NamespacedName \<Rightarrow> ('w, 'o) io"
  cl_List :: "string \<Rightarrow> (string \<times> string) list \<Rightarrow> ('w, 'o list) io"
  cl_Create :: "'o \<Rightarrow> ('w, 'o) io"
  cl_Update :: "'o \<Rightarrow> ('w, 'o) io"
  cl_StatusUpdate :: "'o \<Rightarrow> ('w, 'o) io"
  cl_Delete :: "'o \<Rightarrow> ('w, unit) io"

datatype 'o call =
    GetCall NamespacedName "error + 'o"
  | ListCall string "(string \<times> string) list" "error + 'o list"
  | CreateCall 'o "error + 'o"
  | UpdateCall 'o "error + 'o"
  | StatusUpdateCall 'o "error + 'o"
  | DeleteCall 'o "error + unit"

definition client_Get :: "('o, 'w) client \<Rightarrow> ('o call \<Rightarrow> 'e) \<Rightarrow> NamespacedName \<Rightarrow> ('w, 'e, error + 'o) act" where
  "client_Get c ev k = logged (cl_Get c k) (\<lambda>r. ev (GetCall k r))"

definition client_List ::
  "('o, 'w) client \<Rightarrow> ('o call \<Rightarrow> 'e) \<Rightarrow> string \<Rightarrow> (string \<times> string) list \<Rightarrow> ('w, 'e, error + 'o list) act" where
  "client_List c ev ns labels = logged (cl_List c ns labels) (\<lambda>r. ev (ListCall ns labels r))"

definition client_Create :: "('o, 'w) client \<Rightarrow> ('o call \<Rightarrow> 'e) \<Rightarrow> 'o \<Rightarrow> ('w, 'e, error + 'o) act" where
  "client_Create c ev x = logged (cl_Create c x) (\<lambda>r. ev (CreateCall x r))"

definition client_Update :: "('o, 'w) client \<Rightarrow> ('o call \<Rightarrow> 'e) \<Rightarrow> 'o \<Rightarrow> ('w, 'e, error + 'o) act" where
  "client_Update c ev x = logged (cl_Update c x) (\<lambda>r. ev (UpdateCall x r))"

definition client_StatusUpdate :: "('o, 'w) client \<Rightarrow> ('o call \<Rightarrow> 'e) \<Rightarrow> 'o \<Rightarrow> ('w, 'e, error + 'o) act" where
  "client_StatusUpdate c ev x = logged (cl_StatusUpdate c x) (\<lambda>r. ev (StatusUpdateCall x r))"

definition client_Delete :: "('o, 'w) client \<Rightarrow> ('o call \<Rightarrow> 'e) \<Rightarrow> 'o \<Rightarrow> ('w, 'e, error + unit) act" where
  "client_Delete c ev x = logged (cl_Delete c x) (\<lambda>r. ev (DeleteCall x r))"

text \<open>The result of a reconciliation: \<open>ctrl.Result\<close> and the error.\<close>

record Result =
  RequeueAfter :: duration

definition no_requeue :: Result where
  "no_requeue = \<lparr>RequeueAfter = 0\<rparr>"

definition requeue_after :: "nat \<Rightarrow> Result" where
  "requeue_after n = \<lparr>RequeueAfter = seconds n\<rparr>"

type_synonym reconciled = "Result \<times> error option"

lemmas client_calls =
  client_Get_def client_List_def client_Create_def client_Update_def client_StatusUpdate_def
  client_Delete_def

end
