(* ===== verification/Validators.thy ===== *)
theory Validators
  imports CloudTask_Types
begin

text \<open>
  Request validation of the API gateway: the request types of \<open>pkg/api/types.go\<close> and the
  validators of \<open>pkg/api/validators/task_validator.go\<close>. A validator that returns a Go \<open>error\<close>
  returns an option here (\<open>None\<close> is nil). The patterns are those of the source, written with the
  constructors of \<open>Regex\<close>.
\<close>

section \<open>Request types\<close>

record ResourceListReq =
  rlq_CPU :: string
  rlq_Memory :: string

record ResourceRequirementsReq =
  rrq_Requests :: "ResourceListReq option"
  rrq_Limits :: "ResourceListReq option"

record CreateCloudTaskRequest =
  rq_Name :: string
  rq_Image :: string
  rq_Command :: "string list"
  rq_Args :: "string list"
  rq_TenantID :: string
  rq_Resources :: "ResourceRequirementsReq option"
  rq_Retries :: int32
  rq_Timeout :: string
  rq_Priority :: int32

record ValidationError =
  ve_Field :: string
  ve_Message :: string

type_synonym ValidationErrors = "ValidationError list"

definition ValidationErrors_Error :: "ValidationErrors \<Rightarrow> string" where
  "ValidationErrors_Error ve =
     (if length ve = 0 then ''no validation errors''
      else Join ''; '' (map (\<lambda>e. ve_Field e @ '': '' @ ve_Message e) ve))"

section \<open>Patterns\<close>

definition lower_alnum :: "(char \<times> char) list" where
  "lower_alnum = [(CHR ''a'', CHR ''z''), (CHR ''0'', CHR ''9'')]"

definition alnum :: "(char \<times> char) list" where
  "alnum = [(CHR ''a'', CHR ''z''), (CHR ''A'', CHR ''Z''), (CHR ''0'', CHR ''9'')]"

definition chars :: "string \<Rightarrow> (char \<times> char) list" where
  "chars s = map (\<lambda>c. (c, c)) s"

definition Lits :: "string \<Rightarrow> rx" where
  "Lits s = foldr (\<lambda>c r. Cat (Lit c) r) s Empty"

definition image_name_rx :: rx where
  "image_name_rx = Plus (Alt (Class lower_alnum) (Class (chars ''._-'')))"

definition image_port_rx :: rx where
  "image_port_rx = Opt (Cat (Lit CHR '':'') (Plus digits_rx))"

definition image_tag_rx :: rx where
  "image_tag_rx =
     Opt (Cat (Lit CHR '':'')
       (Cat (Class (alnum @ chars ''_'')) (Upto 127 (Class (alnum @ chars ''_.-'')))))"

definition imageRegex :: rx where
  "imageRegex =
     Alt (Cat image_name_rx (Cat image_port_rx (Cat (Lit CHR ''/'') (Cat image_name_rx image_tag_rx))))
         (Cat image_name_rx image_tag_rx)"

definition cpuRegex :: rx where
  "cpuRegex =
     Cat (Plus digits_rx) (Cat (Opt (Cat (Lit CHR ''.'') (Plus digits_rx))) (Opt (Lit CHR ''m'')))"

definition memRegex :: rx where
  "memRegex =
     Cat (Plus digits_rx)
       (Alt (Lits ''Ki'') (Alt (Lits ''Mi'') (Alt (Lits ''Gi'') (Alt (Lits ''Ti'') (Lits ''Pi'')))))"

definition timeoutRegex :: rx where
  "timeoutRegex = Cat (Plus digits_rx) (Class (chars ''smh''))"

definition tenantIDRegex :: rx where
  "tenantIDRegex =
     Cat (Class alnum) (Opt (Cat (Star (Class (alnum @ chars ''-''))) (Class alnum)))"

definition idRegex :: rx where
  "idRegex =
     Cat (Class lower_alnum) (Opt (Cat (Star (Class (chars ''-'' @ lower_alnum))) (Class lower_alnum)))"

section \<open>Validators\<close>

definition validateImage :: "string \<Rightarrow> error option" where
  "validateImage img =
     (if img = [] then Some (PlainError ''required'')
      else if \<not> MatchString imageRegex img then Some (PlainError ''invalid docker image format'')
      else None)"

definition validateCommand :: "string list \<Rightarrow> error option" where
  "validateCommand command =
     (if length command = 0 then Some (PlainError ''required, must have at least one element'')
      else if list_ex (\<lambda>cmd. cmd = []) command then Some (PlainError ''command elements cannot be empty'')
      else None)"

definition validateQuantity :: "string \<Rightarrow> string \<Rightarrow> error option" where
  "validateQuantity quantityType value =
     (if value = [] then None
      else if quantityType = ''cpu'' then
        (if \<not> MatchString cpuRegex value
         then Some (PlainError ''invalid CPU format (use: 100m, 1, 0.5)'') else None)
      else if quantityType = ''memory'' then
        (if \<not> MatchString memRegex value
         then Some (PlainError ''invalid memory format (use: 128Mi, 256Mi, 1Gi)'') else None)
      else None)"

definition field_error :: "string \<Rightarrow> error option \<Rightarrow> ValidationErrors" where
  "field_error field e =
     (case e of None \<Rightarrow> [] | Some e \<Rightarrow> [\<lparr>ve_Field = field, ve_Message = error_text e\<rparr>])"

definition validateResourceList :: "string \<Rightarrow> ResourceListReq option \<Rightarrow> ValidationErrors" where
  "validateResourceList prefix l =
     (case l of None \<Rightarrow> []
      | Some r \<Rightarrow>
          (if rlq_CPU r \<noteq> [] then field_error (prefix @ ''.cpu'') (validateQuantity ''cpu'' (rlq_CPU r)) else []) @
          (if rlq_Memory r \<noteq> []
           then field_error (prefix @ ''.memory'') (validateQuantity ''memory'' (rlq_Memory r)) else []))"

definition validateResources :: "ResourceRequirementsReq \<Rightarrow> ValidationErrors" where
  "validateResources resources =
     validateResourceList ''resources.requests'' (rrq_Requests resources) @
     validateResourceList ''resources.limits'' (rrq_Limits resources)"

definition validatePriority :: "int32 \<Rightarrow> error option" where
  "validatePriority priority =
     (if sint priority < 0 \<or> 100 < sint priority then Some (PlainError ''must be between 0 and 100'') else None)"

text \<open>
  The capture groups of \<open>timeoutRegex\<close>: on a match the second group is the last byte and the
  first group everything before it.
\<close>

definition timeout_submatch :: "string \<Rightarrow> string list" where
  "timeout_submatch s = (if MatchString timeoutRegex s then [s, butlast s, [last s]] else [])"

definition validateTimeout :: "string \<Rightarrow> error option" where
  "validateTimeout timeout =
     (if timeout = [] then None
      else let matches = timeout_submatch timeout in
        if length matches \<noteq> 3 then Some (PlainError ''invalid format (use: 5s, 30m, 1h)'')
        else case ParseInt 32 (matches ! 1) of
               None \<Rightarrow> Some (PlainError ''timeout must be positive'')
             | Some num \<Rightarrow> if num \<le> 0 then Some (PlainError ''timeout must be positive'') else None)"

definition ValidateCreateTaskRequest :: "CreateCloudTaskRequest \<Rightarrow> ValidationErrors" where
  "ValidateCreateTaskRequest req =
     field_error ''image'' (validateImage (rq_Image req)) @
     field_error ''command'' (validateCommand (rq_Command req)) @
     (case rq_Resources req of None \<Rightarrow> [] | Some r \<Rightarrow> validateResources r) @
     field_error ''priority'' (validatePriority (rq_Priority req)) @
     (if rq_Timeout req \<noteq> [] then field_error ''timeout'' (validateTimeout (rq_Timeout req)) else []) @
     (if 10 < sint (rq_Retries req)
      then [\<lparr>ve_Field = ''retries'', ve_Message = ''must be between 0 and 10''\<rparr>] else [])"

definition ValidateTenantID :: "string \<Rightarrow> error option" where
  "ValidateTenantID tenantID =
     (if tenantID = [] then Some (PlainError ''tenant ID required'')
      else if \<not> MatchString tenantIDRegex tenantID
      then Some (PlainError ''invalid format: must be alphanumeric with hyphens (no leading/trailing hyphens)'')
      else if 63 < length tenantID then Some (PlainError ''must be 63 characters or less'')
      else None)"

definition ValidateTaskID :: "string \<Rightarrow> error option" where
  "ValidateTaskID taskID =
     (if taskID = [] then Some (PlainError ''task ID required'')
      else if \<not> MatchString idRegex taskID
      then Some (PlainError ''invalid format: must match Kubernetes naming rules [a-z0-9-]'')
      else if 63 < length taskID then Some (PlainError ''must be 63 characters or less'')
      else None)"

definition ValidateStatus :: "string \<Rightarrow> error option" where
  "ValidateStatus status =
     (if status = [] then None
      else if status \<notin> {''Pending'', ''Running'', ''Completed'', ''Failed''}
      then Some (PlainError ''invalid status: must be one of Pending, Running, Completed, Failed'')
      else None)"

section \<open>Identifiers\<close>

text \<open>
  The contract of an identifier validator: it accepts the nonempty strings of at most 63 allowed
  bytes whose first and last bytes are allowed at an edge. The path separator is not allowed, so
  an accepted identifier is one segment of a URL path.
\<close>

locale name_validator =
  fixes validate :: "string \<Rightarrow> error option"
    and inner :: "char \<Rightarrow> bool"
    and edge :: "char \<Rightarrow> bool"
  assumes validate_iff:
    "validate s = None \<longleftrightarrow>
       s \<noteq> [] \<and> length s \<le> 63 \<and> edge (hd s) \<and> edge (last s) \<and> list_all inner s"
    and slash_not_inner: "\<not> inner CHR ''/''"
begin

lemma accepted_no_slash:
  assumes "validate s = None"
  shows "CHR ''/'' \<notin> set s"
  using assms slash_not_inner by (auto simp: validate_iff list_all_iff)

lemma accepted_segment:
  assumes "validate s = None"
  shows "Split CHR ''/'' s = [s]"
  using accepted_no_slash [OF assms] by (rule Split_no_sep)

lemma accepted_first_segment:
  assumes "validate s = None"
  shows "hd (Split CHR ''/'' (s @ CHR ''/'' # r)) = s"
  using accepted_no_slash [OF assms] unfolding hd_Split by (subst takeWhile_append2) auto

end

lemma lang_identifier:
  assumes "\<And>c. in_class edge c \<Longrightarrow> in_class inner c"
  shows "s \<in> lang (Cat (Class edge) (Opt (Cat (Star (Class inner)) (Class edge)))) \<longleftrightarrow>
     s \<noteq> [] \<and> in_class edge (hd s) \<and> in_class edge (last s) \<and> list_all (in_class inner) s"
proof (cases s)
  case Nil
  then show ?thesis by (simp add: lang_Cat_Class)
next
  case (Cons c t)
  have "t \<in> lang (Cat (Star (Class inner)) (Class edge)) \<longleftrightarrow>
      t \<noteq> [] \<and> in_class edge (last t) \<and> list_all (in_class inner) (butlast t)"
  proof
    assume "t \<in> lang (Cat (Star (Class inner)) (Class edge))"
    then obtain u d where "t = u @ [d]" "u \<in> lang (Star (Class inner))" "in_class edge d" by auto
    then show "t \<noteq> [] \<and> in_class edge (last t) \<and> list_all (in_class inner) (butlast t)"
      unfolding lang_Star_Class by simp
  next
    assume r: "t \<noteq> [] \<and> in_class edge (last t) \<and> list_all (in_class inner) (butlast t)"
    then have "butlast t \<in> lang (Star (Class inner))" unfolding lang_Star_Class by simp
    moreover have "t = butlast t @ [last t]" using r by simp
    moreover have "[last t] \<in> lang (Class edge)" using r by simp
    ultimately show "t \<in> lang (Cat (Star (Class inner)) (Class edge))"
      unfolding lang.simps(4) by blast
  qed
  moreover have "list_all (in_class inner) t \<longleftrightarrow> list_all (in_class inner) (butlast t)"
    if "t \<noteq> []" "in_class edge (last t)"
  proof -
    have "list_all (in_class inner) t = list_all (in_class inner) (butlast t @ [last t])"
      by (simp only: append_butlast_last_id [OF that(1)])
    then show ?thesis using assms [OF that(2)] by simp
  qed
  ultimately show ?thesis
    using Cons assms [of c] by (auto simp: lang_Cat_Class simp del: lang.simps)
qed

lemma tenantID_accepted:
  "ValidateTenantID s = None \<longleftrightarrow>
     s \<noteq> [] \<and> length s \<le> 63 \<and> in_class alnum (hd s) \<and> in_class alnum (last s) \<and>
     list_all (in_class (alnum @ chars ''-'')) s"
  using lang_identifier [of alnum "alnum @ chars ''-''" s]
  by (auto simp: ValidateTenantID_def tenantIDRegex_def MatchString_lang in_class_append)

lemma taskID_accepted:
  "ValidateTaskID s = None \<longleftrightarrow>
     s \<noteq> [] \<and> length s \<le> 63 \<and> in_class lower_alnum (hd s) \<and> in_class lower_alnum (last s) \<and>
     list_all (in_class (chars ''-'' @ lower_alnum)) s"
  using lang_identifier [of lower_alnum "chars ''-'' @ lower_alnum" s]
  by (auto simp: ValidateTaskID_def idRegex_def MatchString_lang in_class_append)

interpretation tenant_id: name_validator ValidateTenantID "in_class (alnum @ chars ''-'')" "in_class alnum"
  by unfold_locales (simp_all add: tenantID_accepted in_class_def alnum_def chars_def)

interpretation task_id: name_validator ValidateTaskID "in_class (chars ''-'' @ lower_alnum)" "in_class lower_alnum"
  by unfold_locales (simp_all add: taskID_accepted in_class_def lower_alnum_def chars_def)

section \<open>Timeouts, quantities and requests\<close>

lemma in_digits_rx [simp]: "in_class [(CHR ''0'', CHR ''9'')] c \<longleftrightarrow> is_digit c"
  by (simp add: in_class_def is_digit_def)

lemma in_class_chars: "in_class (chars s) c \<longleftrightarrow> c \<in> set s"
proof (induction s)
  case Nil
  then show ?case by (simp add: in_class_def chars_def)
next
  case (Cons d s)
  have "in_class (chars (d # s)) c \<longleftrightarrow> in_class ([(d, d)] @ chars s) c" by (simp add: chars_def)
  also have "\<dots> \<longleftrightarrow> c = d \<or> c \<in> set s" using Cons by (simp only: in_class_append in_class_single)
  finally show ?case by simp
qed

lemma lang_Cat_snoc: "s \<in> lang (Cat r (Class rs)) \<longleftrightarrow> s \<noteq> [] \<and> butlast s \<in> lang r \<and> in_class rs (last s)"
proof
  assume "s \<noteq> [] \<and> butlast s \<in> lang r \<and> in_class rs (last s)"
  then have "s = butlast s @ [last s]" "butlast s \<in> lang r" "[last s] \<in> lang (Class rs)" by simp_all
  then show "s \<in> lang (Cat r (Class rs))" unfolding lang.simps(4) by blast
qed auto

lemma timeoutRegex_iff:
  "MatchString timeoutRegex s \<longleftrightarrow>
     s \<noteq> [] \<and> butlast s \<noteq> [] \<and> list_all is_digit (butlast s) \<and> last s \<in> set ''smh''"
  unfolding MatchString_lang timeoutRegex_def lang_Cat_snoc digits_rx_def lang_Plus_Class in_class_chars
  by (simp add: in_digits_rx [abs_def])

lemma validateTimeout_iff:
  "validateTimeout s = None \<longleftrightarrow>
     s = [] \<or>
     (butlast s \<noteq> [] \<and> list_all is_digit (butlast s) \<and> last s \<in> set ''smh'' \<and>
      0 < digits_val (butlast s) \<and> digits_val (butlast s) < 2 ^ 31)"
proof (cases "MatchString timeoutRegex s")
  case True
  then have "ParseInt 32 (butlast s) =
      (if int (digits_val (butlast s)) < 2 ^ 31 then Some (int (digits_val (butlast s))) else None)"
    using ParseInt_digits_iff [of "butlast s" 32] by (simp add: timeoutRegex_iff)
  with True show ?thesis
    by (auto simp: validateTimeout_def timeout_submatch_def timeoutRegex_iff)
next
  case False
  then show ?thesis
    by (auto simp: validateTimeout_def timeout_submatch_def timeoutRegex_iff)
qed

lemma field_error_Nil [simp]: "field_error f e = [] \<longleftrightarrow> e = None"
  by (cases e) (simp_all add: field_error_def)

definition quantities_ok :: "ResourceListReq option \<Rightarrow> bool" where
  "quantities_ok l \<longleftrightarrow>
     (case l of None \<Rightarrow> True
      | Some r \<Rightarrow> (rlq_CPU r = [] \<or> MatchString cpuRegex (rlq_CPU r)) \<and>
                  (rlq_Memory r = [] \<or> MatchString memRegex (rlq_Memory r)))"

lemma validateResourceList_Nil: "validateResourceList p l = [] \<longleftrightarrow> quantities_ok l"
  by (auto simp: validateResourceList_def quantities_ok_def validateQuantity_def split: option.split)

lemma validateImage_iff: "validateImage s = None \<longleftrightarrow> s \<noteq> [] \<and> s \<in> lang imageRegex"
  by (simp add: validateImage_def MatchString_lang)

lemma validateCommand_iff: "validateCommand c = None \<longleftrightarrow> c \<noteq> [] \<and> [] \<notin> set c"
  by (auto simp: validateCommand_def list_ex_iff)

lemma ValidateCreateTaskRequest_iff:
  "ValidateCreateTaskRequest req = [] \<longleftrightarrow>
     validateImage (rq_Image req) = None \<and>
     rq_Command req \<noteq> [] \<and> [] \<notin> set (rq_Command req) \<and>
     (case rq_Resources req of None \<Rightarrow> True
      | Some r \<Rightarrow> quantities_ok (rrq_Requests r) \<and> quantities_ok (rrq_Limits r)) \<and>
     0 \<le> sint (rq_Priority req) \<and> sint (rq_Priority req) \<le> 100 \<and>
     validateTimeout (rq_Timeout req) = None \<and> sint (rq_Retries req) \<le> 10"
proof -
  have "(case rq_Resources req of None \<Rightarrow> [] | Some r \<Rightarrow> validateResources r) = [] \<longleftrightarrow>
      (case rq_Resources req of None \<Rightarrow> True
       | Some r \<Rightarrow> quantities_ok (rrq_Requests r) \<and> quantities_ok (rrq_Limits r))"
    by (simp add: validateResources_def validateResourceList_Nil split: option.split)
  moreover have "validatePriority p = None \<longleftrightarrow> 0 \<le> sint p \<and> sint p \<le> 100" for p
    by (auto simp: validatePriority_def)
  moreover have "validateTimeout [] = None" by (simp add: validateTimeout_def)
  ultimately show ?thesis
    by (auto simp: ValidateCreateTaskRequest_def validateCommand_iff)
qed

section \<open>Images\<close>

text \<open>
  A reference definition of the accepted image names: at most one \<open>/\<close>; before it a host with an
  optional port; after it a repository name with an optional tag.
\<close>

definition image_name_ok :: "string \<Rightarrow> bool" where
  "image_name_ok n \<longleftrightarrow> n \<noteq> [] \<and> list_all (in_class (lower_alnum @ chars ''._-'')) n"

definition image_tag_ok :: "string \<Rightarrow> bool" where
  "image_tag_ok t \<longleftrightarrow>
     t \<noteq> [] \<and> in_class (alnum @ chars ''_'') (hd t) \<and> length t \<le> 128 \<and>
     list_all (in_class (alnum @ chars ''_.-'')) (tl t)"

definition image_port_ok :: "string \<Rightarrow> bool" where
  "image_port_ok p \<longleftrightarrow> p \<noteq> [] \<and> list_all is_digit p"

definition name_with :: "(string \<Rightarrow> bool) \<Rightarrow> string \<Rightarrow> bool" where
  "name_with suffix_ok s \<longleftrightarrow>
     (case SplitN2 CHR '':'' s of
        [n] \<Rightarrow> image_name_ok n
      | [n, t] \<Rightarrow> image_name_ok n \<and> suffix_ok t
      | _ \<Rightarrow> False)"

definition image_reference :: "string \<Rightarrow> bool" where
  "image_reference s \<longleftrightarrow>
     (case Split CHR ''/'' s of
        [repo] \<Rightarrow> name_with image_tag_ok repo
      | [host, repo] \<Rightarrow> name_with image_port_ok host \<and> name_with image_tag_ok repo
      | _ \<Rightarrow> False)"

lemma image_name_rx_iff: "n \<in> lang image_name_rx \<longleftrightarrow> image_name_ok n"
proof -
  have "lang image_name_rx = lang (Plus (Class (lower_alnum @ chars ''._-'')))"
    unfolding image_name_rx_def by (rule lang_Plus_cong) (rule lang_Alt_Class)
  then show ?thesis by (simp only: lang_Plus_Class image_name_ok_def)
qed

lemma image_name_ok_seps:
  assumes "image_name_ok n"
  shows "CHR '':'' \<notin> set n" "CHR ''/'' \<notin> set n"
  using assms by (auto simp: image_name_ok_def list_all_iff in_class_def lower_alnum_def chars_def)

lemma lang_name_with:
  assumes "\<And>t. t \<in> lang r \<longleftrightarrow> suffix_ok t"
  shows "s \<in> lang (Cat image_name_rx (Opt (Cat (Lit CHR '':'') r))) \<longleftrightarrow> name_with suffix_ok s"
proof
  assume "s \<in> lang (Cat image_name_rx (Opt (Cat (Lit CHR '':'') r)))"
  then obtain n t where s: "s = n @ t" and n: "image_name_ok n"
    and t: "t = [] \<or> (\<exists>q. t = CHR '':'' # q \<and> suffix_ok q)"
    unfolding lang.simps(4) [of image_name_rx] lang_Opt image_name_rx_iff
    by (auto simp: Lit_def lang_Cat_Class assms simp del: lang.simps)
  from t show "name_with suffix_ok s"
    using n s image_name_ok_seps(1) [OF n]
    by (auto simp: name_with_def SplitN2_append SplitN2_no_sep)
next
  assume w: "name_with suffix_ok s"
  show "s \<in> lang (Cat image_name_rx (Opt (Cat (Lit CHR '':'') r)))"
  proof (cases "CHR '':'' \<in> set s")
    case False
    then have "image_name_ok s" using w by (simp add: name_with_def SplitN2_no_sep)
    then have "s = s @ []" "s \<in> lang image_name_rx" "[] \<in> lang (Opt (Cat (Lit CHR '':'') r))"
      by (simp_all add: image_name_rx_iff)
    then show ?thesis unfolding lang.simps(4) [of image_name_rx] by blast
  next
    case True
    then obtain n q where s: "s = n @ CHR '':'' # q" and "CHR '':'' \<notin> set n"
      by (metis split_list_first)
    then have "image_name_ok n" "suffix_ok q" using w by (simp_all add: name_with_def SplitN2_append)
    then have "n \<in> lang image_name_rx" "CHR '':'' # q \<in> lang (Opt (Cat (Lit CHR '':'') r))"
      by (auto simp: image_name_rx_iff Lit_def lang_Cat_Class assms simp del: lang.simps)
    with s show ?thesis unfolding lang.simps(4) [of image_name_rx] by blast
  qed
qed

lemma image_tag_iff:
  "t \<in> lang (Cat (Class (alnum @ chars ''_'')) (Upto 127 (Class (alnum @ chars ''_.-'')))) \<longleftrightarrow> image_tag_ok t"
  unfolding lang_Cat_Class lang_Upto_Class image_tag_ok_def by (cases t) auto

lemma image_port_iff: "p \<in> lang (Plus digits_rx) \<longleftrightarrow> image_port_ok p"
  unfolding digits_rx_def lang_Plus_Class image_port_ok_def by (simp add: in_digits_rx [abs_def])

lemma name_with_no_slash:
  assumes "name_with ok s" and "\<And>t. ok t \<Longrightarrow> CHR ''/'' \<notin> set t"
  shows "CHR ''/'' \<notin> set s"
proof (cases "CHR '':'' \<in> set s")
  case False
  with assms(1) show ?thesis by (simp add: name_with_def SplitN2_no_sep image_name_ok_seps)
next
  case True
  then obtain n q where s: "s = n @ CHR '':'' # q" and "CHR '':'' \<notin> set n"
    by (metis split_list_first)
  with assms show ?thesis by (auto simp: name_with_def SplitN2_append image_name_ok_seps)
qed

lemma image_tag_ok_no_slash:
  assumes "image_tag_ok t"
  shows "CHR ''/'' \<notin> set t"
  using assms by (cases t) (auto simp: image_tag_ok_def list_all_iff in_class_def alnum_def chars_def)

lemma image_port_ok_no_slash: "image_port_ok p \<Longrightarrow> CHR ''/'' \<notin> set p"
  by (auto simp: image_port_ok_def list_all_iff is_digit_def)

lemmas repo_iff = lang_name_with [OF image_tag_iff, folded image_tag_rx_def]
  and host_iff = lang_name_with [OF image_port_iff, folded image_port_rx_def]

lemma host_repo_iff:
  "s \<in> lang (Cat image_name_rx (Cat image_port_rx (Cat (Lit CHR ''/'') (Cat image_name_rx image_tag_rx)))) \<longleftrightarrow>
   (\<exists>h r. s = h @ CHR ''/'' # r \<and> name_with image_port_ok h \<and> name_with image_tag_ok r)"
  (is "s \<in> lang ?e \<longleftrightarrow> ?spec")
proof -
  have "s \<in> lang ?e \<longleftrightarrow> s \<in> lang (Cat (Cat image_name_rx image_port_rx) (Cat (Lit CHR ''/'') (Cat image_name_rx image_tag_rx)))"
    by (simp only: lang_Cat_assoc)
  also have "\<dots> \<longleftrightarrow> (\<exists>h q. s = h @ q \<and> name_with image_port_ok h \<and>
      q \<in> lang (Cat (Lit CHR ''/'') (Cat image_name_rx image_tag_rx)))"
    unfolding lang.simps(4) [of "Cat image_name_rx image_port_rx"] host_iff by blast
  also have "\<dots> \<longleftrightarrow> ?spec"
    unfolding Lit_def lang_Cat_Class in_class_single repo_iff by blast
  finally show ?thesis .
qed

lemma imageRegex_iff: "s \<in> lang imageRegex \<longleftrightarrow> image_reference s"
proof -
  have "(\<exists>h r. s = h @ CHR ''/'' # r \<and> name_with image_port_ok h \<and> name_with image_tag_ok r) \<longleftrightarrow>
      (\<exists>h r. Split CHR ''/'' s = [h, r] \<and> name_with image_port_ok h \<and> name_with image_tag_ok r)"
  proof (intro ex_cong1 iffI)
    fix h r
    assume s: "s = h @ CHR ''/'' # r \<and> name_with image_port_ok h \<and> name_with image_tag_ok r"
    then have "CHR ''/'' \<notin> set h" "CHR ''/'' \<notin> set r"
      using name_with_no_slash [of image_port_ok h] name_with_no_slash [of image_tag_ok r]
        image_port_ok_no_slash image_tag_ok_no_slash by simp_all
    with s show "Split CHR ''/'' s = [h, r] \<and> name_with image_port_ok h \<and> name_with image_tag_ok r"
      by (simp add: Split_append Split_no_sep)
  next
    fix h r
    assume s: "Split CHR ''/'' s = [h, r] \<and> name_with image_port_ok h \<and> name_with image_tag_ok r"
    then have "s = h @ CHR ''/'' # r" using Join_Split [of "CHR ''/''" s] by simp
    with s show "s = h @ CHR ''/'' # r \<and> name_with image_port_ok h \<and> name_with image_tag_ok r"
      by blast
  qed
  moreover have "name_with image_tag_ok s \<longleftrightarrow> (\<exists>r. Split CHR ''/'' s = [r] \<and> name_with image_tag_ok r)"
    using Split_no_sep [of "CHR ''/''" s] Join_Split [of "CHR ''/''" s]
      name_with_no_slash [of image_tag_ok s] image_tag_ok_no_slash by fastforce
  ultimately show ?thesis
    unfolding imageRegex_def lang.simps(3) Un_iff host_repo_iff repo_iff image_reference_def
    by (auto split: list.splits)
qed

lemma image_reference_nonempty: "image_reference s \<Longrightarrow> s \<noteq> []"
  by (auto simp: image_reference_def name_with_def SplitN2_def image_name_ok_def)

section \<open>Properties\<close>


text \<open>\<open>validateTimeout\<close> accepts the empty string and exactly the strings of decimal digits
  followed by one of \<open>s\<close>, \<open>m\<close>, \<open>h\<close> whose number is positive and fits in 31 bits.\<close>

theorem validateTimeout_exact:
  "validateTimeout s = None \<longleftrightarrow>
     s = [] \<or>
     (\<exists>ds u. s = ds @ [u] \<and> ds \<noteq> [] \<and> list_all is_digit ds \<and> u \<in> set ''smh'' \<and>
             0 < digits_val ds \<and> digits_val ds < 2 ^ 31)"
  unfolding validateTimeout_iff by (cases s rule: rev_cases) auto

text \<open>An accepted task ID is one segment of a URL path: splitting a path that starts with it
  at the slashes gives the ID back, whatever follows.\<close>

theorem taskID_path_segment:
  assumes "ValidateTaskID s = None"
  shows "Split CHR ''/'' s = [s] \<and> hd (Split CHR ''/'' (s @ CHR ''/'' # r)) = s"
  using task_id.accepted_segment [OF assms] task_id.accepted_first_segment [OF assms] by simp

theorem taskID_path_segment_witness:
  "ValidateTaskID ''task-1'' = None \<and> hd (Split CHR ''/'' (''task-1'' @ CHR ''/'' # ''logs'')) = ''task-1''"
proof -
  have "ValidateTaskID ''task-1'' = None" by code_simp
  then show ?thesis using taskID_path_segment [of "''task-1''" "''logs''"] by simp
qed

end
