(* ===== verification/Float64.thy ===== *)
theory Float64
  imports Complex_Main Prelude "HOL-Library.Log_Nat"
begin

text \<open>
  Go's \<open>float64\<close> values and the operations the code uses on them. A finite value is its exact
  rational; every operation returns the exact result rounded to 53 significant bits, ties to
  even (\<open>fl\<close>). The exponent range is not bounded here: results beyond the largest finite double
  and below the smallest normal one are not distinguished from their unbounded-range values, and
  NaN and infinite inputs are not values of the type. Division by zero has no finite result, so
  it is an option.

  The lemmas at the end are what the other theories use: rounding is monotone and exact on
  integers up to \<open>2 ^ 53\<close>.
\<close>

type_synonym float64 = rat

section \<open>Rounding to an integer, ties to even\<close>

definition round_even :: "rat \<Rightarrow> int" where
  "round_even x =
     (let f = \<lfloor>x\<rfloor>; d = x - of_int f in
      if d < 1 / 2 then f else if 1 / 2 < d then f + 1 else if even f then f else f + 1)"

lemma round_even_of_int [simp]: "round_even (of_int i) = i"
  by (simp add: round_even_def)

lemma round_even_floor: "\<lfloor>x\<rfloor> \<le> round_even x" "round_even x \<le> \<lfloor>x\<rfloor> + 1"
  by (simp_all add: round_even_def Let_def)

lemma round_even_mono:
  assumes "x \<le> y"
  shows "round_even x \<le> round_even y"
proof (cases "\<lfloor>x\<rfloor> = \<lfloor>y\<rfloor>")
  case True
  with assms show ?thesis by (auto simp: round_even_def Let_def)
next
  case False
  with assms have "\<lfloor>x\<rfloor> + 1 \<le> \<lfloor>y\<rfloor>" by (meson floor_mono int_one_le_iff_zero_less not_le order.not_eq_order_implies_strict zless_imp_add1_zle)
  with round_even_floor [of x] round_even_floor [of y] show ?thesis by linarith
qed

lemma round_even_ge: "of_int i \<le> x \<Longrightarrow> i \<le> round_even x"
  using round_even_mono [of "of_int i" x] by simp

lemma round_even_le: "x \<le> of_int i \<Longrightarrow> round_even x \<le> i"
  using round_even_mono [of x "of_int i"] by simp

section \<open>Rounding to 53 significant bits\<close>

text \<open>\<open>fl_exp x\<close> is the exponent of the last place of a positive \<open>x\<close>.\<close>

definition fl_exp :: "rat \<Rightarrow> int" where
  "fl_exp x =
     (let (p, q) = quotient_of x; k = bitlen p - bitlen q - 53 in
      if x < 2 powi (k + 53) then k else k + 1)"

definition fl_pos :: "rat \<Rightarrow> rat" where
  "fl_pos x = of_int (round_even (x / 2 powi fl_exp x)) * 2 powi fl_exp x"

definition fl :: "rat \<Rightarrow> float64" where
  "fl x = (if x = 0 then 0 else if 0 < x then fl_pos x else - fl_pos (- x))"

lemma bitlen_rat_bounds:
  assumes "0 < p"
  shows "2 powi (bitlen p - 1) \<le> (of_int p :: rat)" "(of_int p :: rat) < 2 powi bitlen p"
proof -
  have b: "0 < bitlen p"
    using assms bitlen_nonneg [of p] bitlen_eq_zero_iff [of p] by linarith
  have lo: "2 ^ nat (bitlen p - 1) \<le> p" and hi: "p < 2 ^ nat (bitlen p)"
    using bitlen_bounds [OF assms] by auto
  have "(of_int (2 ^ nat (bitlen p - 1)) :: rat) \<le> of_int p"
    using lo by (simp only: of_int_le_iff)
  then show "2 powi (bitlen p - 1) \<le> (of_int p :: rat)"
    using b by (simp add: power_int_def)
  have "(of_int p :: rat) < of_int (2 ^ nat (bitlen p))"
    using hi by (simp only: of_int_less_iff)
  then show "(of_int p :: rat) < 2 powi bitlen p"
    using b by (simp add: power_int_def)
qed

lemma fl_exp_bounds:
  assumes "0 < x"
  shows "2 powi (fl_exp x + 52) \<le> x" "x < 2 powi (fl_exp x + 53)"
proof -
  obtain p q where pq: "quotient_of x = (p, q)" by force
  then have q: "0 < q" by (rule quotient_of_denom_pos)
  have x: "x = of_int p / of_int q" using quotient_of_div [OF pq] .
  with assms q have p: "0 < p" by (simp add: zero_less_divide_iff)
  define k where "k = bitlen p - bitlen q - 53"
  have qpos: "(0 :: rat) < of_int q" using q by simp
  have lo: "2 powi (k + 52) \<le> x"
  proof -
    have "2 powi (k + 52) = 2 powi (bitlen p - 1) / (2 :: rat) powi bitlen q"
      by (simp add: k_def power_int_diff [symmetric] algebra_simps)
    also have "\<dots> \<le> of_int p / of_int q"
      using bitlen_rat_bounds [OF p] bitlen_rat_bounds [OF q] p qpos
      by (intro frac_le) auto
    finally show ?thesis by (simp add: x)
  qed
  have hi: "x < 2 powi (k + 54)"
  proof -
    have "of_int p / of_int q < 2 powi bitlen p / (2 :: rat) powi (bitlen q - 1)"
      using bitlen_rat_bounds [OF p] bitlen_rat_bounds [OF q] p
      by (intro frac_less) auto
    also have "\<dots> = 2 powi (k + 54)"
      by (simp add: k_def power_int_diff [symmetric] algebra_simps)
    finally show ?thesis by (simp add: x)
  qed
  have "fl_exp x = (if x < 2 powi (k + 53) then k else k + 1)"
    by (simp add: fl_exp_def pq k_def Let_def)
  then show "2 powi (fl_exp x + 52) \<le> x" "x < 2 powi (fl_exp x + 53)"
    using lo hi by (auto simp: add.assoc)
qed

lemma fl_exp_mono:
  assumes "0 < x" and "x \<le> y"
  shows "fl_exp x \<le> fl_exp y"
proof (rule ccontr)
  assume "\<not> fl_exp x \<le> fl_exp y"
  then have "(2 :: rat) powi (fl_exp y + 53) \<le> 2 powi (fl_exp x + 52)"
    by (intro power_int_increasing) auto
  with fl_exp_bounds(1) [OF assms(1)] fl_exp_bounds(2) [of y] assms show False by simp
qed

lemma fl_pos_bounds:
  assumes "0 < x"
  shows "2 powi (fl_exp x + 52) \<le> fl_pos x" "fl_pos x \<le> 2 powi (fl_exp x + 53)"
proof -
  let ?u = "(2 :: rat) powi fl_exp x"
  have u: "0 < ?u" by simp
  have s: "2 powi (fl_exp x + 52) = of_int (2 ^ 52) * ?u" "2 powi (fl_exp x + 53) = of_int (2 ^ 53) * ?u"
    by (simp_all add: power_int_add)
  have "of_int (2 ^ 52) \<le> x / ?u" "x / ?u \<le> of_int (2 ^ 53)"
    using fl_exp_bounds [OF assms] u unfolding s by (auto simp: field_simps)
  then have "2 ^ 52 \<le> round_even (x / ?u)" "round_even (x / ?u) \<le> 2 ^ 53"
    by (auto intro: round_even_ge round_even_le)
  then have "(of_int (2 ^ 52) :: rat) \<le> of_int (round_even (x / ?u))"
      "of_int (round_even (x / ?u)) \<le> (of_int (2 ^ 53) :: rat)"
    by (simp_all only: of_int_le_iff)
  then show "2 powi (fl_exp x + 52) \<le> fl_pos x" "fl_pos x \<le> 2 powi (fl_exp x + 53)"
    unfolding fl_pos_def s using u by (auto intro: mult_right_mono)
qed

lemma fl_pos_pos: "0 < x \<Longrightarrow> 0 < fl_pos x"
  using fl_pos_bounds(1) [of x] by (meson less_le_trans zero_less_numeral zero_less_power_int)

lemma fl_pos_mono:
  assumes "0 < x" and "x \<le> y"
  shows "fl_pos x \<le> fl_pos y"
proof (cases "fl_exp x = fl_exp y")
  case True
  have "x / 2 powi fl_exp x \<le> y / 2 powi fl_exp x"
    using assms(2) by (intro divide_right_mono) auto
  then have "round_even (x / 2 powi fl_exp x) \<le> round_even (y / 2 powi fl_exp x)"
    by (rule round_even_mono)
  then show ?thesis
    unfolding fl_pos_def True [symmetric] by (intro mult_right_mono) auto
next
  case False
  with fl_exp_mono [OF assms] have "(2 :: rat) powi (fl_exp x + 53) \<le> 2 powi (fl_exp y + 52)"
    by (intro power_int_increasing) auto
  with fl_pos_bounds(2) [OF assms(1)] fl_pos_bounds(1) [of y] assms show ?thesis by simp
qed

lemma fl_pos_exact:
  assumes "0 < i" and "i \<le> 2 ^ 53"
  shows "fl_pos (of_int i) = of_int i"
proof -
  let ?e = "fl_exp (of_int i)"
  have pos: "(0 :: rat) < of_int i" using assms by simp
  have "?e \<le> 1"
  proof (rule ccontr)
    assume "\<not> ?e \<le> 1"
    then have "(2 :: rat) powi 54 \<le> 2 powi (?e + 52)" by (intro power_int_increasing) auto
    with fl_exp_bounds(1) [OF pos] have "(2 :: rat) powi 54 \<le> of_int i" by simp
    then have "(of_int (2 ^ 54) :: rat) \<le> of_int i" by simp
    then have "(2 ^ 54 :: int) \<le> i" by (simp only: of_int_le_iff)
    with assms show False by simp
  qed
  moreover have "?e = 1 \<Longrightarrow> i = 2 ^ 53"
  proof -
    assume "?e = 1"
    with fl_exp_bounds(1) [OF pos] have "(of_int (2 ^ 53) :: rat) \<le> of_int i" by simp
    then have "(2 ^ 53 :: int) \<le> i" by (simp only: of_int_le_iff)
    with assms show "i = 2 ^ 53" by simp
  qed
  ultimately consider "?e = 1" "i = 2 ^ 53" | "?e \<le> 0" by linarith
  then show ?thesis
  proof cases
    case 1
    have "round_even (of_int i / 2 powi ?e) = 2 ^ 52"
      using round_even_of_int [of "2 ^ 52"] 1 by simp
    with 1 show ?thesis by (simp add: fl_pos_def)
  next
    case 2
    have eq: "of_int i / 2 powi ?e = (of_int (i * 2 ^ nat (- ?e)) :: rat)"
      using 2 by (simp add: power_int_def field_simps)
    have "fl_pos (of_int i) = of_int (i * 2 ^ nat (- ?e)) * 2 powi ?e"
      unfolding fl_pos_def eq round_even_of_int ..
    also have "\<dots> = of_int i" unfolding eq [symmetric] by simp
    finally show ?thesis .
  qed
qed

section \<open>What the other theories use\<close>

lemma fl_0 [simp]: "fl 0 = 0"
  by (simp add: fl_def)

lemma fl_minus [simp]: "fl (- x) = - fl x"
  by (auto simp: fl_def)

lemma fl_nonneg: "0 \<le> x \<Longrightarrow> 0 \<le> fl x"
  using fl_pos_pos [of x] by (auto simp: fl_def)

lemma fl_mono:
  assumes "x \<le> y"
  shows "fl x \<le> fl y"
proof -
  consider "0 < x" | "x \<le> 0" "0 \<le> y" | "y < 0" using assms by linarith
  then show ?thesis
  proof cases
    case 1
    with assms show ?thesis by (auto simp: fl_def fl_pos_mono)
  next
    case 2
    then have "fl x \<le> 0" using fl_nonneg [of "- x"] by simp
    with 2 fl_nonneg [of y] show ?thesis by simp
  next
    case 3
    with assms fl_pos_mono [of "- y" "- x"] show ?thesis by (auto simp: fl_def)
  qed
qed

lemma fl_of_int:
  assumes "\<bar>i\<bar> \<le> 2 ^ 53"
  shows "fl (of_int i) = of_int i"
proof -
  consider "0 < i" | "i = 0" | "0 < - i" by linarith
  then show ?thesis
  proof cases
    case 1
    with assms show ?thesis by (simp add: fl_def fl_pos_exact)
  next
    case 3
    with assms fl_pos_exact [of "- i"] show ?thesis by (simp add: fl_def)
  qed simp
qed

lemma fl_ge_int: "\<bar>i\<bar> \<le> 2 ^ 53 \<Longrightarrow> of_int i \<le> x \<Longrightarrow> of_int i \<le> fl x"
  using fl_mono [of "of_int i" x] fl_of_int [of i] by simp

lemma fl_le_int: "\<bar>i\<bar> \<le> 2 ^ 53 \<Longrightarrow> x \<le> of_int i \<Longrightarrow> fl x \<le> of_int i"
  using fl_mono [of x "of_int i"] fl_of_int [of i] by simp

text \<open>A value of 53 significant bits is its own rounding, and every rounding is such a value.\<close>

lemma fl_pos_dyadic:
  assumes "0 < m" and "m \<le> 2 ^ 53"
  shows "fl_pos (of_int m * 2 powi e) = of_int m * 2 powi e"
proof -
  let ?y = "of_int m * 2 powi e :: rat"
  let ?k = "fl_exp ?y"
  have y: "0 < ?y" using assms(1) by simp
  have top: "?y \<le> 2 powi (e + 53)"
  proof -
    have "(of_int m :: rat) \<le> of_int (2 ^ 53)" using assms(2) by (simp only: of_int_le_iff)
    then show ?thesis by (simp add: power_int_add mult.commute mult_right_mono)
  qed
  have "?k \<le> e + 1"
  proof (rule ccontr)
    assume "\<not> ?k \<le> e + 1"
    then have "(2 :: rat) powi (e + 53) < 2 powi (?k + 52)" by (intro power_int_strict_increasing) auto
    with fl_exp_bounds(1) [OF y] top show False by simp
  qed
  then consider "?k = e + 1" | "?k \<le> e" by linarith
  then have "\<exists>i. ?y / 2 powi ?k = of_int i"
  proof cases
    case 1
    with fl_exp_bounds(1) [OF y] top have "?y = 2 powi (e + 53)" by (simp add: add.commute)
    with 1 have "?y / 2 powi ?k = of_int (2 ^ 52)" by (simp add: power_int_diff [symmetric])
    then show ?thesis by blast
  next
    case 2
    then have "(2 :: rat) powi (e - ?k) = of_int (2 ^ nat (e - ?k))" by (simp add: power_int_def)
    moreover have "?y / 2 powi ?k = of_int m * 2 powi (e - ?k)" by (simp add: power_int_diff)
    ultimately have "?y / 2 powi ?k = of_int (m * 2 ^ nat (e - ?k))" by simp
    then show ?thesis by blast
  qed
  then obtain i where i: "?y / 2 powi ?k = of_int i" by blast
  then have "fl_pos ?y = ?y / 2 powi ?k * 2 powi ?k" unfolding fl_pos_def by simp
  then show ?thesis by simp
qed

lemma fl_idem [simp]: "fl (fl x) = fl x"
proof -
  have pos: "fl_pos (fl_pos y) = fl_pos y" if "0 < y" for y
  proof -
    let ?m = "round_even (y / 2 powi fl_exp y)"
    have u: "(0 :: rat) < 2 powi fl_exp y" by simp
    have "of_int ?m * 2 powi fl_exp y \<le> of_int (2 ^ 53) * (2 powi fl_exp y :: rat)"
      using fl_pos_bounds(2) [OF that] by (simp add: fl_pos_def power_int_add)
    then have "(of_int ?m :: rat) \<le> of_int (2 ^ 53)" using u by (simp only: mult_le_cancel_right_pos)
    then have "?m \<le> 2 ^ 53" by (simp only: of_int_le_iff)
    moreover have "0 < ?m" using fl_pos_pos [OF that] u by (simp add: fl_pos_def zero_less_mult_iff)
    ultimately show ?thesis unfolding fl_pos_def [of y] by (rule fl_pos_dyadic [rotated])
  qed
  show ?thesis
    using pos [of x] pos [of "- x"] fl_pos_pos [of x] fl_pos_pos [of "- x"] by (auto simp: fl_def)
qed

lemma round_even_error: "\<bar>of_int (round_even x) - x\<bar> \<le> 1 / 2"
  using floor_correct [of x] unfolding round_even_def Let_def abs_le_iff
  by (simp split: if_split) linarith

lemma fl_error: "\<bar>fl x - x\<bar> \<le> \<bar>x\<bar> / 2 ^ 53"
proof -
  have pos: "\<bar>fl_pos y - y\<bar> \<le> y / 2 ^ 53" if "0 < y" for y
  proof -
    let ?u = "2 powi fl_exp y :: rat"
    have u: "0 < ?u" by simp
    have "\<bar>fl_pos y - y\<bar> = \<bar>of_int (round_even (y / ?u)) - y / ?u\<bar> * ?u"
      unfolding fl_pos_def by (simp add: abs_mult_pos field_simps)
    also have "\<dots> \<le> 1 / 2 * ?u" using round_even_error u by (intro mult_right_mono) auto
    also have "\<dots> = 2 powi (fl_exp y + 52) / 2 ^ 53" by (simp add: power_int_add)
    also have "\<dots> \<le> y / 2 ^ 53" using fl_exp_bounds(1) [OF that] by (simp add: divide_right_mono)
    finally show ?thesis .
  qed
  consider "0 < x" | "x = 0" | "0 < - x" by linarith
  then show ?thesis
  proof cases
    case 3
    then have "\<bar>fl x - x\<bar> = \<bar>fl_pos (- x) - (- x)\<bar>" by (simp add: fl_def abs_minus_commute)
    with 3 pos [OF 3] show ?thesis by simp
  qed (use pos [of x] in \<open>auto simp: fl_def\<close>)
qed

section \<open>Conversions and formatting\<close>

text \<open>Conversion of a float to an integer truncates towards zero.\<close>

definition trunc :: "float64 \<Rightarrow> int" where
  "trunc x = (if 0 \<le> x then \<lfloor>x\<rfloor> else - \<lfloor>- x\<rfloor>)"

lemma trunc_of_int [simp]: "trunc (of_int i) = i"
  by (simp add: trunc_def)

lemma trunc_ge_int: "of_int i \<le> x \<Longrightarrow> i \<le> trunc x"
  unfolding trunc_def by (simp split: if_split) linarith

text \<open>
  \<open>int32(x)\<close>: when the truncated value does not fit, or \<open>x\<close> is not finite (\<open>None\<close>), the
  language leaves the result to the implementation; \<open>undef\<close> is that choice.
\<close>

definition float_to_int32 :: "(float64 option \<Rightarrow> int32) \<Rightarrow> float64 option \<Rightarrow> int32" where
  "float_to_int32 undef v =
     (case v of
        None \<Rightarrow> undef v
      | Some x \<Rightarrow> if - (2 ^ 31) \<le> trunc x \<and> trunc x < 2 ^ 31 then word_of_int (trunc x) else undef v)"

text \<open>Division: no finite result when the divisor is zero.\<close>

definition fdiv :: "float64 \<Rightarrow> float64 \<Rightarrow> float64 option" where
  "fdiv a b = (if b = 0 then None else Some (fl (a / b)))"

end
