(* ===== verification/Go_Time.thy ===== *)
theory Go_Time
  imports Float64 Go_Text
begin

text \<open>
  The functions of Go's \<open>time\<close> package that the code calls on durations: \<open>ParseDuration\<close>, loop by
  loop, and \<open>Duration.Seconds\<close>. A duration is an \<open>int64\<close> of nanoseconds. The accumulators of
  \<open>ParseDuration\<close> are \<open>uint64\<close>; they are naturals here, with the one addition that can wrap
  written out. The micro sign's two spellings are UTF-8 byte sequences.
\<close>

section \<open>Definitions\<close>

fun leadingInt :: "nat \<Rightarrow> string \<Rightarrow> (nat \<times> string) option" where
  "leadingInt x [] = Some (x, [])"
| "leadingInt x (c # s) =
     (if \<not> is_digit c then Some (x, c # s)
      else if 2 ^ 63 div 10 < x then None
      else let x' = x * 10 + digit_val c in
           if 2 ^ 63 < x' then None else leadingInt x' s)"

fun leadingFraction :: "nat \<Rightarrow> rat \<Rightarrow> bool \<Rightarrow> string \<Rightarrow> nat \<times> rat \<times> string" where
  "leadingFraction x scale ovf [] = (x, scale, [])"
| "leadingFraction x scale ovf (c # s) =
     (if \<not> is_digit c then (x, scale, c # s)
      else if ovf \<or> (2 ^ 63 - 1) div 10 < x then leadingFraction x scale True s
      else let y = x * 10 + digit_val c in
           if 2 ^ 63 < y then leadingFraction x scale True s
           else leadingFraction y (fl (scale * 10)) False s)"

definition unitMap :: "string \<Rightarrow> nat option" where
  "unitMap u =
     (if u = ''ns'' then Some 1
      else if u = ''us'' \<or> u = [char_of (194 :: nat), char_of (181 :: nat), CHR ''s''] \<or>
              u = [char_of (206 :: nat), char_of (188 :: nat), CHR ''s''] then Some 1000
      else if u = ''ms'' then Some 1000000
      else if u = ''s'' then Some 1000000000
      else if u = ''m'' then Some (60 * 1000000000)
      else if u = ''h'' then Some (3600 * 1000000000)
      else None)"

definition unit_end :: "char \<Rightarrow> bool" where
  "unit_end c \<longleftrightarrow> c = CHR ''.'' \<or> is_digit c"

text \<open>One number with its unit: the value in nanoseconds and the rest of the string.\<close>

definition duration_term :: "string \<Rightarrow> (nat \<times> string) option" where
  "duration_term s =
     (if s = [] \<or> \<not> unit_end (hd s) then None
      else case leadingInt 0 s of
        None \<Rightarrow> None
      | Some (v, s1) \<Rightarrow>
          let pre = (length s \<noteq> length s1);
              dot = (s1 \<noteq> [] \<and> hd s1 = CHR ''.'');
              (f, scale, s2) = (if dot then leadingFraction 0 1 False (tl s1) else (0, 1, s1));
              post = (dot \<and> length (tl s1) \<noteq> length s2);
              u = takeWhile (\<lambda>c. \<not> unit_end c) s2;
              rest = dropWhile (\<lambda>c. \<not> unit_end c) s2
          in if \<not> pre \<and> \<not> post then None
             else if u = [] then None
             else case unitMap u of
               None \<Rightarrow> None
             | Some unit \<Rightarrow>
                 if 2 ^ 63 div unit < v then None
                 else let v1 = v * unit;
                          v2 = (if 0 < f
                                then v1 + nat (trunc (fl (fl (of_nat f) * fl (of_nat unit / scale))))
                                else v1)
                      in if 2 ^ 63 < v2 then None else Some (v2, rest))"

lemma leadingInt_length: "leadingInt x s = Some (v, r) \<Longrightarrow> length r \<le> length s"
  by (induction x s rule: leadingInt.induct) (fastforce simp: Let_def split: if_splits)+

lemma leadingFraction_length: "leadingFraction x scale ovf s = (f, sc, r) \<Longrightarrow> length r \<le> length s"
  by (induction x scale ovf s rule: leadingFraction.induct) (fastforce simp: Let_def split: if_splits)+

lemma dropWhile_shorter: "takeWhile P s \<noteq> [] \<Longrightarrow> length (dropWhile P s) < length s"
  by (cases s) (simp_all add: length_dropWhile_le le_imp_less_Suc split: if_splits)

lemma duration_term_shorter:
  assumes "duration_term s = Some (v, r)"
  shows "length r < length s"
proof -
  from assms obtain v1 s1 where s1: "leadingInt 0 s = Some (v1, s1)"
    by (auto simp: duration_term_def split: if_splits option.splits)
  obtain f sc s2 where s2: "(if s1 \<noteq> [] \<and> hd s1 = CHR ''.'' then leadingFraction 0 1 False (tl s1)
      else (0, 1, s1)) = (f, sc, s2)"
    by (metis prod_cases3)
  have "length s2 \<le> length s1"
    using s2 leadingFraction_length [of 0 1 False "tl s1" f sc s2] by (auto split: if_splits)
  moreover from assms s1 s2 have "takeWhile (\<lambda>c. \<not> unit_end c) s2 \<noteq> []"
    and "r = dropWhile (\<lambda>c. \<not> unit_end c) s2"
    by (simp_all add: duration_term_def Let_def split: if_splits option.splits)
  ultimately show ?thesis
    using leadingInt_length [OF s1] dropWhile_shorter [of "\<lambda>c. \<not> unit_end c" s2] by simp
qed

function duration_terms :: "nat \<Rightarrow> string \<Rightarrow> nat option" where
  "duration_terms d s =
     (if s = [] then Some d
      else case duration_term s of
        None \<Rightarrow> None
      | Some (v, r) \<Rightarrow>
          let d' = (d + v) mod 2 ^ 64 in
          if 2 ^ 63 < d' then None else duration_terms d' r)"
  by pat_completeness auto

termination duration_terms
  by (relation "measure (\<lambda>(d, s). length s)") (auto dest: duration_term_shorter)

declare duration_terms.simps [simp del]

definition ParseDuration :: "string \<Rightarrow> duration option" where
  "ParseDuration s =
     (let neg = (s \<noteq> [] \<and> hd s = CHR ''-'');
          body = (if s \<noteq> [] \<and> (hd s = CHR ''-'' \<or> hd s = CHR ''+'') then tl s else s)
      in if body = ''0'' then Some 0
         else if body = [] then None
         else case duration_terms 0 body of
           None \<Rightarrow> None
         | Some d \<Rightarrow>
             if neg then Some (- word_of_nat d)
             else if 2 ^ 63 - 1 < d then None
             else Some (word_of_nat d))"

definition Duration_Seconds :: "duration \<Rightarrow> rat" where
  "Duration_Seconds d =
     (let sec = go_div d 1000000000;
          nsec = go_mod d 1000000000
      in fl (fl (of_int (sint sec)) + fl (fl (of_int (sint nsec)) / 1000000000)))"

section \<open>Whole numbers of one unit\<close>

lemma foldl_digits_ge: "x \<le> foldl (\<lambda>a c. 10 * a + digit_val c) x ds"
proof (induction ds arbitrary: x)
  case (Cons c ds)
  have "x \<le> 10 * x + digit_val c" by simp
  also have "\<dots> \<le> foldl (\<lambda>a c. 10 * a + digit_val c) (10 * x + digit_val c) ds" by (rule Cons)
  finally show ?case by simp
qed simp

lemma leadingInt_digits:
  assumes "list_all is_digit ds" and "r = [] \<or> \<not> is_digit (hd r)"
    and "foldl (\<lambda>a c. 10 * a + digit_val c) x ds \<le> 2 ^ 63"
  shows "leadingInt x (ds @ r) = Some (foldl (\<lambda>a c. 10 * a + digit_val c) x ds, r)"
  using assms
proof (induction ds arbitrary: x)
  case Nil
  then show ?case by (cases r) auto
next
  case (Cons c ds)
  have "10 * x + digit_val c \<le> 2 ^ 63"
    using foldl_digits_ge [of "10 * x + digit_val c" ds] Cons.prems(3) by simp
  moreover from this have "\<not> 2 ^ 63 div 10 < x"
    using less_eq_div_iff_mult_less_eq [of 10 x "2 ^ 63"] by simp
  ultimately show ?case
    using Cons by (simp add: Let_def mult.commute)
qed

lemma duration_term_unit:
  assumes "ds \<noteq> []" and "list_all is_digit ds" and "\<not> unit_end u" and "unitMap [u] = Some k"
    and "digits_val ds \<le> 2 ^ 63" and "0 < k"
  shows "duration_term (ds @ [u]) =
           (if digits_val ds * k \<le> 2 ^ 63 then Some (digits_val ds * k, []) else None)"
proof -
  have "leadingInt 0 (ds @ [u]) = Some (digits_val ds, [u])"
    using leadingInt_digits [of ds "[u]" 0] assms by (simp add: digits_val_def unit_end_def)
  moreover have "unit_end (hd (ds @ [u]))"
    using assms(1,2) by (cases ds) (simp_all add: unit_end_def)
  moreover have "u \<noteq> CHR ''.''" using assms(3) by (auto simp: unit_end_def)
  moreover have "2 ^ 63 div k < digits_val ds \<longleftrightarrow> \<not> digits_val ds * k \<le> 2 ^ 63"
    using less_eq_div_iff_mult_less_eq [OF assms(6), of "digits_val ds" "2 ^ 63"] by linarith
  ultimately show ?thesis
    using assms by (simp add: duration_term_def Let_def)
qed

lemma duration_terms_Nil: "duration_terms d [] = Some d"
  by (subst duration_terms.simps) simp

lemma ParseDuration_unit:
  assumes "ds \<noteq> []" and "list_all is_digit ds" and "\<not> unit_end u" and "unitMap [u] = Some k"
    and "digits_val ds \<le> 2 ^ 63" and "0 < k"
  shows "ParseDuration (ds @ [u]) =
           (if digits_val ds * k < 2 ^ 63 then Some (word_of_nat (digits_val ds * k)) else None)"
proof -
  have "hd (ds @ [u]) \<noteq> CHR ''-'' \<and> hd (ds @ [u]) \<noteq> CHR ''+''"
    using assms(1,2) by (cases ds) (auto dest: digit_not_sign)
  moreover have "ds @ [u] \<noteq> ''0''" using assms(1) by (cases ds) auto
  moreover have "duration_terms 0 (ds @ [u]) =
      (if digits_val ds * k \<le> 2 ^ 63 then Some (digits_val ds * k) else None)"
    using duration_term_unit [OF assms] by (subst duration_terms.simps) (simp add: duration_terms_Nil)
  ultimately show ?thesis
    by (auto simp: ParseDuration_def)
qed

lemma Duration_Seconds_whole:
  assumes "n * 1000000000 < 2 ^ 63"
  shows "Duration_Seconds (word_of_nat (n * 1000000000)) = of_nat n"
proof -
  define d :: int64 where "d = word_of_nat (n * 1000000000)"
  have s: "sint d = int n * 1000000000"
    using sint_of_int_64 [of "int n * 1000000000"] assms by (simp add: d_def)
  have sec: "sint (go_div d 1000000000) = int n"
    using sint_of_int_64 [of "int n"] assms by (simp add: go_div_def s signed_divide_int_def sgn_if)
  have nsec: "sint (go_mod d 1000000000) = 0"
    by (simp add: go_mod_def s signed_modulo_int_def signed_divide_int_def sgn_if)
  have "fl (of_nat n) = of_nat n"
    using fl_of_int [of "int n"] assms by simp
  then show ?thesis
    unfolding Duration_Seconds_def Let_def d_def [symmetric] sec nsec by simp
qed

section \<open>Printing durations and elapsed time\<close>

text \<open>
  \<open>time.Duration.String\<close>: hours, minutes and seconds with the fraction cut of its trailing zeros,
  or one smaller unit below a second. The micro sign is two bytes of UTF-8.
\<close>

definition fraction_text :: "nat \<Rightarrow> nat \<Rightarrow> string" where
  "fraction_text prec v =
     (let ds = nat_digits (v mod 10 ^ prec);
          padded = replicate (prec - length ds) (CHR ''0'') @ ds;
          cut = rev (dropWhile (\<lambda>c. c = CHR ''0'') (rev padded))
      in if cut = [] then [] else CHR ''.'' # cut)"

definition unsigned_duration_text :: "nat \<Rightarrow> string" where
  "unsigned_duration_text u =
     (if u = 0 then ''0s''
      else if u < 1000 then nat_digits u @ ''ns''
      else if u < 1000000 then nat_digits (u div 1000) @ fraction_text 3 u @ [CHR 0xC2, CHR 0xB5, CHR ''s'']
      else if u < 1000000000 then nat_digits (u div 1000000) @ fraction_text 6 u @ ''ms''
      else let s = u div 1000000000; m = s div 60; h = m div 60
           in (if 0 < h then nat_digits h @ ''h'' else []) @
              (if 0 < m then nat_digits (m mod 60) @ ''m'' else []) @
              nat_digits (s mod 60) @ fraction_text 9 u @ ''s'')"

definition Duration_String :: "duration \<Rightarrow> string" where
  "Duration_String d =
     (if sint d < 0 then CHR ''-'' # unsigned_duration_text (nat (- sint d))
      else unsigned_duration_text (nat (sint d)))"

text \<open>\<open>time.Since\<close>, at the instant \<open>now\<close>: the difference saturates at the ends of the type.\<close>

definition Since :: "instant \<Rightarrow> instant \<Rightarrow> duration" where
  "Since now t = word_of_int (max (- (2 ^ 63)) (min (2 ^ 63 - 1) (now - t)))"

lemma sint_Since: "sint (Since now t) = max (- (2 ^ 63)) (min (2 ^ 63 - 1) (now - t))"
  unfolding Since_def by (rule sint_of_int_64) (simp_all add: min_less_iff_disj max_def)

text \<open>\<open>now.Unix()\<close>: seconds since 1970.\<close>

definition Now_Unix :: "instant \<Rightarrow> int64" where
  "Now_Unix now = word_of_int (now div 1000000000 - 62135596800)"

text \<open>\<open>d.Milliseconds()\<close>, rounded towards zero.\<close>

definition Milliseconds :: "duration \<Rightarrow> int64" where
  "Milliseconds d = go_div d 1000000"

end
