(* ===== verification/CloudTask_Controller.thy ===== *)
theory CloudTask_Controller
  imports Kube_Client Validators Go_Time
begin

text \<open>
  The CloudTask reconciler, \<open>module2-orchestrator/controllers/cloudtask_controller.go\<close>, and the
  quantity helper \<open>pkg/utils\<close>. The definitions follow the blocks of \<open>Reconcile\<close>; one run is an
  action on the world whose log holds every call to the API server with its reply and every
  recorded event.

  Parameters (record \<open>reconciler\<close>): the clients for CloudTasks and Pods, the clock, the finalizer
  helpers and \<open>SetControllerReference\<close> of controller-runtime, and \<open>resource.ParseQuantity\<close>.
\<close>

section \<open>Parameters\<close>

datatype ct_event =
    TaskCall "CloudTask call"
  | PodCall "Pod call"
  | Emit CloudTask string string string

record 'w reconciler =
  r_tasks :: "(CloudTask, 'w) client"
  r_pods :: "(Pod, 'w) client"
  r_now :: "'w \<Rightarrow> instant \<times> 'w"
  r_ContainsFinalizer :: "CloudTask \<Rightarrow> string \<Rightarrow> bool"
  r_AddFinalizer :: "CloudTask \<Rightarrow> string \<Rightarrow> CloudTask"
  r_RemoveFinalizer :: "CloudTask \<Rightarrow> string \<Rightarrow> CloudTask"
  r_SetControllerReference :: "CloudTask \<Rightarrow> Pod \<Rightarrow> error + Pod"
  r_parseQuantity :: "string \<Rightarrow> error + quantity"

type_synonym ('w, 'a) ct_act = "('w, ct_event, 'a) act"

definition cloudTaskFinalizerKey :: string where
  "cloudTaskFinalizerKey = ''tasks.orchestrator.dev/finalizer''"

definition podNameLabel :: string where "podNameLabel = ''cloudtask-name''"
definition podTenantLabel :: string where "podTenantLabel = ''tenant-id''"
definition podPriorityLabel :: string where "podPriorityLabel = ''priority''"

definition apiGVStr :: string where
  "apiGVStr = ''tasks.orchestrator.dev/v1''"

definition record_Event :: "CloudTask \<Rightarrow> string \<Rightarrow> string \<Rightarrow> string \<Rightarrow> ('w, unit) ct_act" where
  "record_Event t typ reason msg = logged (\<lambda>w. ((), w)) (\<lambda>_. Emit t typ reason msg)"

section \<open>Building the pod\<close>

definition ParseQuantity :: "'w reconciler \<Rightarrow> string \<Rightarrow> quantity" where
  "ParseQuantity r s = (case r_parseQuantity r s of Inl _ \<Rightarrow> zero_quantity | Inr q \<Rightarrow> q)"

definition core_list :: "'w reconciler \<Rightarrow> ResourceList \<Rightarrow> (string \<rightharpoonup> quantity)" where
  "core_list r l =
     (let m = Map.empty;
          m = (if rl_CPU l \<noteq> [] then m(''cpu'' \<mapsto> ParseQuantity r (rl_CPU l)) else m);
          m = (if rl_Memory l \<noteq> [] then m(''memory'' \<mapsto> ParseQuantity r (rl_Memory l)) else m)
      in m)"

definition task_resources :: "'w reconciler \<Rightarrow> ResourceRequirements option \<Rightarrow> CoreResourceRequirements" where
  "task_resources r res =
     (case res of
        None \<Rightarrow> zero_resources
      | Some rr \<Rightarrow>
          \<lparr>crr_Requests = (case rr_Requests rr of None \<Rightarrow> Map.empty | Some l \<Rightarrow> core_list r l),
           crr_Limits = (case rr_Limits rr of None \<Rightarrow> Map.empty | Some l \<Rightarrow> core_list r l)\<rparr>)"

text \<open>
  \<open>int64(d.Seconds())\<close> truncates; a duration has fewer than \<open>2\<^sup>3\<^sup>4\<close> seconds, so the conversion is
  always in range.
\<close>

definition timeout_seconds :: "string \<Rightarrow> int64" where
  "timeout_seconds timeout =
     (if timeout = [] then 300
      else case ParseDuration timeout of
             None \<Rightarrow> 300
           | Some d \<Rightarrow> word_of_int (trunc (Duration_Seconds d)))"

definition pod_labels :: "CloudTask \<Rightarrow> (string \<rightharpoonup> string)" where
  "pod_labels t =
     [podNameLabel \<mapsto> om_Name (ct_Meta t),
      podTenantLabel \<mapsto> sp_TenantID (ct_Spec t),
      podPriorityLabel \<mapsto> Itoa (sint (sp_Priority (ct_Spec t)))] ++ sp_Labels (ct_Spec t)"

definition constructPod :: "'w reconciler \<Rightarrow> CloudTask \<Rightarrow> Pod" where
  "constructPod r t =
     (let sp = ct_Spec t;
          container = zero_Container
            \<lparr>cn_Name := ''task-container'', cn_Image := sp_Image sp, cn_Command := sp_Command sp,
             cn_Args := sp_Args sp, cn_Resources := task_resources r (sp_Resources sp),
             cn_Env := sp_Env sp, cn_VolumeMounts := sp_VolumeMounts sp\<rparr>
      in zero_Pod
        \<lparr>pod_Meta := zero_ObjectMeta
           \<lparr>om_Name := om_Name (ct_Meta t) @ ''-pod'', om_Namespace := om_Namespace (ct_Meta t),
            om_Labels := pod_labels t, om_Annotations := Map.empty ++ sp_Annotations sp\<rparr>,
         pod_Spec := zero_PodSpec
           \<lparr>ps_RestartPolicy := ''Never'', ps_Containers := [container],
            ps_ActiveDeadlineSeconds := Some (timeout_seconds (sp_Timeout sp)),
            ps_TerminationGracePeriodSeconds := Some 30\<rparr>\<rparr>)"

section \<open>Status from the pod\<close>

definition failure_reason :: "PodStatus \<Rightarrow> string" where
  "failure_reason ps =
     (let reason = ''Unknown'';
          reason = (if pst_Reason ps \<noteq> [] then pst_Reason ps else reason)
      in case pst_ContainerStatuses ps of
           [] \<Rightarrow> reason
         | c # _ \<Rightarrow> (case cs_Terminated c of None \<Rightarrow> reason | Some x \<Rightarrow> ter_Reason x))"

definition updateStatusFromPod :: "'w reconciler \<Rightarrow> CloudTask \<Rightarrow> Pod \<Rightarrow> ('w, CloudTask \<times> bool) ct_act" where
  "updateStatusFromPod r t p =
     (let ps = pod_Status p; st = ct_Status t in
      do {
        (st, updated) \<leftarrow>
          (if pst_Phase ps = PodRunning then
             State_Monad.return
               (if st_Phase st \<noteq> PhaseRunning
                then (st\<lparr>st_Phase := PhaseRunning, st_Message := ''Pod is running''\<rparr>, True)
                else (st, False))
           else if pst_Phase ps = PodSucceeded then
             (if st_Phase st \<noteq> PhaseCompleted
              then do {
                now \<leftarrow> silent (r_now r);
                State_Monad.return
                  (st\<lparr>st_Phase := PhaseCompleted, st_CompletionTime := Some now,
                      st_Message := ''Pod succeeded''\<rparr>, True)
              }
              else State_Monad.return (st, False))
           else if pst_Phase ps = PodFailed then
             (if st_Phase st \<noteq> PhaseFailed
              then do {
                now \<leftarrow> silent (r_now r);
                State_Monad.return
                  (st\<lparr>st_Phase := PhaseFailed, st_CompletionTime := Some now,
                      st_Message := ''Pod failed: '' @ failure_reason ps\<rparr>, True)
              }
              else State_Monad.return (st, False))
           else if pst_Phase ps = PodPending then
             State_Monad.return
               (if st_Phase st \<noteq> PhaseRunning \<and> st_Phase st \<noteq> PhasePending
                then (st\<lparr>st_Phase := PhasePending, st_Message := ''Pod is pending''\<rparr>, True)
                else (st, False))
           else State_Monad.return (st, False));
        if updated
        then do {
          now \<leftarrow> silent (r_now r);
          State_Monad.return (t\<lparr>ct_Status := st\<lparr>st_LastUpdateTime := Some now\<rparr>\<rparr>, True)
        }
        else State_Monad.return (t\<lparr>ct_Status := st\<rparr>, False)
      })"

section \<open>Reconcile\<close>

definition task_key :: "CloudTask \<Rightarrow> string \<Rightarrow> NamespacedName" where
  "task_key t name = \<lparr>nn_Namespace = om_Namespace (ct_Meta t), nn_Name = name\<rparr>"

definition deleteExternalResources :: "'w reconciler \<Rightarrow> CloudTask \<Rightarrow> ('w, error option) ct_act" where
  "deleteExternalResources r t =
     (if st_PodName (ct_Status t) \<noteq> [] then
        do {
          g \<leftarrow> client_Get (r_pods r) PodCall (task_key t (st_PodName (ct_Status t)));
          case g of
            Inl e \<Rightarrow> State_Monad.return (if \<not> IsNotFound e then Some e else None)
          | Inr pod \<Rightarrow> do {
              d \<leftarrow> client_Delete (r_pods r) PodCall pod;
              State_Monad.return (case d of Inl e \<Rightarrow> Some e | Inr _ \<Rightarrow> None)
            }
        }
      else State_Monad.return None)"

definition reconcile_deletion :: "'w reconciler \<Rightarrow> CloudTask \<Rightarrow> ('w, reconciled) ct_act" where
  "reconcile_deletion r t =
     (if r_ContainsFinalizer r t cloudTaskFinalizerKey then
        do {
          err \<leftarrow> deleteExternalResources r t;
          case err of
            Some e \<Rightarrow> State_Monad.return (no_requeue, Some e)
          | None \<Rightarrow> do {
              u \<leftarrow> client_Update (r_tasks r) TaskCall (r_RemoveFinalizer r t cloudTaskFinalizerKey);
              State_Monad.return (case u of Inl e \<Rightarrow> (no_requeue, Some e) | Inr _ \<Rightarrow> (no_requeue, None))
            }
        }
      else State_Monad.return (no_requeue, None))"

definition ensure_finalizer :: "'w reconciler \<Rightarrow> CloudTask \<Rightarrow> ('w, error + CloudTask) ct_act" where
  "ensure_finalizer r t =
     (if \<not> r_ContainsFinalizer r t cloudTaskFinalizerKey
      then client_Update (r_tasks r) TaskCall (r_AddFinalizer r t cloudTaskFinalizerKey)
      else State_Monad.return (Inr t))"

text \<open>The existing pod: \<open>None\<close> is the nil pointer, the zero pod the untouched variable.\<close>

definition existing_pod :: "'w reconciler \<Rightarrow> CloudTask \<Rightarrow> ('w, error + Pod option) ct_act" where
  "existing_pod r t =
     (if st_PodName (ct_Status t) \<noteq> [] then
        do {
          g \<leftarrow> client_Get (r_pods r) PodCall (task_key t (st_PodName (ct_Status t)));
          State_Monad.return
            (case g of
               Inl e \<Rightarrow> (if \<not> IsNotFound e then Inl e else Inr None)
             | Inr pod \<Rightarrow> Inr (Some pod))
        }
      else State_Monad.return (Inr (Some zero_Pod)))"

definition attempt_text :: "string \<Rightarrow> int32 \<Rightarrow> int32 \<Rightarrow> string" where
  "attempt_text prefix n m = prefix @ '' (attempt '' @ Itoa (sint n) @ ''/'' @ Itoa (sint m) @ '')''"

definition retry_status :: "CloudTask \<Rightarrow> CloudTask" where
  "retry_status t =
     (let n = st_RetryCount (ct_Status t) + 1 in
      t\<lparr>ct_Status := (ct_Status t)
          \<lparr>st_Phase := PhasePending, st_RetryCount := n, st_PodName := '''',
           st_Message := attempt_text ''Retrying'' n (sp_Retries (ct_Spec t))\<rparr>\<rparr>)"

definition handle_failed :: "'w reconciler \<Rightarrow> CloudTask \<Rightarrow> ('w, reconciled) ct_act" where
  "handle_failed r t =
     (if sint (st_RetryCount (ct_Status t)) < sint (sp_Retries (ct_Spec t)) then
        do {
          _ \<leftarrow> record_Event t ''Normal'' ''Retrying''
                 (attempt_text ''Retrying task'' (st_RetryCount (ct_Status t) + 1) (sp_Retries (ct_Spec t)));
          u \<leftarrow> client_StatusUpdate (r_tasks r) TaskCall (retry_status t);
          State_Monad.return
            (case u of Inl e \<Rightarrow> (no_requeue, Some e) | Inr _ \<Rightarrow> (requeue_after 5, None))
        }
      else do {
        _ \<leftarrow> record_Event t ''Warning'' ''Failed'' ''Task failed after retries exhausted'';
        State_Monad.return (no_requeue, None)
      })"

definition sync_pod :: "'w reconciler \<Rightarrow> CloudTask \<Rightarrow> Pod \<Rightarrow> ('w, reconciled) ct_act" where
  "sync_pod r t pod =
     do {
       (t, updatedStatus) \<leftarrow> updateStatusFromPod r t pod;
       u \<leftarrow> (if updatedStatus then client_StatusUpdate (r_tasks r) TaskCall t
             else State_Monad.return (Inr t));
       case u of
         Inl e \<Rightarrow> State_Monad.return (no_requeue, Some e)
       | Inr t \<Rightarrow>
           if st_Phase (ct_Status t) = PhaseCompleted then
             do {
               _ \<leftarrow> record_Event t ''Normal'' ''Completed'' ''Task completed successfully'';
               State_Monad.return (no_requeue, None)
             }
           else if st_Phase (ct_Status t) = PhaseFailed then handle_failed r t
           else State_Monad.return (requeue_after 30, None)
     }"

definition running_status :: "CloudTask \<Rightarrow> Pod \<Rightarrow> instant \<Rightarrow> CloudTask" where
  "running_status t pod now =
     t\<lparr>ct_Status := (ct_Status t)
         \<lparr>st_Phase := PhaseRunning, st_PodName := om_Name (pod_Meta pod), st_StartTime := Some now,
          st_Message := ''Pod created and running''\<rparr>\<rparr>"

definition create_pod :: "'w reconciler \<Rightarrow> CloudTask \<Rightarrow> ('w, reconciled) ct_act" where
  "create_pod r t =
     (if st_Phase (ct_Status t) = '''' \<or> st_Phase (ct_Status t) = PhasePending then
        case r_SetControllerReference r t (constructPod r t) of
          Inl e \<Rightarrow> State_Monad.return (no_requeue, Some e)
        | Inr newPod \<Rightarrow> do {
            c \<leftarrow> client_Create (r_pods r) PodCall newPod;
            case c of
              Inl e \<Rightarrow> do {
                _ \<leftarrow> record_Event t ''Warning'' ''PodCreationFailed'' (''Failed to create Pod: '' @ error_text e);
                State_Monad.return (requeue_after 10, Some e)
              }
            | Inr newPod \<Rightarrow> do {
                _ \<leftarrow> record_Event t ''Normal'' ''PodCreated'' (''Created Pod '' @ om_Name (pod_Meta newPod));
                now \<leftarrow> silent (r_now r);
                u \<leftarrow> client_StatusUpdate (r_tasks r) TaskCall (running_status t newPod now);
                State_Monad.return
                  (case u of Inl e \<Rightarrow> (no_requeue, Some e) | Inr _ \<Rightarrow> (requeue_after 30, None))
              }
          }
      else State_Monad.return (requeue_after 30, None))"

definition has_pod :: "Pod option \<Rightarrow> bool" where
  "has_pod pod \<longleftrightarrow> (case pod of None \<Rightarrow> False | Some p \<Rightarrow> om_Name (pod_Meta p) \<noteq> [])"

definition reconcile_live :: "'w reconciler \<Rightarrow> CloudTask \<Rightarrow> ('w, reconciled) ct_act" where
  "reconcile_live r t =
     do {
       f \<leftarrow> ensure_finalizer r t;
       case f of
         Inl e \<Rightarrow> State_Monad.return (no_requeue, Some e)
       | Inr t \<Rightarrow> do {
           p \<leftarrow> existing_pod r t;
           case p of
             Inl e \<Rightarrow> State_Monad.return (no_requeue, Some e)
           | Inr pod \<Rightarrow> if has_pod pod then sync_pod r t (the pod) else create_pod r t
         }
     }"

definition being_deleted :: "CloudTask \<Rightarrow> bool" where
  "being_deleted t \<longleftrightarrow> \<not> IsZero (om_DeletionTimestamp (ct_Meta t))"

definition Reconcile :: "'w reconciler \<Rightarrow> NamespacedName \<Rightarrow> ('w, reconciled) ct_act" where
  "Reconcile r req =
     do {
       g \<leftarrow> client_Get (r_tasks r) TaskCall req;
       case g of
         Inl e \<Rightarrow> State_Monad.return (if IsNotFound e then (no_requeue, None) else (no_requeue, Some e))
       | Inr t \<Rightarrow> if being_deleted t then reconcile_deletion r t else reconcile_live r t
     }"

text \<open>The index function that \<open>SetupWithManager\<close> registers for pods.\<close>

definition owner_index :: "(Pod \<Rightarrow> OwnerReference option) \<Rightarrow> Pod \<Rightarrow> string list" where
  "owner_index getControllerOf pod =
     (case getControllerOf pod of
        None \<Rightarrow> []
      | Some owner \<Rightarrow>
          if or_APIVersion owner \<noteq> apiGVStr \<or> or_Kind owner \<noteq> ''CloudTask'' then []
          else [or_Name owner])"

section \<open>What a run may write\<close>

text \<open>
  The specification of the reconciler's writes to a task's status, as a step relation: mirror the
  phase of the pod, start a pod, or retry a failed attempt.
\<close>

definition next_phase :: "CloudTaskPhase \<Rightarrow> string \<Rightarrow> CloudTaskPhase" where
  "next_phase old podPhase =
     (if podPhase = PodRunning then PhaseRunning
      else if podPhase = PodSucceeded then PhaseCompleted
      else if podPhase = PodFailed then PhaseFailed
      else if podPhase = PodPending \<and> old \<noteq> PhaseRunning then PhasePending
      else old)"

inductive status_step :: "CloudTask \<Rightarrow> CloudTask \<Rightarrow> bool" where
  mirror: "\<lbrakk>ct_Meta t' = ct_Meta t; ct_Spec t' = ct_Spec t;
            st_RetryCount (ct_Status t') = st_RetryCount (ct_Status t);
            st_PodName (ct_Status t') = st_PodName (ct_Status t);
            st_StartTime (ct_Status t') = st_StartTime (ct_Status t);
            st_Phase (ct_Status t') = next_phase (st_Phase (ct_Status t)) podPhase;
            st_Phase (ct_Status t') \<noteq> st_Phase (ct_Status t)\<rbrakk> \<Longrightarrow> status_step t t'"
| start: "st_Phase (ct_Status t) \<in> {'''', PhasePending} \<Longrightarrow> status_step t (running_status t pod now)"
| retry: "\<lbrakk>st_Phase (ct_Status t) = PhaseFailed;
           sint (st_RetryCount (ct_Status t)) < sint (sp_Retries (ct_Spec t))\<rbrakk> \<Longrightarrow>
          status_step t (retry_status t)"

definition mirrored :: "CloudTask \<Rightarrow> Pod \<Rightarrow> CloudTask \<Rightarrow> bool \<Rightarrow> bool" where
  "mirrored t p t' updated \<longleftrightarrow>
     st_Phase (ct_Status t') = next_phase (st_Phase (ct_Status t)) (pst_Phase (pod_Status p)) \<and>
     (updated \<longleftrightarrow> st_Phase (ct_Status t') \<noteq> st_Phase (ct_Status t)) \<and>
     (\<not> updated \<longrightarrow> t' = t) \<and>
     ct_Meta t' = ct_Meta t \<and> ct_Spec t' = ct_Spec t \<and>
     st_RetryCount (ct_Status t') = st_RetryCount (ct_Status t) \<and>
     st_PodName (ct_Status t') = st_PodName (ct_Status t) \<and>
     st_StartTime (ct_Status t') = st_StartTime (ct_Status t) \<and>
     (updated \<longrightarrow> st_LastUpdateTime (ct_Status t') \<noteq> None) \<and>
     (updated \<and> pst_Phase (pod_Status p) \<in> {PodSucceeded, PodFailed} \<longrightarrow>
        st_CompletionTime (ct_Status t') \<noteq> None)"

lemma wlog_updateStatusFromPod:
  "wlog (updateStatusFromPod r t p) (\<lambda>es (t', u). es = [] \<and> mirrored t p t' u)"
  unfolding updateStatusFromPod_def Let_def
  by (intro wlog_bind wlog_intros)
     (auto simp: mirrored_def next_phase_def phase_defs pod_phase_defs split: if_splits
       intro!: wlog_intros wlog_bind)

text \<open>The task an entry of the log returned.\<close>

fun reply_task :: "ct_event \<Rightarrow> CloudTask set" where
  "reply_task (TaskCall (GetCall k (Inr t))) = {t}"
| "reply_task (TaskCall (UpdateCall x (Inr t))) = {t}"
| "reply_task (TaskCall (StatusUpdateCall x (Inr t))) = {t}"
| "reply_task _ = {}"

text \<open>
  Every status write of the log is a step from a task of \<open>T\<close> or from a task the server returned
  earlier in the log.
\<close>

fun write_ok :: "CloudTask set \<Rightarrow> ct_event \<Rightarrow> bool" where
  "write_ok T (TaskCall (StatusUpdateCall x rep)) = (\<exists>t\<in>T. status_step t x)"
| "write_ok T _ = True"

fun writes_ok :: "CloudTask set \<Rightarrow> ct_event list \<Rightarrow> bool" where
  "writes_ok T [] = True"
| "writes_ok T (e # es) = (write_ok T e \<and> writes_ok (T \<union> reply_task e) es)"

lemma write_ok_mono: "write_ok T e \<Longrightarrow> T \<subseteq> T' \<Longrightarrow> write_ok T' e"
  by (cases "(T, e)" rule: write_ok.cases) auto

lemma writes_ok_mono: "writes_ok T es \<Longrightarrow> T \<subseteq> T' \<Longrightarrow> writes_ok T' es"
proof (induction es arbitrary: T T')
  case (Cons e es)
  then show ?case
    using write_ok_mono [of T e T'] Cons.IH [of "T \<union> reply_task e" "T' \<union> reply_task e"] by auto
qed simp

lemma mirrored_step: "mirrored t p t' True \<Longrightarrow> status_step t t'"
  unfolding mirrored_def by (blast intro: status_step.mirror)

lemma mirrored_cases: "mirrored t p t' u \<Longrightarrow> if u then status_step t t' else t' = t"
  by (cases u) (auto intro: mirrored_step simp: mirrored_def [of _ _ _ False])

lemma wlog_updateStatusFromPod_step:
  "wlog (updateStatusFromPod r t p) (\<lambda>es (t', u). es = [] \<and> (if u then status_step t t' else t' = t))"
  by (rule wlog_mono [OF wlog_updateStatusFromPod]) (auto dest: mirrored_cases)

lemma wlog_handle_failed:
  assumes "st_Phase (ct_Status t) = PhaseFailed" and "t \<in> T"
  shows "wlog (handle_failed r t) (\<lambda>es _. writes_ok T es)"
  unfolding handle_failed_def record_Event_def client_calls
  using assms by (intro wlog_bind wlog_intros) (auto intro: status_step.retry)

lemma wlog_sync_pod:
  assumes "t \<in> T"
  shows "wlog (sync_pod r t pod) (\<lambda>es _. writes_ok T es)"
  unfolding sync_pod_def record_Event_def client_calls
  using assms
  by (intro wlog_seq [OF wlog_updateStatusFromPod_step])
     (auto intro!: wlog_intros wlog_bind wlog_const wlog_handle_failed split: if_splits)

lemma wlog_create_pod:
  assumes "t \<in> T"
  shows "wlog (create_pod r t) (\<lambda>es _. writes_ok T es)"
  unfolding create_pod_def record_Event_def client_calls
  using assms
  by (intro wlog_bind wlog_intros) (auto intro: status_step.start)

lemma wlog_ensure_finalizer:
  assumes "t \<in> T"
  shows "wlog (ensure_finalizer r t)
    (\<lambda>es u. writes_ok T es \<and> (\<forall>t'. u = Inr t' \<longrightarrow> t' \<in> T \<union> (\<Union>e\<in>set es. reply_task e)))"
  unfolding ensure_finalizer_def client_calls
  using assms by (intro wlog_intros) auto

lemma writes_ok_append:
  "writes_ok T (es @ fs) \<longleftrightarrow> writes_ok T es \<and> writes_ok (T \<union> (\<Union>e\<in>set es. reply_task e)) fs"
  by (induction es arbitrary: T) (simp_all add: Un_assoc)

lemma wlog_existing_pod:
  "wlog (existing_pod r t) (\<lambda>es p. writes_ok T es \<and> (\<Union>e\<in>set es. reply_task e) = {})"
  unfolding existing_pod_def client_calls
  by (intro wlog_bind wlog_intros) auto

lemma wlog_reconcile_live:
  assumes "t \<in> T"
  shows "wlog (reconcile_live r t) (\<lambda>es _. writes_ok T es)"
  unfolding reconcile_live_def
proof (rule wlog_seq [OF wlog_ensure_finalizer [OF assms]], intro wlog_case_sum)
  fix es u e
  assume "writes_ok T es \<and> (\<forall>t'. u = Inr t' \<longrightarrow> t' \<in> T \<union> (\<Union>e\<in>set es. reply_task e))"
  then show "wlog (State_Monad.return (no_requeue, Some e)) (\<lambda>es' _. writes_ok T (es @ es'))"
    by (intro wlog_return) simp
next
  fix es u t'
  assume "writes_ok T es \<and> (\<forall>t'. u = Inr t' \<longrightarrow> t' \<in> T \<union> (\<Union>e\<in>set es. reply_task e))"
    and "u = Inr t'"
  then show "wlog
      (State_Monad.bind (existing_pod r t')
        (\<lambda>p. case p of Inl e \<Rightarrow> State_Monad.return (no_requeue, Some e)
           | Inr pod \<Rightarrow> if has_pod pod then sync_pod r t' (the pod) else create_pod r t'))
      (\<lambda>es' _. writes_ok T (es @ es'))"
    by (intro wlog_seq [OF wlog_existing_pod [of _ _ "T \<union> (\<Union>e\<in>set es. reply_task e)"]])
       (auto simp: writes_ok_append intro!: wlog_intros wlog_sync_pod wlog_create_pod)
qed

lemma wlog_Reconcile_writes: "wlog (Reconcile r req) (\<lambda>es _. writes_ok {} es)"
  unfolding Reconcile_def reconcile_deletion_def deleteExternalResources_def client_calls
  by (intro wlog_bind wlog_intros) (auto intro!: wlog_reconcile_live)

section \<open>Deletion\<close>

text \<open>The log shows that the task's pod is gone: there was none, or it was not found, or deleted.\<close>

definition pod_gone :: "CloudTask \<Rightarrow> ct_event list \<Rightarrow> bool" where
  "pod_gone t es \<longleftrightarrow>
     st_PodName (ct_Status t) = [] \<or>
     (\<exists>e. PodCall (GetCall (task_key t (st_PodName (ct_Status t))) (Inl e)) \<in> set es \<and> IsNotFound e) \<or>
     (\<exists>p. PodCall (GetCall (task_key t (st_PodName (ct_Status t))) (Inr p)) \<in> set es \<and>
          PodCall (DeleteCall p (Inr ())) \<in> set es)"

definition is_pod_call :: "ct_event \<Rightarrow> bool" where
  "is_pod_call e \<longleftrightarrow> (case e of PodCall _ \<Rightarrow> True | _ \<Rightarrow> False)"

lemma wlog_deleteExternalResources:
  "wlog (deleteExternalResources r t)
     (\<lambda>es err. list_all is_pod_call es \<and> (err = None \<longrightarrow> pod_gone t es))"
  unfolding deleteExternalResources_def client_calls
  by (intro wlog_bind wlog_intros) (auto simp: pod_gone_def is_pod_call_def split: sum.splits if_splits)

lemma wlog_reconcile_deletion:
  "wlog (reconcile_deletion r t)
     (\<lambda>es res. \<forall>x rep. TaskCall (UpdateCall x rep) \<in> set es \<longrightarrow>
        x = r_RemoveFinalizer r t cloudTaskFinalizerKey \<and> pod_gone t es)"
  unfolding reconcile_deletion_def client_calls
proof (intro wlog_if wlog_seq [OF wlog_deleteExternalResources], goal_cases)
  case (1 es err)
  then have "TaskCall c \<notin> set es" for c
    by (auto simp: list_all_iff is_pod_call_def)
  moreover have "pod_gone t (es @ es')" if "pod_gone t es" for es'
    using that by (auto simp: pod_gone_def)
  ultimately show ?case
    using 1 by (intro wlog_intros wlog_bind) auto
next
  case 2
  then show ?case by (intro wlog_return) simp
qed

lemma wlog_reconcile_live_updates:
  "wlog (reconcile_live r t)
     (\<lambda>es res. \<forall>x rep. TaskCall (UpdateCall x rep) \<in> set es \<longrightarrow> x = r_AddFinalizer r t cloudTaskFinalizerKey)"
  unfolding reconcile_live_def ensure_finalizer_def existing_pod_def sync_pod_def handle_failed_def
    create_pod_def record_Event_def client_calls
  by (intro wlog_bind wlog_seq [OF wlog_updateStatusFromPod_step] wlog_intros) auto

text \<open>Only a task being deleted has its pod deleted.\<close>

lemma wlog_reconcile_live_deletes:
  "wlog (reconcile_live r t) (\<lambda>es res. \<forall>p rep. PodCall (DeleteCall p rep) \<notin> set es)"
  unfolding reconcile_live_def ensure_finalizer_def existing_pod_def sync_pod_def handle_failed_def
    create_pod_def record_Event_def client_calls
  by (intro wlog_bind wlog_seq [OF wlog_updateStatusFromPod_step] wlog_intros) auto

section \<open>Creation\<close>

definition pod_missing :: "CloudTask \<Rightarrow> ct_event list \<Rightarrow> bool" where
  "pod_missing t es \<longleftrightarrow>
     st_PodName (ct_Status t) = [] \<or>
     (\<exists>e. PodCall (GetCall (task_key t (st_PodName (ct_Status t))) (Inl e)) \<in> set es \<and> IsNotFound e) \<or>
     (\<exists>p. PodCall (GetCall (task_key t (st_PodName (ct_Status t))) (Inr p)) \<in> set es \<and> om_Name (pod_Meta p) = [])"

definition may_create :: "'w reconciler \<Rightarrow> CloudTask \<Rightarrow> Pod \<Rightarrow> ct_event list \<Rightarrow> bool" where
  "may_create r t p es \<longleftrightarrow>
     st_Phase (ct_Status t) \<in> {'''', PhasePending} \<and>
     r_SetControllerReference r t (constructPod r t) = Inr p \<and> pod_missing t es"

lemma wlog_create_pod_calls:
  "wlog (create_pod r t) (\<lambda>es _. \<forall>p rep. PodCall (CreateCall p rep) \<in> set es \<longrightarrow>
     st_Phase (ct_Status t) \<in> {'''', PhasePending} \<and> r_SetControllerReference r t (constructPod r t) = Inr p)"
  unfolding create_pod_def record_Event_def client_calls
  by (intro wlog_bind wlog_intros) auto

lemma wlog_sync_pod_creates: "wlog (sync_pod r t pod) (\<lambda>es _. \<forall>p rep. PodCall (CreateCall p rep) \<notin> set es)"
  unfolding sync_pod_def handle_failed_def record_Event_def client_calls
  by (intro wlog_bind wlog_seq [OF wlog_updateStatusFromPod_step] wlog_intros) auto

lemma wlog_existing_pod_missing:
  "wlog (existing_pod r t)
     (\<lambda>es p. (\<forall>q rep. PodCall (CreateCall q rep) \<notin> set es) \<and>
             (\<forall>pod. p = Inr pod \<and> \<not> has_pod pod \<longrightarrow> pod_missing t es))"
  unfolding existing_pod_def client_calls
  by (intro wlog_bind wlog_intros)
     (auto simp: pod_missing_def has_pod_def split: sum.splits if_splits option.splits)

text \<open>
  Every pod the log creates is allowed by a task of \<open>T\<close> or by a task the server returned.
\<close>

definition creates_ok :: "'w reconciler \<Rightarrow> CloudTask set \<Rightarrow> ct_event list \<Rightarrow> bool" where
  "creates_ok r T es \<longleftrightarrow>
     (\<forall>p rep. PodCall (CreateCall p rep) \<in> set es \<longrightarrow>
        (\<exists>t \<in> T \<union> \<Union> (reply_task ` set es). may_create r t p es))"

lemma may_create_mono: "may_create r t p es \<Longrightarrow> set es \<subseteq> set fs \<Longrightarrow> may_create r t p fs"
  unfolding may_create_def pod_missing_def by blast

lemma creates_ok_Nil [simp]: "creates_ok r T []"
  by (simp add: creates_ok_def)

lemma creates_ok_Cons:
  assumes "creates_ok r (T \<union> reply_task e) es" and "\<And>p rep. e \<noteq> PodCall (CreateCall p rep)"
  shows "creates_ok r T (e # es)"
  unfolding creates_ok_def
proof (intro allI impI)
  fix p rep
  assume "PodCall (CreateCall p rep) \<in> set (e # es)"
  with assms(2) have "PodCall (CreateCall p rep) \<in> set es" by auto
  with assms(1) obtain t where t: "t \<in> (T \<union> reply_task e) \<union> \<Union> (reply_task ` set es)" "may_create r t p es"
    unfolding creates_ok_def by blast
  then have "t \<in> T \<union> \<Union> (reply_task ` set (e # es))" by auto
  moreover have "may_create r t p (e # es)" using t(2) by (rule may_create_mono) auto
  ultimately show "\<exists>t \<in> T \<union> \<Union> (reply_task ` set (e # es)). may_create r t p (e # es)" by blast
qed

lemma wlog_after_lookup:
  assumes "t \<in> T"
  shows "wlog
     (State_Monad.bind (existing_pod r t)
       (\<lambda>p. case p of Inl e \<Rightarrow> State_Monad.return (no_requeue, Some e)
          | Inr pod \<Rightarrow> if has_pod pod then sync_pod r t (the pod) else create_pod r t))
     (\<lambda>es _. creates_ok r T es)"
proof (rule wlog_seq [OF wlog_existing_pod_missing], intro wlog_intros, goal_cases)
  case (1 es a e)
  then show ?case by (simp add: creates_ok_def)
next
  case (2 es a pod)
  then show ?case by (intro wlog_mono [OF wlog_sync_pod_creates]) (simp add: creates_ok_def)
next
  case (3 es a pod)
  have "pod_missing t (es @ es')" if "pod_missing t es" for es'
    using that unfolding pod_missing_def by auto
  with 3 have "may_create r t p (es @ es')"
    if "st_Phase (ct_Status t) \<in> {'''', PhasePending} \<and> r_SetControllerReference r t (constructPod r t) = Inr p"
    for p es' using that unfolding may_create_def by blast
  with 3 assms show ?case
    by (intro wlog_mono [OF wlog_create_pod_calls]) (simp add: creates_ok_def, blast)
qed

lemma wlog_reconcile_live_creates:
  assumes "t \<in> T"
  shows "wlog (reconcile_live r t) (\<lambda>es _. creates_ok r T es)"
  unfolding reconcile_live_def ensure_finalizer_def client_Update_def
proof (intro wlog_bind wlog_if wlog_logged wlog_return, goal_cases)
  case (1 u)
  show ?case
  proof (intro wlog_case_sum wlog_return, goal_cases)
    case (1 e)
    show ?case by (auto intro: creates_ok_Cons)
  next
    case (2 t')
    then have "t' \<in> T \<union> reply_task (TaskCall (UpdateCall (r_AddFinalizer r t cloudTaskFinalizerKey) u))"
      by simp
    from wlog_after_lookup [OF this] show ?case
      by (rule wlog_mono) (simp, rule creates_ok_Cons, simp_all)
  qed
next
  case 2
  then show ?case using wlog_after_lookup [OF assms] by simp
qed

lemma wlog_Reconcile_creates: "wlog (Reconcile r req) (\<lambda>es _. creates_ok r {} es)"
  unfolding Reconcile_def client_Get_def
proof (intro wlog_bind wlog_logged wlog_case_sum wlog_if, goal_cases)
  case (1 a e)
  show ?case by (intro wlog_return) (auto intro: creates_ok_Cons)
next
  case (2 a t)
  show ?case
    unfolding reconcile_deletion_def deleteExternalResources_def client_calls
    by (intro wlog_bind wlog_intros) (auto simp: creates_ok_def)
next
  case (3 a t)
  then have "t \<in> {} \<union> reply_task (TaskCall (GetCall req a))" by simp
  from wlog_reconcile_live_creates [OF this] show ?case
    by (rule wlog_mono) (simp, rule creates_ok_Cons, simp_all)
qed

lemma wlog_Reconcile_create_live:
  "wlog (Reconcile r req) (\<lambda>es _. \<forall>p rep. PodCall (CreateCall p rep) \<in> set es \<longrightarrow>
     (\<exists>t0. TaskCall (GetCall req (Inr t0)) \<in> set es \<and> \<not> being_deleted t0))"
  unfolding Reconcile_def client_Get_def
proof (intro wlog_bind wlog_logged wlog_case_sum wlog_if, goal_cases)
  case (1 a e)
  show ?case by (intro wlog_return) auto
next
  case (2 a t)
  show ?case
    unfolding reconcile_deletion_def deleteExternalResources_def client_calls
    by (intro wlog_bind wlog_intros) auto
next
  case (3 a t)
  then show ?case
    by (intro wlog_mono [OF wlog_reconcile_live_deletes] allI impI exI [of _ t]) simp
qed

end
