(* ===== verification/Mem_Cluster.thy ===== *)
theory Mem_Cluster
  imports CloudTask_Controller "HOL-Library.AList"
begin

text \<open>
  A small in-memory API server: objects in association lists, no failures of its own. It shows that
  what the properties of the reconcilers assume of a server can hold together, and their witnesses
  run the reconcilers on it. It is an instance of the client parameter, not a model of Kubernetes.
\<close>

record 'o cluster =
  cu_objs :: "(NamespacedName \<times> 'o) list"
  cu_pods :: "(NamespacedName \<times> Pod) list"
  cu_clock :: instant

definition meta_key :: "ObjectMeta \<Rightarrow> NamespacedName" where
  "meta_key m = \<lparr>nn_Namespace = om_Namespace m, nn_Name = om_Name m\<rparr>"

text \<open>The store of one kind: how to read and replace it, the metadata, the status merge.\<close>

record ('o, 'w) store =
  sto_get :: "'w \<Rightarrow> (NamespacedName \<times> 'o) list"
  sto_set :: "(NamespacedName \<times> 'o) list \<Rightarrow> 'w \<Rightarrow> 'w"
  sto_meta :: "'o \<Rightarrow> ObjectMeta"
  sto_with_status_of :: "'o \<Rightarrow> 'o \<Rightarrow> 'o"

definition not_found :: error where
  "not_found = StatusError ReasonNotFound ''not found''"

definition already_exists :: error where
  "already_exists = StatusError ReasonAlreadyExists ''already exists''"

definition store_get :: "('o, 'w) store \<Rightarrow> NamespacedName \<Rightarrow> ('w, 'o) io" where
  "store_get s k w = (case map_of (sto_get s w) k of None \<Rightarrow> (Inl not_found, w) | Some x \<Rightarrow> (Inr x, w))"

definition labels_match :: "(string \<times> string) list \<Rightarrow> ObjectMeta \<Rightarrow> bool" where
  "labels_match ls m \<longleftrightarrow> list_all (\<lambda>(k, v). om_Labels m k = Some v) ls"

definition store_list :: "('o, 'w) store \<Rightarrow> string \<Rightarrow> (string \<times> string) list \<Rightarrow> ('w, 'o list) io" where
  "store_list s ns ls w =
     (Inr (filter (\<lambda>x. om_Namespace (sto_meta s x) = ns \<and> labels_match ls (sto_meta s x))
             (map snd (sto_get s w))), w)"

definition store_put :: "('o, 'w) store \<Rightarrow> NamespacedName \<Rightarrow> 'o \<Rightarrow> 'w \<Rightarrow> 'w" where
  "store_put s k x w = sto_set s (AList.update k x (sto_get s w)) w"

definition store_create :: "('o, 'w) store \<Rightarrow> 'o \<Rightarrow> ('w, 'o) io" where
  "store_create s x w =
     (case map_of (sto_get s w) (meta_key (sto_meta s x)) of
        Some _ \<Rightarrow> (Inl already_exists, w)
      | None \<Rightarrow> (Inr x, store_put s (meta_key (sto_meta s x)) x w))"

definition store_replace :: "('o, 'w) store \<Rightarrow> ('o \<Rightarrow> 'o \<Rightarrow> 'o) \<Rightarrow> 'o \<Rightarrow> ('w, 'o) io" where
  "store_replace s merge x w =
     (case map_of (sto_get s w) (meta_key (sto_meta s x)) of
        None \<Rightarrow> (Inl not_found, w)
      | Some old \<Rightarrow> (Inr (merge old x), store_put s (meta_key (sto_meta s x)) (merge old x) w))"

definition store_delete :: "('o, 'w) store \<Rightarrow> 'o \<Rightarrow> ('w, unit) io" where
  "store_delete s x w =
     (case map_of (sto_get s w) (meta_key (sto_meta s x)) of
        None \<Rightarrow> (Inl not_found, w)
      | Some _ \<Rightarrow> (Inr (), sto_set s (AList.delete (meta_key (sto_meta s x)) (sto_get s w)) w))"

definition mem_client :: "('o, 'w) store \<Rightarrow> ('o, 'w) client" where
  "mem_client s =
     \<lparr>cl_Get = store_get s, cl_List = store_list s, cl_Create = store_create s,
      cl_Update = store_replace s (\<lambda>old x. sto_with_status_of s x old),
      cl_StatusUpdate = store_replace s (\<lambda>old x. sto_with_status_of s old x),
      cl_Delete = store_delete s\<rparr>"

definition pod_store :: "(Pod, 'o cluster) store" where
  "pod_store =
     \<lparr>sto_get = cu_pods, sto_set = (\<lambda>l w. w\<lparr>cu_pods := l\<rparr>), sto_meta = pod_Meta,
      sto_with_status_of = (\<lambda>x y. x\<lparr>pod_Status := pod_Status y\<rparr>)\<rparr>"

definition task_store :: "(CloudTask, CloudTask cluster) store" where
  "task_store =
     \<lparr>sto_get = cu_objs, sto_set = (\<lambda>l w. w\<lparr>cu_objs := l\<rparr>), sto_meta = ct_Meta,
      sto_with_status_of = (\<lambda>x y. x\<lparr>ct_Status := ct_Status y\<rparr>)\<rparr>"

definition tick :: "'o cluster \<Rightarrow> instant \<times> 'o cluster" where
  "tick w = (cu_clock w, w\<lparr>cu_clock := cu_clock w + 1\<rparr>)"

definition mem_reconciler :: "CloudTask cluster reconciler" where
  "mem_reconciler =
     \<lparr>r_tasks = mem_client task_store, r_pods = mem_client pod_store, r_now = tick,
      r_ContainsFinalizer = (\<lambda>t k. k \<in> set (om_Finalizers (ct_Meta t))),
      r_AddFinalizer = (\<lambda>t k. t\<lparr>ct_Meta := (ct_Meta t)\<lparr>om_Finalizers := om_Finalizers (ct_Meta t) @ [k]\<rparr>\<rparr>),
      r_RemoveFinalizer =
        (\<lambda>t k. t\<lparr>ct_Meta := (ct_Meta t)\<lparr>om_Finalizers := filter (\<lambda>x. x \<noteq> k) (om_Finalizers (ct_Meta t))\<rparr>\<rparr>),
      r_SetControllerReference =
        (\<lambda>t p. Inr (p\<lparr>pod_Meta := (pod_Meta p)
           \<lparr>om_OwnerReferences := [\<lparr>or_APIVersion = apiGVStr, or_Kind = ''CloudTask'',
              or_Name = om_Name (ct_Meta t), or_Controller = Some True\<rparr>]\<rparr>\<rparr>)),
      r_parseQuantity = (\<lambda>s. Inr \<lparr>q_Value = 1, q_Format = s\<rparr>)\<rparr>"

text \<open>A task named \<open>job\<close> in namespace \<open>ns\<close> with the given status, finalizer in place.\<close>

definition sample_task :: "CloudTaskPhase \<Rightarrow> string \<Rightarrow> CloudTask" where
  "sample_task phase podName =
     \<lparr>ct_Meta = zero_ObjectMeta\<lparr>om_Name := ''job'', om_Namespace := ''ns'',
        om_Finalizers := [cloudTaskFinalizerKey]\<rparr>,
      ct_Spec = zero_CloudTaskSpec\<lparr>sp_Image := ''img'', sp_TenantID := ''acme'', sp_Retries := 3\<rparr>,
      ct_Status = zero_CloudTaskStatus\<lparr>st_Phase := phase, st_PodName := podName\<rparr>\<rparr>"

definition sample_deleted :: CloudTask where
  "sample_deleted =
     (let t = sample_task PhaseRunning ''job-pod'' in
      t\<lparr>ct_Meta := (ct_Meta t)\<lparr>om_DeletionTimestamp := Some 5\<rparr>\<rparr>)"

definition sample_pod :: "string \<Rightarrow> Pod" where
  "sample_pod phase =
     zero_Pod\<lparr>pod_Meta := zero_ObjectMeta\<lparr>om_Name := ''job-pod'', om_Namespace := ''ns''\<rparr>,
              pod_Status := zero_PodStatus\<lparr>pst_Phase := phase\<rparr>\<rparr>"

definition sample_key :: NamespacedName where
  "sample_key = \<lparr>nn_Namespace = ''ns'', nn_Name = ''job''\<rparr>"

definition sample_cluster :: "CloudTask \<Rightarrow> Pod option \<Rightarrow> CloudTask cluster" where
  "sample_cluster t p =
     \<lparr>cu_objs = [(meta_key (ct_Meta t), t)],
      cu_pods = (case p of None \<Rightarrow> [] | Some p \<Rightarrow> [(meta_key (pod_Meta p), p)]),
      cu_clock = 1000\<rparr>"

lemmas mem_defs =
  mem_client_def pod_store_def task_store_def tick_def mem_reconciler_def store_get_def store_list_def
  store_create_def store_replace_def store_delete_def store_put_def meta_key_def not_found_def
  already_exists_def

lemma mem_reconciler_simps [simp]:
  "r_tasks mem_reconciler = mem_client task_store"
  "r_pods mem_reconciler = mem_client pod_store"
  "r_now mem_reconciler = tick"
  "r_ContainsFinalizer mem_reconciler t k \<longleftrightarrow> k \<in> set (om_Finalizers (ct_Meta t))"
  "r_ContainsFinalizer mem_reconciler (r_AddFinalizer mem_reconciler t k) k"
  "\<not> r_ContainsFinalizer mem_reconciler (r_RemoveFinalizer mem_reconciler t k) k"
  by (simp_all add: mem_reconciler_def)

lemmas run_defs =
  Reconcile_def reconcile_live_def reconcile_deletion_def deleteExternalResources_def
  ensure_finalizer_def existing_pod_def sync_pod_def handle_failed_def create_pod_def
  updateStatusFromPod_def record_Event_def client_calls run_simps
  has_pod_def being_deleted_def IsZero_def task_key_def

lemmas sample_defs =
  sample_task_def sample_deleted_def sample_pod_def sample_key_def sample_cluster_def zero_ObjectMeta_def
  zero_CloudTaskSpec_def zero_CloudTaskStatus_def zero_Pod_def zero_PodSpec_def zero_PodStatus_def

end
