(* ===== verification/CloudTask_Properties.thy ===== *)
theory CloudTask_Properties
  imports Mem_Cluster
begin

text \<open>
  The properties of the CloudTask reconciler: what one run may write, create and delete, and what a
  sequence of runs reaches. Those about one run hold for every server; those about sequences name
  what they assume of it.
\<close>

section \<open>Properties of one run\<close>





text \<open>C5. A run creates a pod only when the task it fetched is not being deleted, and only for a
  task the server returned in this run whose phase is empty or \<open>Pending\<close> and whose pod is missing;
  the pod it creates is \<open>constructPod\<close> of that task with the task as its controller.\<close>

theorem pod_created_only_when_missing:
  assumes "run_state (Reconcile r req) (w, []) = (res, (w', tr))"
    and "PodCall (CreateCall p rep) \<in> set tr"
  shows "(\<exists>t0. TaskCall (GetCall req (Inr t0)) \<in> set tr \<and> \<not> being_deleted t0) \<and>
         (\<exists>t. t \<in> \<Union> (reply_task ` set tr) \<and> may_create r t p tr)"
proof
  show "\<exists>t0. TaskCall (GetCall req (Inr t0)) \<in> set tr \<and> \<not> being_deleted t0"
    using wlogD [OF wlog_Reconcile_create_live assms(1)] assms(2) by blast
  show "\<exists>t. t \<in> \<Union> (reply_task ` set tr) \<and> may_create r t p tr"
    using wlogD [OF wlog_Reconcile_creates assms(1)] assms(2) unfolding creates_ok_def by blast
qed

theorem pod_created_only_when_missing_witness:
  "\<exists>res w' tr p rep.
     run_state (Reconcile mem_reconciler sample_key)
       (sample_cluster (sample_task PhasePending []) None, []) = (res, (w', tr)) \<and>
     PodCall (CreateCall p rep) \<in> set tr \<and> (\<exists>t. may_create mem_reconciler t p tr)"
proof -
  have "\<exists>res w' tr p rep. run_state (Reconcile mem_reconciler sample_key)
      (sample_cluster (sample_task PhasePending []) None, []) = (res, (w', tr)) \<and>
      PodCall (CreateCall p rep) \<in> set tr"
    by (simp add: run_defs mem_defs sample_defs phase_defs constructPod_def Let_def)
  then obtain res w' tr p rep where run: "run_state (Reconcile mem_reconciler sample_key)
      (sample_cluster (sample_task PhasePending []) None, []) = (res, (w', tr))"
    and p: "PodCall (CreateCall p rep) \<in> set tr" by blast
  show ?thesis using pod_created_only_when_missing [OF run p] run p by blast
qed

section \<open>Sequences of status writes\<close>

text \<open>A run of the specification keeps the spec, never lowers the retry count and stays in budget.\<close>

lemma status_step_budget:
  assumes "status_step t t'" and "sint (st_RetryCount (ct_Status t)) \<le> sint (sp_Retries (ct_Spec t))"
  shows "ct_Meta t' = ct_Meta t \<and> ct_Spec t' = ct_Spec t \<and>
         sint (st_RetryCount (ct_Status t)) \<le> sint (st_RetryCount (ct_Status t')) \<and>
         sint (st_RetryCount (ct_Status t')) \<le> sint (sp_Retries (ct_Spec t))"
  using assms
proof cases
  case retry
  then have "sint (st_RetryCount (ct_Status t) + 1) = sint (st_RetryCount (ct_Status t)) + 1"
    using sint_Suc_32 by blast
  with retry show ?thesis by (simp add: retry_status_def Let_def)
qed (simp_all add: running_status_def)



section \<open>The pod of a task\<close>

definition unit_seconds :: "char \<Rightarrow> nat" where
  "unit_seconds u = (if u = CHR ''s'' then 1 else if u = CHR ''m'' then 60 else 3600)"

lemma smh_units:
  assumes "u \<in> set ''smh''"
  shows "\<not> unit_end u" "unitMap [u] = Some (unit_seconds u * 1000000000)" "0 < unit_seconds u"
  using assms by (auto simp: unit_end_def is_digit_def unitMap_def unit_seconds_def)

text \<open>C33. The deadline of the pod of a validated task: a timeout that \<open>validateTimeout\<close> accepts,
  \<open>n\<close> units, becomes a deadline of exactly that many seconds, as long as the nanoseconds fit in an
  \<open>int64\<close>. A larger one (the validator accepts up to 2147483647 hours, the limit is 2562047) falls
  back to 300 seconds.\<close>

theorem deadline_of_validated_timeout:
  assumes "validateTimeout (ds @ [u]) = None"
  shows "ps_ActiveDeadlineSeconds (pod_Spec (constructPod r (t\<lparr>ct_Spec := (ct_Spec t)\<lparr>sp_Timeout := ds @ [u]\<rparr>\<rparr>))) =
    Some (if digits_val ds * unit_seconds u * 1000000000 < 2 ^ 63
          then word_of_nat (digits_val ds * unit_seconds u) else 300)"
proof -
  have v: "ds \<noteq> []" "list_all is_digit ds" "u \<in> set ''smh''" "digits_val ds < 2 ^ 31"
    using assms by (simp_all add: validateTimeout_iff)
  have "ParseDuration (ds @ [u]) =
      (if digits_val ds * (unit_seconds u * 1000000000) < 2 ^ 63
       then Some (word_of_nat (digits_val ds * (unit_seconds u * 1000000000))) else None)"
    using v smh_units [OF v(3)] by (intro ParseDuration_unit) auto
  moreover have "trunc (Duration_Seconds (word_of_nat (digits_val ds * (unit_seconds u * 1000000000)))) =
      int (digits_val ds * unit_seconds u)"
    if "digits_val ds * (unit_seconds u * 1000000000) < 2 ^ 63"
  proof -
    have "Duration_Seconds (word_of_nat ((digits_val ds * unit_seconds u) * 1000000000)) =
        of_nat (digits_val ds * unit_seconds u)"
      using that by (intro Duration_Seconds_whole) (simp only: mult.assoc)
    then show ?thesis
      by (simp only: mult.assoc) (metis of_int_of_nat_eq trunc_of_int)
  qed
  ultimately show ?thesis
    by (simp add: constructPod_def Let_def timeout_seconds_def mult.assoc)
qed

theorem deadline_of_validated_timeout_witness:
  "ps_ActiveDeadlineSeconds (pod_Spec (constructPod mem_reconciler
     ((sample_task [] [])\<lparr>ct_Spec := (ct_Spec (sample_task [] []))\<lparr>sp_Timeout := ''30'' @ [CHR ''m'']\<rparr>\<rparr>))) = Some 1800"
proof -
  have "validateTimeout (''30'' @ [CHR ''m'']) = None" by code_simp
  from deadline_of_validated_timeout [OF this, of mem_reconciler "sample_task [] []"] show ?thesis
    by (simp add: digits_val_def digit_val_def unit_seconds_def)
qed

section \<open>Retries on a quiet server\<close>

text \<open>
  What the next property assumes of a server, through views \<open>T\<close> and \<open>P\<close> of its tasks and pods:
  a read returns the stored object, a status update stores the status and nothing else, a create
  of an existing name is refused, and the clock touches nothing. \<open>ContainsFinalizer\<close> does not read
  the status, and \<open>SetControllerReference\<close> keeps the name and namespace of the pod.
\<close>

definition quiet_server ::
  "'w reconciler \<Rightarrow> ('w \<Rightarrow> NamespacedName \<rightharpoonup> CloudTask) \<Rightarrow> ('w \<Rightarrow> NamespacedName \<rightharpoonup> Pod) \<Rightarrow> bool" where
  "quiet_server r T P \<longleftrightarrow>
     (\<forall>w k t. T w k = Some t \<longrightarrow>
        (\<exists>w1. cl_Get (r_tasks r) k w = (Inr t, w1) \<and> T w1 = T w \<and> P w1 = P w)) \<and>
     (\<forall>w k p. P w k = Some p \<longrightarrow>
        (\<exists>w1. cl_Get (r_pods r) k w = (Inr p, w1) \<and> T w1 = T w \<and> P w1 = P w)) \<and>
     (\<forall>w t s. T w (task_key t (om_Name (ct_Meta t))) = Some s \<longrightarrow>
        (\<exists>w1. cl_StatusUpdate (r_tasks r) t w = (Inr (s\<lparr>ct_Status := ct_Status t\<rparr>), w1) \<and> P w1 = P w \<and>
              T w1 = (T w)(task_key t (om_Name (ct_Meta t)) \<mapsto> s\<lparr>ct_Status := ct_Status t\<rparr>))) \<and>
     (\<forall>w p q. P w \<lparr>nn_Namespace = om_Namespace (pod_Meta p), nn_Name = om_Name (pod_Meta p)\<rparr> = Some q \<longrightarrow>
        (\<exists>e w1. cl_Create (r_pods r) p w = (Inl e, w1) \<and> IsAlreadyExists e \<and> T w1 = T w \<and> P w1 = P w)) \<and>
     (\<forall>w i w1. r_now r w = (i, w1) \<longrightarrow> T w1 = T w \<and> P w1 = P w) \<and>
     (\<forall>t s k. r_ContainsFinalizer r (t\<lparr>ct_Status := s\<rparr>) k \<longleftrightarrow> r_ContainsFinalizer r t k) \<and>
     (\<forall>t p p'. r_SetControllerReference r t p = Inr p' \<longrightarrow>
        om_Name (pod_Meta p') = om_Name (pod_Meta p) \<and> om_Namespace (pod_Meta p') = om_Namespace (pod_Meta p))"

lemmas quiet_serverD =
  quiet_server_def [THEN iffD1, THEN conjunct1, rule_format]
  quiet_server_def [THEN iffD1, THEN conjunct2, THEN conjunct1, rule_format]
  quiet_server_def [THEN iffD1, THEN conjunct2, THEN conjunct2, THEN conjunct1, rule_format]
  quiet_server_def [THEN iffD1, THEN conjunct2, THEN conjunct2, THEN conjunct2, THEN conjunct1, rule_format]
  quiet_server_def [THEN iffD1, THEN conjunct2, THEN conjunct2, THEN conjunct2, THEN conjunct2,
    THEN conjunct1, rule_format]
  quiet_server_def [THEN iffD1, THEN conjunct2, THEN conjunct2, THEN conjunct2, THEN conjunct2,
    THEN conjunct2, THEN conjunct1, rule_format]
  quiet_server_def [THEN iffD1, THEN conjunct2, THEN conjunct2, THEN conjunct2, THEN conjunct2,
    THEN conjunct2, THEN conjunct2, rule_format]

text \<open>\<open>n\<close> runs of \<open>Reconcile\<close> one after the other, with the results.\<close>

fun reconcile_runs :: "'w reconciler \<Rightarrow> NamespacedName \<Rightarrow> nat \<Rightarrow> 'w \<Rightarrow> reconciled list \<times> 'w" where
  "reconcile_runs r req 0 w = ([], w)"
| "reconcile_runs r req (Suc n) w =
     (let (res, (w1, tr)) = run_state (Reconcile r req) (w, []);
          (ress, w2) = reconcile_runs r req n w1
      in (res # ress, w2))"

definition waiting_with_pod ::
  "'w reconciler \<Rightarrow> ('w \<Rightarrow> NamespacedName \<rightharpoonup> CloudTask) \<Rightarrow> ('w \<Rightarrow> NamespacedName \<rightharpoonup> Pod) \<Rightarrow>
   NamespacedName \<Rightarrow> CloudTask \<Rightarrow> 'w \<Rightarrow> bool" where
  "waiting_with_pod r T P req t w \<longleftrightarrow>
     T w req = Some t \<and> \<not> being_deleted t \<and> r_ContainsFinalizer r t cloudTaskFinalizerKey \<and>
     st_Phase (ct_Status t) = PhasePending \<and> st_PodName (ct_Status t) = [] \<and>
     P w (task_key t (om_Name (ct_Meta t) @ ''-pod'')) \<noteq> None"

lemma constructPod_name:
  "om_Name (pod_Meta (constructPod r t)) = om_Name (ct_Meta t) @ ''-pod''"
  "om_Namespace (pod_Meta (constructPod r t)) = om_Namespace (ct_Meta t)"
  by (simp_all add: constructPod_def Let_def)

lemma waiting_run:
  assumes q: "quiet_server r T P" and s: "waiting_with_pod r T P req t w"
    and run: "run_state (Reconcile r req) (w, []) = (res, (w', tr))"
  shows "snd res \<noteq> None \<and> T w' = T w \<and> P w' = P w"
proof -
  from s have t: "T w req = Some t" "\<not> being_deleted t" "r_ContainsFinalizer r t cloudTaskFinalizerKey"
    "st_Phase (ct_Status t) = PhasePending" "st_PodName (ct_Status t) = []"
    and p: "P w (task_key t (om_Name (ct_Meta t) @ ''-pod'')) \<noteq> None"
    by (simp_all add: waiting_with_pod_def)
  from quiet_serverD(1) [OF q t(1)] obtain w1 where
    get: "cl_Get (r_tasks r) req w = (Inr t, w1)" "T w1 = T w" "P w1 = P w" by blast
  show ?thesis
  proof (cases "r_SetControllerReference r t (constructPod r t)")
    case (Inl e)
    with run get t show ?thesis
      by (auto simp: Reconcile_def reconcile_live_def ensure_finalizer_def existing_pod_def
          create_pod_def client_calls run_simps has_pod_def zero_Pod_def zero_ObjectMeta_def)
  next
    case (Inr pod)
    then have "om_Name (pod_Meta pod) = om_Name (ct_Meta t) @ ''-pod''"
      "om_Namespace (pod_Meta pod) = om_Namespace (ct_Meta t)"
      using quiet_serverD(7) [OF q] constructPod_name [of r t] by metis+
    with p get(3) have "P w1 \<lparr>nn_Namespace = om_Namespace (pod_Meta pod), nn_Name = om_Name (pod_Meta pod)\<rparr> \<noteq> None"
      by (simp add: task_key_def)
    then obtain e w2 where "cl_Create (r_pods r) pod w1 = (Inl e, w2)" "T w2 = T w1" "P w2 = P w1"
      using quiet_serverD(4) [OF q] by blast
    with run get t Inr show ?thesis
      by (auto simp: Reconcile_def reconcile_live_def ensure_finalizer_def existing_pod_def
          create_pod_def record_Event_def client_calls run_simps has_pod_def zero_Pod_def zero_ObjectMeta_def)
  qed
qed

lemma waiting_forever:
  assumes q: "quiet_server r T P" and s: "waiting_with_pod r T P req t w"
  shows "\<forall>res \<in> set (fst (reconcile_runs r req n w)). snd res \<noteq> None"
    and "T (snd (reconcile_runs r req n w)) = T w \<and> P (snd (reconcile_runs r req n w)) = P w"
proof -
  have "(\<forall>res \<in> set (fst (reconcile_runs r req n w)). snd res \<noteq> None) \<and>
      T (snd (reconcile_runs r req n w)) = T w \<and> P (snd (reconcile_runs r req n w)) = P w"
    using s
  proof (induction n arbitrary: w)
    case (Suc n)
    obtain res w1 tr where run: "run_state (Reconcile r req) (w, []) = (res, (w1, tr))"
      by (metis prod_cases3)
    from waiting_run [OF q Suc.prems run] have step: "snd res \<noteq> None" "T w1 = T w" "P w1 = P w" by simp_all
    with Suc.prems have "waiting_with_pod r T P req t w1" by (simp add: waiting_with_pod_def)
    from Suc.IH [OF this] step show ?case by (cases "reconcile_runs r req n w1") (simp add: run)
  qed simp
  then show "\<forall>res \<in> set (fst (reconcile_runs r req n w)). snd res \<noteq> None"
    and "T (snd (reconcile_runs r req n w)) = T w \<and> P (snd (reconcile_runs r req n w)) = P w"
    by blast+
qed

lemma quiet_updateStatusFromPod:
  assumes "quiet_server r T P"
  shows "\<exists>t' u w'. run_state (updateStatusFromPod r t p) (w, tr) = ((t', u), (w', tr)) \<and>
           mirrored t p t' u \<and> T w' = T w \<and> P w' = P w"
proof -
  from wlog_updateStatusFromPod [of r t p] obtain t' u w' where
    run: "run_state (updateStatusFromPod r t p) (w, tr) = ((t', u), (w', tr))" and m: "mirrored t p t' u"
    unfolding wlog_def by fastforce
  note clock = quiet_serverD(5) [OF assms]
  have "T w' = T w \<and> P w' = P w"
    using run by (auto simp: updateStatusFromPod_def Let_def run_simps split: if_splits prod.splits dest!: clock)
  with run m show ?thesis by blast
qed

lemma quiet_StatusUpdate:
  assumes "quiet_server r T P" and "T w req = Some s" and "req = task_key x (om_Name (ct_Meta x))"
  shows "\<exists>w1. run_state (client_StatusUpdate (r_tasks r) TaskCall x) (w, tr) =
           (Inr (s\<lparr>ct_Status := ct_Status x\<rparr>), (w1, tr @ [TaskCall (StatusUpdateCall x (Inr (s\<lparr>ct_Status := ct_Status x\<rparr>)))])) \<and>
         P w1 = P w \<and> T w1 = (T w)(req \<mapsto> s\<lparr>ct_Status := ct_Status x\<rparr>)"
proof -
  from assms obtain w1 where "cl_StatusUpdate (r_tasks r) x w = (Inr (s\<lparr>ct_Status := ct_Status x\<rparr>), w1)"
    "P w1 = P w" "T w1 = (T w)(req \<mapsto> s\<lparr>ct_Status := ct_Status x\<rparr>)"
    using quiet_serverD(3) [OF assms(1), of w x s] by blast
  then show ?thesis by (simp add: client_StatusUpdate_def run_logged)
qed

definition failed_with_retries ::
  "'w reconciler \<Rightarrow> ('w \<Rightarrow> NamespacedName \<rightharpoonup> CloudTask) \<Rightarrow> ('w \<Rightarrow> NamespacedName \<rightharpoonup> Pod) \<Rightarrow>
   NamespacedName \<Rightarrow> CloudTask \<Rightarrow> Pod \<Rightarrow> 'w \<Rightarrow> bool" where
  "failed_with_retries r T P req t p w \<longleftrightarrow>
     req = task_key t (om_Name (ct_Meta t)) \<and>
     T w req = Some t \<and> \<not> being_deleted t \<and> r_ContainsFinalizer r t cloudTaskFinalizerKey \<and>
     st_PodName (ct_Status t) = om_Name (ct_Meta t) @ ''-pod'' \<and>
     P w (task_key t (om_Name (ct_Meta t) @ ''-pod'')) = Some p \<and>
     om_Name (pod_Meta p) = om_Name (ct_Meta t) @ ''-pod'' \<and> pst_Phase (pod_Status p) = PodFailed \<and>
     sint (st_RetryCount (ct_Status t)) < sint (sp_Retries (ct_Spec t))"

lemma sync_failed_pod:
  assumes q: "quiet_server r T P" and f: "failed_with_retries r T P req t p w"
  shows "\<exists>t' w' tr'. run_state (sync_pod r t p) (w, tr) = ((requeue_after 5, None), (w', tr')) \<and>
     waiting_with_pod r T P req t' w' \<and> ct_Meta t' = ct_Meta t \<and>
     st_RetryCount (ct_Status t') = st_RetryCount (ct_Status t) + 1 \<and> P w' = P w"
proof -
  from f have req: "req = task_key t (om_Name (ct_Meta t))" and T: "T w req = Some t"
    and c: "\<not> being_deleted t" "r_ContainsFinalizer r t cloudTaskFinalizerKey"
    and P: "P w (task_key t (om_Name (ct_Meta t) @ ''-pod'')) = Some p"
    and ph: "pst_Phase (pod_Status p) = PodFailed"
    and rc: "sint (st_RetryCount (ct_Status t)) < sint (sp_Retries (ct_Spec t))"
    unfolding failed_with_retries_def by blast+
  from quiet_updateStatusFromPod [OF q, of t p w tr] obtain t1 u w1 where
    run1: "run_state (updateStatusFromPod r t p) (w, tr) = ((t1, u), (w1, tr))"
    and m: "mirrored t p t1 u" and v1: "T w1 = T w" "P w1 = P w" by blast
  from m ph have t1: "st_Phase (ct_Status t1) = PhaseFailed" "ct_Meta t1 = ct_Meta t" "ct_Spec t1 = ct_Spec t"
    "st_RetryCount (ct_Status t1) = st_RetryCount (ct_Status t)"
    by (simp_all add: mirrored_def next_phase_def phase_defs pod_phase_defs)
  have t1_eq: "t1 = t\<lparr>ct_Status := ct_Status t1\<rparr>" using t1(2,3) by simp
  have key1: "req = task_key t1 (om_Name (ct_Meta t1))" using req t1(2) by (simp add: task_key_def)
  obtain w2 tr2 where run2: "run_state (if u then client_StatusUpdate (r_tasks r) TaskCall t1
      else State_Monad.return (Inr t1)) (w1, tr) = (Inr t1, (w2, tr2))"
    and v2: "T w2 req = Some t1" "P w2 = P w"
  proof (cases u)
    case True
    from quiet_StatusUpdate [OF q _ key1, of w1 t tr] T v1 t1_eq that True show ?thesis by auto
  next
    case False
    with m have "t1 = t" by (simp add: mirrored_def)
    with that False T v1 show ?thesis by (simp add: run_return)
  qed
  define t2 where "t2 = retry_status t1"
  have t2: "ct_Meta t2 = ct_Meta t1" "t2 = t1\<lparr>ct_Status := ct_Status t2\<rparr>"
    "st_Phase (ct_Status t2) = PhasePending" "st_PodName (ct_Status t2) = []"
    "st_RetryCount (ct_Status t2) = st_RetryCount (ct_Status t1) + 1"
    by (simp_all add: t2_def retry_status_def Let_def)
  let ?ev = "Emit t1 ''Normal'' ''Retrying''
    (attempt_text ''Retrying task'' (st_RetryCount (ct_Status t1) + 1) (sp_Retries (ct_Spec t1)))"
  have key2: "req = task_key t2 (om_Name (ct_Meta t2))" using key1 t2(1) by (simp add: task_key_def)
  from quiet_StatusUpdate [OF q v2(1) key2, of "tr2 @ [?ev]"] obtain w3 tr3 where
    run3: "run_state (client_StatusUpdate (r_tasks r) TaskCall t2) (w2, tr2 @ [?ev]) = (Inr t2, (w3, tr3))"
    and v3: "P w3 = P w2" "T w3 = (T w2)(req \<mapsto> t2)" using t2(2) by metis
  have "run_state (sync_pod r t p) (w, tr) = ((requeue_after 5, None), (w3, tr3))"
    using run1 run2 run3 t1 rc
    by (simp add: sync_pod_def handle_failed_def record_Event_def run_simps phase_defs flip: t2_def)
  moreover have "r_ContainsFinalizer r t2 cloudTaskFinalizerKey \<and> \<not> being_deleted t2"
  proof -
    have "t2 = t\<lparr>ct_Status := ct_Status t2\<rparr>" using t1_eq t2(2) by (metis CloudTask.surjective CloudTask.update_convs(3))
    then show ?thesis using quiet_serverD(6) [OF q] c t1(2) t2(1) by (metis being_deleted_def)
  qed
  ultimately show ?thesis
    using v2(2) v3 t1(2,4) t2(1,3-5) P
    by (intro exI [of _ t2] exI [of _ w3] exI [of _ tr3]) (simp add: waiting_with_pod_def task_key_def)
qed

text \<open>C26. A retry never restarts the task: on a server that behaves as documented, a failed task
  with retries left is set back to \<open>Pending\<close> by the first run, its retry count goes up by one, and
  every later run fails, because the failed pod is never deleted and the new pod has the same name.
  The task, its status and the pods stay as they are for any number of further runs.\<close>

theorem retry_never_restarts:
  assumes q: "quiet_server r T P" and f: "failed_with_retries r T P req t p w"
  shows "\<exists>w1 tr t'.
    run_state (Reconcile r req) (w, []) = ((requeue_after 5, None), (w1, tr)) \<and>
    T w1 req = Some t' \<and> st_Phase (ct_Status t') = PhasePending \<and>
    st_RetryCount (ct_Status t') = st_RetryCount (ct_Status t) + 1 \<and>
    (\<forall>n. (\<forall>res \<in> set (fst (reconcile_runs r req n w1)). snd res \<noteq> None) \<and>
         T (snd (reconcile_runs r req n w1)) req = Some t' \<and>
         P (snd (reconcile_runs r req n w1)) = P w)"
proof -
  from f have t: "T w req = Some t" "\<not> being_deleted t" "r_ContainsFinalizer r t cloudTaskFinalizerKey"
    "st_PodName (ct_Status t) = om_Name (ct_Meta t) @ ''-pod''" "om_Name (pod_Meta p) = om_Name (ct_Meta t) @ ''-pod''"
    and p: "P w (task_key t (om_Name (ct_Meta t) @ ''-pod'')) = Some p"
    unfolding failed_with_retries_def by blast+
  from quiet_serverD(1) [OF q t(1)] obtain w1 where
    get: "cl_Get (r_tasks r) req w = (Inr t, w1)" "T w1 = T w" "P w1 = P w" by blast
  from quiet_serverD(2) [OF q, of w1] p get(3) obtain w2 where
    getp: "cl_Get (r_pods r) (task_key t (om_Name (ct_Meta t) @ ''-pod'')) w1 = (Inr p, w2)"
      "T w2 = T w" "P w2 = P w" using get(2) by metis
  have f2: "failed_with_retries r T P req t p w2"
    using f unfolding failed_with_retries_def getp(2) getp(3) .
  let ?log = "[TaskCall (GetCall req (Inr t)),
    PodCall (GetCall (task_key t (om_Name (ct_Meta t) @ ''-pod'')) (Inr p))]"
  from sync_failed_pod [OF q f2, of ?log] obtain t' w' tr' where
    sync: "run_state (sync_pod r t p) (w2, ?log) = ((requeue_after 5, None), (w', tr'))"
    and wait: "waiting_with_pod r T P req t' w'" and rc: "st_RetryCount (ct_Status t') = st_RetryCount (ct_Status t) + 1"
    and P': "P w' = P w2" by blast
  have "run_state (Reconcile r req) (w, []) = ((requeue_after 5, None), (w', tr'))"
    using get getp sync t
    by (simp add: Reconcile_def reconcile_live_def ensure_finalizer_def existing_pod_def client_calls run_simps has_pod_def)
  moreover have "T w' req = Some t' \<and> st_Phase (ct_Status t') = PhasePending"
    using wait by (simp add: waiting_with_pod_def)
  moreover have "(\<forall>res \<in> set (fst (reconcile_runs r req n w')). snd res \<noteq> None) \<and>
      T (snd (reconcile_runs r req n w')) req = Some t' \<and> P (snd (reconcile_runs r req n w')) = P w" for n
    using waiting_forever [OF q wait, of n] calculation P' getp(3) by metis
  ultimately show ?thesis using rc by blast
qed

lemma mem_quiet: "quiet_server mem_reconciler (\<lambda>w. map_of (cu_objs w)) (\<lambda>w. map_of (cu_pods w))"
  unfolding quiet_server_def
  by (intro conjI allI impI)
     (auto simp: mem_defs task_key_def update_conv' IsAlreadyExists_def)

theorem retry_never_restarts_witness:
  "let w = sample_cluster (sample_task PhaseRunning ''job-pod'') (Some (sample_pod PodFailed)) in
   \<exists>w1 tr. run_state (Reconcile mem_reconciler sample_key) (w, []) = ((requeue_after 5, None), (w1, tr)) \<and>
     (\<forall>res \<in> set (fst (reconcile_runs mem_reconciler sample_key 7 w1)). snd res \<noteq> None)"
proof -
  let ?w = "sample_cluster (sample_task PhaseRunning ''job-pod'') (Some (sample_pod PodFailed))"
  have "failed_with_retries mem_reconciler (\<lambda>w. map_of (cu_objs w)) (\<lambda>w. map_of (cu_pods w)) sample_key
      (sample_task PhaseRunning ''job-pod'') (sample_pod PodFailed) ?w"
    unfolding failed_with_retries_def by (simp add: sample_defs meta_key_def task_key_def being_deleted_def IsZero_def)
  from retry_never_restarts [OF mem_quiet this] show ?thesis by (auto simp: Let_def)
qed

section \<open>A lost pod\<close>

text \<open>A task whose pod has vanished while it was \<open>Running\<close> is never restarted: the run reads
  the task and the pod, writes nothing and asks to be called again in 30 seconds. (The comment in
  the source announces a check whether to retry; the code has none.)\<close>

theorem lost_pod_not_restarted:
  assumes "cl_Get (r_tasks r) req w = (Inr t, w1)" and "\<not> being_deleted t"
    and "r_ContainsFinalizer r t cloudTaskFinalizerKey"
    and "st_Phase (ct_Status t) \<notin> {[], PhasePending}" and "st_PodName (ct_Status t) \<noteq> []"
    and "cl_Get (r_pods r) (task_key t (st_PodName (ct_Status t))) w1 = (Inl e, w2)" and "IsNotFound e"
  shows "run_state (Reconcile r req) (w, []) =
    ((requeue_after 30, None), (w2, [TaskCall (GetCall req (Inr t)),
       PodCall (GetCall (task_key t (st_PodName (ct_Status t))) (Inl e))]))"
  using assms
  by (simp add: Reconcile_def reconcile_live_def ensure_finalizer_def existing_pod_def create_pod_def
      client_calls run_simps has_pod_def)

theorem lost_pod_not_restarted_witness:
  "\<exists>e w2. run_state (Reconcile mem_reconciler sample_key)
      (sample_cluster (sample_task PhaseRunning ''job-pod'') None, []) =
    ((requeue_after 30, None), (w2, [TaskCall (GetCall sample_key (Inr (sample_task PhaseRunning ''job-pod''))),
       PodCall (GetCall (task_key (sample_task PhaseRunning ''job-pod'') ''job-pod'') (Inl e))]))"
proof -
  let ?t = "sample_task PhaseRunning ''job-pod''" and ?w = "sample_cluster (sample_task PhaseRunning ''job-pod'') None"
  have "cl_Get (r_tasks mem_reconciler) sample_key ?w = (Inr ?t, ?w)"
    and "cl_Get (r_pods mem_reconciler) (task_key ?t (st_PodName (ct_Status ?t))) ?w = (Inl not_found, ?w)"
    and "\<not> being_deleted ?t" "r_ContainsFinalizer mem_reconciler ?t cloudTaskFinalizerKey"
      "st_Phase (ct_Status ?t) \<notin> {[], PhasePending}" "st_PodName (ct_Status ?t) \<noteq> []" "IsNotFound not_found"
    by (simp_all add: mem_defs sample_defs being_deleted_def IsZero_def phase_defs IsNotFound_def)
  from lost_pod_not_restarted [OF this(1,3-6,2,7)] show ?thesis by (auto simp: sample_defs)
qed

end
