(* ===== verification/TaskJob_Controller.thy ===== *)
theory TaskJob_Controller
  imports Kube_Client
begin

text \<open>
  The TaskJob resource (\<open>api/v1/taskjob_types.go\<close>) and its reconciler
  (\<open>internal/controller/taskjob_controller.go\<close>). Constants of this package that the CloudTask
  package also has carry the prefix \<open>TJ\<close>. A run is an action with a log, as for CloudTasks; it can
  panic, because \<open>buildPod\<close> parses quantities with \<open>MustParse\<close>.

  Parameters (record \<open>job_reconciler\<close>): the clients for TaskJobs and Pods, the formatted clock,
  \<open>SetControllerReference\<close>, and the quantity parser behind \<open>resource.MustParse\<close>.
\<close>

section \<open>The TaskJob resource\<close>

type_synonym TaskPriority = string
type_synonym SchedulingAlgo = string
type_synonym TaskPhase = string

definition PriorityCritical :: TaskPriority where "PriorityCritical = ''critical''"
definition PriorityHigh :: TaskPriority where "PriorityHigh = ''high''"
definition PriorityMedium :: TaskPriority where "PriorityMedium = ''medium''"
definition PriorityLow :: TaskPriority where "PriorityLow = ''low''"

definition TJ_PhaseQueued :: TaskPhase where "TJ_PhaseQueued = ''Queued''"
definition TJ_PhaseRunning :: TaskPhase where "TJ_PhaseRunning = ''Running''"
definition TJ_PhaseCompleted :: TaskPhase where "TJ_PhaseCompleted = ''Completed''"
definition TJ_PhaseFailed :: TaskPhase where "TJ_PhaseFailed = ''Failed''"

lemmas tj_phase_defs =
  TJ_PhaseQueued_def TJ_PhaseRunning_def TJ_PhaseCompleted_def TJ_PhaseFailed_def

record EnvVar =
  ev_Name :: string
  ev_Value :: string

record TaskJobSpec =
  js_Name :: string
  js_Image :: string
  js_Command :: "string list"
  js_Args :: "string list"
  js_Priority :: TaskPriority
  js_Algorithm :: SchedulingAlgo
  js_EstimatedDurationSec :: int64
  js_CPURequest :: string
  js_MemoryRequest :: string
  js_DependsOn :: "string list"
  js_Schedule :: string
  js_Env :: "EnvVar list"

record TaskJobStatus =
  jt_Phase :: TaskPhase
  jt_PodName :: string
  jt_StartTime :: string
  jt_EndTime :: string
  jt_ExitCode :: int32
  jt_Message :: string
  jt_Conditions :: "Condition list"

record TaskJob =
  tj_Meta :: ObjectMeta
  tj_Spec :: TaskJobSpec
  tj_Status :: TaskJobStatus

section \<open>Parameters\<close>

datatype tj_event =
    JobCall "TaskJob call"
  | JobPodCall "Pod call"

record 'w job_reconciler =
  jr_jobs :: "(TaskJob, 'w) client"
  jr_pods :: "(Pod, 'w) client"
  jr_now :: "'w \<Rightarrow> string \<times> 'w"
  jr_SetControllerReference :: "TaskJob \<Rightarrow> Pod \<Rightarrow> error + Pod"
  jr_parseQuantity :: "string \<Rightarrow> error + quantity"

type_synonym ('w, 'a) tj_act = "('w, tj_event, 'a) act"

section \<open>Operations\<close>

definition job_key :: "TaskJob \<Rightarrow> string \<Rightarrow> NamespacedName" where
  "job_key tj name = \<lparr>nn_Namespace = om_Namespace (tj_Meta tj), nn_Name = name\<rparr>"

primrec check_all :: "'w job_reconciler \<Rightarrow> TaskJob \<Rightarrow> string list \<Rightarrow> ('w, error + bool) tj_act" where
  "check_all r tj [] = State_Monad.return (Inr True)"
| "check_all r tj (depName # deps) =
     do {
       g \<leftarrow> client_Get (jr_jobs r) JobCall (job_key tj depName);
       case g of
         Inl e \<Rightarrow> State_Monad.return (Inl e)
       | Inr dep \<Rightarrow>
           if jt_Phase (tj_Status dep) \<noteq> TJ_PhaseCompleted then State_Monad.return (Inr False)
           else check_all r tj deps
     }"

definition checkDependencies :: "'w job_reconciler \<Rightarrow> TaskJob \<Rightarrow> ('w, error + bool) tj_act" where
  "checkDependencies r tj = check_all r tj (js_DependsOn (tj_Spec tj))"

definition findPod :: "'w job_reconciler \<Rightarrow> TaskJob \<Rightarrow> ('w, error + Pod option) tj_act" where
  "findPod r tj =
     do {
       l \<leftarrow> client_List (jr_pods r) JobPodCall (om_Namespace (tj_Meta tj))
              [(''cloudos.io/task-id'', om_Name (tj_Meta tj))];
       State_Monad.return
         (case l of
            Inl e \<Rightarrow> Inl e
          | Inr items \<Rightarrow> Inr (case items of [] \<Rightarrow> None | p # _ \<Rightarrow> Some p))
     }"

definition MustParse :: "'w job_reconciler \<Rightarrow> string \<Rightarrow> quantity outcome" where
  "MustParse r s =
     (case jr_parseQuantity r s of
        Inl e \<Rightarrow> Panic (error_text e)
      | Inr q \<Rightarrow> Return q)"

definition job_env :: "TaskJob \<Rightarrow> core_EnvVar list" where
  "job_env tj =
     map (\<lambda>(n, v). \<lparr>cev_Name = n, cev_Value = v, cev_ValueFrom = None\<rparr>)
       ([(''CLOUDOS_TASK_ID'', om_Name (tj_Meta tj)),
         (''CLOUDOS_NAMESPACE'', om_Namespace (tj_Meta tj)),
         (''CLOUDOS_PRIORITY'', js_Priority (tj_Spec tj)),
         (''CLOUDOS_ALGORITHM'', js_Algorithm (tj_Spec tj)),
         (''REDIS_URL'', ''redis://redis-svc:6379'')] @
        map (\<lambda>e. (ev_Name e, ev_Value e)) (js_Env (tj_Spec tj)))"

definition job_pod :: "TaskJob \<Rightarrow> quantity \<Rightarrow> quantity \<Rightarrow> Pod" where
  "job_pod tj cpu mem =
     (let res = [''cpu'' \<mapsto> cpu, ''memory'' \<mapsto> mem] in
      zero_Pod
        \<lparr>pod_Meta := zero_ObjectMeta
           \<lparr>om_Name := ''taskjob-'' @ om_Name (tj_Meta tj), om_Namespace := om_Namespace (tj_Meta tj),
            om_Labels := [''cloudos.io/task-id'' \<mapsto> om_Name (tj_Meta tj),
                          ''cloudos.io/priority'' \<mapsto> js_Priority (tj_Spec tj),
                          ''app'' \<mapsto> ''cloudos-worker'']\<rparr>,
         pod_Spec := zero_PodSpec
           \<lparr>ps_RestartPolicy := ''Never'',
            ps_Containers := [zero_Container
              \<lparr>cn_Name := ''task-runner'', cn_Image := js_Image (tj_Spec tj),
               cn_Command := js_Command (tj_Spec tj), cn_Args := js_Args (tj_Spec tj),
               cn_Env := job_env tj, cn_ImagePullPolicy := ''IfNotPresent'',
               cn_Resources := \<lparr>crr_Requests = res, crr_Limits = res\<rparr>\<rparr>]\<rparr>\<rparr>)"

definition buildPod :: "'w job_reconciler \<Rightarrow> TaskJob \<Rightarrow> Pod outcome" where
  "buildPod r tj =
     (let cpuReq = (if js_CPURequest (tj_Spec tj) = [] then ''500m'' else js_CPURequest (tj_Spec tj));
          memReq = (if js_MemoryRequest (tj_Spec tj) = [] then ''256Mi'' else js_MemoryRequest (tj_Spec tj))
      in case MustParse r cpuReq of
           Panic m \<Rightarrow> Panic m
         | Return cpu \<Rightarrow>
             (case MustParse r memReq of
                Panic m \<Rightarrow> Panic m
              | Return mem \<Rightarrow>
                  let pod = job_pod tj cpu mem in
                  (case jr_SetControllerReference r tj pod of
                     Inl _ \<Rightarrow> Return pod
                   | Inr pod \<Rightarrow> Return pod)))"

definition set_status :: "(TaskJobStatus \<Rightarrow> TaskJobStatus) \<Rightarrow> TaskJob \<Rightarrow> TaskJob" where
  "set_status f tj = tj\<lparr>tj_Status := f (tj_Status tj)\<rparr>"

text \<open>Write the status; on success return the result, on an error the error.\<close>

definition write_status :: "'w job_reconciler \<Rightarrow> TaskJob \<Rightarrow> reconciled \<Rightarrow> ('w, reconciled) tj_act" where
  "write_status r tj ok =
     do {
       u \<leftarrow> client_StatusUpdate (jr_jobs r) JobCall tj;
       State_Monad.return (case u of Inl e \<Rightarrow> (no_requeue, Some e) | Inr _ \<Rightarrow> ok)
     }"

definition syncStatus :: "'w job_reconciler \<Rightarrow> TaskJob \<Rightarrow> Pod \<Rightarrow> ('w, reconciled) tj_act" where
  "syncStatus r tj pod =
     (let ph = pst_Phase (pod_Status pod) in
      if ph = PodRunning then
        do {
          let tj = set_status (\<lambda>s. s\<lparr>jt_Phase := TJ_PhaseRunning, jt_Message := ''Pod is running''\<rparr>) tj;
          tj \<leftarrow> (if jt_StartTime (tj_Status tj) = []
                 then do {
                   now \<leftarrow> silent (jr_now r);
                   State_Monad.return (set_status (\<lambda>s. s\<lparr>jt_StartTime := now\<rparr>) tj)
                 }
                 else State_Monad.return tj);
          write_status r tj (requeue_after 5, None)
        }
      else if ph = PodSucceeded then
        do {
          now \<leftarrow> silent (jr_now r);
          write_status r
            (set_status (\<lambda>s. s\<lparr>jt_Phase := TJ_PhaseCompleted, jt_EndTime := now,
                              jt_Message := ''Task completed successfully'', jt_ExitCode := 0\<rparr>) tj)
            (no_requeue, None)
        }
      else if ph = PodFailed then
        do {
          now \<leftarrow> silent (jr_now r);
          write_status r
            (set_status (\<lambda>s. s\<lparr>jt_Phase := TJ_PhaseFailed, jt_EndTime := now, jt_Message := ''Pod failed''\<rparr>) tj)
            (no_requeue, None)
        }
      else if ph = PodPending then
        write_status r
          (set_status (\<lambda>s. s\<lparr>jt_Phase := TJ_PhaseQueued, jt_Message := ''Pod pending scheduling''\<rparr>) tj)
          (requeue_after 5, None)
      else State_Monad.return (requeue_after 10, None))"

definition create_job_pod :: "'w job_reconciler \<Rightarrow> TaskJob \<Rightarrow> ('w, reconciled outcome) tj_act" where
  "create_job_pod r tj =
     (if js_Image (tj_Spec tj) = [] then
        do {
          res \<leftarrow> write_status r
            (set_status (\<lambda>s. s\<lparr>jt_Phase := TJ_PhaseFailed, jt_Message := ''No image specified''\<rparr>) tj)
            (no_requeue, None);
          State_Monad.return (Return res)
        }
      else case buildPod r tj of
        Panic m \<Rightarrow> State_Monad.return (Panic m)
      | Return pod \<Rightarrow>
          do {
            c \<leftarrow> client_Create (jr_pods r) JobPodCall pod;
            res \<leftarrow> (case c of
               Inl e \<Rightarrow>
                 write_status r
                   (set_status (\<lambda>s. s\<lparr>jt_Phase := TJ_PhaseFailed,
                                     jt_Message := ''Pod creation failed: '' @ error_text e\<rparr>) tj)
                   (no_requeue, Some e)
             | Inr pod \<Rightarrow>
                 write_status r
                   (set_status (\<lambda>s. s\<lparr>jt_Phase := TJ_PhaseRunning, jt_PodName := om_Name (pod_Meta pod)\<rparr>) tj)
                   (requeue_after 5, None));
            State_Monad.return (Return res)
          })"

definition reconcile_pod :: "'w job_reconciler \<Rightarrow> TaskJob \<Rightarrow> ('w, reconciled outcome) tj_act" where
  "reconcile_pod r tj =
     do {
       f \<leftarrow> findPod r tj;
       case f of
         Inl e \<Rightarrow> State_Monad.return (Return (no_requeue, Some e))
       | Inr None \<Rightarrow> create_job_pod r tj
       | Inr (Some pod) \<Rightarrow> do { res \<leftarrow> syncStatus r tj pod; State_Monad.return (Return res) }
     }"

definition reconcile_active :: "'w job_reconciler \<Rightarrow> TaskJob \<Rightarrow> ('w, reconciled outcome) tj_act" where
  "reconcile_active r tj =
     do {
       d \<leftarrow> checkDependencies r tj;
       case d of
         Inl e \<Rightarrow> State_Monad.return (Return (no_requeue, Some e))
       | Inr depsOk \<Rightarrow>
           if \<not> depsOk then
             do {
               res \<leftarrow> write_status r
                 (set_status (\<lambda>s. s\<lparr>jt_Phase := TJ_PhaseQueued, jt_Message := ''Waiting for dependencies''\<rparr>) tj)
                 (requeue_after 10, None);
               State_Monad.return (Return res)
             }
           else reconcile_pod r tj
     }"

definition job_Reconcile :: "'w job_reconciler \<Rightarrow> NamespacedName \<Rightarrow> ('w, reconciled outcome) tj_act" where
  "job_Reconcile r req =
     do {
       g \<leftarrow> client_Get (jr_jobs r) JobCall req;
       case g of
         Inl e \<Rightarrow> State_Monad.return (Return (no_requeue, if IsNotFound e then None else Some e))
       | Inr tj \<Rightarrow>
           if jt_Phase (tj_Status tj) = TJ_PhaseCompleted \<or> jt_Phase (tj_Status tj) = TJ_PhaseFailed
           then State_Monad.return (Return (no_requeue, None))
           else reconcile_active r tj
     }"

end
