(* ===== verification/TaskJob_Properties.thy ===== *)
theory TaskJob_Properties
  imports TaskJob_Controller Mem_Cluster
begin

text \<open>
  The properties of the TaskJob reconciler: dependencies, terminal phases, the origin of each phase
  it writes, and what becomes of a dependency cycle.
\<close>

section \<open>Logs of one run\<close>

definition deps_done :: "TaskJob \<Rightarrow> string list \<Rightarrow> tj_event list \<Rightarrow> bool" where
  "deps_done tj ds es \<longleftrightarrow>
     (\<forall>d \<in> set ds. \<exists>dep. JobCall (GetCall (job_key tj d) (Inr dep)) \<in> set es \<and>
        jt_Phase (tj_Status dep) = TJ_PhaseCompleted)"

definition job_reads :: "tj_event list \<Rightarrow> bool" where
  "job_reads es \<longleftrightarrow> (\<forall>e \<in> set es. \<exists>k rep. e = JobCall (GetCall k rep))"

lemma wlog_check_all:
  "wlog (check_all r tj ds) (\<lambda>es res. job_reads es \<and> (res = Inr True \<longrightarrow> deps_done tj ds es))"
proof (induction ds)
  case Nil
  then show ?case by (simp add: wlog_return job_reads_def deps_done_def)
next
  case (Cons d ds)
  show ?case
    unfolding check_all.simps client_Get_def
    by (intro wlog_bind wlog_intros wlog_mono [OF Cons.IH]) (auto simp: job_reads_def deps_done_def)
qed

lemma wlog_write_status:
  "wlog (write_status r tj ok) (\<lambda>es _. \<exists>rep. es = [JobCall (StatusUpdateCall tj rep)])"
  unfolding write_status_def client_StatusUpdate_def
  by (intro wlog_bind wlog_intros) auto

text \<open>The phase a write may have, given the pod that the log lists first.\<close>

definition phase_from_pod :: "string \<Rightarrow> TaskPhase \<Rightarrow> bool" where
  "phase_from_pod podPhase ph \<longleftrightarrow>
     (podPhase = PodRunning \<and> ph = TJ_PhaseRunning) \<or> (podPhase = PodSucceeded \<and> ph = TJ_PhaseCompleted) \<or>
     (podPhase = PodFailed \<and> ph = TJ_PhaseFailed) \<or> (podPhase = PodPending \<and> ph = TJ_PhaseQueued)"

definition same_job :: "TaskJob \<Rightarrow> TaskJob \<Rightarrow> bool" where
  "same_job x tj \<longleftrightarrow> tj_Meta x = tj_Meta tj \<and> tj_Spec x = tj_Spec tj"

lemma same_job_set_status [simp]: "same_job (set_status f tj) tj" "tj_Status (set_status f tj) = f (tj_Status tj)"
  by (simp_all add: same_job_def set_status_def)

lemma wlog_syncStatus:
  "wlog (syncStatus r tj pod)
     (\<lambda>es _. es = [] \<or> (\<exists>x rep. es = [JobCall (StatusUpdateCall x rep)] \<and> same_job x tj \<and>
        phase_from_pod (pst_Phase (pod_Status pod)) (jt_Phase (tj_Status x))))"
  unfolding syncStatus_def Let_def write_status_def client_StatusUpdate_def
  by (intro wlog_bind wlog_intros) (auto simp: phase_from_pod_def same_job_def set_status_def)

lemma wlog_create_job_pod:
  "wlog (create_job_pod r tj)
     (\<lambda>es res.
        (\<forall>p rep. JobPodCall (CreateCall p rep) \<in> set es \<longrightarrow> js_Image (tj_Spec tj) \<noteq> [] \<and> buildPod r tj = Return p) \<and>
        (\<forall>x rep. JobCall (StatusUpdateCall x rep) \<in> set es \<longrightarrow>
           same_job x tj \<and> jt_Phase (tj_Status x) \<in> {TJ_PhaseRunning, TJ_PhaseFailed}) \<and>
        (\<forall>e \<in> set es. (\<exists>p rep. e = JobPodCall (CreateCall p rep)) \<or> (\<exists>x rep. e = JobCall (StatusUpdateCall x rep))))"
  unfolding create_job_pod_def write_status_def client_calls
  by (intro wlog_bind wlog_intros) (auto simp: same_job_def set_status_def intro!: wlog_intros wlog_bind split: outcome.split)

definition pods_of :: "TaskJob \<Rightarrow> error + Pod list \<Rightarrow> tj_event" where
  "pods_of tj rep =
     JobPodCall (ListCall (om_Namespace (tj_Meta tj)) [(''cloudos.io/task-id'', om_Name (tj_Meta tj))] rep)"

lemma wlog_findPod:
  "wlog (findPod r tj)
     (\<lambda>es res. \<exists>rep. es = [pods_of tj rep] \<and>
        (res = Inr None \<longrightarrow> rep = Inr []) \<and> (\<forall>p. res = Inr (Some p) \<longrightarrow> (\<exists>ps. rep = Inr (p # ps))))"
  unfolding findPod_def client_List_def
  by (intro wlog_bind wlog_intros) (auto simp: pods_of_def split: sum.splits list.splits)

text \<open>What the log of a run on the fetched job \<open>tj\<close> shows of its creations and status writes.\<close>

definition job_run_ok :: "'w job_reconciler \<Rightarrow> TaskJob \<Rightarrow> tj_event list \<Rightarrow> bool" where
  "job_run_ok r tj es \<longleftrightarrow>
     (\<forall>p rep. JobPodCall (CreateCall p rep) \<in> set es \<longrightarrow>
        deps_done tj (js_DependsOn (tj_Spec tj)) es \<and> pods_of tj (Inr []) \<in> set es \<and>
        js_Image (tj_Spec tj) \<noteq> [] \<and> buildPod r tj = Return p) \<and>
     (\<forall>x rep. JobCall (StatusUpdateCall x rep) \<in> set es \<longrightarrow>
        same_job x tj \<and>
        (jt_Phase (tj_Status x) = TJ_PhaseCompleted \<longrightarrow>
           deps_done tj (js_DependsOn (tj_Spec tj)) es \<and>
           (\<exists>p ps. pods_of tj (Inr (p # ps)) \<in> set es \<and> pst_Phase (pod_Status p) = PodSucceeded)))"

definition fetched :: "NamespacedName \<Rightarrow> TaskJob \<Rightarrow> tj_event list \<Rightarrow> bool" where
  "fetched req tj es \<longleftrightarrow>
     JobCall (GetCall req (Inr tj)) \<in> set es \<and>
     jt_Phase (tj_Status tj) \<notin> {TJ_PhaseCompleted, TJ_PhaseFailed}"

definition writes_nothing :: "tj_event list \<Rightarrow> bool" where
  "writes_nothing es \<longleftrightarrow>
     (\<forall>p rep. JobPodCall (CreateCall p rep) \<notin> set es) \<and> (\<forall>x rep. JobCall (StatusUpdateCall x rep) \<notin> set es)"

lemma job_reads_writes_nothing: "job_reads es \<Longrightarrow> writes_nothing es"
  by (auto simp: job_reads_def writes_nothing_def)

lemma deps_done_mono: "deps_done tj ds es \<Longrightarrow> set es \<subseteq> set fs \<Longrightarrow> deps_done tj ds fs"
  unfolding deps_done_def by blast

lemma job_run_ok_no_writes: "writes_nothing es \<Longrightarrow> job_run_ok r tj es"
  by (simp add: writes_nothing_def job_run_ok_def)

lemma job_run_ok_queued:
  assumes "writes_nothing es" and "same_job x tj" and "jt_Phase (tj_Status x) \<noteq> TJ_PhaseCompleted"
  shows "job_run_ok r tj (es @ [JobCall (StatusUpdateCall x rep)])"
  using assms by (auto simp: writes_nothing_def job_run_ok_def)

lemma job_run_ok_created:
  assumes "writes_nothing es" and "deps_done tj (js_DependsOn (tj_Spec tj)) (es @ fs)"
    and "pods_of tj (Inr []) \<in> set es"
    and "\<And>p rep. JobPodCall (CreateCall p rep) \<in> set fs \<Longrightarrow> js_Image (tj_Spec tj) \<noteq> [] \<and> buildPod r tj = Return p"
    and "\<And>x rep. JobCall (StatusUpdateCall x rep) \<in> set fs \<Longrightarrow>
       same_job x tj \<and> jt_Phase (tj_Status x) \<in> {TJ_PhaseRunning, TJ_PhaseFailed}"
  shows "job_run_ok r tj (es @ fs)"
proof -
  have "jt_Phase (tj_Status x) \<noteq> TJ_PhaseCompleted \<and> same_job x tj"
    if "JobCall (StatusUpdateCall x rep) \<in> set fs" for x rep
    using assms(5) [OF that] by (auto simp: tj_phase_defs)
  with assms(1-4) show ?thesis by (auto simp: job_run_ok_def writes_nothing_def)
qed

lemma job_run_ok_synced:
  assumes "writes_nothing es" and "deps_done tj (js_DependsOn (tj_Spec tj)) es"
    and "pods_of tj (Inr (pod # ps)) \<in> set es"
    and "fs = [] \<or> (\<exists>x rep. fs = [JobCall (StatusUpdateCall x rep)] \<and> same_job x tj \<and>
        phase_from_pod (pst_Phase (pod_Status pod)) (jt_Phase (tj_Status x)))"
  shows "job_run_ok r tj (es @ fs)"
proof -
  have "phase_from_pod ph TJ_PhaseCompleted \<longleftrightarrow> ph = PodSucceeded" for ph
    by (auto simp: phase_from_pod_def tj_phase_defs)
  moreover have "deps_done tj ds (es @ fs)" if "deps_done tj ds es" for ds
    using that by (rule deps_done_mono) simp
  ultimately show ?thesis
    using assms by (auto simp: job_run_ok_def writes_nothing_def)
qed

lemma wlog_reconcile_pod:
  assumes w: "writes_nothing es" and dd: "deps_done tj (js_DependsOn (tj_Spec tj)) es"
  shows "wlog (reconcile_pod r tj) (\<lambda>es' _. job_run_ok r tj (es @ es'))"
  unfolding reconcile_pod_def
proof (rule wlog_seq [OF wlog_findPod], intro wlog_case_sum wlog_case_option, goal_cases)
  case (1 fs f e)
  then show ?case
    using w by (intro wlog_return) (auto intro!: job_run_ok_no_writes simp: writes_nothing_def pods_of_def)
next
  case (2 fs f p)
  then have fs: "fs = [pods_of tj (Inr [])]" by auto
  then have "writes_nothing (es @ fs)" using w by (auto simp: writes_nothing_def pods_of_def)
  moreover have "deps_done tj (js_DependsOn (tj_Spec tj)) ((es @ fs) @ gs)" for gs
    using dd by (rule deps_done_mono) auto
  ultimately have "job_run_ok r tj ((es @ fs) @ gs)"
    if "(\<forall>p rep. JobPodCall (CreateCall p rep) \<in> set gs \<longrightarrow> js_Image (tj_Spec tj) \<noteq> [] \<and> buildPod r tj = Return p) \<and>
      (\<forall>x rep. JobCall (StatusUpdateCall x rep) \<in> set gs \<longrightarrow>
         same_job x tj \<and> jt_Phase (tj_Status x) \<in> {TJ_PhaseRunning, TJ_PhaseFailed})" for gs
    using that fs by (intro job_run_ok_created) auto
  then show ?case by (intro wlog_mono [OF wlog_create_job_pod]) simp
next
  case (3 fs f p pod)
  then obtain ps where fs: "fs = [pods_of tj (Inr (pod # ps))]" by auto
  then have "writes_nothing (es @ fs)" using w by (auto simp: writes_nothing_def pods_of_def)
  moreover have "deps_done tj (js_DependsOn (tj_Spec tj)) (es @ fs)"
    using dd by (rule deps_done_mono) auto
  ultimately show ?case
    using fs job_run_ok_synced [of "es @ fs" tj pod ps _ r]
    by (intro wlog_seq [OF wlog_syncStatus] wlog_return) simp
qed

lemma wlog_reconcile_active:
  assumes w: "writes_nothing es"
  shows "wlog (reconcile_active r tj) (\<lambda>es' _. job_run_ok r tj (es @ es'))"
  unfolding reconcile_active_def checkDependencies_def
proof (rule wlog_seq [OF wlog_check_all], intro wlog_case_sum wlog_if, goal_cases)
  case (1 fs d e)
  then show ?case
    using w by (intro wlog_return) (auto intro!: job_run_ok_no_writes simp: job_reads_def writes_nothing_def)
next
  case (2 fs d depsOk)
  then have "writes_nothing (es @ fs)" using w by (auto simp: job_reads_def writes_nothing_def)
  then show ?case
    using job_run_ok_queued [of "es @ fs" _ tj r]
    by (intro wlog_seq [OF wlog_write_status] wlog_return) (auto simp: tj_phase_defs)
next
  case (3 fs d depsOk)
  then have "writes_nothing (es @ fs)" using w by (auto simp: job_reads_def writes_nothing_def)
  moreover have "deps_done tj (js_DependsOn (tj_Spec tj)) (es @ fs)"
    using 3 by (auto intro: deps_done_mono)
  ultimately show ?case using wlog_reconcile_pod [of "es @ fs" tj r] by simp
qed

lemma wlog_job_Reconcile:
  "wlog (job_Reconcile r req)
     (\<lambda>es _. writes_nothing es \<or> (\<exists>tj. fetched req tj es \<and> job_run_ok r tj es))"
  unfolding job_Reconcile_def client_Get_def
proof (rule wlog_bind, rule wlog_logged, intro wlog_case_sum wlog_if, goal_cases)
  case (3 g tj)
  then have "fetched req tj ([JobCall (GetCall req g)] @ es)" for es by (simp add: fetched_def)
  then show ?case
    by (intro wlog_mono [OF wlog_reconcile_active [of "[JobCall (GetCall req g)]"]])
       (auto simp: writes_nothing_def)
qed (auto intro!: wlog_return simp: writes_nothing_def)

section \<open>An in-memory server for jobs\<close>

definition job_store :: "(TaskJob, TaskJob cluster) store" where
  "job_store =
     \<lparr>sto_get = cu_objs, sto_set = (\<lambda>l w. w\<lparr>cu_objs := l\<rparr>), sto_meta = tj_Meta,
      sto_with_status_of = (\<lambda>x y. x\<lparr>tj_Status := tj_Status y\<rparr>)\<rparr>"

definition mem_jobs :: "TaskJob cluster job_reconciler" where
  "mem_jobs =
     \<lparr>jr_jobs = mem_client job_store, jr_pods = mem_client pod_store,
      jr_now = (\<lambda>w. (''2024-01-01T00:00:00Z'', w)),
      jr_SetControllerReference = (\<lambda>t p. Inr p),
      jr_parseQuantity = (\<lambda>s. Inr \<lparr>q_Value = 1, q_Format = s\<rparr>)\<rparr>"

definition sample_job :: "string \<Rightarrow> string list \<Rightarrow> TaskPhase \<Rightarrow> TaskJob" where
  "sample_job name deps phase =
     \<lparr>tj_Meta = zero_ObjectMeta\<lparr>om_Name := name, om_Namespace := ''ns''\<rparr>,
      tj_Spec = \<lparr>js_Name = name, js_Image = ''img'', js_Command = [], js_Args = [], js_Priority = PriorityHigh,
        js_Algorithm = ''fifo'', js_EstimatedDurationSec = 0, js_CPURequest = [], js_MemoryRequest = [],
        js_DependsOn = deps, js_Schedule = [], js_Env = []\<rparr>,
      tj_Status = \<lparr>jt_Phase = phase, jt_PodName = [], jt_StartTime = [], jt_EndTime = [],
        jt_ExitCode = 0, jt_Message = [], jt_Conditions = []\<rparr>\<rparr>"

definition jobs_cluster :: "TaskJob list \<Rightarrow> Pod list \<Rightarrow> TaskJob cluster" where
  "jobs_cluster js ps =
     \<lparr>cu_objs = map (\<lambda>j. (meta_key (tj_Meta j), j)) js, cu_pods = map (\<lambda>p. (meta_key (pod_Meta p), p)) ps,
      cu_clock = 0\<rparr>"

lemmas job_run_defs =
  job_Reconcile_def reconcile_active_def reconcile_pod_def checkDependencies_def check_all.simps findPod_def create_job_pod_def write_status_def
  syncStatus_def buildPod_def MustParse_def client_calls run_simps job_key_def set_status_def
  mem_jobs_def job_store_def mem_defs sample_job_def jobs_cluster_def zero_ObjectMeta_def tj_phase_defs

section \<open>Properties\<close>

text \<open>C6. Dependency safety: a run creates a pod for a job only after it has read every dependency
  of the job in phase \<open>Completed\<close>, has fetched the job in a phase that is not terminal, and has seen
  no pod labelled with the job's name; the pod is the one \<open>buildPod\<close> makes of that job.\<close>

theorem job_pod_only_after_dependencies:
  assumes "run_state (job_Reconcile r req) (w, []) = (res, (w', tr))"
    and "JobPodCall (CreateCall p rep) \<in> set tr"
  shows "\<exists>tj. fetched req tj tr \<and> deps_done tj (js_DependsOn (tj_Spec tj)) tr \<and>
              pods_of tj (Inr []) \<in> set tr \<and> buildPod r tj = Return p"
  using wlogD [OF wlog_job_Reconcile assms(1)] assms(2) unfolding writes_nothing_def job_run_ok_def by blast

theorem job_pod_only_after_dependencies_witness:
  "\<exists>res w' tr p rep. run_state (job_Reconcile mem_jobs \<lparr>nn_Namespace = ''ns'', nn_Name = ''b''\<rparr>)
      (jobs_cluster [sample_job ''a'' [] TJ_PhaseCompleted, sample_job ''b'' [''a''] TJ_PhaseQueued] [], []) = (res, (w', tr)) \<and>
    JobPodCall (CreateCall p rep) \<in> set tr \<and> (\<exists>tj. deps_done tj (js_DependsOn (tj_Spec tj)) tr)"
proof -
  have "\<exists>res w' tr p rep. run_state (job_Reconcile mem_jobs \<lparr>nn_Namespace = ''ns'', nn_Name = ''b''\<rparr>)
      (jobs_cluster [sample_job ''a'' [] TJ_PhaseCompleted, sample_job ''b'' [''a''] TJ_PhaseQueued] [], []) = (res, (w', tr)) \<and>
      JobPodCall (CreateCall p rep) \<in> set tr"
    by (simp add: job_run_defs Let_def)
  then obtain res w' tr p rep where
    run: "run_state (job_Reconcile mem_jobs \<lparr>nn_Namespace = ''ns'', nn_Name = ''b''\<rparr>)
      (jobs_cluster [sample_job ''a'' [] TJ_PhaseCompleted, sample_job ''b'' [''a''] TJ_PhaseQueued] [], []) = (res, (w', tr))"
    and p: "JobPodCall (CreateCall p rep) \<in> set tr" by blast
  show ?thesis using job_pod_only_after_dependencies [OF run p] run p by blast
qed

text \<open>A run writes phase \<open>Completed\<close> only for a job it fetched in a phase that is not
  terminal, with every dependency read as \<open>Completed\<close>, when the first pod labelled with the job's
  name has succeeded; metadata and spec are those of the fetched job.\<close>

theorem job_completed_only_from_pod:
  assumes "run_state (job_Reconcile r req) (w, []) = (res, (w', tr))"
    and "JobCall (StatusUpdateCall x rep) \<in> set tr" and "jt_Phase (tj_Status x) = TJ_PhaseCompleted"
  shows "\<exists>tj p ps. fetched req tj tr \<and> same_job x tj \<and> deps_done tj (js_DependsOn (tj_Spec tj)) tr \<and>
                   pods_of tj (Inr (p # ps)) \<in> set tr \<and> pst_Phase (pod_Status p) = PodSucceeded"
  using wlogD [OF wlog_job_Reconcile assms(1)] assms(2,3) unfolding writes_nothing_def job_run_ok_def by blast

theorem job_completed_only_from_pod_witness:
  "\<exists>res w' tr x rep. run_state (job_Reconcile mem_jobs \<lparr>nn_Namespace = ''ns'', nn_Name = ''a''\<rparr>)
      (jobs_cluster [sample_job ''a'' [] TJ_PhaseRunning]
        [zero_Pod\<lparr>pod_Meta := zero_ObjectMeta\<lparr>om_Name := ''taskjob-a'', om_Namespace := ''ns'',
            om_Labels := [''cloudos.io/task-id'' \<mapsto> ''a'']\<rparr>,
          pod_Status := zero_PodStatus\<lparr>pst_Phase := PodSucceeded\<rparr>\<rparr>], []) = (res, (w', tr)) \<and>
    JobCall (StatusUpdateCall x rep) \<in> set tr \<and> jt_Phase (tj_Status x) = TJ_PhaseCompleted \<and>
    (\<exists>tj p ps. same_job x tj \<and> pods_of tj (Inr (p # ps)) \<in> set tr \<and> pst_Phase (pod_Status p) = PodSucceeded)"
  (is "\<exists>res w' tr x rep. ?run = (res, (w', tr)) \<and> _")
proof -
  have "\<exists>res w' tr x rep. ?run = (res, (w', tr)) \<and>
      JobCall (StatusUpdateCall x rep) \<in> set tr \<and> jt_Phase (tj_Status x) = TJ_PhaseCompleted"
    by (simp add: job_run_defs Let_def labels_match_def zero_Pod_def zero_PodStatus_def pod_phase_defs)
  then obtain res w' tr x rep where run: "?run = (res, (w', tr))"
    and x: "JobCall (StatusUpdateCall x rep) \<in> set tr" "jt_Phase (tj_Status x) = TJ_PhaseCompleted" by blast
  show ?thesis using job_completed_only_from_pod [OF run x] run x by blast
qed

section \<open>Dependency cycles\<close>

text \<open>
  What the cycle property assumes of a server, through the view \<open>J\<close> of its jobs: a read returns the
  stored job or an error and changes no job, a status update stores the new status under the job's
  own key or fails, and pod operations and the clock change no job.
\<close>

definition job_server :: "'w job_reconciler \<Rightarrow> ('w \<Rightarrow> NamespacedName \<rightharpoonup> TaskJob) \<Rightarrow> bool" where
  "job_server r J \<longleftrightarrow>
     (\<forall>w k x w1. cl_Get (jr_jobs r) k w = (x, w1) \<longrightarrow> J w1 = J w \<and> (\<forall>j. x = Inr j \<longrightarrow> J w k = Some j)) \<and>
     (\<forall>w j x w1. cl_StatusUpdate (jr_jobs r) j w = (x, w1) \<longrightarrow>
        J w1 = J w \<or>
        (\<exists>s. J w (job_key j (om_Name (tj_Meta j))) = Some s \<and>
             J w1 = (J w)(job_key j (om_Name (tj_Meta j)) \<mapsto> s\<lparr>tj_Status := tj_Status j\<rparr>))) \<and>
     (\<forall>w ns ls x w1. cl_List (jr_pods r) ns ls w = (x, w1) \<longrightarrow> J w1 = J w) \<and>
     (\<forall>w p x w1. cl_Create (jr_pods r) p w = (x, w1) \<longrightarrow> J w1 = J w) \<and>
     (\<forall>w x w1. jr_now r w = (x, w1) \<longrightarrow> J w1 = J w)"

lemmas job_serverD =
  job_server_def [THEN iffD1, THEN conjunct1, rule_format]
  job_server_def [THEN iffD1, THEN conjunct2, THEN conjunct1, rule_format]
  job_server_def [THEN iffD1, THEN conjunct2, THEN conjunct2, THEN conjunct1, rule_format]
  job_server_def [THEN iffD1, THEN conjunct2, THEN conjunct2, THEN conjunct2, THEN conjunct1, rule_format]
  job_server_def [THEN iffD1, THEN conjunct2, THEN conjunct2, THEN conjunct2, THEN conjunct2, rule_format]

text \<open>
  The jobs are stored under their own keys, and \<open>C\<close> is a set of stored jobs, none completed, each
  depending on a job of the set.
\<close>

definition blocked :: "(NamespacedName \<rightharpoonup> TaskJob) \<Rightarrow> NamespacedName set \<Rightarrow> bool" where
  "blocked J C \<longleftrightarrow>
     (\<forall>k j. J k = Some j \<longrightarrow> job_key j (om_Name (tj_Meta j)) = k) \<and>
     (\<forall>k \<in> C. \<exists>j. J k = Some j \<and> jt_Phase (tj_Status j) \<noteq> TJ_PhaseCompleted \<and>
        (\<exists>d \<in> set (js_DependsOn (tj_Spec j)). job_key j d \<in> C))"

text \<open>One run on \<open>req\<close> changes only the status of \<open>req\<close>; with an open dependency it only queues.\<close>

definition run_effect ::
  "(NamespacedName \<rightharpoonup> TaskJob) \<Rightarrow> NamespacedName \<Rightarrow> bool \<Rightarrow> tj_event list \<Rightarrow> (NamespacedName \<rightharpoonup> TaskJob) \<Rightarrow> bool" where
  "run_effect J0 req open_dep es J1 \<longleftrightarrow>
     (J1 = J0 \<or> (\<exists>s st. J0 req = Some s \<and> J1 = J0(req \<mapsto> s\<lparr>tj_Status := st\<rparr>) \<and>
                 (open_dep \<longrightarrow> jt_Phase st \<noteq> TJ_PhaseCompleted))) \<and>
     (open_dep \<longrightarrow> (\<forall>p rep. JobPodCall (CreateCall p rep) \<notin> set es))"

lemma triple_check_all:
  assumes "job_server r J"
  shows "triple (\<lambda>w. J w = J0) (check_all r tj ds)
    (\<lambda>es res w. J w = J0 \<and> job_reads es \<and>
       (res = Inr True \<longrightarrow> (\<forall>d \<in> set ds. \<exists>dep. J0 (job_key tj d) = Some dep \<and> jt_Phase (tj_Status dep) = TJ_PhaseCompleted)))"
proof (induction ds)
  case Nil
  then show ?case by (auto intro!: triple_return simp: job_reads_def)
next
  case (Cons d ds)
  have get: "triple (\<lambda>w. J w = J0) (client_Get (jr_jobs r) JobCall (job_key tj d))
      (\<lambda>es g w. J w = J0 \<and> job_reads es \<and> (\<forall>dep. g = Inr dep \<longrightarrow> J0 (job_key tj d) = Some dep))"
    unfolding client_Get_def
    using job_serverD(1) [OF assms] by (intro triple_logged) (auto simp: job_reads_def)
  show ?case
    unfolding check_all.simps
  proof (rule triple_seq [OF get])
    fix es g
    show "triple (\<lambda>w. J w = J0 \<and> job_reads es \<and> (\<forall>dep. g = Inr dep \<longrightarrow> J0 (job_key tj d) = Some dep))
        (case g of Inl e \<Rightarrow> State_Monad.return (Inl e)
         | Inr dep \<Rightarrow> if jt_Phase (tj_Status dep) \<noteq> TJ_PhaseCompleted then State_Monad.return (Inr False)
             else check_all r tj ds)
        (\<lambda>es' res w. J w = J0 \<and> job_reads (es @ es') \<and>
          (res = Inr True \<longrightarrow> (\<forall>d \<in> set (d # ds). \<exists>dep. J0 (job_key tj d) = Some dep \<and>
             jt_Phase (tj_Status dep) = TJ_PhaseCompleted)))"
    proof (cases g)
      case (Inl e)
      then show ?thesis by (auto intro!: triple_return)
    next
      case (Inr dep)
      show ?thesis
      proof (rule triple_pre [where b = "J0 (job_key tj d) = Some dep \<and> job_reads es"])
        assume *: "J0 (job_key tj d) = Some dep \<and> job_reads es"
        show ?thesis
        proof (cases "jt_Phase (tj_Status dep) = TJ_PhaseCompleted")
          case True
          with Inr * show ?thesis
            by (auto intro!: triple_conseq [OF Cons.IH] simp: job_reads_def)
        next
          case False
          with Inr show ?thesis by (auto intro!: triple_return)
        qed
      qed (use Inr in auto)
    qed
  qed
qed

lemma triple_write_status:
  assumes "job_server r J" and "job_key x (om_Name (tj_Meta x)) = req"
  shows "triple (\<lambda>w. J w = J0) (write_status r x ok)
    (\<lambda>es res w. (\<exists>rep. es = [JobCall (StatusUpdateCall x rep)]) \<and>
       (J w = J0 \<or> (\<exists>s. J0 req = Some s \<and> J w = J0(req \<mapsto> s\<lparr>tj_Status := tj_Status x\<rparr>))))"
proof -
  have "triple (\<lambda>w. J w = J0) (client_StatusUpdate (jr_jobs r) JobCall x)
      (\<lambda>es u w. (\<exists>rep. es = [JobCall (StatusUpdateCall x rep)]) \<and>
         (J w = J0 \<or> (\<exists>s. J0 req = Some s \<and> J w = J0(req \<mapsto> s\<lparr>tj_Status := tj_Status x\<rparr>))))"
    unfolding client_StatusUpdate_def
    using job_serverD(2) [OF assms(1)] assms(2) by (intro triple_logged) metis
  then show ?thesis
    unfolding write_status_def by (rule triple_seq) (auto intro!: triple_return)
qed

lemma triple_write_effect:
  assumes "job_server r J" and "job_key x (om_Name (tj_Meta x)) = req"
    and "open_dep \<Longrightarrow> jt_Phase (tj_Status x) \<noteq> TJ_PhaseCompleted"
  shows "triple (\<lambda>w. J w = J0) (write_status r x ok) (\<lambda>es res w. run_effect J0 req open_dep es (J w))"
  by (rule triple_conseq [OF triple_write_status [OF assms(1,2), of J0 ok]])
     (use assms(3) in \<open>auto simp: run_effect_def\<close>)

lemma triple_clock:
  assumes "job_server r J"
  shows "triple (\<lambda>w. J w = J0) (silent (jr_now r)) (\<lambda>es a w. es = [] \<and> J w = J0)"
  using job_serverD(5) [OF assms] by (intro triple_silent) auto

lemma job_key_set_status [simp]: "job_key (set_status f x) n = job_key x n" "tj_Meta (set_status f x) = tj_Meta x"
  by (simp_all add: job_key_def set_status_def)

lemma run_effect_simps:
  "run_effect J0 req False es J0"
  "run_effect J0 req False (es @ es') J1 \<longleftrightarrow> run_effect J0 req False es' J1"
  "run_effect J0 req False es J1 \<longleftrightarrow> run_effect J0 req False [] J1"
  by (simp_all add: run_effect_def)

lemma triple_syncStatus:
  assumes s: "job_server r J" and k: "job_key tj (om_Name (tj_Meta tj)) = req"
  shows "triple (\<lambda>w. J w = J0) (syncStatus r tj pod) (\<lambda>es res w. run_effect J0 req False es (J w))"
proof -
  have put: "triple (\<lambda>w. es = [] \<and> J w = J0) (write_status r x ok) (\<lambda>es' res w. run_effect J0 req False (es @ es') (J w))"
    if "job_key x (om_Name (tj_Meta x)) = req" for es x ok
    by (rule triple_conseq [OF triple_write_effect [OF s that, of False J0 ok]]) (auto simp: run_effect_simps(2))
  have clocked: "triple (\<lambda>w. J w = J0) (State_Monad.bind (silent (jr_now r)) (\<lambda>now. write_status r (x now) ok))
      (\<lambda>es res w. run_effect J0 req False es (J w))"
    if "\<And>now. job_key (x now) (om_Name (tj_Meta (x now))) = req" for x ok
    by (rule triple_seq [OF triple_clock [OF s]]) (rule put [OF that])
  have unclocked: "triple (\<lambda>w. J w = J0) (write_status r x ok) (\<lambda>es res w. run_effect J0 req False es (J w))"
    if "job_key x (om_Name (tj_Meta x)) = req" for x ok
    by (rule triple_write_effect [OF s that]) simp
  have assoc: "State_Monad.bind (State_Monad.bind f (\<lambda>now. State_Monad.return (h now))) g =
      State_Monad.bind f (\<lambda>now. g (h now))" for f :: "('a, string) tj_act" and h :: "string \<Rightarrow> TaskJob" and g
    by (simp add: State_Monad.bind_def State_Monad.return_def split_def)
  have ret: "State_Monad.bind (State_Monad.return x) g = g x" for x :: TaskJob and g :: "TaskJob \<Rightarrow> ('a, reconciled) tj_act"
    by (simp add: State_Monad.bind_def State_Monad.return_def)
  show ?thesis
    unfolding syncStatus_def Let_def
    by (auto simp: assoc ret k run_effect_simps(1) intro!: clocked unclocked triple_return)
qed

lemma triple_create_job_pod:
  assumes s: "job_server r J" and k: "job_key tj (om_Name (tj_Meta tj)) = req"
  shows "triple (\<lambda>w. J w = J0) (create_job_pod r tj) (\<lambda>es res w. run_effect J0 req False es (J w))"
proof -
  have put: "triple I (State_Monad.bind (write_status r x ok) (\<lambda>res. State_Monad.return (Return res)))
      (\<lambda>es' res w. run_effect J0 req False (es @ es') (J w))"
    if "job_key x (om_Name (tj_Meta x)) = req" "\<And>w. I w \<Longrightarrow> J w = J0" for es x ok I
  proof -
    have "triple I (write_status r x ok) (\<lambda>es res w. run_effect J0 req False es (J w))"
      by (rule triple_conseq [OF triple_write_effect [OF s that(1), of False J0 ok] that(2)]) simp_all
    then show ?thesis
      by (rule triple_seq) (auto intro!: triple_return simp: run_effect_def)
  qed
  have create: "triple (\<lambda>w. J w = J0) (client_Create (jr_pods r) JobPodCall p) (\<lambda>es c w. J w = J0)" for p
    unfolding client_Create_def using job_serverD(4) [OF s] by (intro triple_logged) metis
  show ?thesis
  proof (cases "js_Image (tj_Spec tj) = []")
    case True
    then show ?thesis
      unfolding create_job_pod_def
      using put [of "set_status (\<lambda>s. s\<lparr>jt_Phase := TJ_PhaseFailed, jt_Message := ''No image specified''\<rparr>) tj"
          "\<lambda>w. J w = J0" "(no_requeue, None)" "[]"] k by simp
  next
    case False
    have branch: "(case c of Inl e \<Rightarrow> f e | Inr x \<Rightarrow> g x) \<bind> h =
        (case c of Inl e \<Rightarrow> State_Monad.bind (f e) h | Inr x \<Rightarrow> State_Monad.bind (g x) h)"
      for c :: "error + Pod" and f and g :: "Pod \<Rightarrow> ('a, reconciled) tj_act" and h :: "reconciled \<Rightarrow> ('a, reconciled outcome) tj_act"
      by (cases c) simp_all
    show ?thesis
      unfolding create_job_pod_def if_not_P [OF False]
      by (cases "buildPod r tj")
         (auto simp: branch k run_effect_simps(1) split: sum.split
           intro!: triple_return triple_seq [OF create] put)
  qed
qed

lemma triple_reconcile_pod:
  assumes s: "job_server r J" and k: "job_key tj (om_Name (tj_Meta tj)) = req"
  shows "triple (\<lambda>w. J w = J0) (reconcile_pod r tj) (\<lambda>es res w. run_effect J0 req False es (J w))"
proof -
  have list: "triple (\<lambda>w. J w = J0) (findPod r tj) (\<lambda>es f w. J w = J0)"
    unfolding findPod_def client_List_def
    by (rule triple_seq [where R = "\<lambda>es l w. J w = J0"])
       (auto intro!: triple_return triple_logged dest: job_serverD(3) [OF s])
  have sync: "triple (\<lambda>w. J w = J0) (State_Monad.bind (syncStatus r tj pod) (\<lambda>res. State_Monad.return (Return res)))
      (\<lambda>es res w. run_effect J0 req False es (J w))" for pod
    by (rule triple_seq [OF triple_syncStatus [OF s k]]) (auto intro!: triple_return)
  show ?thesis
    unfolding reconcile_pod_def
    by (rule triple_seq [OF list])
       (auto simp: run_effect_simps(1,2) split: sum.split option.split
         intro!: triple_return sync triple_create_job_pod [OF s k])
qed

text \<open>The job has a dependency that is missing or not completed.\<close>

definition open_dependency :: "(NamespacedName \<rightharpoonup> TaskJob) \<Rightarrow> TaskJob \<Rightarrow> bool" where
  "open_dependency J tj \<longleftrightarrow>
     \<not> (\<forall>d \<in> set (js_DependsOn (tj_Spec tj)). \<exists>dep. J (job_key tj d) = Some dep \<and>
          jt_Phase (tj_Status dep) = TJ_PhaseCompleted)"

lemma triple_reconcile_active:
  assumes s: "job_server r J" and k: "job_key tj (om_Name (tj_Meta tj)) = req"
  shows "triple (\<lambda>w. J w = J0) (reconcile_active r tj)
    (\<lambda>es res w. run_effect J0 req (open_dependency J0 tj) es (J w))"
proof -
  let ?o = "open_dependency J0 tj"
  have queue: "triple (\<lambda>w. J w = J0) (State_Monad.bind
      (write_status r (set_status (\<lambda>s. s\<lparr>jt_Phase := TJ_PhaseQueued, jt_Message := ''Waiting for dependencies''\<rparr>) tj)
        (requeue_after 10, None)) (\<lambda>res. State_Monad.return (Return res))) (\<lambda>es res w. run_effect J0 req ?o es (J w))"
    by (rule triple_seq [OF triple_write_effect [OF s, where open_dep = ?o]])
       (auto intro!: triple_return simp: k tj_phase_defs)
  have reads: "run_effect J0 req ?o (es @ es') J1" if "job_reads es" "run_effect J0 req ?o es' J1" for es es' J1
    using that by (auto simp: run_effect_def job_reads_def)
  have "triple (\<lambda>w. J w = J0 \<and> job_reads es \<and>
      (d = Inr True \<longrightarrow> (\<forall>d \<in> set (js_DependsOn (tj_Spec tj)). \<exists>dep. J0 (job_key tj d) = Some dep \<and>
         jt_Phase (tj_Status dep) = TJ_PhaseCompleted)))
    (case d of Inl e \<Rightarrow> State_Monad.return (Return (no_requeue, Some e))
      | Inr depsOk \<Rightarrow> if \<not> depsOk then State_Monad.bind
          (write_status r (set_status (\<lambda>s. s\<lparr>jt_Phase := TJ_PhaseQueued, jt_Message := ''Waiting for dependencies''\<rparr>) tj)
            (requeue_after 10, None)) (\<lambda>res. State_Monad.return (Return res)) else reconcile_pod r tj)
    (\<lambda>es' res w. run_effect J0 req ?o (es @ es') (J w))" for es d
  proof (rule triple_pre [where b = "job_reads es \<and> (d = Inr True \<longrightarrow> \<not> ?o)"])
    assume d: "job_reads es \<and> (d = Inr True \<longrightarrow> \<not> ?o)"
    consider (err) e where "d = Inl e" | (no) "d = Inr False" | (yes) "d = Inr True" "?o = False"
      using d by (cases d) auto
    then show ?thesis
    proof cases
      case err
      then show ?thesis by (auto intro!: triple_return simp: run_effect_def job_reads_def)
    next
      case no
      then show ?thesis using d by (auto intro!: triple_conseq [OF queue] reads)
    next
      case yes
      with reads d show ?thesis
        by (auto intro!: triple_conseq [OF triple_reconcile_pod [OF s k, of J0]])
    qed
  qed (auto simp: open_dependency_def)
  then show ?thesis
    unfolding reconcile_active_def checkDependencies_def by (rule triple_seq [OF triple_check_all [OF s]])
qed

lemma triple_job_Reconcile:
  assumes s: "job_server r J" and keyed: "\<And>k j. J0 k = Some j \<Longrightarrow> job_key j (om_Name (tj_Meta j)) = k"
  shows "triple (\<lambda>w. J w = J0) (job_Reconcile r req)
    (\<lambda>es res w. run_effect J0 req (\<exists>tj. J0 req = Some tj \<and> open_dependency J0 tj) es (J w))"
proof -
  let ?o = "\<exists>tj. J0 req = Some tj \<and> open_dependency J0 tj"
  have get: "triple (\<lambda>w. J w = J0) (client_Get (jr_jobs r) JobCall req)
      (\<lambda>es g w. J w = J0 \<and> job_reads es \<and> (\<forall>tj. g = Inr tj \<longrightarrow> J0 req = Some tj))"
    unfolding client_Get_def
    using job_serverD(1) [OF s] by (intro triple_logged) (auto simp: job_reads_def)
  have reads: "run_effect J0 req ?o (es @ es') J1" if "job_reads es" "run_effect J0 req ?o es' J1" for es es' J1
    using that by (auto simp: run_effect_def job_reads_def)
  have stay: "triple (\<lambda>w. J w = J0 \<and> job_reads es \<and> X) (State_Monad.return a)
      (\<lambda>es' res w. run_effect J0 req ?o (es @ es') (J w))" for es X and a :: "reconciled outcome"
    by (auto intro!: triple_return simp: run_effect_def job_reads_def)
  show ?thesis
    unfolding job_Reconcile_def
  proof (rule triple_seq [OF get])
    fix es g
    show "triple (\<lambda>w. J w = J0 \<and> job_reads es \<and> (\<forall>tj. g = Inr tj \<longrightarrow> J0 req = Some tj))
        (case g of Inl e \<Rightarrow> State_Monad.return (Return (no_requeue, if IsNotFound e then None else Some e))
         | Inr tj \<Rightarrow> if jt_Phase (tj_Status tj) = TJ_PhaseCompleted \<or> jt_Phase (tj_Status tj) = TJ_PhaseFailed
             then State_Monad.return (Return (no_requeue, None)) else reconcile_active r tj)
        (\<lambda>es' res w. run_effect J0 req ?o (es @ es') (J w))"
    proof (cases g)
      case (Inl e)
      then show ?thesis using stay [of es True] by simp
    next
      case (Inr tj)
      show ?thesis
      proof (rule triple_pre [where b = "job_reads es \<and> J0 req = Some tj"])
        assume *: "job_reads es \<and> J0 req = Some tj"
        then have "triple (\<lambda>w. J w = J0) (reconcile_active r tj) (\<lambda>es res w. run_effect J0 req ?o es (J w))"
          using triple_reconcile_active [OF s keyed, of req tj J0] by simp
        then have "triple (\<lambda>w. J w = J0 \<and> job_reads es \<and> J0 req = Some tj) (reconcile_active r tj)
            (\<lambda>es' res w. run_effect J0 req ?o (es @ es') (J w))"
          by (rule triple_conseq) (use * in \<open>blast intro: reads\<close>)+
        with Inr stay [of es "J0 req = Some tj"] show ?thesis by simp
      qed (use Inr in auto)
    qed
  qed
qed

text \<open>Runs for a sequence of requests, in any order, with the logs they leave.\<close>

fun job_runs :: "'w job_reconciler \<Rightarrow> NamespacedName list \<Rightarrow> 'w \<Rightarrow> tj_event list list \<times> 'w" where
  "job_runs r [] w = ([], w)"
| "job_runs r (req # reqs) w =
     (let (res, (w1, tr)) = run_state (job_Reconcile r req) (w, []);
          (trs, w2) = job_runs r reqs w1
      in (tr # trs, w2))"

lemma blocked_effect:
  assumes b: "blocked J0 C" and e: "run_effect J0 req (\<exists>tj. J0 req = Some tj \<and> open_dependency J0 tj) es J1"
  shows "blocked J1 C \<and> (req \<in> C \<longrightarrow> (\<forall>p rep. JobPodCall (CreateCall p rep) \<notin> set es))"
proof -
  have open_dep: "\<exists>tj. J0 req = Some tj \<and> open_dependency J0 tj" if "req \<in> C"
  proof -
    from b that obtain tj d where tj: "J0 req = Some tj" "d \<in> set (js_DependsOn (tj_Spec tj))" "job_key tj d \<in> C"
      unfolding blocked_def by blast
    with b obtain dep where "J0 (job_key tj d) = Some dep" "jt_Phase (tj_Status dep) \<noteq> TJ_PhaseCompleted"
      unfolding blocked_def by blast
    with tj have "open_dependency J0 tj" unfolding open_dependency_def by (metis option.inject)
    with tj(1) show ?thesis by blast
  qed
  have "blocked J1 C"
  proof (cases "J1 = J0")
    case False
    with e obtain s st where s: "J0 req = Some s" "J1 = J0(req \<mapsto> s\<lparr>tj_Status := st\<rparr>)"
      and ph: "(\<exists>tj. J0 req = Some tj \<and> open_dependency J0 tj) \<longrightarrow> jt_Phase st \<noteq> TJ_PhaseCompleted"
      unfolding run_effect_def by blast
    have same: "job_key (s\<lparr>tj_Status := st\<rparr>) n = job_key s n" for n by (simp add: job_key_def)
    show ?thesis
      unfolding blocked_def
    proof (intro conjI allI impI ballI)
      fix k j
      assume "J1 k = Some j"
      then show "job_key j (om_Name (tj_Meta j)) = k"
        using b s same unfolding blocked_def by (auto split: if_splits)
    next
      fix k
      assume k: "k \<in> C"
      with b obtain j where j: "J0 k = Some j" "jt_Phase (tj_Status j) \<noteq> TJ_PhaseCompleted"
        "\<exists>d \<in> set (js_DependsOn (tj_Spec j)). job_key j d \<in> C" unfolding blocked_def by blast
      show "\<exists>j. J1 k = Some j \<and> jt_Phase (tj_Status j) \<noteq> TJ_PhaseCompleted \<and>
          (\<exists>d \<in> set (js_DependsOn (tj_Spec j)). job_key j d \<in> C)"
      proof (cases "k = req")
        case True
        with k ph open_dep have "jt_Phase st \<noteq> TJ_PhaseCompleted" by blast
        with True s j same show ?thesis by simp
      next
        case False
        with s j show ?thesis by simp
      qed
    qed
  qed (use b in simp)
  with e open_dep show ?thesis unfolding run_effect_def by blast
qed

text \<open>C27. Jobs that depend on each other in a cycle never run: on a server that stores what it is
  told, whatever sequence of requests is reconciled, no pod is ever created for a job of the cycle
  and none of them ever completes.\<close>

theorem dependency_cycle_never_runs:
  assumes s: "job_server r J" and b: "blocked (J w) C"
  shows "blocked (J (snd (job_runs r reqs w))) C \<and>
    (\<forall>i < length reqs. reqs ! i \<in> C \<longrightarrow>
       (\<forall>p rep. JobPodCall (CreateCall p rep) \<notin> set (fst (job_runs r reqs w) ! i)))"
  using b
proof (induction reqs arbitrary: w)
  case (Cons req reqs)
  obtain res w1 tr where run: "run_state (job_Reconcile r req) (w, []) = (res, (w1, tr))"
    by (metis prod_cases3)
  obtain trs w2 where rest: "job_runs r reqs w1 = (trs, w2)" by (metis surj_pair)
  have "run_effect (J w) req (\<exists>tj. J w req = Some tj \<and> open_dependency (J w) tj) tr (J w1)"
    using tripleD [OF triple_job_Reconcile [OF s, of "J w" req] _ run] Cons.prems unfolding blocked_def by blast
  from blocked_effect [OF Cons.prems this] have one: "blocked (J w1) C"
    "req \<in> C \<longrightarrow> (\<forall>p rep. JobPodCall (CreateCall p rep) \<notin> set tr)" by blast+
  from Cons.IH [OF one(1)] one(2) show ?case
    by (auto simp: run rest nth_Cons split: nat.split)
qed simp

lemma mem_job_server: "job_server mem_jobs (\<lambda>w. map_of (cu_objs w))"
  unfolding job_server_def
  by (intro conjI allI impI)
     (auto simp: mem_jobs_def job_store_def mem_defs job_key_def update_conv' split: option.splits)

definition cycle_cluster :: "TaskJob cluster" where
  "cycle_cluster =
     jobs_cluster [sample_job ''a'' [''b''] TJ_PhaseQueued, sample_job ''b'' [''a''] TJ_PhaseQueued] []"

definition cycle_keys :: "NamespacedName list" where
  "cycle_keys = [\<lparr>nn_Namespace = ''ns'', nn_Name = ''a''\<rparr>, \<lparr>nn_Namespace = ''ns'', nn_Name = ''b''\<rparr>]"

lemma cycle_blocked: "blocked (map_of (cu_objs cycle_cluster)) (set cycle_keys)"
  unfolding blocked_def cycle_cluster_def cycle_keys_def jobs_cluster_def sample_job_def meta_key_def
    job_key_def zero_ObjectMeta_def
  by (simp add: tj_phase_defs)

theorem dependency_cycle_never_runs_witness:
  "blocked (map_of (cu_objs (snd (job_runs mem_jobs cycle_keys cycle_cluster)))) (set cycle_keys)"
  using dependency_cycle_never_runs [OF mem_job_server cycle_blocked] by (rule conjunct1)

section \<open>Terminal phases and errors\<close>

text \<open>A job fetched in phase \<open>Completed\<close> or \<open>Failed\<close> is left alone for good: the run makes no
  further call, asks for no requeue and reports no error. So a job whose pod could not be created,
  for whatever transient reason, and that was therefore written as \<open>Failed\<close>, is never tried again.\<close>

theorem terminal_job_is_final:
  assumes "cl_Get (jr_jobs r) req w = (Inr tj, w1)"
    and "jt_Phase (tj_Status tj) \<in> {TJ_PhaseCompleted, TJ_PhaseFailed}"
  shows "run_state (job_Reconcile r req) (w, []) =
    (Return (no_requeue, None), (w1, [JobCall (GetCall req (Inr tj))]))"
  using assms by (auto simp: job_Reconcile_def client_Get_def run_simps)

theorem terminal_job_is_final_witness:
  "run_state (job_Reconcile mem_jobs \<lparr>nn_Namespace = ''ns'', nn_Name = ''a''\<rparr>)
      (jobs_cluster [sample_job ''a'' [] TJ_PhaseFailed] [], []) =
    (Return (no_requeue, None), (jobs_cluster [sample_job ''a'' [] TJ_PhaseFailed] [],
       [JobCall (GetCall \<lparr>nn_Namespace = ''ns'', nn_Name = ''a''\<rparr> (Inr (sample_job ''a'' [] TJ_PhaseFailed)))]))"
  by (rule terminal_job_is_final)
     (simp_all add: mem_jobs_def mem_defs job_store_def jobs_cluster_def sample_job_def zero_ObjectMeta_def)

text \<open>\<open>buildPod\<close> panics exactly when the CPU or the memory request, after the defaults \<open>500m\<close>
  and \<open>256Mi\<close>, does not parse as a quantity; otherwise the pod it returns runs the job's image under
  the name \<open>taskjob-\<close> and the job's own name.\<close>

theorem buildPod_panics_iff:
  assumes "\<And>tj p p'. jr_SetControllerReference r tj p = Inr p' \<Longrightarrow>
      om_Name (pod_Meta p') = om_Name (pod_Meta p) \<and> pod_Spec p' = pod_Spec p"
  shows "((\<exists>m. buildPod r tj = Panic m) \<longleftrightarrow>
      (\<exists>e. jr_parseQuantity r (if js_CPURequest (tj_Spec tj) = [] then ''500m'' else js_CPURequest (tj_Spec tj)) = Inl e) \<or>
      (\<exists>e. jr_parseQuantity r (if js_MemoryRequest (tj_Spec tj) = [] then ''256Mi'' else js_MemoryRequest (tj_Spec tj)) = Inl e)) \<and>
    (\<forall>p. buildPod r tj = Return p \<longrightarrow>
      om_Name (pod_Meta p) = ''taskjob-'' @ om_Name (tj_Meta tj) \<and>
      map cn_Image (ps_Containers (pod_Spec p)) = [js_Image (tj_Spec tj)])"
proof (intro conjI allI impI)
  show "(\<exists>m. buildPod r tj = Panic m) \<longleftrightarrow>
      (\<exists>e. jr_parseQuantity r (if js_CPURequest (tj_Spec tj) = [] then ''500m'' else js_CPURequest (tj_Spec tj)) = Inl e) \<or>
      (\<exists>e. jr_parseQuantity r (if js_MemoryRequest (tj_Spec tj) = [] then ''256Mi'' else js_MemoryRequest (tj_Spec tj)) = Inl e)"
    unfolding buildPod_def MustParse_def Let_def by (auto split: sum.splits)
next
  fix p
  assume "buildPod r tj = Return p"
  then obtain cpu mem where "p = job_pod tj cpu mem \<or> jr_SetControllerReference r tj (job_pod tj cpu mem) = Inr p"
    unfolding buildPod_def MustParse_def Let_def by (auto split: sum.splits)
  then have "om_Name (pod_Meta p) = om_Name (pod_Meta (job_pod tj cpu mem))"
    "pod_Spec p = pod_Spec (job_pod tj cpu mem)" using assms by blast+
  then show "om_Name (pod_Meta p) = ''taskjob-'' @ om_Name (tj_Meta tj)"
    "map cn_Image (ps_Containers (pod_Spec p)) = [js_Image (tj_Spec tj)]"
    by (simp_all add: job_pod_def Let_def)
qed

theorem buildPod_panics_iff_witness:
  "\<exists>p. buildPod mem_jobs (sample_job ''a'' [] []) = Return p \<and> om_Name (pod_Meta p) = ''taskjob-a''"
proof -
  have "om_Name (pod_Meta p') = om_Name (pod_Meta p) \<and> pod_Spec p' = pod_Spec p"
    if "jr_SetControllerReference mem_jobs tj p = Inr p'" for tj p p'
    using that by (simp add: mem_jobs_def)
  note b = buildPod_panics_iff [of mem_jobs "sample_job ''a'' [] []", OF this]
  then obtain p where "buildPod mem_jobs (sample_job ''a'' [] []) = Return p"
    by (cases "buildPod mem_jobs (sample_job ''a'' [] [])") (auto simp: mem_jobs_def)
  with b show ?thesis by (auto simp: sample_job_def zero_ObjectMeta_def)
qed

end
