(* ===== verification/Queue_Scaler.thy ===== *)
theory Queue_Scaler
  imports Complex_Main Prelude
begin

text \<open>
  The contract of a queue-driven scaler: for a queue of \<open>q\<close> items the number of pods is
  \<open>q\<close> divided by the items per pod, rounded up and clamped to the configured range. Both the HPA
  calculator and the KEDA scaler implement it; what a caller may rely on is proved once here.
\<close>

definition pods_for :: "int \<Rightarrow> int \<Rightarrow> int \<Rightarrow> int \<Rightarrow> int" where
  "pods_for lo hi k q = max lo (min hi \<lceil>(of_int q :: rat) / of_int k\<rceil>)"

text \<open>The rounding-up division of the code.\<close>

lemma ceiling_quotient:
  assumes "0 < k"
  shows "\<lceil>(of_int q :: rat) / of_int k\<rceil> = (q + k - 1) div k"
proof -
  define n where "n = (q + k - 1) div k"
  have e: "q + k - 1 = n * k + (q + k - 1) mod k" by (simp add: n_def)
  have "(n - 1) * k < q" "q \<le> n * k"
    using e pos_mod_bound [OF assms, of "q + k - 1"] pos_mod_sign [OF assms, of "q + k - 1"]
    by (simp_all add: left_diff_distrib)
  then have "(of_int ((n - 1) * k) :: rat) < of_int q" "(of_int q :: rat) \<le> of_int (n * k)"
    by (simp_all only: of_int_less_iff of_int_le_iff)
  then have "(of_int n :: rat) - 1 < of_int q / of_int k" "(of_int q :: rat) / of_int k \<le> of_int n"
    using assms by (simp_all add: pos_less_divide_eq pos_divide_le_eq)
  then show ?thesis by (simp add: ceiling_eq_iff n_def)
qed

locale queue_scaler =
  fixes replicas :: "'c \<Rightarrow> int \<Rightarrow> int"
    and wf :: "'c \<Rightarrow> bool"
    and fits :: "'c \<Rightarrow> int \<Rightarrow> bool"
    and per_pod lo hi :: "'c \<Rightarrow> int"
  assumes wf_config: "wf c \<Longrightarrow> 0 < per_pod c \<and> 0 \<le> lo c \<and> lo c \<le> hi c"
    and fits_nonneg: "fits c q \<Longrightarrow> 0 \<le> q"
    and replicas_pods: "wf c \<Longrightarrow> fits c q \<Longrightarrow> replicas c q = pods_for (lo c) (hi c) (per_pod c) q"
begin

lemma replicas_bounds:
  assumes "wf c" and "fits c q"
  shows "lo c \<le> replicas c q \<and> replicas c q \<le> hi c"
  using assms wf_config [of c] by (simp add: replicas_pods pods_for_def)

lemma replicas_mono:
  assumes "wf c" and "fits c q" and "fits c q'" and "q \<le> q'"
  shows "replicas c q \<le> replicas c q'"
proof -
  have "(of_int q :: rat) / of_int (per_pod c) \<le> of_int q' / of_int (per_pod c)"
    using assms(4) wf_config [OF assms(1)] by (simp add: divide_right_mono)
  then have "\<lceil>(of_int q :: rat) / of_int (per_pod c)\<rceil> \<le> \<lceil>(of_int q' :: rat) / of_int (per_pod c)\<rceil>"
    by (rule ceiling_mono)
  then show ?thesis by (simp add: replicas_pods assms(1-3) pods_for_def min_def max_def)
qed

text \<open>Below the maximum there are pods for every item, and above the minimum none is idle.\<close>

lemma replicas_enough:
  assumes "wf c" and "fits c q" and "replicas c q < hi c"
  shows "q \<le> replicas c q * per_pod c"
proof -
  have k: "0 < per_pod c" using wf_config [OF assms(1)] by simp
  have "\<lceil>(of_int q :: rat) / of_int (per_pod c)\<rceil> \<le> replicas c q"
    using assms(3) by (simp add: replicas_pods assms(1,2) pods_for_def min_def max_def split: if_splits)
  then have "(of_int q :: rat) / of_int (per_pod c) \<le> of_int (replicas c q)" by (simp add: ceiling_le_iff)
  then have "(of_int q :: rat) \<le> of_int (replicas c q * per_pod c)"
    using k by (simp add: pos_divide_le_eq)
  then show ?thesis by (simp only: of_int_le_iff)
qed

lemma replicas_needed:
  assumes "wf c" and "fits c q" and "lo c < replicas c q"
  shows "(replicas c q - 1) * per_pod c < q"
proof -
  have k: "0 < per_pod c" using wf_config [OF assms(1)] by simp
  have "replicas c q \<le> \<lceil>(of_int q :: rat) / of_int (per_pod c)\<rceil>"
    using assms(3) by (simp add: replicas_pods assms(1,2) pods_for_def min_def max_def split: if_splits)
  then have "of_int (replicas c q - 1) < (of_int q :: rat) / of_int (per_pod c)"
    by (simp add: le_ceiling_iff)
  then have "of_int ((replicas c q - 1) * per_pod c) < (of_int q :: rat)"
    using k by (simp add: pos_less_divide_eq)
  then show ?thesis by (simp only: of_int_less_iff)
qed

end

end
