(* ===== verification/Hpa_Calculator.thy ===== *)
theory Hpa_Calculator
  imports Float64 Go_Text Queue_Scaler
begin

text \<open>
  The replica calculator (\<open>pkg/scaling/hpa_calculator.go\<close>), which meets the contract \<open>queue_scaler\<close> that it
  shares with the KEDA scaler: the number of pods for a queue is the queue length divided by the
  items per pod, rounded up and clamped.

  Integers keep their width, \<open>float64\<close> values are rounded rationals, and a division by zero panics.
  The conversion of an out-of-range float to \<open>int32\<close> is a parameter \<open>undef\<close>, because Go leaves it
  to the platform.
\<close>

section \<open>The calculator\<close>

record MetricsSnapshot =
  ms_QueueDepth :: int64
  ms_ActiveTasks :: int64
  ms_FailedTasks :: int64
  ms_AvgDurationSecs :: float64
  ms_CurrentReplicas :: int32
  ms_CurrentCPU :: float64
  ms_CurrentMemory :: float64
  ms_TargetCPU :: float64
  ms_TargetMemory :: float64

record ScalingDecision =
  sd_DesiredReplicas :: int32
  sd_Action :: string
  sd_Reason :: string
  sd_QueueBasedReplicas :: int32

record HPACalculator =
  hc_minReplicas :: int32
  hc_maxReplicas :: int32
  hc_itemsPerPod :: int64
  hc_cpuThreshold :: float64
  hc_memThreshold :: float64

definition NewHPACalculator :: "int32 \<Rightarrow> int32 \<Rightarrow> int64 \<Rightarrow> float64 \<Rightarrow> float64 \<Rightarrow> HPACalculator" where
  "NewHPACalculator minReplicas maxReplicas itemsPerPod cpuThreshold memThreshold =
     \<lparr>hc_minReplicas = minReplicas, hc_maxReplicas = maxReplicas, hc_itemsPerPod = itemsPerPod,
      hc_cpuThreshold = cpuThreshold, hc_memThreshold = memThreshold\<rparr>"

text \<open>Integer division as Go's run time does it.\<close>

definition go_quot :: "'a::len word \<Rightarrow> 'a word \<Rightarrow> 'a word outcome" where
  "go_quot a b = (if b = 0 then Panic ''integer divide by zero'' else Return (go_div a b))"

definition CalculateDesiredReplicas :: "HPACalculator \<Rightarrow> int64 \<Rightarrow> int32 outcome" where
  "CalculateDesiredReplicas hc queueDepth =
     (if queueDepth = 0 then Return (hc_minReplicas hc)
      else case go_quot (queueDepth + hc_itemsPerPod hc - 1) (hc_itemsPerPod hc) of
             Panic m \<Rightarrow> Panic m
           | Return needed \<Rightarrow>
               if sint needed < sint (hc_minReplicas hc) then Return (hc_minReplicas hc)
               else if sint needed > sint (hc_maxReplicas hc) then Return (hc_maxReplicas hc)
               else Return (to_int32 needed))"

definition ShouldScaleUp :: "HPACalculator \<Rightarrow> MetricsSnapshot \<Rightarrow> bool outcome" where
  "ShouldScaleUp hc m =
     (if ms_CurrentCPU m > hc_cpuThreshold hc then Return True
      else if ms_CurrentMemory m > hc_memThreshold hc then Return True
      else case CalculateDesiredReplicas hc (ms_QueueDepth m) of
             Panic e \<Rightarrow> Panic e
           | Return desiredFromQueue \<Rightarrow> Return (sint desiredFromQueue > sint (ms_CurrentReplicas m)))"

definition ShouldScaleDown :: "HPACalculator \<Rightarrow> MetricsSnapshot \<Rightarrow> bool outcome" where
  "ShouldScaleDown hc m =
     (if sint (ms_CurrentReplicas m) \<le> sint (hc_minReplicas hc) then Return False
      else case ShouldScaleUp hc m of
        Panic e \<Rightarrow> Panic e
      | Return True \<Rightarrow> Return False
      | Return False \<Rightarrow>
          let cpuMargin = fl (hc_cpuThreshold hc * fl (1 / 2));
              memMargin = fl (hc_memThreshold hc * fl (1 / 2))
          in if ms_CurrentCPU m < cpuMargin then Return True
             else if ms_CurrentMemory m < memMargin then Return True
             else let cpuThresholdForQueueScaling = fl (hc_cpuThreshold hc * fl (3 / 5)) in
               case CalculateDesiredReplicas hc (ms_QueueDepth m) of
                 Panic e \<Rightarrow> Panic e
               | Return desiredFromQueue \<Rightarrow>
                   Return (sint desiredFromQueue < sint (ms_CurrentReplicas m) \<and>
                           ms_CurrentCPU m < cpuThresholdForQueueScaling))"

text \<open>The two calculations from a utilisation share their body.\<close>

definition calculateFrom ::
  "(float64 option \<Rightarrow> int32) \<Rightarrow> HPACalculator \<Rightarrow> int32 \<Rightarrow> float64 \<Rightarrow> float64 \<Rightarrow> int32" where
  "calculateFrom undef hc current usage threshold =
     (if usage = 0 then hc_minReplicas hc
      else let ratio = fdiv usage threshold;
               desired = float_to_int32 undef (map_option (\<lambda>r. fl (fl (of_int (sint current)) * r)) ratio)
           in if sint desired < sint (hc_minReplicas hc) then hc_minReplicas hc
              else if sint desired > sint (hc_maxReplicas hc) then hc_maxReplicas hc
              else desired)"

definition calculateFromCPU :: "(float64 option \<Rightarrow> int32) \<Rightarrow> HPACalculator \<Rightarrow> MetricsSnapshot \<Rightarrow> int32" where
  "calculateFromCPU undef hc m =
     calculateFrom undef hc (ms_CurrentReplicas m) (ms_CurrentCPU m) (hc_cpuThreshold hc)"

definition calculateFromMemory :: "(float64 option \<Rightarrow> int32) \<Rightarrow> HPACalculator \<Rightarrow> MetricsSnapshot \<Rightarrow> int32" where
  "calculateFromMemory undef hc m =
     calculateFrom undef hc (ms_CurrentReplicas m) (ms_CurrentMemory m) (hc_memThreshold hc)"

text \<open>The verb \<open>%.1f\<close>: the value rounded to tenths, ties to even.\<close>

definition format_1f :: "float64 \<Rightarrow> string" where
  "format_1f x =
     (let n = round_even (\<bar>x\<bar> * 10) in
      (if x < 0 then ''-'' else []) @ Itoa (n div 10) @ ''.'' @ Itoa (n mod 10))"

definition percent_reason :: "string \<Rightarrow> float64 \<Rightarrow> float64 \<Rightarrow> string" where
  "percent_reason kind usage threshold =
     kind @ ''-based scaling ('' @ format_1f usage @ ''% > '' @ format_1f threshold @ ''%)''"

definition MakeScalingDecision ::
  "(float64 option \<Rightarrow> int32) \<Rightarrow> HPACalculator \<Rightarrow> MetricsSnapshot \<Rightarrow> ScalingDecision outcome" where
  "MakeScalingDecision undef hc m =
     (case CalculateDesiredReplicas hc (ms_QueueDepth m) of
        Panic e \<Rightarrow> Panic e
      | Return queueBased \<Rightarrow>
          (case ShouldScaleUp hc m of
             Panic e \<Rightarrow> Panic e
           | Return True \<Rightarrow>
               let cpuBased = calculateFromCPU undef hc m;
                   memBased = calculateFromMemory undef hc m;
                   (desired, reason) =
                     (if sint cpuBased > sint queueBased
                      then (cpuBased, percent_reason ''CPU'' (ms_CurrentCPU m) (hc_cpuThreshold hc))
                      else if sint memBased > sint queueBased
                      then (memBased, percent_reason ''Memory'' (ms_CurrentMemory m) (hc_memThreshold hc))
                      else (queueBased,
                        ''Queue-based scaling (depth: '' @ Itoa (sint (ms_QueueDepth m)) @ '' items)''))
               in Return \<lparr>sd_DesiredReplicas = desired, sd_Action = ''scale-up'', sd_Reason = reason,
                          sd_QueueBasedReplicas = queueBased\<rparr>
           | Return False \<Rightarrow>
               (case ShouldScaleDown hc m of
                  Panic e \<Rightarrow> Panic e
                | Return True \<Rightarrow>
                    let desired = (if sint queueBased < sint (hc_minReplicas hc) then hc_minReplicas hc else queueBased)
                    in Return \<lparr>sd_DesiredReplicas = desired, sd_Action = ''scale-down'',
                          sd_Reason = ''Scaling down from '' @ Itoa (sint (ms_CurrentReplicas m)) @ '' to '' @
                            Itoa (sint desired) @ '' replicas (queue: '' @ Itoa (sint (ms_QueueDepth m)) @ '' items)'',
                          sd_QueueBasedReplicas = queueBased\<rparr>
                | Return False \<Rightarrow>
                    Return \<lparr>sd_DesiredReplicas = ms_CurrentReplicas m, sd_Action = ''no-change'',
                            sd_Reason = ''Metrics within acceptable ranges'',
                            sd_QueueBasedReplicas = queueBased\<rparr>)))"

section \<open>The queue rule\<close>

lemma go_div_nonneg:
  assumes "0 \<le> sint (a :: int64)" and "0 < sint b"
  shows "sint (go_div a b) = sint a div sint b"
proof -
  have "sint a div sint b \<le> sint a" using assms by (simp add: zdiv_mono2 [of "sint a" 1 "sint b", simplified])
  moreover have "0 \<le> sint a div sint b" using assms by (simp add: pos_imp_zdiv_nonneg_iff)
  ultimately show ?thesis
    using sint_range_64 [of a] assms
    by (simp add: go_div_def signed_divide_int_def sgn_if abs_if sint_of_int_64)
qed

lemma sint_round_up:
  assumes "0 \<le> sint (q :: int64)" and "0 < sint k" and "sint q + sint k \<le> 2 ^ 63"
  shows "sint (q + k - 1) = sint q + sint k - 1"
proof -
  have "q + k - 1 = word_of_int (sint q + sint k - 1)" by (simp add: word_of_int_minus)
  then show ?thesis using assms sint_of_int_64 [of "sint q + sint k - 1"] by (simp only:)
qed

definition hpa_wf :: "HPACalculator \<Rightarrow> bool" where
  "hpa_wf hc \<longleftrightarrow> 0 < sint (hc_itemsPerPod hc) \<and> 0 \<le> sint (hc_minReplicas hc) \<and>
     sint (hc_minReplicas hc) \<le> sint (hc_maxReplicas hc)"

definition hpa_fits :: "HPACalculator \<Rightarrow> int \<Rightarrow> bool" where
  "hpa_fits hc q \<longleftrightarrow> 0 \<le> q \<and> q + sint (hc_itemsPerPod hc) \<le> 2 ^ 63"

definition value_of :: "'a outcome \<Rightarrow> 'a" where
  "value_of x = (case x of Return v \<Rightarrow> v | Panic m \<Rightarrow> undefined)"

definition hpa_replicas :: "HPACalculator \<Rightarrow> int \<Rightarrow> int" where
  "hpa_replicas hc q = sint (value_of (CalculateDesiredReplicas hc (word_of_int q)))"

lemma CalculateDesiredReplicas_returns:
  assumes "hpa_wf hc" and "hpa_fits hc (sint q)"
  shows "\<exists>n. CalculateDesiredReplicas hc q = Return n \<and>
    sint n = pods_for (sint (hc_minReplicas hc)) (sint (hc_maxReplicas hc)) (sint (hc_itemsPerPod hc)) (sint q)"
proof (cases "q = 0")
  case True
  with assms(1) show ?thesis by (simp add: CalculateDesiredReplicas_def pods_for_def hpa_wf_def)
next
  case False
  let ?k = "hc_itemsPerPod hc" and ?lo = "hc_minReplicas hc" and ?hi = "hc_maxReplicas hc"
  define n where "n = go_div (q + ?k - 1) ?k"
  have k: "0 < sint ?k" "0 \<le> sint q" "sint q + sint ?k \<le> 2 ^ 63"
    using assms by (simp_all add: hpa_wf_def hpa_fits_def)
  have "sint n = (sint q + sint ?k - 1) div sint ?k"
    unfolding n_def using k sint_round_up [OF k(2,1,3)] by (subst go_div_nonneg) simp_all
  then have n: "sint n = \<lceil>(of_int (sint q) :: rat) / of_int (sint ?k)\<rceil>"
    by (simp only: ceiling_quotient [OF k(1)])
  have k0: "?k \<noteq> 0" using k(1) by auto
  have "sint (to_int32 n) = sint n" if "sint ?lo \<le> sint n" "sint n \<le> sint ?hi"
    using that sint_range_32 [of ?lo] sint_range_32 [of ?hi] by (intro sint_to_int32) linarith+
  with False k0 assms(1) n show ?thesis
    by (auto simp: CalculateDesiredReplicas_def go_quot_def pods_for_def hpa_wf_def simp flip: n_def)
qed

interpretation hpa: queue_scaler hpa_replicas hpa_wf hpa_fits
  "\<lambda>hc. sint (hc_itemsPerPod hc)" "\<lambda>hc. sint (hc_minReplicas hc)" "\<lambda>hc. sint (hc_maxReplicas hc)"
proof
  fix c q
  assume "hpa_wf c" "hpa_fits c q"
  moreover from this have "sint (word_of_int q :: int64) = q"
    by (intro sint_of_int_64) (auto simp: hpa_wf_def hpa_fits_def)
  ultimately show "hpa_replicas c q =
      pods_for (sint (hc_minReplicas c)) (sint (hc_maxReplicas c)) (sint (hc_itemsPerPod c)) q"
    using CalculateDesiredReplicas_returns [of c "word_of_int q"] by (auto simp: hpa_replicas_def value_of_def)
qed (simp_all add: hpa_wf_def hpa_fits_def)

section \<open>Decisions\<close>

lemma calculateFrom_bounds:
  assumes "hpa_wf hc"
  shows "sint (hc_minReplicas hc) \<le> sint (calculateFrom undef hc cur u t) \<and>
         sint (calculateFrom undef hc cur u t) \<le> sint (hc_maxReplicas hc)"
  using assms by (simp add: calculateFrom_def Let_def hpa_wf_def)

text \<open>Above the threshold the calculated number is at least the current one, within the range.\<close>

lemma calculateFrom_grows:
  assumes "hpa_wf hc" and "0 < t" and "t < u" and "0 \<le> sint cur" and "sint cur \<le> sint (hc_maxReplicas hc)"
    and small: "trunc (fl (of_int (sint cur) * fl (u / t))) < 2 ^ 31"
  shows "sint cur \<le> sint (calculateFrom undef hc cur u t)"
proof -
  have cur: "\<bar>sint cur\<bar> \<le> 2 ^ 53" using sint_range_32 [of cur] by simp
  have "1 \<le> fl (u / t)" using fl_ge_int [of 1 "u / t"] assms(2,3) by simp
  moreover have "(0 :: rat) \<le> of_int (sint cur)" using assms(4) by (simp only: of_int_0_le_iff)
  ultimately have "of_int (sint cur) * 1 \<le> of_int (sint cur) * fl (u / t)" by (rule mult_left_mono)
  then have ge: "sint cur \<le> trunc (fl (of_int (sint cur) * fl (u / t)))"
    using cur by (intro trunc_ge_int fl_ge_int) (simp_all only: mult_1_right)
  have ratio: "fdiv u t = Some (fl (u / t))" using assms(2) by (simp add: fdiv_def)
  have flc: "fl (of_int (sint cur)) = of_int (sint cur)" using cur by (rule fl_of_int)
  have "sint (float_to_int32 undef (Some (fl (of_int (sint cur) * fl (u / t))))) =
      trunc (fl (of_int (sint cur) * fl (u / t)))"
    using small ge assms(4) unfolding float_to_int32_def by (simp add: sint_of_int_32)
  with ge ratio flc assms(2,3,5) show ?thesis
    unfolding calculateFrom_def by (simp only: Let_def option.map) (auto simp: hpa_wf_def)
qed

lemma ShouldScaleUp_False:
  assumes "ShouldScaleUp hc m = Return False" and "CalculateDesiredReplicas hc (ms_QueueDepth m) = Return n"
  shows "sint n \<le> sint (ms_CurrentReplicas m)"
  using assms by (auto simp: ShouldScaleUp_def split: if_splits)

text \<open>C20. The queue rule: for every queue depth that does not overflow \<open>int64\<close>, the calculator
  returns the depth divided by the items per pod, rounded up and clamped. So below the maximum
  there is room for every item, and above the minimum no pod is superfluous.\<close>

theorem desired_replicas_ceiling:
  assumes "hpa_wf hc" and "hpa_fits hc (sint q)"
  shows "\<exists>n. CalculateDesiredReplicas hc q = Return n \<and>
    sint n = pods_for (sint (hc_minReplicas hc)) (sint (hc_maxReplicas hc)) (sint (hc_itemsPerPod hc)) (sint q) \<and>
    sint (hc_minReplicas hc) \<le> sint n \<and> sint n \<le> sint (hc_maxReplicas hc) \<and>
    (sint n < sint (hc_maxReplicas hc) \<longrightarrow> sint q \<le> sint n * sint (hc_itemsPerPod hc)) \<and>
    (sint (hc_minReplicas hc) < sint n \<longrightarrow> (sint n - 1) * sint (hc_itemsPerPod hc) < sint q)"
proof -
  from CalculateDesiredReplicas_returns [OF assms] obtain n where n: "CalculateDesiredReplicas hc q = Return n"
    "sint n = pods_for (sint (hc_minReplicas hc)) (sint (hc_maxReplicas hc)) (sint (hc_itemsPerPod hc)) (sint q)" by blast
  then have "hpa_replicas hc (sint q) = sint n" by (simp add: hpa_replicas_def value_of_def)
  with n hpa.replicas_bounds [OF assms] hpa.replicas_enough [OF assms] hpa.replicas_needed [OF assms]
  show ?thesis by simp
qed

theorem desired_replicas_ceiling_witness:
  "CalculateDesiredReplicas (NewHPACalculator 1 10 5 80 80) 23 = Return 5 \<and>
   (\<exists>n. CalculateDesiredReplicas (NewHPACalculator 1 10 5 80 80) 23 = Return n \<and> sint n = pods_for 1 10 5 23)"
proof -
  have "hpa_wf (NewHPACalculator 1 10 5 80 80)" "hpa_fits (NewHPACalculator 1 10 5 80 80) (sint (23 :: int64))"
    by (simp_all add: hpa_wf_def hpa_fits_def NewHPACalculator_def)
  from desired_replicas_ceiling [OF this] show ?thesis
    by (auto simp: CalculateDesiredReplicas_def NewHPACalculator_def go_quot_def go_div_def to_int32_def signed_divide_int_def)
qed

text \<open>Ten replicas with a short queue, and the given loads.\<close>

definition sample_metrics :: "float64 \<Rightarrow> float64 \<Rightarrow> MetricsSnapshot" where
  "sample_metrics cpu mem =
     \<lparr>ms_QueueDepth = 5, ms_ActiveTasks = 0, ms_FailedTasks = 0, ms_AvgDurationSecs = 0,
      ms_CurrentReplicas = 10, ms_CurrentCPU = cpu, ms_CurrentMemory = mem, ms_TargetCPU = 80,
      ms_TargetMemory = 80\<rparr>"

text \<open>C16. Scaling decisions stay in range: a decision to scale up or down asks for a number between
  the configured bounds, whatever the platform makes of an out-of-range float; a decision to scale
  down never raises the number of replicas and is never made at or below the minimum; any other
  decision keeps the current number.\<close>

theorem scaling_decision_bounds:
  assumes "hpa_wf hc" and "hpa_fits hc (sint (ms_QueueDepth m))"
  shows "\<exists>d. MakeScalingDecision undef hc m = Return d \<and>
    (sd_Action d = ''scale-up'' \<and> sint (hc_minReplicas hc) \<le> sint (sd_DesiredReplicas d) \<and>
       sint (sd_DesiredReplicas d) \<le> sint (hc_maxReplicas hc) \<or>
     sd_Action d = ''scale-down'' \<and> sint (hc_minReplicas hc) \<le> sint (sd_DesiredReplicas d) \<and>
       sint (sd_DesiredReplicas d) \<le> sint (hc_maxReplicas hc) \<and>
       sint (sd_DesiredReplicas d) \<le> sint (ms_CurrentReplicas m) \<and>
       sint (hc_minReplicas hc) < sint (ms_CurrentReplicas m) \<or>
     sd_Action d = ''no-change'' \<and> sd_DesiredReplicas d = ms_CurrentReplicas m)"
proof -
  from CalculateDesiredReplicas_returns [OF assms] obtain n where
    n: "CalculateDesiredReplicas hc (ms_QueueDepth m) = Return n" and
    b: "sint (hc_minReplicas hc) \<le> sint n" "sint n \<le> sint (hc_maxReplicas hc)"
    using assms(1) by (auto simp: pods_for_def hpa_wf_def)
  have "\<exists>up. ShouldScaleUp hc m = Return up" by (auto simp: ShouldScaleUp_def n)
  then obtain up where up: "ShouldScaleUp hc m = Return up" by blast
  have "\<exists>down. ShouldScaleDown hc m = Return down"
    by (cases up) (auto simp: ShouldScaleDown_def up n Let_def)
  then obtain down where down: "ShouldScaleDown hc m = Return down" by blast
  note cpu = calculateFrom_bounds [OF assms(1), of undef "ms_CurrentReplicas m" "ms_CurrentCPU m" "hc_cpuThreshold hc"]
  note mem = calculateFrom_bounds [OF assms(1), of undef "ms_CurrentReplicas m" "ms_CurrentMemory m" "hc_memThreshold hc"]
  consider "up" | "\<not> up" "down" | "\<not> up" "\<not> down" by blast
  then show ?thesis
  proof cases
    case 1
    with n up b cpu mem show ?thesis
      by (simp add: MakeScalingDecision_def calculateFromCPU_def calculateFromMemory_def Let_def)
  next
    case 2
    then have "sint (hc_minReplicas hc) < sint (ms_CurrentReplicas m)"
      using down by (simp add: ShouldScaleDown_def split: if_splits)
    with 2 n up down b ShouldScaleUp_False [OF _ n] show ?thesis
      by (simp add: MakeScalingDecision_def Let_def)
  next
    case 3
    with n up down show ?thesis by (simp add: MakeScalingDecision_def)
  qed
qed

theorem scaling_decision_bounds_witness:
  "\<exists>d. MakeScalingDecision (\<lambda>_. 0) (NewHPACalculator 1 20 10 80 80) (sample_metrics 50 40) = Return d \<and>
       sint (sd_DesiredReplicas d) \<le> 20"
proof -
  have "hpa_wf (NewHPACalculator 1 20 10 80 80)"
    "hpa_fits (NewHPACalculator 1 20 10 80 80) (sint (ms_QueueDepth (sample_metrics 50 40)))"
    by (simp_all add: hpa_wf_def hpa_fits_def NewHPACalculator_def sample_metrics_def)
  from scaling_decision_bounds [OF this, of "\<lambda>_. 0"] show ?thesis
    by (auto simp: NewHPACalculator_def sample_metrics_def)
qed

text \<open>Scaling up on CPU load really scales up: when the CPU load is above its threshold, the
  current number lies within the bounds and the scaled number fits in an \<open>int32\<close>, the decision is
  to scale up to at least the current number of replicas.\<close>

theorem cpu_scale_up_never_lowers:
  assumes "hpa_wf hc" and "hpa_fits hc (sint (ms_QueueDepth m))"
    and "0 < hc_cpuThreshold hc" and "hc_cpuThreshold hc < ms_CurrentCPU m"
    and "0 \<le> sint (ms_CurrentReplicas m)" and "sint (ms_CurrentReplicas m) \<le> sint (hc_maxReplicas hc)"
    and "trunc (fl (of_int (sint (ms_CurrentReplicas m)) * fl (ms_CurrentCPU m / hc_cpuThreshold hc))) < 2 ^ 31"
  shows "\<exists>d. MakeScalingDecision undef hc m = Return d \<and> sd_Action d = ''scale-up'' \<and>
             sint (ms_CurrentReplicas m) \<le> sint (sd_DesiredReplicas d)"
proof -
  from CalculateDesiredReplicas_returns [OF assms(1,2)] obtain n where
    n: "CalculateDesiredReplicas hc (ms_QueueDepth m) = Return n" by blast
  have "sint (ms_CurrentReplicas m) \<le> sint (calculateFromCPU undef hc m)"
    unfolding calculateFromCPU_def using assms by (intro calculateFrom_grows)
  with n assms(4) show ?thesis
    by (auto simp: MakeScalingDecision_def ShouldScaleUp_def Let_def)
qed

theorem cpu_scale_up_never_lowers_witness:
  "\<exists>d. MakeScalingDecision (\<lambda>_. 0) (NewHPACalculator 1 20 10 80 80) (sample_metrics 95 40) = Return d \<and>
       10 \<le> sint (sd_DesiredReplicas d)"
proof -
  let ?hc = "NewHPACalculator 1 20 10 80 80" and ?m = "sample_metrics 95 40"
  have "hpa_wf ?hc" "hpa_fits ?hc (sint (ms_QueueDepth ?m))" "0 < hc_cpuThreshold ?hc"
    "hc_cpuThreshold ?hc < ms_CurrentCPU ?m" "0 \<le> sint (ms_CurrentReplicas ?m)"
    "sint (ms_CurrentReplicas ?m) \<le> sint (hc_maxReplicas ?hc)"
    by (simp_all add: hpa_wf_def hpa_fits_def NewHPACalculator_def sample_metrics_def)
  moreover have "trunc (fl (of_int (sint (ms_CurrentReplicas ?m)) * fl (ms_CurrentCPU ?m / hc_cpuThreshold ?hc))) < 2 ^ 31"
    by code_simp
  ultimately show ?thesis
    using cpu_scale_up_never_lowers [of ?hc ?m "\<lambda>_. 0"] by (auto simp: sample_metrics_def)
qed

text \<open>Scaling up on memory load can scale down: with ten replicas, a memory load of 95 percent
  over a threshold of 80 and a CPU load of 16 percent, the calculator decides to \<open>scale-up\<close> and asks
  for two replicas. A CPU-based number above the queue-based one hides the memory-based number.\<close>

theorem memory_scale_up_lowers:
  "map_option (\<lambda>d. (sd_Action d, sint (sd_DesiredReplicas d)))
     (case MakeScalingDecision undef (NewHPACalculator 1 20 10 80 80)
        (sample_metrics 16 95) of Return d \<Rightarrow> Some d | Panic e \<Rightarrow> None) = Some (''scale-up'', 2)"
  by code_simp

end
