(* ===== verification/Keda_Scaler.thy ===== *)
theory Keda_Scaler
  imports Hpa_Calculator
begin

text \<open>
  The KEDA scaler (\<open>pkg/scaling/keda_scaler.go\<close>): the queue depth in Redis, the background
  publisher with its start, stop and loop, and the replica rule, which meets the contract
  \<open>queue_scaler\<close>. Redis is a parameter: functions on a world \<open>'w\<close>. The goroutine of the publisher
  is a component of the state: how many loops are alive. Each turn of the loop takes one of the
  ready cases of its \<open>select\<close>.
\<close>

section \<open>Redis and the scaler\<close>

datatype redis_error = RedisNil | RedisError error

record 'w redis =
  rd_Ping :: "'w \<Rightarrow> error option \<times> 'w"
  rd_Set :: "string \<Rightarrow> int64 \<Rightarrow> 'w \<Rightarrow> error option \<times> 'w"
  rd_LLen :: "string \<Rightarrow> 'w \<Rightarrow> (redis_error + int64) \<times> 'w"
  rd_Close :: "'w \<Rightarrow> error option \<times> 'w"

record 'w KEDAScaler =
  ks_redisClient :: "'w redis option"
  ks_listName :: string
  ks_publishInterval :: duration
  ks_stopCh_closed :: bool
  ks_isRunning :: bool
  ks_loops :: nat

definition NewKEDAScaler :: "'w redis \<Rightarrow> string \<Rightarrow> string \<Rightarrow> duration \<Rightarrow> 'w \<Rightarrow> (error + 'w KEDAScaler) \<times> 'w" where
  "NewKEDAScaler rd redisAddr listName publishInterval w =
     (let listName = (if listName = [] then ''tasks:pending'' else listName);
          publishInterval = (if publishInterval = 0 then seconds 10 else publishInterval)
      in case rd_Ping rd w of
           (Some e, w) \<Rightarrow> (Inl (WrapError (''failed to connect to Redis at '' @ redisAddr) e), w)
         | (None, w) \<Rightarrow>
             (Inr \<lparr>ks_redisClient = Some rd, ks_listName = listName, ks_publishInterval = publishInterval,
                   ks_stopCh_closed = False, ks_isRunning = False, ks_loops = 0\<rparr>, w))"

definition PublishQueueDepth :: "'w KEDAScaler \<Rightarrow> int64 \<Rightarrow> 'w \<Rightarrow> error option \<times> 'w" where
  "PublishQueueDepth ks depth w =
     (case ks_redisClient ks of
        None \<Rightarrow> (Some (PlainError ''Redis client not initialized''), w)
      | Some rd \<Rightarrow> rd_Set rd (ks_listName ks @ '':depth'') depth w)"

definition GetCurrentQueueDepth :: "'w KEDAScaler \<Rightarrow> 'w \<Rightarrow> (error + int64) \<times> 'w" where
  "GetCurrentQueueDepth ks w =
     (case ks_redisClient ks of
        None \<Rightarrow> (Inl (PlainError ''Redis client not initialized''), w)
      | Some rd \<Rightarrow>
          (case rd_LLen rd (ks_listName ks) w of
             (Inl (RedisError e), w) \<Rightarrow> (Inl e, w)
           | (Inl RedisNil, w) \<Rightarrow> (Inr 0, w)
           | (Inr n, w) \<Rightarrow> (Inr n, w)))"

section \<open>The publisher\<close>

text \<open>\<open>getQueueDepthFunc\<close> is an argument; \<open>None\<close> is the nil function.\<close>

definition StartQueueDepthPublisher ::
  "'w KEDAScaler \<Rightarrow> ('w \<Rightarrow> (error + int64) \<times> 'w) option \<Rightarrow> error option \<times> 'w KEDAScaler" where
  "StartQueueDepthPublisher ks f =
     (if ks_isRunning ks then (Some (PlainError ''queue depth publisher is already running''), ks)
      else if Option.is_none f then (Some (PlainError ''getQueueDepthFunc cannot be nil''), ks)
      else (None, ks\<lparr>ks_isRunning := True, ks_loops := Suc (ks_loops ks)\<rparr>))"

datatype select_case = CaseStop | CaseDone | CaseTick

text \<open>One turn of \<open>publishLoop\<close>, for the case that \<open>select\<close> took.\<close>

definition publishLoop ::
  "('w \<Rightarrow> (error + int64) \<times> 'w) \<Rightarrow> select_case \<Rightarrow> 'w KEDAScaler \<Rightarrow> 'w \<Rightarrow> 'w KEDAScaler \<times> 'w" where
  "publishLoop getQueueDepthFunc c ks w =
     (case c of
        CaseStop \<Rightarrow> (ks\<lparr>ks_isRunning := False, ks_loops := ks_loops ks - 1\<rparr>, w)
      | CaseDone \<Rightarrow> (ks\<lparr>ks_isRunning := False, ks_loops := ks_loops ks - 1\<rparr>, w)
      | CaseTick \<Rightarrow>
          (case getQueueDepthFunc w of
             (Inl e, w) \<Rightarrow> (ks, w)
           | (Inr depth, w) \<Rightarrow> (ks, snd (PublishQueueDepth ks depth w))))"

text \<open>Closing a closed channel panics.\<close>

definition Stop :: "'w KEDAScaler \<Rightarrow> (error option \<times> 'w KEDAScaler) outcome" where
  "Stop ks =
     (if \<not> ks_isRunning ks then Return (Some (PlainError ''queue depth publisher is not running''), ks)
      else if ks_stopCh_closed ks then Panic ''close of closed channel''
      else Return (None, ks\<lparr>ks_stopCh_closed := True\<rparr>))"

definition Close :: "'w KEDAScaler \<Rightarrow> 'w \<Rightarrow> (error option \<times> 'w KEDAScaler \<times> 'w) outcome" where
  "Close ks w =
     (case (if ks_isRunning ks then Stop ks else Return (None, ks)) of
        Panic m \<Rightarrow> Panic m
      | Return (_, ks) \<Rightarrow>
          (case ks_redisClient ks of
             None \<Rightarrow> Return (None, ks, w)
           | Some rd \<Rightarrow> let (e, w) = rd_Close rd w in Return (e, ks, w)))"

section \<open>The replica rule\<close>

definition CalculateDesiredReplicasFromQueueDepth :: "int64 \<Rightarrow> int64 \<Rightarrow> int64 \<Rightarrow> int64 \<Rightarrow> int64 outcome" where
  "CalculateDesiredReplicasFromQueueDepth queueDepth itemsPerPod minReplicas maxReplicas =
     (if queueDepth = 0 then Return minReplicas
      else case go_quot (queueDepth + itemsPerPod - 1) itemsPerPod of
             Panic m \<Rightarrow> Panic m
           | Return needed \<Rightarrow>
               if sint needed < sint minReplicas then Return minReplicas
               else if sint needed > sint maxReplicas then Return maxReplicas
               else Return needed)"

record keda_config =
  kc_itemsPerPod :: int64
  kc_minReplicas :: int64
  kc_maxReplicas :: int64

definition keda_wf :: "keda_config \<Rightarrow> bool" where
  "keda_wf c \<longleftrightarrow> 0 < sint (kc_itemsPerPod c) \<and> 0 \<le> sint (kc_minReplicas c) \<and>
     sint (kc_minReplicas c) \<le> sint (kc_maxReplicas c)"

definition keda_fits :: "keda_config \<Rightarrow> int \<Rightarrow> bool" where
  "keda_fits c q \<longleftrightarrow> 0 \<le> q \<and> q + sint (kc_itemsPerPod c) \<le> 2 ^ 63"

definition keda_replicas :: "keda_config \<Rightarrow> int \<Rightarrow> int" where
  "keda_replicas c q =
     sint (value_of (CalculateDesiredReplicasFromQueueDepth (word_of_int q)
             (kc_itemsPerPod c) (kc_minReplicas c) (kc_maxReplicas c)))"

lemma keda_returns:
  assumes "keda_wf c" and "keda_fits c (sint q)"
  shows "\<exists>n. CalculateDesiredReplicasFromQueueDepth q (kc_itemsPerPod c) (kc_minReplicas c) (kc_maxReplicas c) = Return n \<and>
    sint n = pods_for (sint (kc_minReplicas c)) (sint (kc_maxReplicas c)) (sint (kc_itemsPerPod c)) (sint q)"
proof (cases "q = 0")
  case True
  with assms(1) show ?thesis
    by (simp add: CalculateDesiredReplicasFromQueueDepth_def pods_for_def keda_wf_def)
next
  case False
  let ?k = "kc_itemsPerPod c"
  define n where "n = go_div (q + ?k - 1) ?k"
  have k: "0 < sint ?k" "0 \<le> sint q" "sint q + sint ?k \<le> 2 ^ 63"
    using assms by (simp_all add: keda_wf_def keda_fits_def)
  have "sint n = (sint q + sint ?k - 1) div sint ?k"
    unfolding n_def using k sint_round_up [OF k(2,1,3)] by (subst go_div_nonneg) simp_all
  then have n: "sint n = \<lceil>(of_int (sint q) :: rat) / of_int (sint ?k)\<rceil>"
    by (simp only: ceiling_quotient [OF k(1)])
  have "?k \<noteq> 0" using k(1) by auto
  with False assms(1) n show ?thesis
    by (auto simp: CalculateDesiredReplicasFromQueueDepth_def go_quot_def pods_for_def keda_wf_def simp flip: n_def)
qed

interpretation keda: queue_scaler keda_replicas keda_wf keda_fits
  "\<lambda>c. sint (kc_itemsPerPod c)" "\<lambda>c. sint (kc_minReplicas c)" "\<lambda>c. sint (kc_maxReplicas c)"
proof
  fix c q
  assume "keda_wf c" "keda_fits c q"
  moreover from this have "sint (word_of_int q :: int64) = q"
    by (intro sint_of_int_64) (auto simp: keda_wf_def keda_fits_def)
  ultimately show "keda_replicas c q =
      pods_for (sint (kc_minReplicas c)) (sint (kc_maxReplicas c)) (sint (kc_itemsPerPod c)) q"
    using keda_returns [of c "word_of_int q"] by (auto simp: keda_replicas_def value_of_def)
qed (simp_all add: keda_wf_def keda_fits_def)

text \<open>The two scalers agree: for the same items per pod and bounds, and every queue depth that
  does not overflow, the KEDA scaler and the HPA calculator ask for the same number of replicas.\<close>

theorem keda_agrees_with_hpa:
  assumes "hpa_wf hc" and "hpa_fits hc (sint q)"
  shows "\<exists>n k. CalculateDesiredReplicas hc q = Return n \<and>
    CalculateDesiredReplicasFromQueueDepth q (hc_itemsPerPod hc)
      (to_int64 (hc_minReplicas hc)) (to_int64 (hc_maxReplicas hc)) = Return k \<and> sint k = sint n"
proof -
  let ?c = "\<lparr>kc_itemsPerPod = hc_itemsPerPod hc, kc_minReplicas = to_int64 (hc_minReplicas hc),
    kc_maxReplicas = to_int64 (hc_maxReplicas hc)\<rparr>"
  have "keda_wf ?c" "keda_fits ?c (sint q)"
    using assms by (simp_all add: hpa_wf_def hpa_fits_def keda_wf_def keda_fits_def)
  from keda_returns [OF this] CalculateDesiredReplicas_returns [OF assms] show ?thesis by auto
qed

theorem keda_agrees_with_hpa_witness:
  "\<exists>n k. CalculateDesiredReplicas (NewHPACalculator 2 8 10 80 80) 45 = Return n \<and>
    CalculateDesiredReplicasFromQueueDepth 45 10 2 8 = Return k \<and> sint k = sint n"
proof -
  have "hpa_wf (NewHPACalculator 2 8 10 80 80)" "hpa_fits (NewHPACalculator 2 8 10 80 80) (sint (45 :: int64))"
    by (simp_all add: hpa_wf_def hpa_fits_def NewHPACalculator_def)
  from keda_agrees_with_hpa [OF this] show ?thesis by (simp add: NewHPACalculator_def to_int64_def)
qed

section \<open>Runs of the publisher\<close>

text \<open>\<open>time.NewTicker\<close>, the first call of a new loop, panics for an interval that is not positive.\<close>

definition publishLoop_ticker :: "'w KEDAScaler \<Rightarrow> unit outcome" where
  "publishLoop_ticker ks =
     (if sint (ks_publishInterval ks) \<le> 0 then Panic ''non-positive interval for NewTicker'' else Return ())"

text \<open>
  The calls of the owner and the turns of the loop interleave. A state is the scaler, whether the
  context of the latest start is done, and the world.
\<close>

inductive publisher_step ::
  "('w \<Rightarrow> (error + int64) \<times> 'w) \<Rightarrow> 'w KEDAScaler \<times> bool \<times> 'w \<Rightarrow> 'w KEDAScaler \<times> bool \<times> 'w \<Rightarrow> bool"
  for f where
  start: "StartQueueDepthPublisher ks (Some f) = (None, ks') \<Longrightarrow> publishLoop_ticker ks' = Return () \<Longrightarrow>
    publisher_step f (ks, d, w) (ks', False, w)"
| cancel: "publisher_step f (ks, d, w) (ks, True, w)"
| stop: "Stop ks = Return (e, ks') \<Longrightarrow> publisher_step f (ks, d, w) (ks', d, w)"
| close: "Close ks w = Return (e, ks', w') \<Longrightarrow> publisher_step f (ks, d, w) (ks', d, w')"
| turn_stop: "0 < ks_loops ks \<Longrightarrow> ks_stopCh_closed ks \<Longrightarrow> publishLoop f CaseStop ks w = (ks', w') \<Longrightarrow>
    publisher_step f (ks, d, w) (ks', d, w')"
| turn_done: "0 < ks_loops ks \<Longrightarrow> publishLoop f CaseDone ks w = (ks', w') \<Longrightarrow>
    publisher_step f (ks, True, w) (ks', True, w')"
| turn_tick: "0 < ks_loops ks \<Longrightarrow> publishLoop f CaseTick ks w = (ks', w') \<Longrightarrow>
    publisher_step f (ks, d, w) (ks', d, w')"

definition one_loop :: "'w KEDAScaler \<Rightarrow> bool" where
  "one_loop ks \<longleftrightarrow> ks_loops ks = (if ks_isRunning ks then 1 else 0)"

lemmas publisher_defs = StartQueueDepthPublisher_def Stop_def Close_def publishLoop_def

lemma publisher_step_keeps:
  assumes "publisher_step f s t" and "one_loop (fst s)"
  shows "one_loop (fst t) \<and> (ks_stopCh_closed (fst s) \<longrightarrow> ks_stopCh_closed (fst t))"
  using assms
  by (induction rule: publisher_step.induct)
    (auto simp: one_loop_def publisher_defs split: if_splits option.splits sum.splits prod.splits outcome.splits)

lemma publisher_run_keeps:
  assumes "(publisher_step f)\<^sup>*\<^sup>* s t" and "one_loop (fst s)"
  shows "one_loop (fst t) \<and> (ks_stopCh_closed (fst s) \<longrightarrow> ks_stopCh_closed (fst t))"
  using assms by (induction rule: rtranclp_induct) (use publisher_step_keeps in blast)+

lemma NewKEDAScaler_one_loop:
  "NewKEDAScaler rd a l i w = (Inr ks, w') \<Longrightarrow> one_loop ks \<and> \<not> ks_stopCh_closed ks"
  by (auto simp: NewKEDAScaler_def one_loop_def Let_def split: prod.splits option.splits)

lemma Stop_closes: "Stop ks = Return (None, ks') \<Longrightarrow> ks_stopCh_closed ks'"
  by (auto simp: Stop_def split: if_splits)

text \<open>At most one publisher: in every state a new scaler reaches, under every interleaving of
  starts, stops, closes, cancellations and turns, one loop is alive when the scaler is marked as
  running and none otherwise.\<close>

theorem publisher_single_loop:
  assumes "NewKEDAScaler rd addr l i w = (Inr ks, w')"
    and "(publisher_step f)\<^sup>*\<^sup>* (ks, d, w') (ks', d', w'')"
  shows "ks_loops ks' = (if ks_isRunning ks' then 1 else 0)"
  using publisher_run_keeps [OF assms(2)] NewKEDAScaler_one_loop [OF assms(1)] by (simp add: one_loop_def)

text \<open>A scaler stops successfully at most once: after a successful stop of a reachable state, in
  whatever state the scaler gets to, a restart included, Stop returns an error or panics on the
  closed channel.\<close>

theorem publisher_stops_once:
  assumes "NewKEDAScaler rd addr l i w = (Inr ks, w')"
    and "(publisher_step f)\<^sup>*\<^sup>* (ks, d, w') (ks1, d1, w1)"
    and "Stop ks1 = Return (None, ks2)"
    and "(publisher_step f)\<^sup>*\<^sup>* (ks2, d1, w1) (ks3, d3, w3)"
  shows "Stop ks3 = (if ks_isRunning ks3 then Panic ''close of closed channel''
    else Return (Some (PlainError ''queue depth publisher is not running''), ks3))"
proof -
  have "publisher_step f (ks1, d1, w1) (ks2, d1, w1)" using assms(3) by (rule publisher_step.stop)
  with publisher_run_keeps [OF assms(2)] NewKEDAScaler_one_loop [OF assms(1)] have "one_loop ks2"
    using publisher_step_keeps [of f "(ks1, d1, w1)" "(ks2, d1, w1)"] by simp
  with publisher_run_keeps [OF assms(4)] Stop_closes [OF assms(3)] have "ks_stopCh_closed ks3" by simp
  then show ?thesis by (simp add: Stop_def)
qed

section \<open>A concrete publisher\<close>

text \<open>A Redis that holds the last depth written to it.\<close>

definition mem_redis :: "int64 redis" where
  "mem_redis = \<lparr>rd_Ping = \<lambda>w. (None, w), rd_Set = \<lambda>_ n _. (None, n),
     rd_LLen = \<lambda>_ w. (Inr w, w), rd_Close = \<lambda>w. (None, w)\<rparr>"

definition sample_scaler :: "bool \<Rightarrow> bool \<Rightarrow> int64 KEDAScaler" where
  "sample_scaler shut running = \<lparr>ks_redisClient = Some mem_redis, ks_listName = ''tasks:pending'',
     ks_publishInterval = seconds 10, ks_stopCh_closed = shut, ks_isRunning = running,
     ks_loops = (if running then 1 else 0)\<rparr>"

abbreviation sample_depth :: "int64 \<Rightarrow> (error + int64) \<times> int64" where
  "sample_depth \<equiv> \<lambda>w. (Inr 7, w)"

lemma sample_new: "NewKEDAScaler mem_redis ''redis:6379'' [] 0 0 = (Inr (sample_scaler False False), 0)"
  by (simp add: NewKEDAScaler_def mem_redis_def sample_scaler_def)

lemma sample_start:
  "publisher_step sample_depth (sample_scaler c False, d, w) (sample_scaler c True, False, w)"
  by (rule publisher_step.start)
    (simp_all add: StartQueueDepthPublisher_def publishLoop_ticker_def sample_scaler_def seconds_def)

lemma sample_tick:
  "publisher_step sample_depth (sample_scaler c True, d, w) (sample_scaler c True, d, 7)"
  by (rule publisher_step.turn_tick)
    (simp_all add: publishLoop_def PublishQueueDepth_def sample_scaler_def mem_redis_def)

lemma sample_stop: "Stop (sample_scaler False True) = Return (None, sample_scaler True True)"
  by (simp add: Stop_def sample_scaler_def)

lemma sample_exit:
  "publisher_step sample_depth (sample_scaler True True, d, w) (sample_scaler True False, d, w)"
  by (rule publisher_step.turn_stop) (simp_all add: publishLoop_def sample_scaler_def)

lemma sample_first_run:
  "(publisher_step sample_depth)\<^sup>*\<^sup>* (sample_scaler False False, False, 0) (sample_scaler False True, False, 7)"
  by (rule rtranclp.rtrancl_into_rtrancl [OF r_into_rtranclp], rule sample_start, rule sample_tick)

lemma sample_restart:
  "(publisher_step sample_depth)\<^sup>*\<^sup>* (sample_scaler True True, False, 7) (sample_scaler True True, False, 7)"
  by (rule rtranclp.rtrancl_into_rtrancl [OF r_into_rtranclp], rule sample_exit, rule sample_start)

theorem publisher_single_loop_witness: "ks_loops (sample_scaler False True) = 1"
  using publisher_single_loop [OF sample_new sample_first_run] by (simp add: sample_scaler_def)

theorem publisher_stops_once_witness:
  "Stop (sample_scaler True True) = Panic ''close of closed channel''"
  using publisher_stops_once [OF sample_new sample_first_run sample_stop sample_restart]
  by (simp add: sample_scaler_def)

end
