(* ===== verification/Module1_Client.thy ===== *)
theory Module1_Client
  imports Go_Time Effects
begin

text \<open>
  The gRPC client of the scheduler (\<open>pkg/grpc/module1_client.go\<close>): connecting with retries, the
  circuit breaker, calls with retries and backoff, the four calls of the scheduler, the health check
  and closing. The clock, the gRPC library and the scheduler are a parameter: functions on a world
  \<open>'w\<close>, connections being values of any type \<open>'c\<close>. The log records every dial, sleep, call and
  wait. Lines the code only writes to its logger are left out.
\<close>

section \<open>Messages\<close>

record SubmitTaskRequest =
  sr_TaskID :: string
  sr_TenantID :: string
  sr_Image :: string
  sr_Command :: "string list"
  sr_CPURequest :: string
  sr_MemoryRequest :: string
  sr_Priority :: int32
  sr_TimeoutSeconds :: int64

record SubmitTaskResponse =
  sp_Accepted :: bool
  sp_QueuePosition :: int32
  sp_EstimatedStartSeconds :: int64
  sp_Reason :: string

record TaskStatusResponse =
  ts_TaskID :: string
  ts_Status :: string
  ts_PodName :: string
  ts_StartedAt :: int64
  ts_CompletedAt :: int64
  ts_ExitCode :: int32

record QueueDepthResponse =
  qd_TotalQueued :: int32
  qd_PendingTasks :: int32
  qd_RunningTasks :: int32

text \<open>The messages of the protocol.\<close>

record pb_SubmitTaskRequest =
  pb_sr_TaskId :: string
  pb_sr_TenantId :: string
  pb_sr_Image :: string
  pb_sr_Command :: "string list"
  pb_sr_CpuRequest :: string
  pb_sr_MemoryRequest :: string
  pb_sr_Priority :: int32
  pb_sr_TimeoutSeconds :: int64

record pb_SubmitTaskResponse =
  pb_sp_Accepted :: bool
  pb_sp_QueuePosition :: int32
  pb_sp_EstimatedStartSeconds :: int64
  pb_sp_Reason :: string

record pb_GetTaskStatusRequest =
  pb_gs_TaskId :: string
  pb_gs_TenantId :: string

record pb_TaskStatusResponse =
  pb_ts_TaskId :: string
  pb_ts_Status :: string
  pb_ts_PodName :: string
  pb_ts_StartedAt :: int64
  pb_ts_CompletedAt :: int64
  pb_ts_ExitCode :: int32

record pb_CancelTaskRequest =
  pb_ct_TaskId :: string
  pb_ct_TenantId :: string

record pb_CancelTaskResponse =
  pb_cr_Cancelled :: bool
  pb_cr_Reason :: string

record pb_QueueDepthResponse =
  pb_qd_TotalQueued :: int32
  pb_qd_PendingTasks :: int32
  pb_qd_RunningTasks :: int32

section \<open>The library and the scheduler\<close>

datatype connectivity = Idle | Connecting | Ready | TransientFailure | Shutdown

fun connectivity_String :: "connectivity \<Rightarrow> string" where
  "connectivity_String Idle = ''IDLE''"
| "connectivity_String Connecting = ''CONNECTING''"
| "connectivity_String Ready = ''READY''"
| "connectivity_String TransientFailure = ''TRANSIENT_FAILURE''"
| "connectivity_String Shutdown = ''SHUTDOWN''"

text \<open>
  \<open>rpc_After d\<close> is the \<open>select\<close> of a timer against the context of the call: \<open>None\<close> when the timer
  fired, else the error of the context. A call gets the time limit of its attempt.
\<close>

record ('c, 'w) rpc =
  rpc_Now :: "'w \<Rightarrow> instant \<times> 'w"
  rpc_Sleep :: "duration \<Rightarrow> 'w \<Rightarrow> unit \<times> 'w"
  rpc_After :: "duration \<Rightarrow> 'w \<Rightarrow> error option \<times> 'w"
  rpc_Dial :: "string \<Rightarrow> ('w, 'c) io"
  rpc_GetState :: "'c \<Rightarrow> 'w \<Rightarrow> connectivity \<times> 'w"
  rpc_Close :: "'c \<Rightarrow> 'w \<Rightarrow> error option \<times> 'w"
  rpc_SubmitTask :: "'c \<Rightarrow> duration \<Rightarrow> pb_SubmitTaskRequest \<Rightarrow> ('w, pb_SubmitTaskResponse) io"
  rpc_GetTaskStatus :: "'c \<Rightarrow> duration \<Rightarrow> pb_GetTaskStatusRequest \<Rightarrow> ('w, pb_TaskStatusResponse) io"
  rpc_CancelTask :: "'c \<Rightarrow> duration \<Rightarrow> pb_CancelTaskRequest \<Rightarrow> ('w, pb_CancelTaskResponse) io"
  rpc_GetQueueDepth :: "'c \<Rightarrow> duration \<Rightarrow> ('w, pb_QueueDepthResponse) io"

definition failure :: "error + 'a \<Rightarrow> error option" where
  "failure r = (case r of Inl e \<Rightarrow> Some e | Inr _ \<Rightarrow> None)"

datatype rpc_event =
    DialEvent "error option"
  | SleepEvent duration
  | CallEvent "error option"
  | WaitEvent duration "error option"

section \<open>The client\<close>

datatype CircuitBreakerState = StateClosed | StateOpen | StateHalfOpen

record ClientConfig =
  cc_MaxRetries :: int64
  cc_Timeout :: duration
  cc_RetryBackoff :: duration
  cc_MaxConsecutiveErr :: int64
  cc_CircuitRecoverTime :: duration
  cc_HealthCheckInterval :: duration

record 'c Module1RealClient =
  mc_address :: string
  mc_conn :: "'c option"
  mc_consecutiveErr :: int64
  mc_circuitState :: CircuitBreakerState
  mc_lastFailTime :: instant
  mc_config :: ClientConfig
  mc_stopChan_closed :: bool

section \<open>Connecting\<close>

text \<open>
  The loop of \<open>connectWithRetry\<close> from \<open>attempt\<close> on, with \<open>n\<close> attempts left. A success also returns
  the connection it stores.
\<close>

primrec connect_attempts ::
  "('c, 'w) rpc \<Rightarrow> 'c Module1RealClient \<Rightarrow> nat \<Rightarrow> nat \<Rightarrow> ('w, rpc_event, (error + 'c) \<times> 'c Module1RealClient) act" where
  "connect_attempts env c attempt 0 =
     State_Monad.return (Inl (PlainError (''failed to connect to Module 1 after '' @
       Itoa (sint (cc_MaxRetries (mc_config c))) @ '' attempts'')), c)"
| "connect_attempts env c attempt (Suc n) =
     do {
       r \<leftarrow> logged (rpc_Dial env (mc_address c)) (\<lambda>r. DialEvent (failure r));
       case r of
         Inr conn \<Rightarrow>
           State_Monad.return (Inr conn,
             c\<lparr>mc_conn := Some conn, mc_consecutiveErr := 0, mc_circuitState := StateClosed\<rparr>)
       | Inl e \<Rightarrow>
           do {
             (if 0 < n
              then let d = cc_RetryBackoff (mc_config c) * push_bit (attempt - 1) 1
                   in logged (rpc_Sleep env d) (\<lambda>_. SleepEvent d)
              else State_Monad.return ());
             connect_attempts env c (Suc attempt) n
           }
     }"

definition connectWithRetry ::
  "('c, 'w) rpc \<Rightarrow> 'c Module1RealClient \<Rightarrow> ('w, rpc_event, (error + 'c) \<times> 'c Module1RealClient) act" where
  "connectWithRetry env c = connect_attempts env c 1 (nat (sint (cc_MaxRetries (mc_config c))))"

definition ensureConnected ::
  "('c, 'w) rpc \<Rightarrow> 'c Module1RealClient \<Rightarrow> ('w, rpc_event, (error + 'c) \<times> 'c Module1RealClient) act" where
  "ensureConnected env c =
     (case mc_conn c of
        None \<Rightarrow> State_Monad.return (Inl (PlainError ''client not connected''), c)
      | Some conn \<Rightarrow>
          do {
            state \<leftarrow> silent (rpc_GetState env conn);
            if state = TransientFailure \<or> state = Shutdown then connectWithRetry env c
            else State_Monad.return (Inr conn, c)
          })"

text \<open>
  \<open>getenv\<close> reads an environment variable, the empty string when it is not set. Starting the health
  check adds a goroutine whose turns are \<open>healthCheckLoop\<close> below.
\<close>

definition default_config :: ClientConfig where
  "default_config = \<lparr>cc_MaxRetries = 3, cc_Timeout = seconds 30, cc_RetryBackoff = seconds 1,
     cc_MaxConsecutiveErr = 5, cc_CircuitRecoverTime = seconds 30, cc_HealthCheckInterval = seconds 30\<rparr>"

definition env_config :: "(string \<Rightarrow> string) \<Rightarrow> ClientConfig" where
  "env_config getenv =
     (let config = default_config;
          config = (case Atoi (getenv ''MODULE1_GRPC_TIMEOUT'') of
                      None \<Rightarrow> config
                    | Some t \<Rightarrow> config\<lparr>cc_Timeout := word_of_int t * seconds 1\<rparr>)
      in case Atoi (getenv ''MODULE1_GRPC_MAX_RETRIES'') of
           None \<Rightarrow> config
         | Some r \<Rightarrow> config\<lparr>cc_MaxRetries := word_of_int r\<rparr>)"

definition new_client :: "(string \<Rightarrow> string) \<Rightarrow> 'c Module1RealClient" where
  "new_client getenv =
     \<lparr>mc_address = (if getenv ''MODULE1_GRPC_ADDRESS'' = [] then ''module1-scheduler:50051''
                     else getenv ''MODULE1_GRPC_ADDRESS''),
      mc_conn = None, mc_consecutiveErr = 0, mc_circuitState = StateClosed, mc_lastFailTime = 0,
      mc_config = env_config getenv, mc_stopChan_closed = False\<rparr>"

definition NewModule1RealClient ::
  "('c, 'w) rpc \<Rightarrow> (string \<Rightarrow> string) \<Rightarrow> ('w, rpc_event, error + 'c Module1RealClient) act" where
  "NewModule1RealClient env getenv =
     do {
       (r, c) \<leftarrow> connectWithRetry env (new_client getenv);
       State_Monad.return (case r of Inl e \<Rightarrow> Inl e | Inr _ \<Rightarrow> Inr c)
     }"

section \<open>The circuit breaker\<close>

definition checkCircuitBreaker ::
  "('c, 'w) rpc \<Rightarrow> 'c Module1RealClient \<Rightarrow> ('w, rpc_event, error option \<times> 'c Module1RealClient) act" where
  "checkCircuitBreaker env c =
     (case mc_circuitState c of
        StateClosed \<Rightarrow> State_Monad.return (None, c)
      | StateOpen \<Rightarrow>
          do {
            now \<leftarrow> silent (rpc_Now env);
            if sint (Since now (mc_lastFailTime c)) > sint (cc_CircuitRecoverTime (mc_config c))
            then State_Monad.return (None, c\<lparr>mc_circuitState := StateHalfOpen, mc_consecutiveErr := 0\<rparr>)
            else do {
              now \<leftarrow> silent (rpc_Now env);
              State_Monad.return (Some (PlainError (''circuit breaker is open (failed '' @
                Itoa (sint (cc_MaxConsecutiveErr (mc_config c))) @ '' consecutive times, recover in '' @
                Duration_String (cc_CircuitRecoverTime (mc_config c) - Since now (mc_lastFailTime c)) @ '')'')), c)
            }
          }
      | StateHalfOpen \<Rightarrow> State_Monad.return (None, c))"

definition recordSuccess :: "'c Module1RealClient \<Rightarrow> 'c Module1RealClient" where
  "recordSuccess c =
     (let c = (if mc_circuitState c = StateHalfOpen then c\<lparr>mc_circuitState := StateClosed\<rparr> else c)
      in c\<lparr>mc_consecutiveErr := 0\<rparr>)"

definition recordFailure :: "instant \<Rightarrow> 'c Module1RealClient \<Rightarrow> 'c Module1RealClient" where
  "recordFailure now c =
     (let c = c\<lparr>mc_consecutiveErr := mc_consecutiveErr c + 1, mc_lastFailTime := now\<rparr>
      in if sint (mc_consecutiveErr c) \<ge> sint (cc_MaxConsecutiveErr (mc_config c)) \<and> mc_circuitState c \<noteq> StateOpen
         then c\<lparr>mc_circuitState := StateOpen\<rparr> else c)"

section \<open>Calls with retries\<close>

text \<open>
  The loop of \<open>callWithRetry\<close>, with \<open>n\<close> retries left after this attempt. The last error is nil when
  the loop is not entered at all.
\<close>

datatype 'r attempted = Succeeded 'r | Cancelled error | Exhausted "error option"

primrec call_attempts ::
  "('c, 'w) rpc \<Rightarrow> ('w, 'r) io \<Rightarrow> duration \<Rightarrow> nat \<Rightarrow> ('w, rpc_event, 'r attempted) act" where
  "call_attempts env callFunc backoff 0 =
     do {
       r \<leftarrow> logged callFunc (\<lambda>r. CallEvent (failure r));
       State_Monad.return (case r of Inr x \<Rightarrow> Succeeded x | Inl e \<Rightarrow> Exhausted (Some e))
     }"
| "call_attempts env callFunc backoff (Suc n) =
     do {
       r \<leftarrow> logged callFunc (\<lambda>r. CallEvent (failure r));
       case r of
         Inr x \<Rightarrow> State_Monad.return (Succeeded x)
       | Inl e \<Rightarrow>
           do {
             d \<leftarrow> logged (rpc_After env backoff) (WaitEvent backoff);
             case d of
               None \<Rightarrow> call_attempts env callFunc (backoff * 2) n
             | Some e \<Rightarrow> State_Monad.return (Cancelled e)
           }
     }"

definition all_attempts ::
  "('c, 'w) rpc \<Rightarrow> ClientConfig \<Rightarrow> ('w, 'r) io \<Rightarrow> ('w, rpc_event, 'r attempted) act" where
  "all_attempts env config callFunc =
     (if sint (cc_MaxRetries config) < 0 then State_Monad.return (Exhausted None)
      else call_attempts env callFunc (cc_RetryBackoff config) (nat (sint (cc_MaxRetries config))))"

definition exhausted_error :: "ClientConfig \<Rightarrow> error option \<Rightarrow> error" where
  "exhausted_error config lastErr =
     (let m = ''gRPC call failed after '' @ Itoa (sint (cc_MaxRetries config + 1)) @ '' attempts''
      in case lastErr of Some e \<Rightarrow> WrapError m e | None \<Rightarrow> PlainError (m @ '': %!w(<nil>)''))"

definition callWithRetry ::
  "('c, 'w) rpc \<Rightarrow> 'c Module1RealClient \<Rightarrow> ('w, 'r) io \<Rightarrow>
     ('w, rpc_event, (error + 'r) \<times> 'c Module1RealClient) act" where
  "callWithRetry env c callFunc =
     do {
       (e, c) \<leftarrow> checkCircuitBreaker env c;
       case e of
         Some e \<Rightarrow> State_Monad.return (Inl e, c)
       | None \<Rightarrow>
           do {
             r \<leftarrow> all_attempts env (mc_config c) callFunc;
             case r of
               Succeeded x \<Rightarrow> State_Monad.return (Inr x, recordSuccess c)
             | Cancelled e \<Rightarrow> State_Monad.return (Inl e, c)
             | Exhausted lastErr \<Rightarrow>
                 do {
                   now \<leftarrow> silent (rpc_Now env);
                   State_Monad.return (Inl (exhausted_error (mc_config c) lastErr), recordFailure now c)
                 }
           }
     }"

section \<open>The calls of the scheduler\<close>

text \<open>Each call makes sure of the connection, and then calls with retries.\<close>

definition connected_call ::
  "('c, 'w) rpc \<Rightarrow> 'c Module1RealClient \<Rightarrow> ('c \<Rightarrow> duration \<Rightarrow> ('w, 'r) io) \<Rightarrow>
     ('w, rpc_event, (error + 'r) \<times> 'c Module1RealClient) act" where
  "connected_call env c call =
     do {
       (r, c) \<leftarrow> ensureConnected env c;
       case r of
         Inl e \<Rightarrow> State_Monad.return (Inl e, c)
       | Inr conn \<Rightarrow> callWithRetry env c (call conn (cc_Timeout (mc_config c)))
     }"

definition submit_message :: "SubmitTaskRequest \<Rightarrow> pb_SubmitTaskRequest" where
  "submit_message req =
     \<lparr>pb_sr_TaskId = sr_TaskID req, pb_sr_TenantId = sr_TenantID req, pb_sr_Image = sr_Image req,
      pb_sr_Command = sr_Command req, pb_sr_CpuRequest = sr_CPURequest req,
      pb_sr_MemoryRequest = sr_MemoryRequest req, pb_sr_Priority = sr_Priority req,
      pb_sr_TimeoutSeconds = sr_TimeoutSeconds req\<rparr>"

definition Module1_SubmitTask ::
  "('c, 'w) rpc \<Rightarrow> 'c Module1RealClient \<Rightarrow> SubmitTaskRequest \<Rightarrow>
     ('w, rpc_event, (error + SubmitTaskResponse) \<times> 'c Module1RealClient) act" where
  "Module1_SubmitTask env c req =
     do {
       (r, c) \<leftarrow> connected_call env c (\<lambda>conn limit. rpc_SubmitTask env conn limit (submit_message req));
       State_Monad.return (map_sum id (\<lambda>resp.
         \<lparr>sp_Accepted = pb_sp_Accepted resp, sp_QueuePosition = pb_sp_QueuePosition resp,
          sp_EstimatedStartSeconds = pb_sp_EstimatedStartSeconds resp, sp_Reason = pb_sp_Reason resp\<rparr>) r, c)
     }"

definition Module1_GetTaskStatus ::
  "('c, 'w) rpc \<Rightarrow> 'c Module1RealClient \<Rightarrow> string \<Rightarrow>
     ('w, rpc_event, (error + TaskStatusResponse) \<times> 'c Module1RealClient) act" where
  "Module1_GetTaskStatus env c taskID =
     do {
       (r, c) \<leftarrow> connected_call env c (\<lambda>conn limit.
         rpc_GetTaskStatus env conn limit \<lparr>pb_gs_TaskId = taskID, pb_gs_TenantId = []\<rparr>);
       State_Monad.return (map_sum id (\<lambda>resp.
         \<lparr>ts_TaskID = pb_ts_TaskId resp, ts_Status = pb_ts_Status resp, ts_PodName = pb_ts_PodName resp,
          ts_StartedAt = pb_ts_StartedAt resp, ts_CompletedAt = pb_ts_CompletedAt resp,
          ts_ExitCode = pb_ts_ExitCode resp\<rparr>) r, c)
     }"

text \<open>A refused cancellation is an error of the attempt.\<close>

definition cancel_call :: "('c, 'w) rpc \<Rightarrow> string \<Rightarrow> 'c \<Rightarrow> duration \<Rightarrow> ('w, unit) io" where
  "cancel_call env taskID conn limit w =
     (case rpc_CancelTask env conn limit \<lparr>pb_ct_TaskId = taskID, pb_ct_TenantId = []\<rparr> w of
        (Inl e, w) \<Rightarrow> (Inl e, w)
      | (Inr resp, w) \<Rightarrow>
          (if \<not> pb_cr_Cancelled resp
           then Inl (PlainError (''task cancellation rejected: '' @ pb_cr_Reason resp)) else Inr (), w))"

definition Module1_CancelTask ::
  "('c, 'w) rpc \<Rightarrow> 'c Module1RealClient \<Rightarrow> string \<Rightarrow>
     ('w, rpc_event, (error + unit) \<times> 'c Module1RealClient) act" where
  "Module1_CancelTask env c taskID = connected_call env c (cancel_call env taskID)"

definition Module1_GetQueueDepth ::
  "('c, 'w) rpc \<Rightarrow> 'c Module1RealClient \<Rightarrow>
     ('w, rpc_event, (error + QueueDepthResponse) \<times> 'c Module1RealClient) act" where
  "Module1_GetQueueDepth env c =
     do {
       (r, c) \<leftarrow> connected_call env c (rpc_GetQueueDepth env);
       State_Monad.return (map_sum id (\<lambda>resp.
         \<lparr>qd_TotalQueued = pb_qd_TotalQueued resp, qd_PendingTasks = pb_qd_PendingTasks resp,
          qd_RunningTasks = pb_qd_RunningTasks resp\<rparr>) r, c)
     }"

section \<open>The health check and closing\<close>

text \<open>One turn of the loop: whether it goes on, and the client after it.\<close>

datatype health_case = HealthStop | HealthTick

definition healthCheckLoop ::
  "('c, 'w) rpc \<Rightarrow> health_case \<Rightarrow> 'c Module1RealClient \<Rightarrow> ('w, rpc_event, bool \<times> 'c Module1RealClient) act" where
  "healthCheckLoop env k c =
     (case k of
        HealthStop \<Rightarrow> State_Monad.return (False, c)
      | HealthTick \<Rightarrow> do { (_, c) \<leftarrow> Module1_GetQueueDepth env c; State_Monad.return (True, c) })"

definition GetConnectionState :: "('c, 'w) rpc \<Rightarrow> 'c Module1RealClient \<Rightarrow> ('w, rpc_event, string) act" where
  "GetConnectionState env c =
     (case mc_conn c of
        None \<Rightarrow> State_Monad.return ''disconnected''
      | Some conn \<Rightarrow> do { s \<leftarrow> silent (rpc_GetState env conn); State_Monad.return (connectivity_String s) })"

definition GetCircuitBreakerState :: "'c Module1RealClient \<Rightarrow> string" where
  "GetCircuitBreakerState c =
     (case mc_circuitState c of StateClosed \<Rightarrow> ''closed'' | StateOpen \<Rightarrow> ''open'' | StateHalfOpen \<Rightarrow> ''half-open'')"

definition Module1_Close ::
  "('c, 'w) rpc \<Rightarrow> 'c Module1RealClient \<Rightarrow> ('w, rpc_event, (error option \<times> 'c Module1RealClient) outcome) act" where
  "Module1_Close env c =
     (if mc_stopChan_closed c then State_Monad.return (Panic ''close of closed channel'')
      else let c = c\<lparr>mc_stopChan_closed := True\<rparr>
           in case mc_conn c of
                None \<Rightarrow> State_Monad.return (Return (None, c))
              | Some conn \<Rightarrow>
                  do { e \<leftarrow> silent (rpc_Close env conn); State_Monad.return (Return (e, c)) })"

end
