(* ===== verification/Module1_Properties.thy ===== *)
theory Module1_Properties
  imports Module1_Client
begin

text \<open>
  What the gRPC client of the scheduler guarantees: how often and how far apart a call is retried,
  when the circuit breaker opens and what it does while open, and what counts as a failure.
\<close>

section \<open>The breaker\<close>

lemma recordFailure_config [simp]: "mc_config (recordFailure now c) = mc_config c"
  by (simp add: recordFailure_def Let_def)

lemma recordFailure_conn [simp]: "mc_conn (recordFailure now c) = mc_conn c"
  by (simp add: recordFailure_def Let_def)

lemma recordFailure_count [simp]: "mc_consecutiveErr (recordFailure now c) = mc_consecutiveErr c + 1"
  by (simp add: recordFailure_def Let_def)

lemma recordFailure_state:
  "mc_circuitState (recordFailure now c) =
     (if sint (cc_MaxConsecutiveErr (mc_config c)) \<le> sint (mc_consecutiveErr c + 1) then StateOpen
      else mc_circuitState c)"
  by (simp add: recordFailure_def Let_def)

lemma recordFailure_below:
  assumes "sint (mc_consecutiveErr c) = int k" and "int k < sint (cc_MaxConsecutiveErr (mc_config c))"
  shows "sint (mc_consecutiveErr (recordFailure now c)) = int (Suc k) \<and>
    mc_circuitState (recordFailure now c) =
      (if sint (cc_MaxConsecutiveErr (mc_config c)) \<le> int (Suc k) then StateOpen else mc_circuitState c)"
proof -
  have "sint (mc_consecutiveErr c + 1) = int k + 1"
    using assms sint_range_64 [of "cc_MaxConsecutiveErr (mc_config c)"] by (subst sint_add_64) simp_all
  then show ?thesis by (simp add: recordFailure_state)
qed

text \<open>The steps of the breaker, each under the mutex, in any order that calls in flight give them.\<close>

inductive breaker_step :: "('c, 'w) rpc \<Rightarrow> 'c Module1RealClient \<Rightarrow> 'c Module1RealClient \<Rightarrow> bool" for env where
  check: "run_state (checkCircuitBreaker env c) s = ((e, c'), s') \<Longrightarrow> breaker_step env c c'"
| success: "breaker_step env c (recordSuccess c)"
| failed: "breaker_step env c (recordFailure now c)"
| connect: "run_state (connectWithRetry env c) s = ((r, c'), s') \<Longrightarrow> breaker_step env c c'"

definition breaker_ok :: "'c Module1RealClient \<Rightarrow> bool" where
  "breaker_ok c \<longleftrightarrow> 0 < sint (cc_MaxConsecutiveErr (mc_config c)) \<and>
     (mc_circuitState c \<noteq> StateOpen \<longrightarrow>
        0 \<le> sint (mc_consecutiveErr c) \<and> sint (mc_consecutiveErr c) < sint (cc_MaxConsecutiveErr (mc_config c)))"

lemma check_result:
  assumes "run_state (checkCircuitBreaker env c) s = ((e, c'), s')"
  shows "c' = c \<or> mc_circuitState c = StateOpen \<and> c' = c\<lparr>mc_circuitState := StateHalfOpen, mc_consecutiveErr := 0\<rparr>"
  using assms by (cases s)
    (auto simp: checkCircuitBreaker_def run_simps split: CircuitBreakerState.splits if_splits prod.splits)

lemma connect_attempts_result:
  assumes "run_state (connect_attempts env c k n) s = ((r, c'), s')"
  shows "case r of Inl e \<Rightarrow> c' = c
    | Inr conn \<Rightarrow> c' = c\<lparr>mc_conn := Some conn, mc_consecutiveErr := 0, mc_circuitState := StateClosed\<rparr>"
  using assms
proof (induction n arbitrary: k s)
  case 0
  then show ?case by (simp add: run_simps split: sum.split) auto
next
  case (Suc n)
  obtain w tr where s: "s = (w, tr)" by (cases s)
  show ?case
  proof (cases "rpc_Dial env (mc_address c) w")
    case (Pair d w1)
    with Suc s show ?thesis
      by (cases d) (auto simp: run_simps Let_def split: if_splits prod.splits)
  qed
qed

lemma breaker_step_ok: "breaker_step env c c' \<Longrightarrow> breaker_ok c \<Longrightarrow> breaker_ok c'"
proof (induction rule: breaker_step.induct)
  case (check c s e c' s')
  then show ?case using check_result [OF check(1)] by (auto simp: breaker_ok_def)
next
  case (success c)
  then show ?case by (auto simp: breaker_ok_def recordSuccess_def Let_def)
next
  case (failed c now)
  show ?case
  proof (cases "mc_circuitState c = StateOpen")
    case True
    then show ?thesis using failed by (simp add: breaker_ok_def recordFailure_state)
  next
    case False
    with failed have "sint (mc_consecutiveErr c) = int (nat (sint (mc_consecutiveErr c)))"
      "int (nat (sint (mc_consecutiveErr c))) < sint (cc_MaxConsecutiveErr (mc_config c))"
      by (simp_all add: breaker_ok_def)
    from recordFailure_below [OF this] failed show ?thesis by (auto simp: breaker_ok_def)
  qed
next
  case (connect c s r c' s')
  then show ?case using connect_attempts_result [OF connect(1) [unfolded connectWithRetry_def]]
    by (cases r) (auto simp: breaker_ok_def)
qed

text \<open>C14. The breaker opens in time: along every sequence of checks, successes, failures and
  reconnections of a new client, whichever calls interleave, a breaker that is not open has counted
  fewer consecutive failures than its threshold of five.\<close>

theorem breaker_opens_in_time:
  assumes "(breaker_step env)\<^sup>*\<^sup>* (new_client getenv) c" and "mc_circuitState c \<noteq> StateOpen"
  shows "0 \<le> sint (mc_consecutiveErr c) \<and> sint (mc_consecutiveErr c) < sint (cc_MaxConsecutiveErr (mc_config c))"
proof -
  from assms(1) have "breaker_ok c"
  proof (induction rule: rtranclp_induct)
    case base
    show ?case
      by (simp add: breaker_ok_def new_client_def env_config_def default_config_def Let_def split: option.split)
  next
    case (step c c')
    then show ?case by (blast intro: breaker_step_ok)
  qed
  with assms(2) show ?thesis by (simp add: breaker_ok_def)
qed

text \<open>The threshold is exact, and the same for a probe: from a breaker that has just been closed
  or half-opened, a run of failures opens it at the configured number of failures and not before. A
  half-open breaker therefore lets calls through until the full number of failures.\<close>

theorem breaker_threshold_exact:
  assumes "mc_circuitState c \<noteq> StateOpen" and "mc_consecutiveErr c = 0"
    and "int (length ts) \<le> sint (cc_MaxConsecutiveErr (mc_config c))"
    and "0 < sint (cc_MaxConsecutiveErr (mc_config c))"
  shows "mc_circuitState (fold recordFailure ts c) =
    (if int (length ts) = sint (cc_MaxConsecutiveErr (mc_config c)) then StateOpen else mc_circuitState c)"
proof -
  have "int (length ts) \<le> sint (cc_MaxConsecutiveErr (mc_config c)) \<Longrightarrow>
    mc_config (fold recordFailure ts c) = mc_config c \<and>
    sint (mc_consecutiveErr (fold recordFailure ts c)) = int (length ts) \<and>
    mc_circuitState (fold recordFailure ts c) =
      (if int (length ts) = sint (cc_MaxConsecutiveErr (mc_config c)) then StateOpen else mc_circuitState c)"
  proof (induction ts rule: rev_induct)
    case Nil
    then show ?case using assms by simp
  next
    case (snoc t ts)
    then show ?case using recordFailure_below [of "fold recordFailure ts c" "length ts" t] by auto
  qed
  with assms(3) show ?thesis by blast
qed

section \<open>Retries\<close>

definition calls_of :: "rpc_event list \<Rightarrow> error option list" where
  "calls_of es = List.map_filter (\<lambda>ev. case ev of CallEvent r \<Rightarrow> Some r | _ \<Rightarrow> None) es"

definition waits_of :: "rpc_event list \<Rightarrow> duration list" where
  "waits_of es = List.map_filter (\<lambda>ev. case ev of WaitEvent d _ \<Rightarrow> Some d | _ \<Rightarrow> None) es"

lemma calls_of_simps [simp]:
  "calls_of [] = []" "calls_of (CallEvent r # es) = r # calls_of es"
  "calls_of (WaitEvent d x # es) = calls_of es"
  by (simp_all add: calls_of_def map_filter_simps)

lemma waits_of_simps [simp]:
  "waits_of [] = []" "waits_of (CallEvent r # es) = waits_of es"
  "waits_of (WaitEvent d x # es) = d # waits_of es"
  by (simp_all add: waits_of_def map_filter_simps)

definition doubling :: "duration \<Rightarrow> duration list \<Rightarrow> bool" where
  "doubling b ds \<longleftrightarrow> ds = map (\<lambda>i. b * 2 ^ i) [0..<length ds]"

lemma doubling_Nil [simp]: "doubling b []"
  by (simp add: doubling_def)

lemma doubling_Cons: "doubling (b * 2) ds \<Longrightarrow> doubling b (b # ds)"
  unfolding doubling_def
  by (simp add: upt_conv_Cons map_Suc_upt [symmetric] mult.assoc comp_def del: upt_Suc)

definition retry_ok :: "duration \<Rightarrow> nat \<Rightarrow> rpc_event list \<Rightarrow> 'r attempted \<Rightarrow> bool" where
  "retry_ok b n es r \<longleftrightarrow> 1 \<le> length (calls_of es) \<and> length (calls_of es) \<le> Suc n \<and> doubling b (waits_of es) \<and>
     (None \<in> set (calls_of es) \<longleftrightarrow> (\<exists>x. r = Succeeded x)) \<and>
     ((\<exists>e. r = Exhausted e) \<longrightarrow> length (calls_of es) = Suc n)"

lemma failure_simps [simp]: "failure (Inl e) = Some e" "failure (Inr x) = None"
  by (simp_all add: failure_def)

lemma retry_ok_last [simp]:
  "retry_ok b n [CallEvent None] (Succeeded x)"
  "retry_ok b 0 [CallEvent (Some e)] (Exhausted (Some e))"
  "retry_ok b n [CallEvent (Some e), WaitEvent b (Some c)] (Cancelled c)"
  by (simp_all add: retry_ok_def doubling_def)

lemma call_attempts_log: "wlog (call_attempts env f b n) (retry_ok b n)"
proof (induction n arbitrary: b)
  case 0
  show ?case
    by (auto intro!: wlog_bind wlog_intros split: sum.split)
next
  case (Suc n)
  have rest: "wlog (call_attempts env f (b * 2) n)
    (\<lambda>es r. retry_ok b (Suc n) (CallEvent (Some e) # WaitEvent b None # es) r)" for e
    by (rule wlog_mono [OF Suc]) (auto simp: retry_ok_def intro: doubling_Cons)
  show ?case unfolding call_attempts.simps
    by (intro wlog_bind wlog_intros)
      (auto intro!: rest)
qed

lemma check_log:
  "wlog (checkCircuitBreaker env c) (\<lambda>es (e, c'). es = [] \<and> mc_config c' = mc_config c \<and>
     (e = None \<longrightarrow> mc_circuitState c' \<noteq> StateOpen))"
  unfolding checkCircuitBreaker_def
  by (cases "mc_circuitState c") (auto intro!: wlog_bind wlog_intros)

definition call_ok :: "ClientConfig \<Rightarrow> rpc_event list \<Rightarrow> (error + 'r) \<times> 'c Module1RealClient \<Rightarrow> bool" where
  "call_ok config es = (\<lambda>(r, c'). int (length (calls_of es)) \<le> sint (cc_MaxRetries config) + 1 \<and>
     doubling (cc_RetryBackoff config) (waits_of es) \<and>
     (None \<in> set (calls_of es) \<longleftrightarrow> (\<exists>x. r = Inr x)) \<and>
     ((\<exists>x. r = Inr x) \<longrightarrow> mc_circuitState c' = StateClosed \<and> mc_consecutiveErr c' = 0))"

lemma recordSuccess_closes:
  "mc_circuitState c \<noteq> StateOpen \<Longrightarrow>
     mc_circuitState (recordSuccess c) = StateClosed \<and> mc_consecutiveErr (recordSuccess c) = 0"
  by (cases "mc_circuitState c") (simp_all add: recordSuccess_def)

lemma wlog_case_attempted [wlog_intros]:
  assumes "\<And>x. r = Succeeded x \<Longrightarrow> wlog (f x) P" and "\<And>e. r = Cancelled e \<Longrightarrow> wlog (g e) P"
    and "\<And>e. r = Exhausted e \<Longrightarrow> wlog (h e) P"
  shows "wlog (case r of Succeeded x \<Rightarrow> f x | Cancelled e \<Rightarrow> g e | Exhausted e \<Rightarrow> h e) P"
  using assms by (cases r) simp_all

lemma callWithRetry_log:
  assumes "0 \<le> sint (cc_MaxRetries (mc_config c))"
  shows "wlog (callWithRetry env c f) (call_ok (mc_config c))"
proof -
  have "wlog (all_attempts env (mc_config c) f) (retry_ok (cc_RetryBackoff (mc_config c))
      (nat (sint (cc_MaxRetries (mc_config c)))))"
    using assms call_attempts_log by (simp add: all_attempts_def)
  moreover have "int k \<le> sint (cc_MaxRetries (mc_config c)) + 1"
    if "k \<le> Suc (nat (sint (cc_MaxRetries (mc_config c))))" for k
    using that assms by linarith
  ultimately show ?thesis unfolding callWithRetry_def
    by (intro wlog_seq [OF check_log], clarsimp split: option.split)
      (auto simp: call_ok_def intro!: wlog_intros elim!: wlog_seq, auto simp: retry_ok_def assms recordSuccess_closes intro!: wlog_intros wlog_bind)
qed


lemma open_breaker_call:
  assumes "mc_circuitState c = StateOpen"
    and "fst (rpc_Now env w) - mc_lastFailTime c \<le> sint (cc_CircuitRecoverTime (mc_config c))"
  shows "\<exists>e w'. run_state (callWithRetry env c f) (w, tr) = ((Inl e, c), (w', tr))"
proof -
  have "\<not> sint (Since (fst (rpc_Now env w)) (mc_lastFailTime c)) > sint (cc_CircuitRecoverTime (mc_config c))"
    using assms(2) sint_range_64 [of "cc_CircuitRecoverTime (mc_config c)"]
    unfolding sint_Since by linarith
  with assms(1) show ?thesis
    by (auto simp: callWithRetry_def checkCircuitBreaker_def run_simps split: prod.split)
qed

text \<open>An open breaker fails fast: until the recovery time has passed since the last failure, a
  call makes no attempt and no wait, and returns an error with the client unchanged.\<close>

theorem open_breaker_fails_fast:
  assumes "mc_circuitState c = StateOpen"
    and "fst (rpc_Now env w) - mc_lastFailTime c \<le> sint (cc_CircuitRecoverTime (mc_config c))"
  shows "\<exists>e w'. run_state (callWithRetry env c f) (w, tr) = ((Inl e, c), (w', tr))"
  using assms by (rule open_breaker_call)

section \<open>Refused cancellations\<close>

text \<open>Cancelling several tasks one after the other.\<close>

primrec cancel_all ::
  "('c, 'w) rpc \<Rightarrow> 'c Module1RealClient \<Rightarrow> string list \<Rightarrow> ('w, rpc_event, 'c Module1RealClient) act" where
  "cancel_all env c [] = State_Monad.return c"
| "cancel_all env c (i # is) = do { (_, c) \<leftarrow> Module1_CancelTask env c i; cancel_all env c is }"

text \<open>A healthy scheduler that refuses every cancellation, called with no deadline.\<close>

definition refusing :: "('c, 'w) rpc \<Rightarrow> bool" where
  "refusing env \<longleftrightarrow> (\<forall>w conn. fst (rpc_GetState env conn w) = Ready) \<and>
     (\<forall>w d. fst (rpc_After env d w) = None) \<and>
     (\<forall>w conn d m. \<exists>why. fst (rpc_CancelTask env conn d m w) = Inr \<lparr>pb_cr_Cancelled = False, pb_cr_Reason = why\<rparr>)"

lemma cancel_call_refused:
  assumes "refusing env"
  shows "\<exists>e w'. cancel_call env i conn d w = (Inl e, w')"
proof -
  obtain why where "fst (rpc_CancelTask env conn d \<lparr>pb_ct_TaskId = i, pb_ct_TenantId = []\<rparr> w) =
      Inr \<lparr>pb_cr_Cancelled = False, pb_cr_Reason = why\<rparr>"
    using assms unfolding refusing_def by blast
  then show ?thesis by (auto simp: cancel_call_def split: prod.split)
qed

lemma call_attempts_exhausted:
  assumes "\<And>w. \<exists>e w'. f w = (Inl e, w')" and "\<And>d w. fst (rpc_After env d w) = None"
  shows "\<exists>e w' tr'. run_state (call_attempts env f b n) (w, tr) = (Exhausted (Some e), (w', tr'))"
proof (induction n arbitrary: b w tr)
  case 0
  from assms(1) [of w] obtain e w' where "f w = (Inl e, w')" by blast
  then show ?case by (simp add: run_simps)
next
  case (Suc n)
  from assms(1) [of w] obtain e w1 where f: "f w = (Inl e, w1)" by blast
  obtain w2 where "rpc_After env b w1 = (None, w2)" using assms(2) [of b w1] by (cases "rpc_After env b w1") auto
  with f Suc [of "b * 2" w2] show ?case by (simp add: run_simps)
qed

lemma cancel_refused_counts:
  assumes "refusing env" and "mc_conn c = Some conn" and "mc_circuitState c \<noteq> StateOpen"
  shows "\<exists>e now s'. run_state (Module1_CancelTask env c i) s = ((Inl e, recordFailure now c), s')"
proof -
  obtain w tr where s: "s = (w, tr)" by (cases s)
  obtain w1 where ready: "rpc_GetState env conn w = (Ready, w1)"
    using assms(1) unfolding refusing_def by (cases "rpc_GetState env conn w") (metis fst_conv)
  have after: "fst (rpc_After env d w) = None" for d w using assms(1) by (simp add: refusing_def)
  let ?f = "cancel_call env i conn (cc_Timeout (mc_config c))"
  have check: "checkCircuitBreaker env c = State_Monad.return (None, c)"
    using assms(3) by (cases "mc_circuitState c") (simp_all add: checkCircuitBreaker_def)
  have "\<exists>e s'. run_state (all_attempts env (mc_config c) ?f) (w1, tr) = (Exhausted e, s')"
    using call_attempts_exhausted [of ?f env "cc_RetryBackoff (mc_config c)" "nat (sint (cc_MaxRetries (mc_config c)))" w1 tr,
        OF cancel_call_refused [OF assms(1)] after]
    by (auto simp: all_attempts_def run_simps)
  then obtain e w2 tr2 where "run_state (all_attempts env (mc_config c) ?f) (w1, tr) = (Exhausted e, (w2, tr2))"
    by auto
  with assms(2) ready s check show ?thesis
    by (auto simp: Module1_CancelTask_def connected_call_def ensureConnected_def callWithRetry_def run_simps
        split: prod.split)
qed

lemma cancel_all_counts:
  assumes "refusing env" and "mc_conn c = Some conn" and "mc_circuitState c = StateClosed"
    and "sint (mc_consecutiveErr c) = int k"
    and "int (k + length is) = sint (cc_MaxConsecutiveErr (mc_config c))" and "is \<noteq> []"
  shows "\<exists>c' s'. run_state (cancel_all env c is) s = (c', s') \<and> mc_circuitState c' = StateOpen"
  using assms
proof (induction "is" arbitrary: c k s)
  case (Cons i "is")
  from cancel_refused_counts [OF Cons.prems(1,2), of i s] Cons.prems(3) obtain e now s1 where
    run: "run_state (Module1_CancelTask env c i) s = ((Inl e, recordFailure now c), s1)" by auto
  from Cons.prems have "int k < sint (cc_MaxConsecutiveErr (mc_config c))" by simp
  note count = recordFailure_below [OF Cons.prems(4) this, of now]
  show ?case
  proof (cases "is = []")
    case True
    with run count Cons.prems(5) show ?thesis by (simp add: run_simps)
  next
    case False
    then have "0 < length is" by simp
    with Cons.prems count have closed: "mc_circuitState (recordFailure now c) = StateClosed" by simp
    have "\<exists>c' s'. run_state (cancel_all env (recordFailure now c) is) s1 = (c', s') \<and> mc_circuitState c' = StateOpen"
      using Cons.prems False count closed by (intro Cons.IH [of _ "Suc k"]) simp_all
    with run show ?thesis by (simp add: run_simps)
  qed
qed simp

text \<open>Refused cancellations open the breaker: with a healthy scheduler that answers every
  cancellation with a refusal, as many cancellations as the threshold open the breaker of a connected
  client, so that submissions fail fast too.\<close>

theorem refused_cancels_open_breaker:
  assumes "refusing env" and "mc_conn c = Some conn"
    and "mc_circuitState c = StateClosed" and "mc_consecutiveErr c = 0"
    and "0 < sint (cc_MaxConsecutiveErr (mc_config c))"
    and "int (length is) = sint (cc_MaxConsecutiveErr (mc_config c))"
  shows "\<exists>c' w' es. run_state (cancel_all env c is) (w, []) = (c', (w', es)) \<and> mc_circuitState c' = StateOpen"
proof -
  from assms(5,6) have "is \<noteq> []" by auto
  with cancel_all_counts [OF assms(1,2,3), of 0 "is" "(w, [])"] assms(4,6) show ?thesis by auto
qed

text \<open>No retries means no connection: with the environment's number of retries zero or negative,
  a new client fails without a single dial.\<close>

theorem no_retries_no_connection:
  fixes env :: "('c, 'w) rpc"
  assumes "Atoi (getenv ''MODULE1_GRPC_MAX_RETRIES'') = Some r" and "r \<le> 0"
  shows "run_state (NewModule1RealClient env getenv) (w, tr) =
    (Inl (PlainError (''failed to connect to Module 1 after '' @ Itoa r @ '' attempts'')), (w, tr))"
proof -
  have "sint (cc_MaxRetries (mc_config (new_client getenv :: 'c Module1RealClient))) = r"
    using assms Atoi_range [OF assms(1)] sint_of_int_64 [of r] by (simp add: new_client_def env_config_def Let_def)
  moreover from this assms(2) have "nat (sint (cc_MaxRetries (mc_config (new_client getenv :: 'c Module1RealClient)))) = 0"
    by simp
  ultimately show ?thesis unfolding NewModule1RealClient_def connectWithRetry_def
    by (simp only: connect_attempts.simps run_simps prod.case sum.case)
qed

section \<open>A concrete scheduler\<close>

text \<open>
  The world of the witnesses is the time. Waiting takes no time; the scheduler accepts every task,
  refuses every cancellation, and its queue depth is not available.
\<close>

definition mem_rpc :: "(unit, instant) rpc" where
  "mem_rpc =
     \<lparr>rpc_Now = \<lambda>w. (w, w), rpc_Sleep = \<lambda>_ w. ((), w), rpc_After = \<lambda>_ w. (None, w),
      rpc_Dial = \<lambda>_ w. (Inr (), w), rpc_GetState = \<lambda>_ w. (Ready, w), rpc_Close = \<lambda>_ w. (None, w),
      rpc_SubmitTask = \<lambda>_ _ _ w. (Inr \<lparr>pb_sp_Accepted = True, pb_sp_QueuePosition = 1,
        pb_sp_EstimatedStartSeconds = 5, pb_sp_Reason = []\<rparr>, w),
      rpc_GetTaskStatus = \<lambda>_ _ m w. (Inr \<lparr>pb_ts_TaskId = pb_gs_TaskId m, pb_ts_Status = ''Running'',
        pb_ts_PodName = [], pb_ts_StartedAt = 0, pb_ts_CompletedAt = 0, pb_ts_ExitCode = 0\<rparr>, w),
      rpc_CancelTask = \<lambda>_ _ _ w. (Inr \<lparr>pb_cr_Cancelled = False, pb_cr_Reason = ''completed''\<rparr>, w),
      rpc_GetQueueDepth = \<lambda>_ _ w. (Inl (PlainError ''unavailable''), w)\<rparr>"

definition mem_client :: "CircuitBreakerState \<Rightarrow> int64 \<Rightarrow> unit Module1RealClient" where
  "mem_client st n = \<lparr>mc_address = ''module1-scheduler:50051'', mc_conn = Some (), mc_consecutiveErr = n,
     mc_circuitState = st, mc_lastFailTime = 0, mc_config = default_config, mc_stopChan_closed = False\<rparr>"

lemma mem_config [simp]:
  "mc_config (mem_client st n) = default_config" "cc_MaxConsecutiveErr default_config = 5"
  "cc_MaxRetries default_config = 3" "cc_RetryBackoff default_config = seconds 1"
  "cc_CircuitRecoverTime default_config = seconds 30" "mc_circuitState (mem_client st n) = st"
  "mc_consecutiveErr (mem_client st n) = n" "mc_conn (mem_client st n) = Some ()"
  "mc_lastFailTime (mem_client st n) = 0"
  by (simp_all add: mem_client_def default_config_def)

lemma mem_refusing: "refusing mem_rpc"
  by (simp add: refusing_def mem_rpc_def)

theorem breaker_opens_in_time_witness:
  "sint (mc_consecutiveErr (recordFailure 7 (new_client (\<lambda>_. []) :: unit Module1RealClient))) < 5"
proof -
  let ?c = "new_client (\<lambda>_. []) :: unit Module1RealClient"
  have "(breaker_step mem_rpc)\<^sup>*\<^sup>* ?c (recordFailure 7 ?c)" by (rule r_into_rtranclp, rule breaker_step.failed)
  moreover have "Atoi [] = None" by (simp add: Atoi_def ParseInt_def parse_digits_def)
  moreover from this have "mc_circuitState (recordFailure 7 ?c) \<noteq> StateOpen" "cc_MaxConsecutiveErr (mc_config ?c) = 5"
    by (simp_all add: recordFailure_state new_client_def env_config_def default_config_def Let_def)
  ultimately show ?thesis using breaker_opens_in_time [of mem_rpc "\<lambda>_. []" "recordFailure 7 ?c"] by simp
qed

theorem breaker_threshold_exact_witness:
  "mc_circuitState (fold recordFailure [1, 2, 3, 4] (mem_client StateHalfOpen 0)) = StateHalfOpen \<and>
   mc_circuitState (fold recordFailure [1, 2, 3, 4, 5] (mem_client StateHalfOpen 0)) = StateOpen"
  using breaker_threshold_exact [of "mem_client StateHalfOpen 0" "[1, 2, 3, 4]"]
    breaker_threshold_exact [of "mem_client StateHalfOpen 0" "[1, 2, 3, 4, 5]"] by simp


theorem open_breaker_fails_fast_witness:
  "\<exists>e w'. run_state (callWithRetry mem_rpc (mem_client StateOpen 5) (\<lambda>w. (Inr (), w))) (1000, []) =
     ((Inl e, mem_client StateOpen 5), (w', []))"
  using open_breaker_fails_fast [of "mem_client StateOpen 5" mem_rpc 1000 "\<lambda>w. (Inr (), w)" "[]"]
  by (simp add: mem_rpc_def seconds_def)

theorem refused_cancels_open_breaker_witness:
  "\<exists>c' w' es. run_state (cancel_all mem_rpc (mem_client StateClosed 0) [''a'', ''b'', ''c'', ''d'', ''e'']) (0, []) =
     (c', (w', es)) \<and> mc_circuitState c' = StateOpen"
  using refused_cancels_open_breaker [OF mem_refusing, of "mem_client StateClosed 0" "()"
      "[''a'', ''b'', ''c'', ''d'', ''e'']" 0] by simp

theorem no_retries_no_connection_witness:
  "run_state (NewModule1RealClient mem_rpc (\<lambda>_. ''0'')) (0, []) =
    (Inl (PlainError (''failed to connect to Module 1 after '' @ Itoa 0 @ '' attempts'')), (0, []))"
proof -
  have "Atoi ''0'' = Some 0"
    by (simp add: Atoi_def ParseInt_def parse_digits_def is_digit_def digits_val_def digit_val_def)
  then show ?thesis by (intro no_retries_no_connection) simp_all
qed

end
