(* ===== verification/Module1_Stubs.thy ===== *)
theory Module1_Stubs
  imports Module1_Client
begin

text \<open>
  The two other implementations of the scheduler's interface: \<open>RealClient\<close> (\<open>pkg/grpc/client.go\<close>),
  which connects and answers with placeholders, and \<open>MockClient\<close> (\<open>pkg/grpc/mock_client.go\<close>), which
  keeps the submitted tasks in memory. The contract \<open>scheduler_client\<close> is what a caller of the
  interface may rely on with either.
\<close>

section \<open>The contract\<close>

locale scheduler_client =
  fixes submit :: "'s \<Rightarrow> SubmitTaskRequest \<Rightarrow> (error + SubmitTaskResponse) \<times> 's"
    and status :: "'s \<Rightarrow> 'q \<Rightarrow> (error + TaskStatusResponse) \<times> 's"
    and cancel :: "'s \<Rightarrow> 'q \<Rightarrow> (error + unit) \<times> 's"
    and id_of :: "'q \<Rightarrow> string"
    and inv :: "'s \<Rightarrow> bool"
  assumes submit_inv: "inv s \<Longrightarrow> inv (snd (submit s req))"
    and status_inv: "inv s \<Longrightarrow> inv (snd (status s q))"
    and cancel_inv: "inv s \<Longrightarrow> inv (snd (cancel s q))"
    and status_id: "inv s \<Longrightarrow> fst (status s q) = Inr r \<Longrightarrow> ts_TaskID r = id_of q"
begin

text \<open>A caller's use of the client: any sequence of the three calls.\<close>

inductive used :: "'s \<Rightarrow> 's \<Rightarrow> bool" where
  used_refl: "used s s"
| used_submit: "used s t \<Longrightarrow> used s (snd (submit t req))"
| used_status: "used s t \<Longrightarrow> used s (snd (status t q))"
| used_cancel: "used s t \<Longrightarrow> used s (snd (cancel t q))"

lemma used_inv: "used s t \<Longrightarrow> inv s \<Longrightarrow> inv t"
  by (induction rule: used.induct) (simp_all add: submit_inv status_inv cancel_inv)

lemma used_status_id: "used s t \<Longrightarrow> inv s \<Longrightarrow> fst (status t q) = Inr r \<Longrightarrow> ts_TaskID r = id_of q"
  using used_inv status_id by blast

end

section \<open>The placeholder client\<close>

record 'c RealClient =
  rc_address :: string
  rc_conn :: "'c option"

text \<open>The loop of \<open>connectWithRetry\<close> with \<open>n\<close> of its three attempts left.\<close>

primrec real_connect_attempts ::
  "('c, 'w) rpc \<Rightarrow> 'c RealClient \<Rightarrow> nat \<Rightarrow> ('w, rpc_event, error option \<times> 'c RealClient) act" where
  "real_connect_attempts env c 0 =
     State_Monad.return (Some (PlainError ''failed to connect to Module 1 after 3 attempts''), c)"
| "real_connect_attempts env c (Suc n) =
     do {
       r \<leftarrow> logged (rpc_Dial env (rc_address c)) (\<lambda>r. DialEvent (failure r));
       case r of
         Inr conn \<Rightarrow> State_Monad.return (None, c\<lparr>rc_conn := Some conn\<rparr>)
       | Inl e \<Rightarrow>
           do {
             (if 0 < n then logged (rpc_Sleep env (seconds 2)) (\<lambda>_. SleepEvent (seconds 2))
              else State_Monad.return ());
             real_connect_attempts env c n
           }
     }"

definition real_connectWithRetry ::
  "('c, 'w) rpc \<Rightarrow> 'c RealClient \<Rightarrow> ('w, rpc_event, error option \<times> 'c RealClient) act" where
  "real_connectWithRetry env c = real_connect_attempts env c 3"

definition NewRealClient ::
  "('c, 'w) rpc \<Rightarrow> (string \<Rightarrow> string) \<Rightarrow> ('w, rpc_event, error + 'c RealClient) act" where
  "NewRealClient env getenv =
     do {
       (e, c) \<leftarrow> real_connectWithRetry env
         \<lparr>rc_address = (if getenv ''MODULE1_GRPC_ADDRESS'' = [] then ''localhost:50051''
                         else getenv ''MODULE1_GRPC_ADDRESS''), rc_conn = None\<rparr>;
       State_Monad.return (case e of Some e \<Rightarrow> Inl e | None \<Rightarrow> Inr c)
     }"

definition real_ensureConnected ::
  "('c, 'w) rpc \<Rightarrow> 'c RealClient \<Rightarrow> ('w, rpc_event, error option \<times> 'c RealClient) act" where
  "real_ensureConnected env c =
     (case rc_conn c of
        None \<Rightarrow> State_Monad.return (Some (PlainError ''client not connected''), c)
      | Some conn \<Rightarrow>
          do {
            state \<leftarrow> silent (rpc_GetState env conn);
            if state = TransientFailure \<or> state = Shutdown then real_connectWithRetry env c
            else State_Monad.return (None, c)
          })"

text \<open>The context with its time limit is not used once a call is connected.\<close>

definition real_answer ::
  "('c, 'w) rpc \<Rightarrow> 'c RealClient \<Rightarrow> 'r \<Rightarrow> ('w, rpc_event, (error + 'r) \<times> 'c RealClient) act" where
  "real_answer env c answer =
     do {
       (e, c) \<leftarrow> real_ensureConnected env c;
       State_Monad.return (case e of Some e \<Rightarrow> Inl e | None \<Rightarrow> Inr answer, c)
     }"

definition Real_SubmitTask ::
  "('c, 'w) rpc \<Rightarrow> 'c RealClient \<Rightarrow> SubmitTaskRequest \<Rightarrow>
     ('w, rpc_event, (error + SubmitTaskResponse) \<times> 'c RealClient) act" where
  "Real_SubmitTask env c req = real_answer env c
     \<lparr>sp_Accepted = True, sp_QueuePosition = 1, sp_EstimatedStartSeconds = 5, sp_Reason = []\<rparr>"

definition Real_GetTaskStatus ::
  "('c, 'w) rpc \<Rightarrow> 'c RealClient \<Rightarrow> string \<Rightarrow>
     ('w, rpc_event, (error + TaskStatusResponse) \<times> 'c RealClient) act" where
  "Real_GetTaskStatus env c taskID = real_answer env c
     \<lparr>ts_TaskID = taskID, ts_Status = ''Running'', ts_PodName = taskID @ ''-pod'', ts_StartedAt = 0,
      ts_CompletedAt = 0, ts_ExitCode = 0\<rparr>"

definition Real_CancelTask ::
  "('c, 'w) rpc \<Rightarrow> 'c RealClient \<Rightarrow> string \<Rightarrow> ('w, rpc_event, (error + unit) \<times> 'c RealClient) act" where
  "Real_CancelTask env c taskID = real_answer env c ()"

definition Real_GetQueueDepth ::
  "('c, 'w) rpc \<Rightarrow> 'c RealClient \<Rightarrow> ('w, rpc_event, (error + QueueDepthResponse) \<times> 'c RealClient) act" where
  "Real_GetQueueDepth env c = real_answer env c \<lparr>qd_TotalQueued = 10, qd_PendingTasks = 5, qd_RunningTasks = 5\<rparr>"

definition Real_Close :: "('c, 'w) rpc \<Rightarrow> 'c RealClient \<Rightarrow> ('w, rpc_event, error option) act" where
  "Real_Close env c =
     (case rc_conn c of None \<Rightarrow> State_Monad.return None | Some conn \<Rightarrow> silent (rpc_Close env conn))"

section \<open>The mock\<close>

record MockClient =
  mk_queueDepth :: int32
  mk_podNameFormat :: string
  mk_submitedTasks :: "string \<rightharpoonup> TaskStatusResponse"
  mk_failOnTasks :: "string \<rightharpoonup> bool"

definition NewMockClient :: MockClient where
  "NewMockClient = \<lparr>mk_queueDepth = 5, mk_podNameFormat = ''%s-pod'', mk_submitedTasks = Map.empty,
     mk_failOnTasks = Map.empty\<rparr>"

text \<open>
  \<open>fmt.Sprintf\<close> with one string argument, for formats of literal text, \<open>%%\<close>, and the plain verbs
  \<open>%s\<close> and \<open>%v\<close>; every other plain verb is printed as the bad verb it is for most letters.
\<close>

fun Sprintf_from :: "string option \<Rightarrow> string \<Rightarrow> string" where
  "Sprintf_from a [] = (case a of None \<Rightarrow> [] | Some s \<Rightarrow> ''%!(EXTRA string='' @ s @ '')'')"
| "Sprintf_from a [c] =
     (if c = CHR ''%'' then ''%!(NOVERB)'' else [c]) @
     (case a of None \<Rightarrow> [] | Some s \<Rightarrow> ''%!(EXTRA string='' @ s @ '')'')"
| "Sprintf_from a (c # v # r) =
     (if c \<noteq> CHR ''%'' then c # Sprintf_from a (v # r)
      else if v = CHR ''%'' then CHR ''%'' # Sprintf_from a r
      else case a of
             None \<Rightarrow> ''%!'' @ [v] @ ''(MISSING)'' @ Sprintf_from None r
           | Some s \<Rightarrow>
               (if v = CHR ''s'' \<or> v = CHR ''v'' then s else ''%!'' @ [v] @ ''(string='' @ s @ '')'') @
               Sprintf_from None r)"

definition Sprintf_s :: "string \<Rightarrow> string \<Rightarrow> string" where
  "Sprintf_s format s = Sprintf_from (Some s) format"

text \<open>Seconds of Unix time as instants, and back.\<close>

definition unix_epoch :: int where
  "unix_epoch = 62135596800"

definition Unix_instant :: "int64 \<Rightarrow> instant" where
  "Unix_instant t = (sint t + unix_epoch) * 1000000000"

definition Unix_seconds :: "instant \<Rightarrow> int64" where
  "Unix_seconds now = word_of_int (now div 1000000000 - unix_epoch)"

definition Mock_SubmitTask :: "MockClient \<Rightarrow> SubmitTaskRequest \<Rightarrow> (error + SubmitTaskResponse) \<times> MockClient" where
  "Mock_SubmitTask m req =
     (if mk_failOnTasks m (sr_TaskID req) = Some True
      then (Inr \<lparr>sp_Accepted = False, sp_QueuePosition = 0, sp_EstimatedStartSeconds = 0,
                 sp_Reason = ''Task rejected for testing''\<rparr>, m)
      else (Inr \<lparr>sp_Accepted = True, sp_QueuePosition = 1, sp_EstimatedStartSeconds = 5, sp_Reason = []\<rparr>,
            m\<lparr>mk_submitedTasks := (mk_submitedTasks m)(sr_TaskID req \<mapsto>
               \<lparr>ts_TaskID = sr_TaskID req, ts_Status = ''Pending'',
                ts_PodName = Sprintf_s (mk_podNameFormat m) (sr_TaskID req), ts_StartedAt = 0,
                ts_CompletedAt = 0, ts_ExitCode = 0\<rparr>)\<rparr>))"

definition Mock_GetTaskStatus :: "instant \<Rightarrow> MockClient \<Rightarrow> string \<Rightarrow> (error + TaskStatusResponse) \<times> MockClient" where
  "Mock_GetTaskStatus now m taskID =
     (case mk_submitedTasks m taskID of
        Some st \<Rightarrow>
          let st = (if ts_Status st = ''Pending'' \<and> sint (Since now (Unix_instant (ts_StartedAt st))) > sint (seconds 2)
                    then st\<lparr>ts_Status := ''Running'', ts_StartedAt := Unix_seconds now\<rparr> else st)
          in (Inr st, m\<lparr>mk_submitedTasks := (mk_submitedTasks m)(taskID \<mapsto> st)\<rparr>)
      | None \<Rightarrow>
          (Inr \<lparr>ts_TaskID = taskID, ts_Status = ''Running'',
                ts_PodName = Sprintf_s (mk_podNameFormat m) taskID, ts_StartedAt = Unix_seconds now,
                ts_CompletedAt = 0, ts_ExitCode = 0\<rparr>, m))"

definition Mock_CancelTask :: "instant \<Rightarrow> MockClient \<Rightarrow> string \<Rightarrow> (error + unit) \<times> MockClient" where
  "Mock_CancelTask now m taskID =
     (Inr (), case mk_submitedTasks m taskID of
        Some st \<Rightarrow> m\<lparr>mk_submitedTasks := (mk_submitedTasks m)(taskID \<mapsto>
          st\<lparr>ts_Status := ''Cancelled'', ts_CompletedAt := Unix_seconds now\<rparr>)\<rparr>
      | None \<Rightarrow> m)"

definition Mock_GetQueueDepth :: "MockClient \<Rightarrow> QueueDepthResponse" where
  "Mock_GetQueueDepth m =
     (let pending = go_div (mk_queueDepth m * 2) 3;
          running = mk_queueDepth m - pending
      in \<lparr>qd_TotalQueued = mk_queueDepth m, qd_PendingTasks = pending, qd_RunningTasks = running\<rparr>)"

definition SetQueueDepth :: "MockClient \<Rightarrow> int32 \<Rightarrow> MockClient" where
  "SetQueueDepth m depth = m\<lparr>mk_queueDepth := depth\<rparr>"

definition SetPodNameFormat :: "MockClient \<Rightarrow> string \<Rightarrow> MockClient" where
  "SetPodNameFormat m format = m\<lparr>mk_podNameFormat := format\<rparr>"

definition SetTaskFailure :: "MockClient \<Rightarrow> string \<Rightarrow> bool \<Rightarrow> MockClient" where
  "SetTaskFailure m taskID shouldFail =
     (if shouldFail then m\<lparr>mk_failOnTasks := (mk_failOnTasks m)(taskID \<mapsto> True)\<rparr>
      else m\<lparr>mk_failOnTasks := (mk_failOnTasks m)(taskID := None)\<rparr>)"

definition ResetState :: "MockClient \<Rightarrow> MockClient" where
  "ResetState m = m\<lparr>mk_queueDepth := 5, mk_submitedTasks := Map.empty, mk_failOnTasks := Map.empty\<rparr>"

section \<open>Both meet the contract\<close>

definition on_client ::
  "('c \<Rightarrow> 'x \<Rightarrow> ('w, rpc_event, 'r \<times> 'c) act) \<Rightarrow> 'c \<times> 'w \<times> rpc_event list \<Rightarrow> 'x \<Rightarrow> 'r \<times> 'c \<times> 'w \<times> rpc_event list" where
  "on_client f = (\<lambda>(c, s) x. case run_state (f c x) s of ((r, c'), s') \<Rightarrow> (r, c', s'))"

interpretation real: scheduler_client "on_client (Real_SubmitTask env)" "on_client (Real_GetTaskStatus env)"
  "on_client (Real_CancelTask env)" id "\<lambda>_. True" for env :: "('c, 'w) rpc"
  by unfold_locales
    (auto simp: on_client_def Real_GetTaskStatus_def real_answer_def run_simps split: prod.splits option.splits)

definition mock_keyed :: "MockClient \<Rightarrow> bool" where
  "mock_keyed m \<longleftrightarrow> (\<forall>i st. mk_submitedTasks m i = Some st \<longrightarrow> ts_TaskID st = i)"

text \<open>A query of the mock comes with the time it is made.\<close>

interpretation mock: scheduler_client Mock_SubmitTask "\<lambda>m (now, i). Mock_GetTaskStatus now m i"
  "\<lambda>m (now, i). Mock_CancelTask now m i" snd mock_keyed
  by unfold_locales
    (auto simp: mock_keyed_def Mock_SubmitTask_def Mock_GetTaskStatus_def Mock_CancelTask_def Let_def
      split: option.splits if_splits)

text \<open>The mock answers for the task it was asked about: after any sequence of submissions,
  status queries and cancellations of a new mock, at any times, a status carries the ID of the
  query.\<close>

theorem mock_status_id:
  assumes "scheduler_client.used Mock_SubmitTask (\<lambda>m (now, i). Mock_GetTaskStatus now m i)
      (\<lambda>m (now, i). Mock_CancelTask now m i) NewMockClient m"
    and "fst (Mock_GetTaskStatus now m i) = Inr r"
  shows "ts_TaskID r = i"
  using mock.used_status_id [OF assms(1), of "(now, i)" r] assms(2)
  by (simp add: mock_keyed_def NewMockClient_def)

theorem mock_status_id_witness:
  "\<exists>r. fst (Mock_GetTaskStatus 0 NewMockClient ''t1'') = Inr r \<and> ts_TaskID r = ''t1''"
proof -
  obtain r where r: "fst (Mock_GetTaskStatus 0 NewMockClient ''t1'') = Inr r"
    by (simp add: Mock_GetTaskStatus_def NewMockClient_def)
  with mock_status_id [OF mock.used_refl r] show ?thesis by simp
qed

text \<open>A submitted task of the mock is Running at the first query: the start time of a pending
  task is the Unix epoch, so that the two seconds it should stay pending have always passed.\<close>

theorem mock_task_never_pending:
  assumes "mk_failOnTasks m (sr_TaskID req) \<noteq> Some True" and "(unix_epoch + 2) * 1000000000 < now"
  shows "\<exists>st. fst (Mock_GetTaskStatus now (snd (Mock_SubmitTask m req)) (sr_TaskID req)) = Inr st \<and>
    ts_Status st = ''Running''"
  using assms by (simp add: Mock_GetTaskStatus_def Mock_SubmitTask_def Let_def sint_Since Unix_instant_def
      seconds_def algebra_simps)

theorem mock_task_never_pending_witness:
  "\<exists>st. fst (Mock_GetTaskStatus 63900000000000000000 (snd (Mock_SubmitTask NewMockClient
       \<lparr>sr_TaskID = ''t1'', sr_TenantID = ''a'', sr_Image = ''nginx'', sr_Command = [], sr_CPURequest = [],
        sr_MemoryRequest = [], sr_Priority = 5, sr_TimeoutSeconds = 60\<rparr>)) ''t1'') = Inr st \<and>
     ts_Status st = ''Running''"
  using mock_task_never_pending [of NewMockClient "\<lparr>sr_TaskID = ''t1'', sr_TenantID = ''a'',
      sr_Image = ''nginx'', sr_Command = [], sr_CPURequest = [], sr_MemoryRequest = [], sr_Priority = 5,
      sr_TimeoutSeconds = 60\<rparr>" 63900000000000000000]
  by (simp add: NewMockClient_def unix_epoch_def)

end
