(* ===== verification/Http.thy ===== *)
theory Http
  imports Validators Effects
begin

text \<open>
  HTTP requests and responses as the API uses them. Of a request: the method, the path, the headers
  and query parameters by name (the empty string when one is missing, as \<open>Get\<close> returns it), the body,
  and the values the middleware puts in its context. A response collects its headers, the status once
  written, and the bodies written; values that go to the JSON encoder are kept as they are, with
  instants for the times that it prints.
\<close>

section \<open>Claims\<close>

record Claims =
  cm_TenantID :: string
  cm_UserID :: string
  cm_Email :: string
  cm_Roles :: "string list"
  cm_ExpiresAt :: instant
  cm_IssuedAt :: instant
  cm_NotBefore :: instant
  cm_Issuer :: string
  cm_Subject :: string

section \<open>Requests\<close>

record http_request =
  rq_Method :: string
  rq_Path :: string
  rq_Header :: "string \<Rightarrow> string"
  rq_Query :: "string \<Rightarrow> string"
  rq_Body :: "error + string"
  rq_claims :: "Claims option"
  rq_requestID :: "string option"

section \<open>Responses\<close>

record CloudTaskResponse =
  tr_Name :: string
  tr_Namespace :: string
  tr_Phase :: string
  tr_PodName :: string
  tr_Message :: string
  tr_RetryCount :: int32
  tr_CreatedAt :: instant
  tr_CompletedAt :: "instant option"
  tr_Spec :: CreateCloudTaskRequest

record ComponentStatus =
  cs_Name :: string
  cs_Status :: string
  cs_Message :: string
  cs_Latency :: int64

datatype payload =
    TextBody string
  | HealthBody string instant "ComponentStatus list"
  | ErrorBody string nat string
  | AuthErrorBody string nat
  | FieldsBody string nat "(string \<times> string) list"
  | TaskBody CloudTaskResponse
  | ListBody "CloudTaskResponse list" nat nat int64 int64
  | LogsBody string string string "string option"
  | QueuedBody string string int32 int64 string
  | NamePhaseBody string string
  | MessageBody string
  | ItemsBody "CloudTaskResponse list" nat
  | VersionBody string string string

record http_response =
  rs_headers :: "string \<rightharpoonup> string"
  rs_status :: "nat option"
  rs_bodies :: "payload list"

definition new_response :: http_response where
  "new_response = \<lparr>rs_headers = Map.empty, rs_status = None, rs_bodies = []\<rparr>"

text \<open>The first status written counts, and a body writes the status 200 when there is none.\<close>

definition Header_Set :: "string \<Rightarrow> string \<Rightarrow> http_response \<Rightarrow> http_response" where
  "Header_Set k v w = w\<lparr>rs_headers := (rs_headers w)(k \<mapsto> v)\<rparr>"

definition WriteHeader :: "nat \<Rightarrow> http_response \<Rightarrow> http_response" where
  "WriteHeader code w = (case rs_status w of None \<Rightarrow> w\<lparr>rs_status := Some code\<rparr> | Some _ \<Rightarrow> w)"

definition Write :: "payload \<Rightarrow> http_response \<Rightarrow> http_response" where
  "Write b w = (let w = WriteHeader 200 w in w\<lparr>rs_bodies := rs_bodies w @ [b]\<rparr>)"

definition json_reply :: "nat \<Rightarrow> payload \<Rightarrow> http_response \<Rightarrow> http_response" where
  "json_reply code b w = Write b (WriteHeader code (Header_Set ''Content-Type'' ''application/json'' w))"

type_synonym ('w, 'e) handler = "http_request \<Rightarrow> http_response \<Rightarrow> ('w, 'e, http_response outcome) act"

section \<open>The status wrapper\<close>

text \<open>\<open>responseWriterWrapper\<close> of the router.\<close>

record responseWriterWrapper =
  ww_inner :: http_response
  ww_statusCode :: nat
  ww_written :: bool

definition wrap :: "http_response \<Rightarrow> responseWriterWrapper" where
  "wrap w = \<lparr>ww_inner = w, ww_statusCode = 200, ww_written = False\<rparr>"

definition Wrapper_WriteHeader :: "nat \<Rightarrow> responseWriterWrapper \<Rightarrow> responseWriterWrapper" where
  "Wrapper_WriteHeader code w =
     (if \<not> ww_written w
      then w\<lparr>ww_statusCode := code, ww_written := True, ww_inner := WriteHeader code (ww_inner w)\<rparr> else w)"

definition Wrapper_Write :: "payload \<Rightarrow> responseWriterWrapper \<Rightarrow> responseWriterWrapper" where
  "Wrapper_Write b w =
     (let w = (if \<not> ww_written w then w\<lparr>ww_statusCode := 200, ww_written := True\<rparr> else w)
      in w\<lparr>ww_inner := Write b (ww_inner w)\<rparr>)"

datatype writer_op = OpHeader string string | OpStatus nat | OpWrite payload

fun plain_op :: "writer_op \<Rightarrow> http_response \<Rightarrow> http_response" where
  "plain_op (OpHeader k v) w = Header_Set k v w"
| "plain_op (OpStatus c) w = WriteHeader c w"
| "plain_op (OpWrite b) w = Write b w"

fun wrapped_op :: "writer_op \<Rightarrow> responseWriterWrapper \<Rightarrow> responseWriterWrapper" where
  "wrapped_op (OpHeader k v) w = w\<lparr>ww_inner := Header_Set k v (ww_inner w)\<rparr>"
| "wrapped_op (OpStatus c) w = Wrapper_WriteHeader c w"
| "wrapped_op (OpWrite b) w = Wrapper_Write b w"

lemma wrapped_ops:
  assumes "rs_status w = None"
  shows "ww_inner (fold wrapped_op ops (wrap w)) = fold plain_op ops w \<and>
    (case rs_status (fold plain_op ops w) of
       None \<Rightarrow> \<not> ww_written (fold wrapped_op ops (wrap w)) \<and> ww_statusCode (fold wrapped_op ops (wrap w)) = 200
     | Some c \<Rightarrow> ww_written (fold wrapped_op ops (wrap w)) \<and> ww_statusCode (fold wrapped_op ops (wrap w)) = c)"
proof (induction ops rule: rev_induct)
  case Nil
  then show ?case using assms by (simp add: wrap_def)
next
  case (snoc x xs)
  then show ?case
    by (cases x) (auto simp: Header_Set_def WriteHeader_def Write_def Wrapper_WriteHeader_def Wrapper_Write_def
        Let_def split: option.splits)
qed

text \<open>The status wrapper is transparent: whatever a handler does to a wrapped response, the response
  underneath is the one it would have made directly, and the status the wrapper reports is the status
  sent, 200 when none was.\<close>

theorem wrapper_transparent:
  assumes "rs_status w = None"
  shows "ww_inner (fold wrapped_op ops (wrap w)) = fold plain_op ops w \<and>
    ww_statusCode (fold wrapped_op ops (wrap w)) =
      (case rs_status (fold plain_op ops w) of None \<Rightarrow> 200 | Some c \<Rightarrow> c)"
  using wrapped_ops [OF assms, of ops] by (auto split: option.splits)

theorem wrapper_transparent_witness:
  "ww_statusCode (fold wrapped_op [OpStatus 404, OpWrite (TextBody ''x''), OpStatus 500] (wrap new_response)) = 404"
  using wrapper_transparent [of new_response "[OpStatus 404, OpWrite (TextBody ''x''), OpStatus 500]"]
  by (simp add: new_response_def WriteHeader_def Write_def Let_def)

end
