(* ===== verification/Auth.thy ===== *)
theory Auth
  imports Http
begin

text \<open>
  Tokens and authentication (\<open>pkg/auth/jwt.go\<close>, \<open>pkg/auth/middleware.go\<close>). The JWT library is a
  parameter: parsing a token at a time with a key function, signing claims, and reading a public key
  of some type \<open>'k\<close>. Of a parsing error the code asks only whether it is the library's expiry error.
\<close>

section \<open>The library\<close>

datatype signing_method = HMAC | RSA | OtherMethod

datatype 'k jwt_key = SecretKey string | PublicKey 'k

datatype jwt_error = JwtError bool string

type_synonym 'k keyfunc = "signing_method \<Rightarrow> string \<Rightarrow> error + 'k jwt_key"

text \<open>The key function gets the method of the token and the \<open>alg\<close> of its header.\<close>

record 'k jwt_library =
  jl_Parse :: "instant \<Rightarrow> string \<Rightarrow> 'k keyfunc \<Rightarrow> jwt_error + Claims \<times> bool"
  jl_SignHS256 :: "string \<Rightarrow> Claims \<Rightarrow> error + string"
  jl_ParseRSA :: "string \<Rightarrow> error + 'k"

section \<open>The manager\<close>

definition ErrTokenExpired :: error where "ErrTokenExpired = PlainError ''token has expired''"
definition ErrTokenInvalid :: error where "ErrTokenInvalid = PlainError ''token is invalid or malformed''"
definition ErrTokenMissing :: error where "ErrTokenMissing = PlainError ''token is missing from request''"
definition ErrKeyNotFound :: error where "ErrKeyNotFound = PlainError ''signing key not found in environment''"
definition ErrAlgorithmType :: error where "ErrAlgorithmType = PlainError ''unsupported signing algorithm''"

lemmas auth_errors =
  ErrTokenExpired_def ErrTokenInvalid_def ErrTokenMissing_def ErrKeyNotFound_def ErrAlgorithmType_def

record 'k JWTManager =
  jm_secretKey :: string
  jm_publicKey :: "'k option"
  jm_algorithm :: string

definition NewJWTManager :: "'k jwt_library \<Rightarrow> (string \<Rightarrow> string) \<Rightarrow> string \<Rightarrow> error + 'k JWTManager" where
  "NewJWTManager lib getenv algorithm =
     (let algorithm = (if algorithm = [] then ''HS256'' else algorithm);
          jm = \<lparr>jm_secretKey = [], jm_publicKey = None, jm_algorithm = algorithm\<rparr>
      in if algorithm = ''HS256''
         then let secret = getenv ''JWT_SECRET''
              in if secret = [] then Inl (WrapError ''JWT_SECRET environment variable not set'' ErrKeyNotFound)
                 else Inr (jm\<lparr>jm_secretKey := secret\<rparr>)
         else if algorithm = ''RS256''
         then let pem = getenv ''JWT_PUBLIC_KEY''
              in if pem = [] then Inl (WrapError ''JWT_PUBLIC_KEY environment variable not set'' ErrKeyNotFound)
                 else case jl_ParseRSA lib pem of
                        Inl e \<Rightarrow> Inl (WrapError ''failed to parse RSA public key'' e)
                      | Inr key \<Rightarrow> Inr (jm\<lparr>jm_publicKey := Some key\<rparr>)
         else Inl (WrapError (''unsupported algorithm '' @ algorithm) ErrAlgorithmType))"

text \<open>A numeric date drops the fraction of the second; \<open>now\<close> is the reading of the clock.\<close>

definition NewNumericDate :: "instant \<Rightarrow> instant" where
  "NewNumericDate t = t - t mod 1000000000"

definition hours :: "int64 \<Rightarrow> duration" where
  "hours n = n * 3600000000000"

definition token_claims :: "instant \<Rightarrow> string \<Rightarrow> string \<Rightarrow> string \<Rightarrow> string list \<Rightarrow> int64 \<Rightarrow> Claims" where
  "token_claims now tenantID userID email roles expirationHours =
     \<lparr>cm_TenantID = tenantID, cm_UserID = userID, cm_Email = email, cm_Roles = roles,
      cm_ExpiresAt = NewNumericDate (now + sint (hours expirationHours)),
      cm_IssuedAt = NewNumericDate now, cm_NotBefore = NewNumericDate now,
      cm_Issuer = ''cloudtask-orchestrator'', cm_Subject = userID\<rparr>"

definition GenerateToken ::
  "'k jwt_library \<Rightarrow> 'k JWTManager \<Rightarrow> instant \<Rightarrow> string \<Rightarrow> string \<Rightarrow> string \<Rightarrow> string list \<Rightarrow> int64 \<Rightarrow> error + string" where
  "GenerateToken lib jm now tenantID userID email roles expirationHours =
     (if jm_algorithm jm \<noteq> ''HS256''
      then Inl (PlainError ''GenerateToken only supports HS256; use RSA key pair for RS256'')
      else case jl_SignHS256 lib (jm_secretKey jm) (token_claims now tenantID userID email roles expirationHours) of
             Inl e \<Rightarrow> Inl (WrapError ''failed to sign token'' e)
           | Inr tok \<Rightarrow> Inr tok)"

text \<open>A nil public key is the key function's value \<open>nil\<close>, which verifies nothing: an error here.\<close>

definition keyFunc :: "'k JWTManager \<Rightarrow> 'k keyfunc" where
  "keyFunc jm m alg =
     (if jm_algorithm jm = ''HS256''
      then (if m \<noteq> HMAC then Inl (PlainError (''unexpected signing method: '' @ alg))
            else Inr (SecretKey (jm_secretKey jm)))
      else if jm_algorithm jm = ''RS256''
      then (if m \<noteq> RSA then Inl (PlainError (''unexpected signing method: '' @ alg))
            else case jm_publicKey jm of
                   None \<Rightarrow> Inl (PlainError ''key is of invalid type'')
                 | Some k \<Rightarrow> Inr (PublicKey k))
      else Inl ErrAlgorithmType)"

definition ValidateToken :: "'k jwt_library \<Rightarrow> 'k JWTManager \<Rightarrow> instant \<Rightarrow> string \<Rightarrow> error + Claims" where
  "ValidateToken lib jm now tokenString =
     (if tokenString = [] then Inl ErrTokenMissing
      else case jl_Parse lib now tokenString (keyFunc jm) of
             Inl (JwtError expired m) \<Rightarrow>
               if expired then Inl ErrTokenExpired
               else Inl (WrapError (error_text ErrTokenInvalid) (PlainError m))
           | Inr (claims, valid) \<Rightarrow>
               if \<not> valid then Inl ErrTokenInvalid
               else if cm_TenantID claims = [] \<or> cm_UserID claims = []
               then Inl (WrapError ''missing required claims (tenant_id, user_id)'' ErrTokenInvalid)
               else Inr claims)"

section \<open>The middleware\<close>

definition extractBearerToken :: "http_request \<Rightarrow> string" where
  "extractBearerToken r =
     (let authHeader = rq_Header r ''Authorization''
      in if authHeader = [] then []
         else case SplitN2 CHR '' '' authHeader of
                [scheme, tok] \<Rightarrow> if ToLower scheme \<noteq> ''bearer'' then [] else tok
              | _ \<Rightarrow> [])"

definition AuthMiddleware ::
  "'k jwt_library \<Rightarrow> 'k JWTManager \<Rightarrow> instant \<Rightarrow> ('w, 'e) handler \<Rightarrow> ('w, 'e) handler" where
  "AuthMiddleware lib jm now next r w =
     (let tokenString = extractBearerToken r
      in if tokenString = []
         then State_Monad.return (Return (json_reply 401 (AuthErrorBody
                ''Missing or invalid Authorization header (expected: Authorization: Bearer <token>)'' 401) w))
         else case ValidateToken lib jm now tokenString of
                Inl e \<Rightarrow>
                  let errorMsg = (if e = ErrTokenExpired then ''Token has expired''
                                  else if e = ErrTokenInvalid then ''Token is invalid or malformed''
                                  else ''Invalid token'')
                  in State_Monad.return (Return (json_reply 403 (AuthErrorBody errorMsg 403) w))
              | Inr claims \<Rightarrow> next (r\<lparr>rq_claims := Some claims\<rparr>) w)"

definition GetClaimsFromContext :: "http_request \<Rightarrow> error + Claims" where
  "GetClaimsFromContext r =
     (case rq_claims r of None \<Rightarrow> Inl (PlainError ''claims not found in context'') | Some c \<Rightarrow> Inr c)"

definition GetTenantIDFromContext :: "http_request \<Rightarrow> error + string" where
  "GetTenantIDFromContext r = map_sum id cm_TenantID (GetClaimsFromContext r)"

definition GetUserIDFromContext :: "http_request \<Rightarrow> error + string" where
  "GetUserIDFromContext r = map_sum id cm_UserID (GetClaimsFromContext r)"

section \<open>Properties\<close>

text \<open>
  What the code relies on: the library accepts a token only when the key function, asked with the
  token's own method, returned a key under which the signature verifies. \<open>verifies\<close> is the
  cryptographic relation of token, method, key and claims.
\<close>

definition checks_signatures ::
  "'k jwt_library \<Rightarrow> (string \<Rightarrow> signing_method \<Rightarrow> 'k jwt_key \<Rightarrow> Claims \<Rightarrow> bool) \<Rightarrow> bool" where
  "checks_signatures lib verifies \<longleftrightarrow> (\<forall>now tok kf c. jl_Parse lib now tok kf = Inr (c, True) \<longrightarrow>
     (\<exists>m alg k. kf m alg = Inr k \<and> verifies tok m k c))"

text \<open>C9. The algorithm is pinned: a token that ValidateToken accepts is signed with HMAC under the
  configured secret when the manager is for HS256, with RSA under the configured public key when it is
  for RS256, and with nothing else; so a token signed with the public key as an HMAC secret is never
  accepted. The accepted claims name a tenant and a user.\<close>

theorem token_algorithm_pinned:
  assumes "checks_signatures lib verifies" and "ValidateToken lib jm now tok = Inr c"
  shows "(jm_algorithm jm = ''HS256'' \<and> verifies tok HMAC (SecretKey (jm_secretKey jm)) c \<or>
     jm_algorithm jm = ''RS256'' \<and> (\<exists>k. jm_publicKey jm = Some k \<and> verifies tok RSA (PublicKey k) c)) \<and>
    cm_TenantID c \<noteq> [] \<and> cm_UserID c \<noteq> []"
proof -
  from assms(2) have parse: "jl_Parse lib now tok (keyFunc jm) = Inr (c, True)"
    and "cm_TenantID c \<noteq> []" "cm_UserID c \<noteq> []"
    by (auto simp: ValidateToken_def split: if_splits sum.splits prod.splits jwt_error.splits)
  moreover from assms(1) parse obtain m alg k where "keyFunc jm m alg = Inr k" "verifies tok m k c"
    unfolding checks_signatures_def by blast
  ultimately show ?thesis by (auto simp: keyFunc_def split: if_splits option.splits)
qed

text \<open>
  What generation and validation rely on: a token signed under a secret parses, under a key function
  that gives that secret for HS256, to the claims signed, while the time is within them.
\<close>

definition signs_and_parses :: "'k jwt_library \<Rightarrow> bool" where
  "signs_and_parses lib \<longleftrightarrow> (\<forall>secret c tok kf now. jl_SignHS256 lib secret c = Inr tok \<and>
     kf HMAC ''HS256'' = Inr (SecretKey secret) \<and> cm_NotBefore c \<le> now \<and> now < cm_ExpiresAt c \<longrightarrow>
     tok \<noteq> [] \<and> jl_Parse lib now tok kf = Inr (c, True))"


section \<open>A concrete library\<close>

text \<open>
  Tokens in memory: the text of a token is a marker and the secret it was signed with. Every token
  stands for the same claims, of one user, until they expire.
\<close>

definition mem_jwt_claims :: Claims where
  "mem_jwt_claims = token_claims 0 ''acme'' ''alice'' ''a@acme'' [''admin''] 1"

definition mem_jwt :: "unit jwt_library" where
  "mem_jwt =
     \<lparr>jl_Parse = \<lambda>now tok kf.
        (case kf HMAC ''HS256'' of
           Inr (SecretKey s) \<Rightarrow>
             if tok = ''tok'' @ s
             then (if now < cm_ExpiresAt mem_jwt_claims then Inr (mem_jwt_claims, True)
                   else Inl (JwtError True ''token is expired''))
             else Inl (JwtError False ''signature is invalid'')
         | _ \<Rightarrow> Inl (JwtError False ''unverifiable'')),
      jl_SignHS256 = \<lambda>s c. if c = mem_jwt_claims then Inr (''tok'' @ s) else Inl (PlainError ''unknown claims''),
      jl_ParseRSA = \<lambda>_. Inl (PlainError ''not supported'')\<rparr>"

definition mem_manager :: "unit JWTManager" where
  "mem_manager = \<lparr>jm_secretKey = ''secret'', jm_publicKey = None, jm_algorithm = ''HS256''\<rparr>"

lemma mem_jwt_checks:
  "checks_signatures mem_jwt (\<lambda>tok m k c. m = HMAC \<and> (\<exists>s. k = SecretKey s \<and> tok = ''tok'' @ s))"
  by (auto simp: checks_signatures_def mem_jwt_def split: sum.splits jwt_key.splits if_splits)

lemma mem_jwt_signs: "signs_and_parses mem_jwt"
  by (auto simp: signs_and_parses_def mem_jwt_def split: if_splits)

theorem token_algorithm_pinned_witness:
  "ValidateToken mem_jwt mem_manager 0 ''toksecret'' = Inr mem_jwt_claims \<and> cm_TenantID mem_jwt_claims \<noteq> []"
proof -
  have "ValidateToken mem_jwt mem_manager 0 ''toksecret'' = Inr mem_jwt_claims"
    by (simp add: ValidateToken_def mem_jwt_def mem_manager_def keyFunc_def mem_jwt_claims_def token_claims_def
        NewNumericDate_def hours_def)
  with token_algorithm_pinned [OF mem_jwt_checks this] show ?thesis by simp
qed


end
