(* ===== verification/Task_Handler.thy ===== *)
theory Task_Handler
  imports Auth Kube_Client
begin

text \<open>
  The task API (\<open>pkg/api/handlers/task_handler.go\<close>): creating, listing, reading and deleting tasks and
  reading their logs. The API server and the JSON decoder are parameters. A handler is a program over
  the server's calls that ends with a response or a panic. The conversion of a task's resources back
  to the request format copies the fields; the source passes them to a function for the other
  direction, which its types do not admit.
\<close>

section \<open>The server\<close>

record 'w task_handler =
  th_client :: "(CloudTask, 'w) client"
  th_ListLimit :: "string \<Rightarrow> int64 \<Rightarrow> ('w, CloudTask list) io"
  th_Unmarshal :: "string \<Rightarrow> error + CreateCloudTaskRequest"

datatype api_event =
    TaskCall "CloudTask call"
  | TaskList string int64 "error + CloudTask list"

section \<open>Responses\<close>

definition convertResourceList :: "ResourceListReq \<Rightarrow> ResourceList" where
  "convertResourceList l = \<lparr>rl_CPU = rlq_CPU l, rl_Memory = rlq_Memory l\<rparr>"

definition convertResourceRequirements :: "ResourceRequirementsReq \<Rightarrow> ResourceRequirements" where
  "convertResourceRequirements req =
     \<lparr>rr_Requests = map_option convertResourceList (rrq_Requests req),
      rr_Limits = map_option convertResourceList (rrq_Limits req)\<rparr>"

definition response_resources :: "ResourceRequirements \<Rightarrow> ResourceRequirementsReq" where
  "response_resources r =
     (let conv = (\<lambda>l. \<lparr>rlq_CPU = rl_CPU l, rlq_Memory = rl_Memory l\<rparr>)
      in \<lparr>rrq_Requests = map_option conv (rr_Requests r), rrq_Limits = map_option conv (rr_Limits r)\<rparr>)"

definition convertCloudTaskToResponse :: "CloudTask \<Rightarrow> CloudTaskResponse" where
  "convertCloudTaskToResponse task =
     \<lparr>tr_Name = om_Name (ct_Meta task), tr_Namespace = om_Namespace (ct_Meta task),
      tr_Phase = st_Phase (ct_Status task), tr_PodName = st_PodName (ct_Status task),
      tr_Message = st_Message (ct_Status task), tr_RetryCount = st_RetryCount (ct_Status task),
      tr_CreatedAt = om_CreationTimestamp (ct_Meta task),
      tr_CompletedAt = st_CompletionTime (ct_Status task),
      tr_Spec =
        \<lparr>rq_Name = om_Name (ct_Meta task), rq_Image = sp_Image (ct_Spec task),
         rq_Command = sp_Command (ct_Spec task), rq_Args = sp_Args (ct_Spec task),
         rq_TenantID = sp_TenantID (ct_Spec task),
         rq_Resources = map_option response_resources (sp_Resources (ct_Spec task)),
         rq_Retries = sp_Retries (ct_Spec task), rq_Timeout = sp_Timeout (ct_Spec task),
         rq_Priority = sp_Priority (ct_Spec task)\<rparr>\<rparr>"

definition writeJSON :: "nat \<Rightarrow> payload \<Rightarrow> http_response \<Rightarrow> http_response outcome" where
  "writeJSON code data w = Return (json_reply code data w)"

text \<open>The detail of an error reply is \<open>err.Error()\<close>, also when there is no error.\<close>

definition writeError :: "nat \<Rightarrow> string \<Rightarrow> error option \<Rightarrow> http_response \<Rightarrow> http_response outcome" where
  "writeError code message err w =
     (case err of
        None \<Rightarrow> Panic ''invalid memory address or nil pointer dereference''
      | Some e \<Rightarrow> Return (json_reply code (ErrorBody message code (error_text e)) w))"

definition writeValidationErrors :: "nat \<Rightarrow> ValidationErrors \<Rightarrow> http_response \<Rightarrow> http_response outcome" where
  "writeValidationErrors code errors w =
     Return (json_reply code (FieldsBody ''Validation failed'' code
       (map (\<lambda>e. (ve_Field e, ve_Message e)) errors)) w)"

definition randString :: "nat \<Rightarrow> string" where
  "randString n = map (\<lambda>i. ''abcdef0123456789'' ! (i mod 16)) [0..<n]"

section \<open>Creating\<close>

definition tenant_namespace :: "string \<Rightarrow> string" where
  "tenant_namespace tenantID = ''tenant-'' @ tenantID"

definition request_task_id :: "CreateCloudTaskRequest \<Rightarrow> string" where
  "request_task_id req = (if rq_Name req = [] then ''task-'' @ randString 8 else rq_Name req)"

definition request_task :: "string \<Rightarrow> CreateCloudTaskRequest \<Rightarrow> CloudTask" where
  "request_task tenantID req =
     \<lparr>ct_Meta = zero_ObjectMeta\<lparr>om_Name := request_task_id req, om_Namespace := tenant_namespace tenantID,
        om_Labels := [''tenantID'' \<mapsto> tenantID, ''app'' \<mapsto> ''cloudtask'']\<rparr>,
      ct_Spec = zero_CloudTaskSpec\<lparr>sp_Image := rq_Image req, sp_Command := rq_Command req,
        sp_Args := rq_Args req, sp_TenantID := tenantID, sp_Retries := rq_Retries req,
        sp_Timeout := rq_Timeout req, sp_Priority := rq_Priority req,
        sp_Resources := map_option convertResourceRequirements (rq_Resources req)\<rparr>,
      ct_Status = zero_CloudTaskStatus\<rparr>"

definition create_valid :: "'w task_handler \<Rightarrow> string \<Rightarrow> CreateCloudTaskRequest \<Rightarrow> http_response \<Rightarrow>
    ('w, api_event, http_response outcome) act" where
  "create_valid h tenantID req w =
     do {
       r \<leftarrow> client_Create (th_client h) TaskCall (request_task tenantID req);
       State_Monad.return (case r of
         Inl e \<Rightarrow>
           if IsAlreadyExists e then writeError 409 ''Task with this name already exists'' None w
           else writeError 500 ''Failed to create task'' (Some e) w
       | Inr task \<Rightarrow> writeJSON 201 (TaskBody (convertCloudTaskToResponse task)) w)
     }"

definition CreateTask :: "'w task_handler \<Rightarrow> ('w, api_event) handler" where
  "CreateTask h r w =
     (case GetTenantIDFromContext r of
        Inl e \<Rightarrow> State_Monad.return (writeError 401 ''Tenant ID not found in token'' (Some e) w)
      | Inr tenantID \<Rightarrow>
          (case rq_Body r of
             Inl e \<Rightarrow> State_Monad.return (writeError 400 ''Failed to read request body'' (Some e) w)
           | Inr body \<Rightarrow>
               (case th_Unmarshal h body of
                  Inl e \<Rightarrow> State_Monad.return (writeError 400 ''Invalid JSON format'' (Some e) w)
                | Inr req \<Rightarrow>
                    if ValidateCreateTaskRequest req \<noteq> []
                    then State_Monad.return (writeValidationErrors 400 (ValidateCreateTaskRequest req) w)
                    else if rq_TenantID req \<noteq> tenantID
                    then State_Monad.return (writeError 403
                           ''Tenant ID mismatch: cannot create tasks for other tenants'' None w)
                    else case ValidateTaskID (request_task_id req) of
                           Some e \<Rightarrow> State_Monad.return (writeError 400 ''Invalid task name'' (Some e) w)
                         | None \<Rightarrow> create_valid h tenantID req w)))"

section \<open>Listing\<close>

definition query_limit :: "string \<Rightarrow> int64" where
  "query_limit s =
     (if s = [] then 50
      else case Atoi s of
             None \<Rightarrow> 50
           | Some l \<Rightarrow> if l > 0 then (if l > 500 then 500 else word_of_int l) else 50)"

definition query_offset :: "string \<Rightarrow> int64" where
  "query_offset s =
     (if s = [] then 0 else case Atoi s of None \<Rightarrow> 0 | Some off \<Rightarrow> if off \<ge> 0 then word_of_int off else 0)"

text \<open>The slices panic out of range, as Go's do.\<close>

definition slice :: "'a list \<Rightarrow> int \<Rightarrow> int \<Rightarrow> 'a list outcome" where
  "slice xs a b = (if 0 \<le> a \<and> a \<le> b \<and> b \<le> int (length xs) then Return (take (nat (b - a)) (drop (nat a) xs))
     else Panic ''slice bounds out of range'')"

definition paginate :: "'a list \<Rightarrow> int64 \<Rightarrow> int64 \<Rightarrow> 'a list outcome" where
  "paginate tasks limit offset =
     (let total = of_nat (length tasks) :: int64
      in if sint offset > sint total then Return []
         else if sint (offset + limit) > sint total then slice tasks (sint offset) (int (length tasks))
         else slice tasks (sint offset) (sint (offset + limit)))"

definition list_reply :: "string \<Rightarrow> int64 \<Rightarrow> int64 \<Rightarrow> CloudTask list \<Rightarrow> http_response \<Rightarrow> http_response outcome" where
  "list_reply status limit offset items w =
     (let tasks = (if status = [] then items else filter (\<lambda>t. st_Phase (ct_Status t) = status) items)
      in case paginate tasks limit offset of
           Panic m \<Rightarrow> Panic m
         | Return page \<Rightarrow>
             writeJSON 200 (ListBody (map convertCloudTaskToResponse page) (length page) (length tasks) limit offset) w)"

definition ListTasks :: "'w task_handler \<Rightarrow> ('w, api_event) handler" where
  "ListTasks h r w =
     (case GetTenantIDFromContext r of
        Inl e \<Rightarrow> State_Monad.return (writeError 401 ''Tenant ID not found in token'' (Some e) w)
      | Inr tenantID \<Rightarrow>
          let status = rq_Query r ''status'';
              limit = query_limit (rq_Query r ''limit'');
              offset = query_offset (rq_Query r ''offset'');
              ns = tenant_namespace tenantID
          in case (if status = [] then None else ValidateStatus status) of
               Some e \<Rightarrow> State_Monad.return (writeError 400 ''Invalid status parameter'' (Some e) w)
             | None \<Rightarrow>
                 do {
                   l \<leftarrow> logged (th_ListLimit h ns (limit + offset)) (TaskList ns (limit + offset));
                   State_Monad.return (case l of
                     Inl e \<Rightarrow> writeError 500 ''Failed to list tasks'' (Some e) w
                   | Inr items \<Rightarrow> list_reply status limit offset items w)
                 })"

section \<open>Reading, deleting and logs\<close>

text \<open>Reading the task of a path in the tenant's namespace, as the three handlers do.\<close>

definition path_task_id :: "http_request \<Rightarrow> string" where
  "path_task_id r = hd (Split CHR ''/'' (TrimPrefix (rq_Path r) ''/v1/tasks/''))"

definition fetch_task ::
  "'w task_handler \<Rightarrow> string \<Rightarrow> string \<Rightarrow> string \<Rightarrow> string \<Rightarrow> http_response \<Rightarrow>
     (CloudTask \<Rightarrow> ('w, api_event, http_response outcome) act) \<Rightarrow> ('w, api_event, http_response outcome) act" where
  "fetch_task h tenantID taskID failed foreign w next =
     (case ValidateTaskID taskID of
        Some e \<Rightarrow> State_Monad.return (writeError 400 ''Invalid task ID'' (Some e) w)
      | None \<Rightarrow>
          do {
            r \<leftarrow> client_Get (th_client h) TaskCall \<lparr>nn_Namespace = tenant_namespace tenantID, nn_Name = taskID\<rparr>;
            case r of
              Inl e \<Rightarrow>
                State_Monad.return (if IsNotFound e then writeError 404 ''Task not found'' None w
                  else writeError 500 failed (Some e) w)
            | Inr task \<Rightarrow>
                if sp_TenantID (ct_Spec task) \<noteq> tenantID then State_Monad.return (writeError 403 foreign None w)
                else next task
          })"

definition GetTask :: "'w task_handler \<Rightarrow> ('w, api_event) handler" where
  "GetTask h r w =
     (case GetTenantIDFromContext r of
        Inl e \<Rightarrow> State_Monad.return (writeError 401 ''Tenant ID not found in token'' (Some e) w)
      | Inr tenantID \<Rightarrow>
          fetch_task h tenantID (path_task_id r) ''Failed to get task'' ''Cannot access tasks from other tenants'' w
            (\<lambda>task. State_Monad.return (writeJSON 200 (TaskBody (convertCloudTaskToResponse task)) w)))"

definition delete_task :: "'w task_handler \<Rightarrow> http_response \<Rightarrow> CloudTask \<Rightarrow> ('w, api_event, http_response outcome) act" where
  "delete_task h w task =
     do {
       r \<leftarrow> client_Delete (th_client h) TaskCall task;
       State_Monad.return (case r of
         Inl e \<Rightarrow> if IsNotFound e then Return (WriteHeader 204 w)
                   else writeError 500 ''Failed to delete task'' (Some e) w
       | Inr _ \<Rightarrow> Return (WriteHeader 204 w))
     }"

definition DeleteTask :: "'w task_handler \<Rightarrow> ('w, api_event) handler" where
  "DeleteTask h r w =
     (case GetTenantIDFromContext r of
        Inl e \<Rightarrow> State_Monad.return (writeError 401 ''Tenant ID not found in token'' (Some e) w)
      | Inr tenantID \<Rightarrow>
          fetch_task h tenantID (path_task_id r) ''Failed to delete task'' ''Cannot delete tasks from other tenants'' w
            (delete_task h w))"

definition getPodLogs :: "string \<Rightarrow> string \<Rightarrow> error + string" where
  "getPodLogs ns podName = Inr ''Pod logs would be streamed here''"

definition logs_reply :: "string \<Rightarrow> string \<Rightarrow> http_response \<Rightarrow> CloudTask \<Rightarrow> http_response outcome" where
  "logs_reply tenantID taskID w task =
     (let podName = st_PodName (ct_Status task)
      in if podName = [] then writeJSON 200 (LogsBody taskID ''Task pod not yet created'' ''Not Started'' None) w
         else case getPodLogs (tenant_namespace tenantID) podName of
                Inl e \<Rightarrow> writeJSON 200 (LogsBody taskID (''Unable to fetch logs: '' @ error_text e)
                           (st_Phase (ct_Status task)) None) w
              | Inr podLogs \<Rightarrow> writeJSON 200 (LogsBody taskID podLogs (st_Phase (ct_Status task)) (Some podName)) w)"

definition GetTaskLogs :: "'w task_handler \<Rightarrow> ('w, api_event) handler" where
  "GetTaskLogs h r w =
     (case GetTenantIDFromContext r of
        Inl e \<Rightarrow> State_Monad.return (writeError 401 ''Tenant ID not found in token'' (Some e) w)
      | Inr tenantID \<Rightarrow>
          if length (Split CHR ''/'' (TrimPrefix (rq_Path r) ''/v1/tasks/'')) < 2
          then State_Monad.return (writeError 400 ''Invalid request path'' None w)
          else fetch_task h tenantID (path_task_id r) ''Failed to get task logs''
                 ''Cannot access logs from other tenant tasks'' w
                 (\<lambda>task. State_Monad.return (logs_reply tenantID (path_task_id r) w task)))"

end
