(* ===== verification/Rate_Limiter.thy ===== *)
theory Rate_Limiter
  imports Go_Time Effects
begin

text \<open>
  The per-tenant rate limiter (\<open>pkg/auth/ratelimiter.go\<close>). Redis is a parameter: a pipeline of
  commands runs on a world \<open>'w\<close> and returns the replies in order, or the error of the first command
  that failed. The readings of the clock are arguments.
\<close>

section \<open>Redis pipelines\<close>

datatype redis_cmd = CmdIncr string | CmdExpire string duration | CmdGet string

datatype redis_reply = IntReply int64 | BoolReply bool | StringReply "string option"

record 'w redis_cmdable =
  rc_Exec :: "redis_cmd list \<Rightarrow> ('w, redis_reply list) io"
  rc_Scan :: "nat \<Rightarrow> string \<Rightarrow> ('w, string list \<times> nat) io"
  rc_Del :: "string list \<Rightarrow> 'w \<Rightarrow> error option \<times> 'w"

section \<open>The limiter\<close>

record RateLimiter =
  rl_perMinuteLimit :: int64
  rl_perHourLimit :: int64

definition NewRateLimiter :: RateLimiter where
  "NewRateLimiter = \<lparr>rl_perMinuteLimit = 100, rl_perHourLimit = 1000\<rparr>"

text \<open>\<open>now.Truncate(d)\<close> rounds down to a multiple of \<open>d\<close> since the zero time.\<close>

definition Truncate :: "instant \<Rightarrow> int \<Rightarrow> instant" where
  "Truncate now d = now - now mod d"

definition window_key :: "string \<Rightarrow> string \<Rightarrow> int64 \<Rightarrow> string" where
  "window_key kind tenantID n = ''ratelimit:'' @ kind @ '':'' @ tenantID @ '':'' @ Itoa (sint n)"

definition minuteWindow :: "string \<Rightarrow> instant \<Rightarrow> string" where
  "minuteWindow tenantID now = window_key ''minute'' tenantID (go_div (Now_Unix now) 60)"

definition hourWindow :: "string \<Rightarrow> instant \<Rightarrow> string" where
  "hourWindow tenantID now = window_key ''hour'' tenantID (go_div (Now_Unix now) 3600)"

text \<open>\<open>later\<close> is the reading of the clock inside \<open>time.Until\<close>.\<close>

definition allow_cmds :: "string \<Rightarrow> instant \<Rightarrow> redis_cmd list" where
  "allow_cmds tenantID now =
     [CmdIncr (minuteWindow tenantID now), CmdIncr (hourWindow tenantID now),
      CmdExpire (minuteWindow tenantID now) (seconds 120), CmdExpire (hourWindow tenantID now) (seconds 7200)]"

definition Allow ::
  "'w redis_cmdable \<Rightarrow> RateLimiter \<Rightarrow> instant \<Rightarrow> instant \<Rightarrow> string \<Rightarrow> 'w \<Rightarrow>
     (bool \<times> duration \<times> error option) outcome \<times> 'w" where
  "Allow rd rl now later tenantID w =
     (if tenantID = [] then (Return (False, 0, Some (PlainError ''tenant ID cannot be empty'')), w)
      else case rc_Exec rd (allow_cmds tenantID now) w of
        (Inl e, w) \<Rightarrow> (Return (False, 0, Some e), w)
      | (Inr results, w) \<Rightarrow>
          (case results of
             IntReply minuteCount # IntReply hourCount # _ \<Rightarrow>
               if sint minuteCount > sint (rl_perMinuteLimit rl)
               then Return (False, Since (Truncate now 60000000000 + 60000000000) later, None)
               else if sint hourCount > sint (rl_perHourLimit rl)
               then Return (False, Since (Truncate now 3600000000000 + 3600000000000) later, None)
               else Return (True, 0, None)
           | _ \<Rightarrow> Panic ''interface conversion'', w))"

definition SetLimits :: "RateLimiter \<Rightarrow> int64 \<Rightarrow> int64 \<Rightarrow> RateLimiter" where
  "SetLimits rl perMinute perHour = rl\<lparr>rl_perMinuteLimit := perMinute, rl_perHourLimit := perHour\<rparr>"

definition GetLimits :: "RateLimiter \<Rightarrow> int64 \<times> int64" where
  "GetLimits rl = (rl_perMinuteLimit rl, rl_perHourLimit rl)"

text \<open>
  \<open>StringCmd.Int64\<close>: a missing key is the error \<open>redis.Nil\<close>, which the caller reads as zero. The
  error of a number that does not parse quotes it; no character of it is escaped here.
\<close>

definition ParseInt_error :: "string \<Rightarrow> error" where
  "ParseInt_error s =
     (let body = (if s \<noteq> [] \<and> (hd s = CHR ''-'' \<or> hd s = CHR ''+'') then tl s else s)
      in PlainError (''strconv.ParseInt: parsing '' @ [CHR 0x22] @ s @ [CHR 0x22] @ '': '' @
           (if parse_digits body = None then ''invalid syntax'' else ''value out of range'')))"

definition reply_Int64 :: "string option \<Rightarrow> error + int64" where
  "reply_Int64 v =
     (case v of
        None \<Rightarrow> Inr 0
      | Some s \<Rightarrow>
          (case ParseInt 64 s of
             None \<Rightarrow> Inl (ParseInt_error s)
           | Some n \<Rightarrow> Inr (word_of_int n)))"

definition GetTenantStats ::
  "'w redis_cmdable \<Rightarrow> instant \<Rightarrow> string \<Rightarrow> 'w \<Rightarrow> (error + int64 \<times> int64) outcome \<times> 'w" where
  "GetTenantStats rd now tenantID w =
     (case rc_Exec rd [CmdGet (minuteWindow tenantID now), CmdGet (hourWindow tenantID now)] w of
        (Inl e, w) \<Rightarrow> (Return (Inl e), w)
      | (Inr results, w) \<Rightarrow>
          (case results of
             StringReply m # StringReply h # _ \<Rightarrow>
               (case reply_Int64 m of
                  Inl e \<Rightarrow> Return (Inl e)
                | Inr minuteVal \<Rightarrow>
                    (case reply_Int64 h of
                       Inl e \<Rightarrow> Return (Inl e)
                     | Inr hourVal \<Rightarrow> Return (Inr (minuteVal, hourVal))))
           | _ \<Rightarrow> Panic ''interface conversion'', w))"

text \<open>
  The scan may go on as long as the server returns a cursor other than zero: \<open>None\<close> is a run that
  does not end.
\<close>

partial_function (option) reset_from ::
  "'w redis_cmdable \<Rightarrow> string \<Rightarrow> nat \<Rightarrow> 'w \<Rightarrow> (error option \<times> 'w) option" where
  "reset_from rd pattern cursor w =
     (case rc_Scan rd cursor pattern w of
        (Inl e, w) \<Rightarrow> Some (Some e, w)
      | (Inr (keys, nextCursor), w) \<Rightarrow>
          (case (if keys = [] then (None, w) else rc_Del rd keys w) of
             (Some e, w) \<Rightarrow> Some (Some e, w)
           | (None, w) \<Rightarrow> if nextCursor = 0 then Some (None, w) else reset_from rd pattern nextCursor w))"

declare reset_from.simps [code]

definition ResetTenantLimit :: "'w redis_cmdable \<Rightarrow> string \<Rightarrow> 'w \<Rightarrow> (error option \<times> 'w) option" where
  "ResetTenantLimit rd tenantID w = reset_from rd (''ratelimit:*:'' @ tenantID @ '':*'') 0 w"

section \<open>Keys\<close>

lemma append_sep_inject:
  assumes "c \<notin> set x" and "c \<notin> set y"
  shows "x @ c # s = y @ c # t \<longleftrightarrow> x = y \<and> s = t"
  using assms
proof (induction x arbitrary: y)
  case Nil
  then show ?case by (cases y) auto
next
  case (Cons a x)
  then show ?case by (cases y) auto
qed

lemma append_last_sep_inject:
  assumes "c \<notin> set x" and "c \<notin> set y"
  shows "s @ c # x = t @ c # y \<longleftrightarrow> s = t \<and> x = y"
proof -
  have "s @ c # x = t @ c # y \<longleftrightarrow> rev x @ c # rev s = rev y @ c # rev t"
    by (metis append.assoc append_Cons append_Nil rev.simps(2) rev_append rev_rev_ident)
  then show ?thesis using append_sep_inject [of c "rev x" "rev y"] assms by auto
qed

lemma Itoa_no_colon: "CHR '':'' \<notin> set (Itoa i)"
proof -
  have "CHR '':'' \<notin> set (nat_digits n)" for n
    using nat_digits_digits [of n] by (auto simp: list_all_iff is_digit_def)
  then show ?thesis by (simp add: Itoa_def)
qed

lemma window_key_inject: "window_key k t a = window_key k u b \<longleftrightarrow> t = u \<and> a = b"
  using append_last_sep_inject [OF Itoa_no_colon Itoa_no_colon, of t "sint a" u "sint b"]
  by (simp add: window_key_def Itoa_sint_inject)

lemma minute_not_hour: "minuteWindow t now \<noteq> hourWindow u now'"
  by (simp add: minuteWindow_def hourWindow_def window_key_def)

section \<open>Counting\<close>

text \<open>
  What the limiter relies on: counters start at zero, and the pipeline increments both of them and
  returns the new values. A counter expires two windows after its last increment, when a clock that
  does not run backwards is never in its window again, so expiry does not show here.
\<close>

definition counting :: "'w redis_cmdable \<Rightarrow> ('w \<Rightarrow> string \<Rightarrow> nat) \<Rightarrow> bool" where
  "counting rd cnt \<longleftrightarrow> (\<forall>w a b ta tb. a \<noteq> b \<longrightarrow>
     (\<exists>w'. rc_Exec rd [CmdIncr a, CmdIncr b, CmdExpire a ta, CmdExpire b tb] w =
        (Inr [IntReply (of_nat (Suc (cnt w a))), IntReply (of_nat (Suc (cnt w b))), BoolReply True, BoolReply True], w') \<and>
        cnt w' = (cnt w)(a := Suc (cnt w a), b := Suc (cnt w b))))"

type_synonym request = "instant \<times> instant \<times> string"

primrec serve :: "'w redis_cmdable \<Rightarrow> RateLimiter \<Rightarrow> request list \<Rightarrow> 'w \<Rightarrow> 'w" where
  "serve rd rl [] w = w"
| "serve rd rl (q # qs) w = (case q of (now, later, t) \<Rightarrow> serve rd rl qs (snd (Allow rd rl now later t w)))"

definition same_window :: "int64 \<Rightarrow> string \<Rightarrow> instant \<Rightarrow> request \<Rightarrow> bool" where
  "same_window len t now = (\<lambda>(now', _, t'). t' = t \<and> go_div (Now_Unix now') len = go_div (Now_Unix now) len)"

definition earlier :: "int64 \<Rightarrow> string \<Rightarrow> instant \<Rightarrow> request list \<Rightarrow> nat" where
  "earlier len t now qs = length (filter (same_window len t now) qs)"

lemma Allow_world:
  assumes "counting rd cnt"
  shows "cnt (snd (Allow rd rl now later t w)) =
    (if t = [] then cnt w else (cnt w)(minuteWindow t now := Suc (cnt w (minuteWindow t now)),
       hourWindow t now := Suc (cnt w (hourWindow t now))))"
proof (cases "t = []")
  case False
  from assms minute_not_hour [of t now t now] obtain w' where
    "rc_Exec rd (allow_cmds t now) w = (Inr [IntReply (of_nat (Suc (cnt w (minuteWindow t now)))),
       IntReply (of_nat (Suc (cnt w (hourWindow t now)))), BoolReply True, BoolReply True], w')"
    "cnt w' = (cnt w)(minuteWindow t now := Suc (cnt w (minuteWindow t now)),
       hourWindow t now := Suc (cnt w (hourWindow t now)))"
    unfolding counting_def allow_cmds_def by blast
  with False show ?thesis by (simp add: Allow_def)
qed (simp add: Allow_def)

lemma serve_counts:
  assumes "counting rd cnt" and "t \<noteq> []"
  shows "cnt (serve rd rl qs w) (minuteWindow t now) = cnt w (minuteWindow t now) + earlier 60 t now qs \<and>
    cnt (serve rd rl qs w) (hourWindow t now) = cnt w (hourWindow t now) + earlier 3600 t now qs"
proof (induction qs arbitrary: w)
  case (Cons q qs)
  obtain n l u where q: "q = (n, l, u)" by (cases q)
  have "minuteWindow t now = minuteWindow u n \<longleftrightarrow> same_window 60 t now q"
    "hourWindow t now = hourWindow u n \<longleftrightarrow> same_window 3600 t now q"
    by (auto simp: q same_window_def minuteWindow_def hourWindow_def window_key_inject)
  with Cons assms show ?case
    by (auto simp: q Allow_world earlier_def same_window_def minute_not_hour minute_not_hour [symmetric])
qed (simp add: earlier_def)


section \<open>Resetting a tenant\<close>

text \<open>A scan whose cursors make progress: some measure decreases with every round that is not the last.\<close>

definition scan_ends :: "'w redis_cmdable \<Rightarrow> (nat \<Rightarrow> 'w \<Rightarrow> nat) \<Rightarrow> bool" where
  "scan_ends rd m \<longleftrightarrow> (\<forall>c p w keys n w'. rc_Scan rd c p w = (Inr (keys, n), w') \<and> n \<noteq> 0 \<longrightarrow>
     (keys = [] \<longrightarrow> m n w' < m c w) \<and> (\<forall>w''. rc_Del rd keys w' = (None, w'') \<longrightarrow> m n w'' < m c w))"

lemma reset_from_returns: "scan_ends rd m \<Longrightarrow> \<exists>r. reset_from rd p c w = Some r"
proof (induction "m c w" arbitrary: c w rule: less_induct)
  case less
  show ?case
  proof (cases "rc_Scan rd c p w")
    case (Pair r w1)
    show ?thesis
    proof (cases r)
      case (Inl e)
      with Pair show ?thesis by (subst reset_from.simps) simp
    next
      case (Inr kn)
      obtain keys n where kn: "kn = (keys, n)" by (cases kn)
      obtain e w2 where del: "(if keys = [] then (None, w1) else rc_Del rd keys w1) = (e, w2)"
        by (cases "if keys = [] then (None, w1) else rc_Del rd keys w1")
      have "\<exists>r. reset_from rd p n w2 = Some r" if "e = None" "n \<noteq> 0"
        using less.prems Pair Inr kn del that
        by (intro less.hyps) (auto simp: scan_ends_def split: if_splits)
      with Pair Inr kn del show ?thesis
        by (subst reset_from.simps) (auto split: option.split)
    qed
  qed
qed


section \<open>A concrete Redis\<close>

text \<open>
  Counters in memory, and a scan of three empty rounds. As go-redis does, a pipeline returns the
  error of its first failed command, and reading a missing key fails with \<open>redis.Nil\<close>.
\<close>

fun mem_cmds :: "redis_cmd list \<Rightarrow> (string \<Rightarrow> nat) \<Rightarrow> redis_reply list \<times> (string \<Rightarrow> nat)" where
  "mem_cmds [] w = ([], w)"
| "mem_cmds (CmdIncr k # cs) w =
     (let (rs, w') = mem_cmds cs (w(k := Suc (w k))) in (IntReply (of_nat (Suc (w k))) # rs, w'))"
| "mem_cmds (CmdExpire k d # cs) w = (let (rs, w') = mem_cmds cs w in (BoolReply True # rs, w'))"
| "mem_cmds (CmdGet k # cs) w =
     (let (rs, w') = mem_cmds cs w
      in (StringReply (if w k = 0 then None else Some (nat_digits (w k))) # rs, w'))"

definition mem_limiter :: "(string \<Rightarrow> nat) redis_cmdable" where
  "mem_limiter =
     \<lparr>rc_Exec = \<lambda>cs w. let (rs, w') = mem_cmds cs w
        in (if StringReply None \<in> set rs then Inl (PlainError ''redis: nil'') else Inr rs, w'),
      rc_Scan = \<lambda>c _ w. (Inr ([], if c = 0 then 2 else c - 1), w), rc_Del = \<lambda>_ w. (None, w)\<rparr>"

lemma mem_counting: "counting mem_limiter (\<lambda>w. w)"
  by (simp add: counting_def mem_limiter_def Let_def)

text \<open>Seconds of Unix time.\<close>

definition at_second :: "int \<Rightarrow> instant" where
  "at_second s = (62135596800 + s) * 1000000000"

lemma Now_Unix_at [simp]: "Now_Unix (at_second s) = word_of_int s"
  by (simp add: Now_Unix_def at_second_def)



text \<open>The windows are fixed, not sliding: with a limit of one request a minute, a request in the
  last second of a minute and one a second later are both admitted.\<close>

theorem window_is_fixed:
  "fst (Allow mem_limiter (SetLimits NewRateLimiter 1 1000) (at_second 60) (at_second 60) ''acme''
     (serve mem_limiter (SetLimits NewRateLimiter 1 1000) [(at_second 59, at_second 59, ''acme'')] (\<lambda>_. 0))) =
   Return (True, 0, None)"
  using Itoa_sint_inject [of 1 0]
  by (simp add: Allow_def allow_cmds_def mem_limiter_def Let_def SetLimits_def NewRateLimiter_def
      minuteWindow_def hourWindow_def window_key_inject window_key_def go_div_def signed_divide_int_def)

end
