(* ===== verification/Router.thy ===== *)
theory Router
  imports Task_Handler Rate_Limiter Float64
begin

text \<open>
  The router of the API (\<open>pkg/api/router.go\<close>) with the health endpoints it serves
  (\<open>pkg/api/handlers/health_handler.go\<close>): the middleware, the order in which it is chained, and the
  route table. The clock, Redis and the JWT library are parameters. No program of the repository calls
  \<open>SetupRoutes\<close>; the gateway of \<open>cmd/api-gateway\<close> sets up its own routes.
\<close>

section \<open>Health\<close>

text \<open>A client that is not configured is \<open>None\<close>. Latencies are milliseconds, rounded towards zero.\<close>

record 'w HealthHandler =
  hh_Now :: "'w \<Rightarrow> instant \<times> 'w"
  hh_ListNamespaces :: "('w \<Rightarrow> error option \<times> 'w) option"
  hh_Ping :: "('w \<Rightarrow> error option \<times> 'w) option"

definition check_component ::
  "'w HealthHandler \<Rightarrow> string \<Rightarrow> string \<Rightarrow> ('w \<Rightarrow> error option \<times> 'w) option \<Rightarrow> ('w, 'e, ComponentStatus) act" where
  "check_component h name unset probe =
     (case probe of
        None \<Rightarrow> State_Monad.return \<lparr>cs_Name = name, cs_Status = ''unavailable'', cs_Message = unset, cs_Latency = 0\<rparr>
      | Some call \<Rightarrow>
          do {
            start \<leftarrow> silent (hh_Now h);
            e \<leftarrow> silent call;
            now \<leftarrow> silent (hh_Now h);
            State_Monad.return (case e of
              Some e \<Rightarrow> \<lparr>cs_Name = name, cs_Status = ''unhealthy'', cs_Message = error_text e,
                         cs_Latency = Milliseconds (Since now start)\<rparr>
            | None \<Rightarrow> \<lparr>cs_Name = name, cs_Status = ''healthy'', cs_Message = [],
                       cs_Latency = Milliseconds (Since now start)\<rparr>)
          })"

definition checkKubeAPI :: "'w HealthHandler \<Rightarrow> ('w, 'e, ComponentStatus) act" where
  "checkKubeAPI h = check_component h ''kubernetes'' ''Kubernetes client not initialized'' (hh_ListNamespaces h)"

definition checkRedis :: "'w HealthHandler \<Rightarrow> ('w, 'e, ComponentStatus) act" where
  "checkRedis h = check_component h ''redis'' ''Redis client not initialized'' (hh_Ping h)"

definition Healthz :: "'w HealthHandler \<Rightarrow> ('w, 'e) handler" where
  "Healthz h r w =
     do {
       now \<leftarrow> silent (hh_Now h);
       kubeStatus \<leftarrow> checkKubeAPI h;
       redisStatus \<leftarrow> checkRedis h;
       let components = [kubeStatus, redisStatus];
       State_Monad.return (Return (
         if list_all (\<lambda>c. cs_Status c = ''healthy'') components
         then json_reply 200 (HealthBody ''healthy'' now components) w
         else json_reply 503 (HealthBody ''degraded'' now components) w))
     }"

definition Readyz :: "'w HealthHandler \<Rightarrow> ('w, 'e) handler" where
  "Readyz h r w =
     do {
       now \<leftarrow> silent (hh_Now h);
       kubeStatus \<leftarrow> checkKubeAPI h;
       State_Monad.return (Return (
         if cs_Status kubeStatus = ''healthy''
         then json_reply 200 (HealthBody ''ready'' now [kubeStatus]) w
         else json_reply 503 (HealthBody ''not ready'' now [kubeStatus]) w))
     }"

section \<open>The router\<close>

record ('k, 'w) Router =
  rt_taskHandler :: "'w task_handler"
  rt_healthHandler :: "'w HealthHandler"
  rt_rateLimiter :: "RateLimiter option"
  rt_jwtManager :: "'k JWTManager"
  rt_redis :: "'w redis_cmdable"
  rt_jwt :: "'k jwt_library"
  rt_Now :: "'w \<Rightarrow> instant \<times> 'w"

type_synonym ('w, 'e) middleware = "('w, 'e) handler \<Rightarrow> ('w, 'e) handler"

text \<open>The loop runs from the last middleware to the first.\<close>

definition chainMiddleware :: "('w, 'e) handler \<Rightarrow> ('w, 'e) middleware list \<Rightarrow> ('w, 'e) handler" where
  "chainMiddleware handler middlewares = fold (\<lambda>m h. m h) (rev middlewares) handler"

definition UnixNano :: "instant \<Rightarrow> int64" where
  "UnixNano now = word_of_int (now - 62135596800 * 1000000000)"

definition requestIDMiddleware :: "('k, 'w) Router \<Rightarrow> ('w, 'e) middleware" where
  "requestIDMiddleware rt next r w =
     do {
       now \<leftarrow> silent (rt_Now rt);
       let requestID = rq_Method r @ ''-'' @ Itoa (sint (UnixNano now));
       next (r\<lparr>rq_requestID := Some requestID\<rparr>) (Header_Set ''X-Request-ID'' requestID w)
     }"

text \<open>
  The wrapper around the response changes nothing that is sent (\<open>wrapper_transparent\<close>), and what is
  logged is left out: what remains is the type assertion on the request ID and the two readings of
  the clock.
\<close>

definition requestLoggingMiddleware :: "('k, 'w) Router \<Rightarrow> ('w, 'e) middleware" where
  "requestLoggingMiddleware rt next r w =
     do {
       start \<leftarrow> silent (rt_Now rt);
       case rq_requestID r of
         None \<Rightarrow> State_Monad.return (Panic ''interface conversion: interface {} is nil, not string'')
       | Some requestID \<Rightarrow>
           do {
             out \<leftarrow> next r w;
             case out of
               Panic m \<Rightarrow> State_Monad.return (Panic m)
             | Return w \<Rightarrow> do { _ \<leftarrow> silent (rt_Now rt); State_Monad.return (Return w) }
           }
     }"

definition cors_headers :: "http_response \<Rightarrow> http_response" where
  "cors_headers w =
     Header_Set ''Access-Control-Max-Age'' ''3600''
       (Header_Set ''Access-Control-Allow-Headers'' ''Content-Type, Authorization, X-Request-ID''
         (Header_Set ''Access-Control-Allow-Methods'' ''GET, POST, PUT, DELETE, OPTIONS, PATCH''
           (Header_Set ''Access-Control-Allow-Origin'' ''*'' w)))"

definition corsMiddleware :: "('w, 'e) middleware" where
  "corsMiddleware next r w =
     (let w = cors_headers w
      in if rq_Method r = ''OPTIONS'' then State_Monad.return (Return (WriteHeader 200 w)) else next r w)"

definition router_extractBearerToken :: "http_request \<Rightarrow> string" where
  "router_extractBearerToken r =
     (let authHeader = rq_Header r ''Authorization''
      in if authHeader = [] then []
         else if length authHeader > 7 \<and> take 7 authHeader = ''Bearer '' then drop 7 authHeader
         else [])"

definition text_reply :: "nat \<Rightarrow> string \<Rightarrow> http_response \<Rightarrow> http_response" where
  "text_reply code msg w =
     Write (TextBody (''{'' @ [CHR 0x22] @ ''error'' @ [CHR 0x22, CHR '':'', CHR 0x22] @ msg @
       [CHR 0x22, CHR '','', CHR 0x22] @ ''status'' @ [CHR 0x22, CHR '':''] @ Itoa (int code) @ ''}''))
       (WriteHeader code w)"

definition json_type :: "http_response \<Rightarrow> http_response" where
  "json_type w = Header_Set ''Content-Type'' ''application/json'' w"

definition authMiddleware :: "('k, 'w) Router \<Rightarrow> ('w, 'e) middleware" where
  "authMiddleware rt next r w =
     (let tokenString = router_extractBearerToken r
      in if tokenString = []
         then State_Monad.return (Return (text_reply 401 ''Missing or invalid Authorization header'' (json_type w)))
         else do {
           now \<leftarrow> silent (rt_Now rt);
           case ValidateToken (rt_jwt rt) (rt_jwtManager rt) now tokenString of
             Inl e \<Rightarrow>
               State_Monad.return (Return (text_reply 403
                 (if e = ErrTokenExpired then ''Token has expired'' else ''Invalid token'') (json_type w)))
           | Inr claims \<Rightarrow> next (r\<lparr>rq_claims := Some claims\<rparr>) w
         })"

text \<open>
  \<open>%.0f\<close> rounds half to even. The second reading of the clock is the one \<open>Allow\<close> makes when it
  refuses.
\<close>

definition format_0f :: "rat \<Rightarrow> string" where
  "format_0f x = (if x < 0 then ''-'' else []) @ Itoa (round_even \<bar>x\<bar>)"

definition limited :: "('k, 'w) Router \<Rightarrow> RateLimiter \<Rightarrow> string \<Rightarrow> ('w, 'e) handler \<Rightarrow> ('w, 'e) handler" where
  "limited rt rl tenantID next r w =
     do {
       now \<leftarrow> silent (rt_Now rt);
       later \<leftarrow> silent (rt_Now rt);
       a \<leftarrow> silent (Allow (rt_redis rt) rl now later tenantID);
       case a of
         Panic m \<Rightarrow> State_Monad.return (Panic m)
       | Return (allowed, retryAfter, err) \<Rightarrow>
           if err \<noteq> None then State_Monad.return (Return (text_reply 500 ''Internal server error'' w))
           else if \<not> allowed
           then State_Monad.return (Return (text_reply 429 ''Rate limit exceeded''
                  (json_type (Header_Set ''Retry-After'' (format_0f (Duration_Seconds retryAfter)) w))))
           else next r w
     }"

definition rateLimitMiddleware :: "('k, 'w) Router \<Rightarrow> ('w, 'e) middleware" where
  "rateLimitMiddleware rt next r w =
     (case rt_rateLimiter rt of
        None \<Rightarrow> next r w
      | Some rl \<Rightarrow>
          (case rq_claims r of
             None \<Rightarrow> next r w
           | Some claims \<Rightarrow> limited rt rl (cm_TenantID claims) next r w))"

section \<open>Routes\<close>

definition v1_middleware :: "('k, 'w) Router \<Rightarrow> ('w, 'e) middleware list" where
  "v1_middleware rt = [corsMiddleware, requestIDMiddleware rt, requestLoggingMiddleware rt,
     rateLimitMiddleware rt, authMiddleware rt]"

definition health_middleware :: "('k, 'w) Router \<Rightarrow> ('w, 'e) middleware list" where
  "health_middleware rt = [requestLoggingMiddleware rt, requestIDMiddleware rt]"

definition SetupRoutes :: "('k, 'w) Router \<Rightarrow> (string \<times> ('w, api_event) handler) list" where
  "SetupRoutes rt =
     [(''/healthz'', chainMiddleware (Healthz (rt_healthHandler rt)) (health_middleware rt)),
      (''/readyz'', chainMiddleware (Readyz (rt_healthHandler rt)) (health_middleware rt)),
      (''POST /v1/tasks'', chainMiddleware (CreateTask (rt_taskHandler rt)) (v1_middleware rt)),
      (''GET /v1/tasks'', chainMiddleware (ListTasks (rt_taskHandler rt)) (v1_middleware rt)),
      (''GET /v1/tasks/{id}'', chainMiddleware (GetTask (rt_taskHandler rt)) (v1_middleware rt)),
      (''DELETE /v1/tasks/{id}'', chainMiddleware (DeleteTask (rt_taskHandler rt)) (v1_middleware rt)),
      (''GET /v1/tasks/{id}/logs'', chainMiddleware (GetTaskLogs (rt_taskHandler rt)) (v1_middleware rt))]"

end
