(* ===== verification/Task_Handler_Properties.thy ===== *)
theory Task_Handler_Properties
  imports Task_Handler
begin

text \<open>
  What the task API guarantees: every call it makes stays within the tenant of the token, a page of a
  listing is the requested slice, and a created task passes admission. Also where it fails: a reply
  without an error value panics.
\<close>

section \<open>Tenants\<close>

datatype task_route = CreateRoute | ListRoute | GetRoute | DeleteRoute | LogsRoute

fun route_handler :: "'w task_handler \<Rightarrow> task_route \<Rightarrow> ('w, api_event) handler" where
  "route_handler h CreateRoute = CreateTask h"
| "route_handler h ListRoute = ListTasks h"
| "route_handler h GetRoute = GetTask h"
| "route_handler h DeleteRoute = DeleteTask h"
| "route_handler h LogsRoute = GetTaskLogs h"

fun of_tenant :: "string \<Rightarrow> api_event \<Rightarrow> bool" where
  "of_tenant t (TaskCall (GetCall k r)) \<longleftrightarrow> nn_Namespace k = tenant_namespace t"
| "of_tenant t (TaskCall (CreateCall x r)) \<longleftrightarrow>
     om_Namespace (ct_Meta x) = tenant_namespace t \<and> sp_TenantID (ct_Spec x) = t"
| "of_tenant t (TaskCall (DeleteCall x r)) \<longleftrightarrow> sp_TenantID (ct_Spec x) = t"
| "of_tenant t (TaskList ns n r) \<longleftrightarrow> ns = tenant_namespace t"
| "of_tenant t _ \<longleftrightarrow> False"

definition isolated :: "string \<Rightarrow> api_event list \<Rightarrow> bool" where
  "isolated t es \<longleftrightarrow> list_all (of_tenant t) es \<and>
     (\<forall>x r. TaskCall (DeleteCall x r) \<in> set es \<longrightarrow> (\<exists>k. TaskCall (GetCall k (Inr x)) \<in> set es))"

lemma isolated_reads [simp]:
  "isolated t []"
  "isolated t [TaskCall (GetCall \<lparr>nn_Namespace = tenant_namespace t, nn_Name = n\<rparr> r)]"
  "isolated t [TaskList (tenant_namespace t) m l]"
  by (auto simp: isolated_def)

lemma fetch_task_isolated:
  assumes "\<And>x k. sp_TenantID (ct_Spec x) = t \<Longrightarrow> nn_Namespace k = tenant_namespace t \<Longrightarrow>
    wlog (next x) (\<lambda>es _. isolated t (TaskCall (GetCall k (Inr x)) # es))"
  shows "wlog (fetch_task h t i m1 m2 w next) (\<lambda>es _. isolated t es)"
proof -
  have "wlog (next x) (\<lambda>es _. isolated t
      (TaskCall (GetCall \<lparr>nn_Namespace = tenant_namespace t, nn_Name = i\<rparr> (Inr x)) # es))"
    if "sp_TenantID (ct_Spec x) = t" for x
    using that by (rule assms) simp
  then show ?thesis unfolding fetch_task_def client_Get_def
    by (intro wlog_bind wlog_intros) simp_all
qed

lemma read_only_isolated:
  "nn_Namespace k = tenant_namespace t \<Longrightarrow>
     wlog (State_Monad.return a) (\<lambda>es _. isolated t (TaskCall (GetCall k r) # es))"
  by (rule wlog_return) (simp add: isolated_def)

lemma delete_task_isolated:
  assumes "sp_TenantID (ct_Spec x) = t" and "nn_Namespace k = tenant_namespace t"
  shows "wlog (delete_task h w x) (\<lambda>es _. isolated t (TaskCall (GetCall k (Inr x)) # es))"
  unfolding delete_task_def client_Delete_def
  by (intro wlog_bind wlog_intros) (auto simp: isolated_def assms)

lemma create_valid_isolated: "wlog (create_valid h t req w) (\<lambda>es _. isolated t es)"
  unfolding create_valid_def client_Create_def
  by (intro wlog_bind wlog_intros) (auto simp: isolated_def request_task_def)

lemma tenant_of_claims: "rq_claims r = Some c \<Longrightarrow> GetTenantIDFromContext r = Inr (cm_TenantID c)"
  by (simp add: GetTenantIDFromContext_def GetClaimsFromContext_def)

lemma route_isolated:
  assumes "rq_claims r = Some c"
  shows "wlog (route_handler h route r w) (\<lambda>es _. isolated (cm_TenantID c) es)"
proof (cases route)
  case CreateRoute
  then show ?thesis
    by (auto simp: CreateTask_def tenant_of_claims [OF assms] intro!: wlog_intros create_valid_isolated)
next
  case ListRoute
  then show ?thesis
    by (auto simp: ListTasks_def tenant_of_claims [OF assms] Let_def intro!: wlog_bind wlog_intros)
next
  case GetRoute
  then show ?thesis
    by (auto simp: GetTask_def tenant_of_claims [OF assms] intro!: fetch_task_isolated read_only_isolated)
next
  case DeleteRoute
  then show ?thesis
    by (auto simp: DeleteTask_def tenant_of_claims [OF assms] intro!: fetch_task_isolated delete_task_isolated)
next
  case LogsRoute
  then show ?thesis
    by (auto simp: GetTaskLogs_def tenant_of_claims [OF assms]
        intro!: wlog_intros fetch_task_isolated read_only_isolated)
qed

section \<open>Pages\<close>

lemma query_limit_bounds: "0 < sint (query_limit s) \<and> sint (query_limit s) \<le> 500"
proof -
  have "sint (word_of_int l :: int64) = l" if "0 < l" "l \<le> 500" for l
    using that by (intro sint_of_int_64) simp_all
  then show ?thesis by (auto simp: query_limit_def split: option.split)
qed

lemma query_offset_nonneg: "0 \<le> sint (query_offset s)"
proof -
  have "sint (word_of_int l :: int64) = l" if "0 \<le> l" "Atoi s = Some l" for l
    using that Atoi_range [of s l] by (intro sint_of_int_64) simp_all
  then show ?thesis by (auto simp: query_offset_def split: option.split)
qed

lemma paginate_slice:
  assumes "0 < sint limit" and "sint limit \<le> 500" and "0 \<le> sint offset" and "length xs < 2 ^ 62"
  shows "paginate xs limit offset = Return (take (nat (sint limit)) (drop (nat (sint offset)) xs))"
proof -
  have total: "sint (of_nat (length xs) :: int64) = int (length xs)"
    using sint_of_int_64 [of "int (length xs)"] assms(4) by simp
  show ?thesis
  proof (cases "sint offset > int (length xs)")
    case True
    then show ?thesis by (simp add: paginate_def total)
  next
    case False
    then have sum: "sint (offset + limit) = sint offset + sint limit"
      using assms by (subst sint_add_64) simp_all
    show ?thesis
      using False assms(1,3)
      by (auto simp: paginate_def total slice_def sum nat_add_distrib take_all_iff nat_diff_distrib)
  qed
qed

text \<open>A page is the slice asked for: with the server's answer to a listing, the reply has status
  200 and holds, in order, the tasks of the requested phase from the offset on, at most the limit,
  which is between 1 and 500 whatever the query says; no slice is out of range.\<close>

theorem ListTasks_page:
  assumes "rq_claims r = Some c" and "rq_Query r ''status'' = [] \<or> ValidateStatus (rq_Query r ''status'') = None"
    and "th_ListLimit h (tenant_namespace (cm_TenantID c))
      (query_limit (rq_Query r ''limit'') + query_offset (rq_Query r ''offset'')) s = (Inr items, s')"
    and "length items < 2 ^ 62"
  shows "\<exists>page total es. run_state (ListTasks h r w) (s, []) =
      (Return (json_reply 200 (ListBody (map convertCloudTaskToResponse page) (length page) total
         (query_limit (rq_Query r ''limit'')) (query_offset (rq_Query r ''offset''))) w), (s', es)) \<and>
    page = take (nat (sint (query_limit (rq_Query r ''limit''))))
      (drop (nat (sint (query_offset (rq_Query r ''offset''))))
        (filter (\<lambda>t. rq_Query r ''status'' = [] \<or> st_Phase (ct_Status t) = rq_Query r ''status'') items)) \<and>
    length page \<le> 500"
proof -
  let ?l = "query_limit (rq_Query r ''limit'')" and ?o = "query_offset (rq_Query r ''offset'')"
  let ?p = "\<lambda>t. rq_Query r ''status'' = [] \<or> st_Phase (ct_Status t) = rq_Query r ''status''"
  have "length (filter ?p items) < 2 ^ 62" using assms(4) length_filter_le [of ?p items] by linarith
  then have "paginate (filter ?p items) ?l ?o = Return (take (nat (sint ?l)) (drop (nat (sint ?o)) (filter ?p items)))"
    using query_limit_bounds query_offset_nonneg by (intro paginate_slice) simp_all
  moreover have "(if rq_Query r ''status'' = [] then items
      else filter (\<lambda>t. st_Phase (ct_Status t) = rq_Query r ''status'') items) = filter ?p items" by simp
  moreover have "min n (nat (sint ?l)) \<le> 500" for n
    using query_limit_bounds [of "rq_Query r ''limit''"] by (simp add: min_le_iff_disj nat_le_iff)
  ultimately show ?thesis using assms(2,3)
    by (auto simp: ListTasks_def tenant_of_claims [OF assms(1)] Let_def run_simps list_reply_def writeJSON_def
        split: option.split)
qed

section \<open>Replies without an error\<close>

text \<open>A missing task panics: when the server says that the task of a valid path is not there,
  reading and deleting it do not answer with status 404 but panic, because the reply reads the text of
  an error that is nil.\<close>

theorem missing_task_panics:
  assumes "rq_claims r = Some c" and "ValidateTaskID (path_task_id r) = None"
    and "cl_Get (th_client h) \<lparr>nn_Namespace = tenant_namespace (cm_TenantID c), nn_Name = path_task_id r\<rparr> s = (Inl e, s')"
    and "IsNotFound e" and "route = GetRoute \<or> route = DeleteRoute"
  shows "\<exists>m. fst (run_state (route_handler h route r w) (s, [])) = Panic m"
  using assms(5)
  by (auto simp: GetTask_def DeleteTask_def tenant_of_claims [OF assms(1)] fetch_task_def assms(2,3,4)
      client_Get_def run_simps writeError_def)

section \<open>Admission\<close>

text \<open>C29. What the API accepts, the webhook admits, except negative retries: the task built from a
  request that the validators accept passes the webhook's defaulting and creation check if and only if
  its number of retries is not negative.\<close>

theorem created_task_admitted:
  assumes "ValidateCreateTaskRequest req = []" and "t \<noteq> []"
  shows "snd (ValidateCreate (Default (request_task t req))) = None \<longleftrightarrow> 0 \<le> sint (rq_Retries req)"
proof -
  from assms(1) have "rq_Image req \<noteq> []" "0 \<le> sint (rq_Priority req)" "sint (rq_Priority req) \<le> 100"
    "sint (rq_Retries req) \<le> 10"
    by (auto simp: ValidateCreateTaskRequest_iff validateImage_iff)
  with assms(2) show ?thesis
    by (auto simp: ValidateCreate_iff range_errors_empty Default_def request_task_def Let_def)
qed

section \<open>A concrete server\<close>

text \<open>
  A server with one task of tenant \<open>acme\<close>, which answers a listing with that task and does not find
  any other name; the decoder gives the same request for every body.
\<close>

definition api_task :: CloudTask where
  "api_task = \<lparr>ct_Meta = zero_ObjectMeta\<lparr>om_Name := ''job1'', om_Namespace := ''tenant-acme''\<rparr>,
     ct_Spec = zero_CloudTaskSpec\<lparr>sp_Image := ''nginx'', sp_TenantID := ''acme''\<rparr>, ct_Status = zero_CloudTaskStatus\<rparr>"

definition api_create_request :: CreateCloudTaskRequest where
  "api_create_request = \<lparr>rq_Name = ''job2'', rq_Image = ''nginx'', rq_Command = [''run''], rq_Args = [],
     rq_TenantID = ''acme'', rq_Resources = None, rq_Retries = -1, rq_Timeout = [], rq_Priority = 5\<rparr>"

definition api_server :: "unit task_handler" where
  "api_server =
     \<lparr>th_client =
        \<lparr>cl_Get = \<lambda>k w. (if nn_Name k = ''job1'' then Inr api_task else Inl (StatusError ReasonNotFound ''not found''), w),
         cl_List = \<lambda>_ _ w. (Inr [api_task], w), cl_Create = \<lambda>x w. (Inr x, w), cl_Update = \<lambda>x w. (Inr x, w),
         cl_StatusUpdate = \<lambda>x w. (Inr x, w), cl_Delete = \<lambda>_ w. (Inr (), w)\<rparr>,
      th_ListLimit = \<lambda>_ _ w. (Inr [api_task], w), th_Unmarshal = \<lambda>_. Inr api_create_request\<rparr>"

definition api_claims :: Claims where
  "api_claims = token_claims 0 ''acme'' ''alice'' ''a@acme'' [] 1"

definition api_request :: "string \<Rightarrow> string \<Rightarrow> http_request" where
  "api_request method path = \<lparr>rq_Method = method, rq_Path = path, rq_Header = \<lambda>_. [], rq_Query = \<lambda>_. [],
     rq_Body = Inr [], rq_claims = Some api_claims, rq_requestID = None\<rparr>"

lemma api_request_simps [simp]:
  "rq_claims (api_request m p) = Some api_claims" "rq_Query (api_request m p) q = []"
  "rq_Path (api_request m p) = p" "cm_TenantID api_claims = ''acme''"
  by (simp_all add: api_request_def api_claims_def token_claims_def)

lemma ValidateTaskID_job: "ValidateTaskID ''job3'' = None"
  by code_simp

lemma api_path [simp]: "path_task_id (api_request m (''/v1/tasks/'' @ s)) = hd (Split CHR ''/'' s)"
  by (simp add: path_task_id_def TrimPrefix_def)

theorem ListTasks_page_witness:
  "\<exists>page total es. run_state (ListTasks api_server (api_request ''GET'' ''/v1/tasks'') new_response) ((), []) =
      (Return (json_reply 200 (ListBody (map convertCloudTaskToResponse page) (length page) total 50 0) new_response), ((), es)) \<and>
    page = [api_task]"
  using ListTasks_page [of "api_request ''GET'' ''/v1/tasks''" api_claims api_server "()" "[api_task]" "()" new_response]
  by (simp add: api_server_def query_limit_def query_offset_def)

theorem missing_task_panics_witness:
  "\<exists>m. fst (run_state (route_handler api_server GetRoute (api_request ''GET'' ''/v1/tasks/job3'') new_response) ((), [])) = Panic m"
  using ValidateTaskID_job api_path [of "''GET''" "''job3''"]
  by (intro missing_task_panics [of _ api_claims api_server "()" "StatusError ReasonNotFound ''not found''" "()"])
    (simp_all add: api_server_def IsNotFound_def)

theorem created_task_admitted_witness:
  "snd (ValidateCreate (Default (request_task ''acme'' api_create_request))) \<noteq> None"
proof -
  have "ValidateCreateTaskRequest api_create_request = []" by code_simp
  from created_task_admitted [OF this, of "''acme''"] show ?thesis by (simp add: api_create_request_def)
qed

end
