(* ===== verification/Router_Properties.thy ===== *)
theory Router_Properties
  imports Router Task_Handler_Properties
begin

text \<open>
  The routes of \<open>SetupRoutes\<close> as a whole: what an unauthenticated request gets, that the calls of every
  route stay with the tenant of a valid token, and what the order of the middleware does to rate
  limiting and to the health endpoints.
\<close>

lemma chain_first: "chainMiddleware h (m # ms) = m (chainMiddleware h ms)"
  by (simp add: chainMiddleware_def)

lemma chain_none: "chainMiddleware h [] = h"
  by (simp add: chainMiddleware_def)

lemmas chain_simps = chain_first chain_none v1_middleware_def health_middleware_def

text \<open>The first middleware of a list runs first: chaining is composition with the first middleware
  outermost.\<close>

theorem chain_order: "chainMiddleware h ms = foldr (\<lambda>m k. m k) ms h"
  by (induction ms) (simp_all add: chain_simps)

section \<open>Authentication\<close>

lemma limit_skipped: "rq_claims r = None \<Longrightarrow> rateLimitMiddleware rt next r w = next r w"
  by (simp add: rateLimitMiddleware_def split: option.split)

definition refused :: "('k, 'w) Router \<Rightarrow> http_request \<Rightarrow> bool" where
  "refused rt r \<longleftrightarrow> (\<forall>now. \<exists>e. ValidateToken (rt_jwt rt) (rt_jwtManager rt) now (router_extractBearerToken r) = Inl e)"

lemma no_token_refused: "router_extractBearerToken r = [] \<Longrightarrow> refused rt r"
  by (simp add: refused_def ValidateToken_def)

lemma status_simps [simp]:
  "rs_status (Header_Set k v w) = rs_status w" "rs_status (json_type w) = rs_status w"
  "rs_status w = None \<Longrightarrow> rs_status (text_reply c m w) = Some c"
  "rs_status (cors_headers w) = rs_status w"
  by (simp_all add: Header_Set_def json_type_def text_reply_def Write_def WriteHeader_def Let_def cors_headers_def)

lemma token_update [simp]:
  "router_extractBearerToken (r\<lparr>rq_requestID := x\<rparr>) = router_extractBearerToken r"
  by (simp add: router_extractBearerToken_def)

lemma auth_refuses:
  assumes "refused rt r" and "rs_status w = None"
  shows "wlog (authMiddleware rt h r w) (\<lambda>es out. es = [] \<and>
    (\<exists>resp. out = Return resp \<and> (rs_status resp = Some 401 \<or> rs_status resp = Some 403)))"
proof -
  have "\<not> (\<exists>now c. ValidateToken (rt_jwt rt) (rt_jwtManager rt) now (router_extractBearerToken r) = Inr c)"
    using assms(1) unfolding refused_def by (metis sum.distinct(1))
  with assms(2) show ?thesis unfolding authMiddleware_def Let_def
    by (intro wlog_bind wlog_intros) auto
qed

lemma wlog_case_outcome [wlog_intros]:
  assumes "\<And>a. x = Return a \<Longrightarrow> wlog (f a) P" and "\<And>m. x = Panic m \<Longrightarrow> wlog (g m) P"
  shows "wlog (case x of Return a \<Rightarrow> f a | Panic m \<Rightarrow> g m) P"
  using assms by (cases x) simp_all

text \<open>The middleware around authentication adds no call and passes the response on.\<close>

lemma v1_around:
  assumes "rq_claims r = None" and "rq_Method r \<noteq> ''OPTIONS''"
    and "\<And>i w'. rs_status w' = rs_status w \<Longrightarrow> wlog (authMiddleware rt h (r\<lparr>rq_requestID := i\<rparr>) w') P"
  shows "wlog (chainMiddleware h (v1_middleware rt) r w) P"
proof -
  have inner: "wlog (authMiddleware rt h (r\<lparr>rq_requestID := Some i\<rparr>) (Header_Set k v (cors_headers w))) P" for i k v
    by (rule assms(3)) simp
  have logged: "wlog (requestLoggingMiddleware rt (rateLimitMiddleware rt (authMiddleware rt h))
      (r\<lparr>rq_requestID := Some i\<rparr>) (Header_Set k v (cors_headers w))) P" for i k v
    unfolding requestLoggingMiddleware_def
    by (rule wlog_bind, rule wlog_silent, simp add: limit_skipped assms(1), rule wlog_seq [OF inner])
      (auto intro!: wlog_intros wlog_bind)
  show ?thesis
    by (simp add: chain_simps corsMiddleware_def requestIDMiddleware_def assms(2) Let_def)
      (auto intro!: wlog_bind wlog_silent logged)
qed

text \<open>No route of the task API is reached without a valid token: for every handler behind the chain,
  a request other than a preflight whose bearer token is missing or refused gets status 401 or 403, and
  no call is made to the API server.\<close>

theorem v1_requires_token:
  assumes "refused rt r" and "rq_claims r = None" and "rq_Method r \<noteq> ''OPTIONS''" and "rs_status w = None"
    and "run_state (chainMiddleware h (v1_middleware rt) r w) (s, []) = (out, (s', es))"
  shows "es = [] \<and> (\<exists>resp. out = Return resp \<and> (rs_status resp = Some 401 \<or> rs_status resp = Some 403))"
proof -
  have "refused rt (r\<lparr>rq_requestID := i\<rparr>)" for i using assms(1) by (simp add: refused_def)
  with assms(2,3,4) have "wlog (chainMiddleware h (v1_middleware rt) r w) (\<lambda>es out. es = [] \<and>
      (\<exists>resp. out = Return resp \<and> (rs_status resp = Some 401 \<or> rs_status resp = Some 403)))"
    by (intro v1_around auth_refuses) simp_all
  from wlogD [OF this assms(5)] show ?thesis .
qed

section \<open>Tenants, end to end\<close>

definition with_token :: "('k, 'w) Router \<Rightarrow> http_request \<Rightarrow> api_event list \<Rightarrow> bool" where
  "with_token rt r es \<longleftrightarrow> es = [] \<or>
     (\<exists>now c. ValidateToken (rt_jwt rt) (rt_jwtManager rt) now (router_extractBearerToken r) = Inr c \<and>
        isolated (cm_TenantID c) es)"

lemma auth_isolated:
  "wlog (authMiddleware rt (route_handler h route) r w) (\<lambda>es _. with_token rt r es)"
proof -
  have served: "wlog (route_handler h route (r\<lparr>rq_claims := Some c\<rparr>) w) (\<lambda>es _. with_token rt r es)"
    if "ValidateToken (rt_jwt rt) (rt_jwtManager rt) now (router_extractBearerToken r) = Inr c" for now c
    by (rule wlog_mono [OF route_isolated [of _ c]]) (use that in \<open>auto simp: with_token_def\<close>)
  show ?thesis unfolding authMiddleware_def Let_def
    by (intro wlog_bind wlog_intros) (auto simp: with_token_def served [unfolded with_token_def])
qed

text \<open>C1. Tenants are isolated end to end: for every request that arrives at a route of the task API
  and every answer of the API server, Redis and the clock, the calls that are made, if any, are those of
  a tenant whose valid token the request carries, and they stay within that tenant.\<close>

theorem api_tenant_isolation:
  assumes "rq_claims r = None"
    and "run_state (chainMiddleware (route_handler h route) (v1_middleware rt) r w) (s, []) = (out, (s', es))"
    and "es \<noteq> []"
  shows "\<exists>now c. ValidateToken (rt_jwt rt) (rt_jwtManager rt) now (router_extractBearerToken r) = Inr c \<and>
    list_all (of_tenant (cm_TenantID c)) es"
proof -
  have "wlog (chainMiddleware (route_handler h route) (v1_middleware rt) r w) (\<lambda>es _. with_token rt r es)"
  proof (cases "rq_Method r = ''OPTIONS''")
    case True
    then show ?thesis by (simp add: chain_simps corsMiddleware_def Let_def wlog_return with_token_def)
  next
    case False
    have "wlog (authMiddleware rt (route_handler h route) (r\<lparr>rq_requestID := i\<rparr>) w') (\<lambda>es _. with_token rt r es)" for i w'
      using auth_isolated [of rt h route "r\<lparr>rq_requestID := i\<rparr>" w'] by (simp add: with_token_def)
    with assms(1) False show ?thesis by (intro v1_around) simp_all
  qed
  from wlogD [OF this assms(2)] assms(3) show ?thesis by (auto simp: with_token_def isolated_def)
qed

section \<open>The order of the middleware\<close>

lemma limiter_unused [simp]:
  "requestIDMiddleware (rt\<lparr>rt_rateLimiter := x\<rparr>) = requestIDMiddleware rt"
  "requestLoggingMiddleware (rt\<lparr>rt_rateLimiter := x\<rparr>) = requestLoggingMiddleware rt"
  "authMiddleware (rt\<lparr>rt_rateLimiter := x\<rparr>) = authMiddleware rt"
  by (simp_all add: fun_eq_iff requestIDMiddleware_def requestLoggingMiddleware_def authMiddleware_def
      cong: if_cong option.case_cong outcome.case_cong)

lemma logging_limit_skipped:
  "rq_claims r = None \<Longrightarrow> requestLoggingMiddleware rt (rateLimitMiddleware rt' h) r w = requestLoggingMiddleware rt h r w"
  by (cases "rq_requestID r") (simp_all add: requestLoggingMiddleware_def limit_skipped)

lemma v1_unlimited:
  assumes "rq_claims r = None"
  shows "chainMiddleware h (v1_middleware rt) r w = chainMiddleware h (v1_middleware (rt\<lparr>rt_rateLimiter := None\<rparr>)) r w"
  using assms
  by (simp add: chain_simps corsMiddleware_def requestIDMiddleware_def logging_limit_skipped Let_def cong: if_cong)

text \<open>The rate limiter is never consulted: a request arrives with no claims in its context, rate
  limiting comes before authentication in every chain, and so each route behaves as if no limiter were
  configured.\<close>

theorem v1_never_rate_limited:
  assumes "rq_claims r = None"
  shows "map_option (\<lambda>h. h r w) (map_of (SetupRoutes rt) p) =
    map_option (\<lambda>h. h r w) (map_of (SetupRoutes (rt\<lparr>rt_rateLimiter := None\<rparr>)) p)"
  by (auto simp: SetupRoutes_def health_middleware_def intro!: v1_unlimited assms)

text \<open>The health endpoints panic: the logging middleware reads the request ID before the middleware
  that sets it has run, so every request to \<open>/healthz\<close> and \<open>/readyz\<close> panics.\<close>

theorem health_routes_panic:
  assumes "rq_requestID r = None" and "p = ''/healthz'' \<or> p = ''/readyz''"
  shows "\<exists>h m. map_of (SetupRoutes rt) p = Some h \<and> fst (run_state (h r w) (s, [])) = Panic m"
  using assms
  by (auto simp: SetupRoutes_def chain_simps requestLoggingMiddleware_def run_simps split: prod.split)

section \<open>A concrete router\<close>

text \<open>The world is the time; no Redis, and the concrete API server and JWT library of the witnesses above.\<close>

definition api_router :: "(unit, unit) Router" where
  "api_router =
     \<lparr>rt_taskHandler = api_server,
      rt_healthHandler = \<lparr>hh_Now = \<lambda>w. (0, w), hh_ListNamespaces = None, hh_Ping = None\<rparr>,
      rt_rateLimiter = Some NewRateLimiter, rt_jwtManager = mem_manager,
      rt_redis = \<lparr>rc_Exec = \<lambda>_ w. (Inl (PlainError ''no redis''), w), rc_Scan = \<lambda>_ _ w. (Inr ([], 0), w),
                  rc_Del = \<lambda>_ w. (None, w)\<rparr>,
      rt_jwt = mem_jwt, rt_Now = \<lambda>w. (0, w)\<rparr>"

definition raw_request :: "string \<Rightarrow> http_request" where
  "raw_request auth = \<lparr>rq_Method = ''GET'', rq_Path = ''/v1/tasks'', rq_Header = \<lambda>_. auth, rq_Query = \<lambda>_. [],
     rq_Body = Inr [], rq_claims = None, rq_requestID = None\<rparr>"

lemma raw_simps [simp]:
  "rq_claims (raw_request a) = None" "rq_requestID (raw_request a) = None" "rq_Method (raw_request a) = ''GET''"
  "rq_Query (raw_request a) = (\<lambda>_. [])"
  by (simp_all add: raw_request_def)

theorem v1_requires_token_witness:
  "\<exists>resp s'. run_state (chainMiddleware (ListTasks api_server) (v1_middleware api_router) (raw_request []) new_response) ((), []) =
     (Return resp, (s', [])) \<and> (rs_status resp = Some 401 \<or> rs_status resp = Some 403)"
proof -
  let ?run = "run_state (chainMiddleware (ListTasks api_server) (v1_middleware api_router) (raw_request []) new_response) ((), [])"
  obtain out s' es where run: "?run = (out, (s', es))" by (cases ?run) auto
  have "refused api_router (raw_request [])"
    by (rule no_token_refused) (simp add: router_extractBearerToken_def raw_request_def)
  from v1_requires_token [OF this _ _ _ run] run show ?thesis by (auto simp: new_response_def)
qed

theorem api_tenant_isolation_witness:
  "\<exists>out s' es now c. run_state (chainMiddleware (route_handler api_server ListRoute) (v1_middleware api_router)
      (raw_request ''Bearer toksecret'') new_response) ((), []) = (out, (s', es)) \<and> es \<noteq> [] \<and>
    ValidateToken mem_jwt mem_manager now ''toksecret'' = Inr c \<and> list_all (of_tenant (cm_TenantID c)) es"
proof -
  let ?r = "raw_request ''Bearer toksecret''"
  let ?run = "run_state (chainMiddleware (route_handler api_server ListRoute) (v1_middleware api_router) ?r new_response) ((), [])"
  obtain out s' es where run: "?run = (out, (s', es))" by (cases ?run) auto
  have token: "router_extractBearerToken ?r = ''toksecret''"
    by (simp add: router_extractBearerToken_def raw_request_def)
  have valid: "ValidateToken mem_jwt mem_manager 0 ''toksecret'' = Inr mem_jwt_claims"
    by (simp add: ValidateToken_def mem_jwt_def mem_manager_def keyFunc_def mem_jwt_claims_def token_claims_def
        NewNumericDate_def hours_def)
  have auth: "run_state (authMiddleware api_router k (?r\<lparr>rq_requestID := i\<rparr>) w) ((), tr) =
      run_state (k (?r\<lparr>rq_requestID := i, rq_claims := Some mem_jwt_claims\<rparr>) w) ((), tr)"
    for i tr w and k :: "(unit, api_event) handler"
    using token valid by (simp add: authMiddleware_def Let_def run_simps api_router_def)
  have list: "run_state (ListTasks api_server (?r\<lparr>rq_requestID := i, rq_claims := Some mem_jwt_claims\<rparr>) w) ((), tr) =
      (list_reply [] 50 0 [api_task] w, ((), tr @ [TaskList (tenant_namespace (cm_TenantID mem_jwt_claims)) 50 (Inr [api_task])]))"
    for i tr w
    by (simp add: ListTasks_def tenant_of_claims run_simps api_server_def Let_def query_limit_def query_offset_def)
  have "es \<noteq> []" using run
    by (auto simp: chain_simps corsMiddleware_def requestIDMiddleware_def requestLoggingMiddleware_def Let_def
        limit_skipped run_simps auth list split: outcome.splits prod.splits)
  with api_tenant_isolation [OF _ run] token run show ?thesis by (auto simp: api_router_def)
qed

theorem v1_never_rate_limited_witness:
  "map_option (\<lambda>h. h (raw_request []) new_response) (map_of (SetupRoutes api_router) ''GET /v1/tasks'') =
   map_option (\<lambda>h. h (raw_request []) new_response) (map_of (SetupRoutes (api_router\<lparr>rt_rateLimiter := None\<rparr>)) ''GET /v1/tasks'')"
  by (rule v1_never_rate_limited) simp

theorem health_routes_panic_witness:
  "\<exists>h m. map_of (SetupRoutes api_router) ''/healthz'' = Some h \<and>
     fst (run_state (h (raw_request []) new_response) ((), [])) = Panic m"
  by (rule health_routes_panic) simp_all

end
