(* ===== verification/Request_Logger.thy ===== *)
theory Request_Logger
  imports Http Go_Time Float64
begin

text \<open>
  The request logger (\<open>pkg/logger/middleware.go\<close>, \<open>logger.go\<close>): the values it keeps in a context, the
  fields it logs, its response writer, and the middleware around a handler. What is logged is an
  event of the run. The clock, the generator of identifiers and the client's address are
  parameters; the last since \<open>getClientIP\<close> calls \<open>net.SplitHostPort\<close> with arguments it does not have.
\<close>

section \<open>Contexts\<close>

definition ContextKeyTenantID :: string where "ContextKeyTenantID = ''tenant_id''"
definition ContextKeyRequestID :: string where "ContextKeyRequestID = ''request_id''"
definition ContextKeyTraceID :: string where "ContextKeyTraceID = ''trace_id''"

lemmas context_keys = ContextKeyTenantID_def ContextKeyRequestID_def ContextKeyTraceID_def

type_synonym log_context = "string \<rightharpoonup> string"

definition WithTenantID :: "log_context \<Rightarrow> string \<Rightarrow> log_context" where
  "WithTenantID ctx tenantID = ctx(ContextKeyTenantID \<mapsto> tenantID)"

definition WithRequestID :: "log_context \<Rightarrow> string \<Rightarrow> log_context" where
  "WithRequestID ctx requestID = ctx(ContextKeyRequestID \<mapsto> requestID)"

definition WithTraceID :: "log_context \<Rightarrow> string \<Rightarrow> log_context" where
  "WithTraceID ctx traceID = ctx(ContextKeyTraceID \<mapsto> traceID)"

definition context_string :: "log_context \<Rightarrow> string \<Rightarrow> string" where
  "context_string ctx k = (case ctx k of None \<Rightarrow> [] | Some v \<Rightarrow> v)"

definition RequestIDFromContext :: "log_context \<Rightarrow> string" where
  "RequestIDFromContext ctx = context_string ctx ContextKeyRequestID"

definition TenantIDFromContext :: "log_context \<Rightarrow> string" where
  "TenantIDFromContext ctx = context_string ctx ContextKeyTenantID"

definition TraceIDFromContext :: "log_context \<Rightarrow> string" where
  "TraceIDFromContext ctx = context_string ctx ContextKeyTraceID"

definition ContextWithRequestMetadata :: "log_context \<Rightarrow> string \<Rightarrow> string \<Rightarrow> string \<Rightarrow> log_context" where
  "ContextWithRequestMetadata ctx requestID tenantID traceID =
     (let ctx = (if requestID \<noteq> [] then WithRequestID ctx requestID else ctx);
          ctx = (if tenantID \<noteq> [] then WithTenantID ctx tenantID else ctx)
      in if traceID \<noteq> [] then WithTraceID ctx traceID else ctx)"

section \<open>Entries\<close>

datatype log_level = DebugLevel | InfoLevel | WarnLevel | ErrorLevel

datatype log_value = TextValue string | StatusValue nat | FloatValue rat

record log_entry =
  le_level :: log_level
  le_message :: string
  le_fields :: "(string \<times> log_value) list"

definition context_field :: "log_context \<Rightarrow> string \<Rightarrow> (string \<times> log_value) list" where
  "context_field ctx k = (if context_string ctx k \<noteq> [] then [(k, TextValue (context_string ctx k))] else [])"

definition context_fields :: "log_context \<Rightarrow> (string \<times> log_value) list" where
  "context_fields ctx =
     context_field ctx ContextKeyTenantID @ context_field ctx ContextKeyRequestID @ context_field ctx ContextKeyTraceID"

text \<open>
  \<open>GetLogger\<close> returns a logger that adds the fields of the context, and \<open>LogWithContext\<close> adds them once
  more to those of the call, which come as keys and values here.
\<close>

definition LogWithContext :: "log_context \<Rightarrow> log_context \<Rightarrow> log_level \<Rightarrow> string \<Rightarrow> (string \<times> log_value) list \<Rightarrow> log_entry" where
  "LogWithContext logger ctx level msg kvs =
     \<lparr>le_level = level, le_message = msg, le_fields = context_fields logger @ context_fields ctx @ kvs\<rparr>"

definition status_level :: "nat \<Rightarrow> log_level" where
  "status_level code = (if 500 \<le> code then ErrorLevel else if 400 \<le> code then WarnLevel else InfoLevel)"

section \<open>The middleware\<close>

record ('w, 'e) logger_env =
  lg_Now :: "'w \<Rightarrow> instant \<times> 'w"
  lg_NewUUID :: "'w \<Rightarrow> string \<times> 'w"
  lg_ClientIP :: "http_request \<Rightarrow> string"
  lg_RequestURI :: "http_request \<Rightarrow> string"
  lg_Entry :: "log_entry \<Rightarrow> 'e"

text \<open>A header that is set after the status was written is not sent.\<close>

definition late_Set :: "string \<Rightarrow> string \<Rightarrow> http_response \<Rightarrow> http_response" where
  "late_Set k v w = (if rs_status w = None then Header_Set k v w else w)"

definition header_or_uuid :: "('w, 'e) logger_env \<Rightarrow> string \<Rightarrow> http_request \<Rightarrow> ('w, 'e, string) act" where
  "header_or_uuid lg h r =
     (if rq_Header r h = [] then silent (lg_NewUUID lg) else State_Monad.return (rq_Header r h))"

definition request_context :: "string \<Rightarrow> string \<Rightarrow> http_request \<Rightarrow> log_context" where
  "request_context requestID traceID r =
     (let tenantID = rq_Header r ''X-Tenant-ID'';
          ctx = WithTraceID (WithRequestID Map.empty requestID) traceID
      in if tenantID \<noteq> [] then WithTenantID ctx tenantID else ctx)"

definition emit :: "('w, 'e) logger_env \<Rightarrow> log_entry \<Rightarrow> ('w, 'e, unit) act" where
  "emit lg entry = logged (\<lambda>w. ((), w)) (\<lambda>_. lg_Entry lg entry)"

definition started_entry :: "('w, 'e) logger_env \<Rightarrow> log_context \<Rightarrow> http_request \<Rightarrow> log_entry" where
  "started_entry lg ctx r = LogWithContext ctx ctx InfoLevel ''HTTP request started''
     [(''method'', TextValue (rq_Method r)), (''path'', TextValue (lg_RequestURI lg r)),
      (''client_ip'', TextValue (lg_ClientIP lg r)), (''user_agent'', TextValue (rq_Header r ''User-Agent''))]"

definition completed_entry ::
  "('w, 'e) logger_env \<Rightarrow> log_context \<Rightarrow> http_request \<Rightarrow> nat \<Rightarrow> duration \<Rightarrow> log_entry" where
  "completed_entry lg ctx r code dur = LogWithContext ctx ctx (status_level code) ''HTTP request completed''
     [(''method'', TextValue (rq_Method r)), (''path'', TextValue (lg_RequestURI lg r)),
      (''status'', StatusValue code), (''duration_ms'', FloatValue (fl (of_int (sint (Milliseconds dur))))),
      (''client_ip'', TextValue (lg_ClientIP lg r)), (''user_agent'', TextValue (rq_Header r ''User-Agent''))]"

text \<open>
  The status is the one the response writer captured, 200 when none was written. No value
  \<open>jwt_claims\<close> is in the context of a request at this point, so the tenant is that of the header. A
  panic of the handler passes through.
\<close>

definition sent_status :: "http_response \<Rightarrow> nat" where
  "sent_status w = (case rs_status w of None \<Rightarrow> 200 | Some c \<Rightarrow> c)"

definition RequestLoggingMiddleware :: "('w, 'e) logger_env \<Rightarrow> ('w, 'e) handler \<Rightarrow> ('w, 'e) handler" where
  "RequestLoggingMiddleware lg next r w =
     do {
       start \<leftarrow> silent (lg_Now lg);
       requestID \<leftarrow> header_or_uuid lg ''X-Request-ID'' r;
       traceID \<leftarrow> header_or_uuid lg ''X-Trace-ID'' r;
       let ctx = request_context requestID traceID r;
       emit lg (started_entry lg ctx r);
       out \<leftarrow> next r w;
       case out of
         Panic m \<Rightarrow> State_Monad.return (Panic m)
       | Return w \<Rightarrow> do {
           now \<leftarrow> silent (lg_Now lg);
           emit lg (completed_entry lg ctx r (sent_status w) (Since now start));
           State_Monad.return (Return (late_Set ''X-Trace-ID'' traceID (late_Set ''X-Request-ID'' requestID w)))
         }
     }"

end
