(* ===== verification/Api_Server.thy ===== *)
theory Api_Server
  imports Request_Logger Auth Rate_Limiter Module1_Client Router
begin

text \<open>
  The API gateway: the server of \<open>pkg/api/handlers.go\<close>, with the request type of \<open>Validators\<close>, and the
  routes and middleware of \<open>cmd/api-gateway/main.go\<close>. A handler is a program over the calls of its
  client; the client of the scheduler is an action that submits a task, for which the client of
  \<open>Module1_Client\<close> is put in. The JSON decoder is a parameter.
\<close>

section \<open>The server\<close>

text \<open>
  \<open>HandleCreateTask\<close> reads three fields that \<open>CreateCloudTaskRequest\<close> does not have: a CPU request, a
  memory request and a timeout in seconds. They are a parameter, \<open>ap_undeclared\<close>. The Kubernetes
  client of the server is not used.
\<close>

record ('v, 'e) APIServer =
  ap_Unmarshal :: "string \<Rightarrow> error + CreateCloudTaskRequest"
  ap_undeclared :: "CreateCloudTaskRequest \<Rightarrow> string \<times> string \<times> int64"
  ap_module1Client :: "(SubmitTaskRequest \<Rightarrow> ('v, 'e, error + SubmitTaskResponse) act) option"

definition SetModule1Client ::
  "(SubmitTaskRequest \<Rightarrow> ('v, 'e, error + SubmitTaskResponse) act) \<Rightarrow> ('v, 'e) APIServer \<Rightarrow> ('v, 'e) APIServer" where
  "SetModule1Client c s = s\<lparr>ap_module1Client := Some c\<rparr>"

definition StatusText :: "nat \<Rightarrow> string" where
  "StatusText code =
     (if code = 400 then ''Bad Request'' else if code = 503 then ''Service Unavailable'' else [])"

text \<open>The body of an error has its status text, code and message.\<close>

definition Server_writeError :: "nat \<Rightarrow> string \<Rightarrow> error option \<Rightarrow> http_response \<Rightarrow> http_response" where
  "Server_writeError code message err w =
     json_reply code (ErrorBody (StatusText code) code
       (case err of None \<Rightarrow> message | Some e \<Rightarrow> message @ '': '' @ error_text e)) w"

definition submit_request :: "('v, 'e) APIServer \<Rightarrow> CreateCloudTaskRequest \<Rightarrow> SubmitTaskRequest" where
  "submit_request s req =
     (let (cpu, memory, timeout) = ap_undeclared s req
      in \<lparr>sr_TaskID = rq_Name req, sr_TenantID = rq_TenantID req, sr_Image = rq_Image req,
          sr_Command = rq_Command req, sr_CPURequest = cpu, sr_MemoryRequest = memory,
          sr_Priority = rq_Priority req, sr_TimeoutSeconds = timeout\<rparr>)"

text \<open>
  The name is not empty when the task's identifier is made from it, so the branch that generates an
  identifier is never taken.
\<close>

definition HandleCreateTask :: "('v, 'e) APIServer \<Rightarrow> ('v, 'e) handler" where
  "HandleCreateTask s r w =
     (case rq_Body r of
        Inl e \<Rightarrow> State_Monad.return (Return (Server_writeError 400 ''Failed to read request body'' (Some e) w))
      | Inr body \<Rightarrow>
          (case ap_Unmarshal s body of
             Inl e \<Rightarrow> State_Monad.return (Return (Server_writeError 400 ''Invalid request format'' (Some e) w))
           | Inr req \<Rightarrow>
               if rq_Name req = [] then State_Monad.return (Return (Server_writeError 400 ''Task name is required'' None w))
               else if rq_TenantID req = [] then State_Monad.return (Return (Server_writeError 400 ''Tenant ID is required'' None w))
               else if rq_Image req = [] then State_Monad.return (Return (Server_writeError 400 ''Container image is required'' None w))
               else case ap_module1Client s of
                 None \<Rightarrow> State_Monad.return (Return (Server_writeError 503 ''Module 1 scheduler service not available'' None
                           (Header_Set ''Retry-After'' ''30'' w)))
               | Some submit \<Rightarrow> do {
                   resp \<leftarrow> submit (submit_request s req);
                   State_Monad.return (Return (case resp of
                     Inl e \<Rightarrow> Server_writeError 503 ''Module 1 scheduler communication failed'' (Some e)
                                (Header_Set ''Retry-After'' ''30'' w)
                   | Inr resp \<Rightarrow>
                       if \<not> sp_Accepted resp
                       then Server_writeError 503 (''Module 1 rejected task: '' @ sp_Reason resp) None
                              (Header_Set ''Retry-After'' (Itoa (sint (sp_EstimatedStartSeconds resp + 10))) w)
                       else json_reply 202 (QueuedBody (rq_Name req) ''Queued'' (sp_QueuePosition resp)
                              (sp_EstimatedStartSeconds resp) ''Task accepted and queued'') w))
                 }))"

definition HandleGetTask :: "('v, 'e) handler" where
  "HandleGetTask r w =
     (let name = rq_Query r ''name''
      in State_Monad.return (Return
           (if name = [] then Server_writeError 400 ''Task name required'' None w
            else json_reply 200 (NamePhaseBody name ''Running'') w)))"

definition HandleListTasks :: "('v, 'e) handler" where
  "HandleListTasks r w = State_Monad.return (Return (json_reply 200 (ItemsBody [] 0) w))"

definition HandleDeleteTask :: "('v, 'e) handler" where
  "HandleDeleteTask r w =
     (let name = rq_Query r ''name''
      in State_Monad.return (Return
           (if name = [] then Server_writeError 400 ''Task name required'' None w
            else json_reply 200 (MessageBody ''CloudTask deleted'') w)))"

definition HandleHealth :: "('v, 'e) handler" where
  "HandleHealth r w = State_Monad.return (Return (json_reply 200 (VersionBody ''healthy'' ''v1.0.0'' ''connected'') w))"

definition metrics_text :: string where
  "metrics_text = ''# HELP cloudtask_total Total CloudTasks'' @ [CHR 0x0A] @
     ''# TYPE cloudtask_total counter'' @ [CHR 0x0A] @ ''cloudtask_total 0'' @ [CHR 0x0A]"

definition HandleMetrics :: "('v, 'e) handler" where
  "HandleMetrics r w = State_Monad.return (Return
     (Write (TextBody metrics_text) (WriteHeader 200 (Header_Set ''Content-Type'' ''text/plain'' w))))"

section \<open>The gateway\<close>

text \<open>The secret that \<open>main\<close> sets when the environment has none.\<close>

definition jwt_environment :: "(string \<Rightarrow> string) \<Rightarrow> string \<times> (string \<Rightarrow> string)" where
  "jwt_environment getenv =
     (let algorithm = (if getenv ''JWT_ALGORITHM'' = [] then ''HS256'' else getenv ''JWT_ALGORITHM'')
      in (algorithm,
          if algorithm = ''HS256'' \<and> getenv ''JWT_SECRET'' = []
          then getenv(''JWT_SECRET'' := ''change-me-in-production'') else getenv))"

definition gateway_manager :: "'k jwt_library \<Rightarrow> (string \<Rightarrow> string) \<Rightarrow> error + 'k JWTManager" where
  "gateway_manager lib getenv = (let (algorithm, env) = jwt_environment getenv in NewJWTManager lib env algorithm)"

text \<open>The limiter is there when Redis answered at the start.\<close>

definition gateway_limiter :: "error option \<Rightarrow> RateLimiter option" where
  "gateway_limiter ping = (case ping of None \<Rightarrow> Some NewRateLimiter | Some _ \<Rightarrow> None)"

record ('k, 'v, 'e) gateway =
  gw_Now :: "'v \<Rightarrow> instant \<times> 'v"
  gw_jwt :: "'k jwt_library"
  gw_jwtManager :: "'k JWTManager"
  gw_redis :: "'v redis_cmdable"
  gw_rateLimiter :: "RateLimiter option"
  gw_server :: "('v, 'e) APIServer"
  gw_logger :: "('v, 'e) logger_env"

definition http_Error :: "string \<Rightarrow> nat \<Rightarrow> http_response \<Rightarrow> http_response" where
  "http_Error msg code w =
     Write (TextBody (msg @ [CHR 0x0A])) (WriteHeader code
       (Header_Set ''X-Content-Type-Options'' ''nosniff'' (Header_Set ''Content-Type'' ''text/plain; charset=utf-8'' w)))"

text \<open>\<open>withLogging\<close> reads the clock around the handler; what it logs is left out.\<close>

definition withLogging :: "('k, 'v, 'e) gateway \<Rightarrow> ('v, 'e) handler \<Rightarrow> ('v, 'e) handler" where
  "withLogging gw handler r w =
     do {
       start \<leftarrow> silent (gw_Now gw);
       out \<leftarrow> handler r w;
       case out of
         Panic m \<Rightarrow> State_Monad.return (Panic m)
       | Return w \<Rightarrow> do { _ \<leftarrow> silent (gw_Now gw); State_Monad.return (Return w) }
     }"

definition withRateLimit :: "('k, 'v, 'e) gateway \<Rightarrow> ('v, 'e) handler \<Rightarrow> ('v, 'e) handler" where
  "withRateLimit gw next r w =
     (case gw_rateLimiter gw of
        None \<Rightarrow> next r w
      | Some rl \<Rightarrow>
          (case GetTenantIDFromContext r of
             Inl e \<Rightarrow> State_Monad.return (Return (http_Error ''Internal server error'' 500 w))
           | Inr tenantID \<Rightarrow> do {
               now \<leftarrow> silent (gw_Now gw);
               later \<leftarrow> silent (gw_Now gw);
               a \<leftarrow> silent (Allow (gw_redis gw) rl now later tenantID);
               case a of
                 Panic m \<Rightarrow> State_Monad.return (Panic m)
               | Return (allowed, retryAfter, err) \<Rightarrow>
                   if err \<noteq> None then State_Monad.return (Return (http_Error ''Internal server error'' 500 w))
                   else if \<not> allowed
                   then State_Monad.return (Return (Write (AuthErrorBody ''Rate limit exceeded'' 429) (WriteHeader 429
                          (json_type (Header_Set ''Retry-After'' (format_0f (Duration_Seconds retryAfter)) w)))))
                   else next r w
             }))"

text \<open>The authentication of \<open>Auth\<close>, which reads the clock when there is a token to validate.\<close>

definition gateway_auth :: "('k, 'v, 'e) gateway \<Rightarrow> ('v, 'e) handler \<Rightarrow> ('v, 'e) handler" where
  "gateway_auth gw next r w =
     do {
       now \<leftarrow> (if extractBearerToken r = [] then State_Monad.return 0 else silent (gw_Now gw));
       AuthMiddleware (gw_jwt gw) (gw_jwtManager gw) now next r w
     }"

definition gateway_task_route :: "('k, 'v, 'e) gateway \<Rightarrow> ('v, 'e) handler \<Rightarrow> ('v, 'e) handler" where
  "gateway_task_route gw h = gateway_auth gw (withRateLimit gw (withLogging gw h))"

definition gateway_routes :: "('k, 'v, 'e) gateway \<Rightarrow> (string \<times> ('v, 'e) handler) list" where
  "gateway_routes gw =
     [(''/health'', withLogging gw HandleHealth),
      (''/metrics'', withLogging gw HandleMetrics),
      (''/tasks'', gateway_task_route gw HandleListTasks),
      (''/tasks/create'', gateway_task_route gw (HandleCreateTask (gw_server gw))),
      (''/tasks/get'', gateway_task_route gw HandleGetTask),
      (''/tasks/delete'', gateway_task_route gw HandleDeleteTask)]"

text \<open>The routes match whole paths; the library answers any other.\<close>

definition gateway_mux :: "('k, 'v, 'e) gateway \<Rightarrow> ('v, 'e) handler" where
  "gateway_mux gw r w =
     (case map_of (gateway_routes gw) (rq_Path r) of
        None \<Rightarrow> State_Monad.return (Return (http_Error ''404 page not found'' 404 w))
      | Some h \<Rightarrow> h r w)"

definition gateway_handler :: "('k, 'v, 'e) gateway \<Rightarrow> ('v, 'e) handler" where
  "gateway_handler gw = RequestLoggingMiddleware (gw_logger gw) (gateway_mux gw)"

section \<open>The scheduler behind the gateway\<close>

text \<open>The client of \<open>Module1_Client\<close> as an action on its state and the world.\<close>

definition client_submit ::
  "('c, 'w) rpc \<Rightarrow> SubmitTaskRequest \<Rightarrow> ('w \<times> 'c Module1RealClient, rpc_event, error + SubmitTaskResponse) act" where
  "client_submit env req = State (\<lambda>((w, c), tr).
     let ((r, c'), (w', tr')) = run_state (Module1_SubmitTask env c req) (w, tr) in (r, ((w', c'), tr')))"

end
