(* ===== verification/Gateway_Properties.thy ===== *)
theory Gateway_Properties
  imports Api_Server Module1_Properties
begin

text \<open>
  Properties of the gateway over its whole chain: what a request without a valid token gets, that the
  limit on requests applies to the tenant of the token, which tenant a task is submitted for, what an
  open circuit breaker comes to at the API, and what the request logger adds to a response.
\<close>

section \<open>Tokens\<close>

definition task_paths :: "string list" where
  "task_paths = [''/tasks'', ''/tasks/create'', ''/tasks/get'', ''/tasks/delete'']"

lemma mux_task_route:
  assumes "rq_Path r \<in> set task_paths"
  obtains h where "gateway_mux gw r w = gateway_task_route gw h r w"
  using assms by (auto simp: gateway_mux_def gateway_routes_def task_paths_def)

definition gateway_refused :: "('k, 'v, 'e) gateway \<Rightarrow> http_request \<Rightarrow> bool" where
  "gateway_refused gw r \<longleftrightarrow> extractBearerToken r = [] \<or>
     (\<forall>now. \<exists>e. ValidateToken (gw_jwt gw) (gw_jwtManager gw) now (extractBearerToken r) = Inl e)"

lemma auth_refused:
  assumes "gateway_refused gw r" and "rs_status w = None"
  shows "wlog (gateway_auth gw next r w) (\<lambda>es out. es = [] \<and>
    (\<exists>w'. out = Return w' \<and> rs_status w' \<in> {Some 401, Some 403}))"
proof -
  have e: "extractBearerToken r \<noteq> [] \<Longrightarrow>
      \<exists>e. ValidateToken (gw_jwt gw) (gw_jwtManager gw) now (extractBearerToken r) = Inl e" for now
    using assms(1) by (auto simp: gateway_refused_def)
  show ?thesis
    unfolding gateway_auth_def
  proof (rule wlog_bind, intro wlog_intros)
    assume "extractBearerToken r = []"
    then show "wlog (AuthMiddleware (gw_jwt gw) (gw_jwtManager gw) 0 next r w)
        (\<lambda>es' out. [] @ es' = [] \<and> (\<exists>w'. out = Return w' \<and> rs_status w' \<in> {Some 401, Some 403}))"
      using assms(2) by (auto simp: AuthMiddleware_def json_reply_def Write_def WriteHeader_def Header_Set_def Let_def
          intro!: wlog_intros)
  next
    fix now
    assume "extractBearerToken r \<noteq> []"
    with e [of now] show "wlog (AuthMiddleware (gw_jwt gw) (gw_jwtManager gw) now next r w)
        (\<lambda>es' out. [] @ es' = [] \<and> (\<exists>w'. out = Return w' \<and> rs_status w' \<in> {Some 401, Some 403}))"
      using assms(2) by (auto simp: AuthMiddleware_def json_reply_def Write_def WriteHeader_def Header_Set_def Let_def
          intro!: wlog_intros)
  qed
qed


section \<open>Limits\<close>

definition too_many :: "duration \<Rightarrow> http_response \<Rightarrow> http_response" where
  "too_many retryAfter w = Write (AuthErrorBody ''Rate limit exceeded'' 429) (WriteHeader 429
     (json_type (Header_Set ''Retry-After'' (format_0f (Duration_Seconds retryAfter)) w)))"

lemma task_route_run:
  assumes "extractBearerToken r \<noteq> []" and "gw_Now gw v = (t, v1)"
    and "ValidateToken (gw_jwt gw) (gw_jwtManager gw) t (extractBearerToken r) = Inr claims"
    and "gw_rateLimiter gw = Some rl" and "gw_Now gw v1 = (now, v2)" and "gw_Now gw v2 = (later, v3)"
    and "Allow (gw_redis gw) rl now later (cm_TenantID claims) v3 = (Return (allowed, retryAfter, None), v4)"
  shows "run_state (gateway_task_route gw h r w) (v, tr) =
    (if allowed then run_state (withLogging gw h (r\<lparr>rq_claims := Some claims\<rparr>) w) (v4, tr)
     else (Return (too_many retryAfter w), (v4, tr)))"
  using assms by (simp add: gateway_task_route_def gateway_auth_def run_simps AuthMiddleware_def Let_def withRateLimit_def
      GetTenantIDFromContext_def GetClaimsFromContext_def too_many_def)


section \<open>Submission\<close>

definition admissible :: "('v, 'e) APIServer \<Rightarrow> http_request \<Rightarrow> CreateCloudTaskRequest \<Rightarrow> bool" where
  "admissible s r req \<longleftrightarrow> (\<exists>body. rq_Body r = Inr body \<and> ap_Unmarshal s body = Inr req) \<and>
     rq_Name req \<noteq> [] \<and> rq_TenantID req \<noteq> [] \<and> rq_Image req \<noteq> []"

definition submit_reply :: "CreateCloudTaskRequest \<Rightarrow> error + SubmitTaskResponse \<Rightarrow> http_response \<Rightarrow> http_response" where
  "submit_reply req resp w = (case resp of
     Inl e \<Rightarrow> Server_writeError 503 ''Module 1 scheduler communication failed'' (Some e) (Header_Set ''Retry-After'' ''30'' w)
   | Inr resp \<Rightarrow>
       if \<not> sp_Accepted resp
       then Server_writeError 503 (''Module 1 rejected task: '' @ sp_Reason resp) None
              (Header_Set ''Retry-After'' (Itoa (sint (sp_EstimatedStartSeconds resp + 10))) w)
       else json_reply 202 (QueuedBody (rq_Name req) ''Queued'' (sp_QueuePosition resp)
              (sp_EstimatedStartSeconds resp) ''Task accepted and queued'') w)"

lemma create_admissible:
  assumes "admissible s r req" and "ap_module1Client s = Some submit"
  shows "HandleCreateTask s r w =
    do { resp \<leftarrow> submit (submit_request s req); State_Monad.return (Return (submit_reply req resp w)) }"
  using assms by (auto simp: admissible_def HandleCreateTask_def submit_reply_def)

lemma reply_status:
  "rs_status w = None \<Longrightarrow> rs_status (json_reply code b w) = Some code"
  "rs_status (Header_Set k v w) = rs_status w"
  "rs_headers (json_reply code b w) = (rs_headers w)(''Content-Type'' \<mapsto> ''application/json'')"
  by (simp_all add: json_reply_def Write_def WriteHeader_def Header_Set_def Let_def split: option.split)


section \<open>The circuit breaker at the API\<close>

lemma open_breaker_submit:
  assumes "mc_circuitState c = StateOpen" and "mc_conn c = Some conn"
    and "rpc_GetState env conn w = (st, w1)" and "st \<notin> {TransientFailure, Shutdown}"
    and "fst (rpc_Now env w1) - mc_lastFailTime c \<le> sint (cc_CircuitRecoverTime (mc_config c))"
  shows "\<exists>e w'. run_state (Module1_SubmitTask env c req) (w, tr) = ((Inl e, c), (w', tr))"
proof -
  obtain e w2 where "run_state (callWithRetry env c
      (rpc_SubmitTask env conn (cc_Timeout (mc_config c)) (submit_message req))) (w1, tr) = ((Inl e, c), (w2, tr))"
    using open_breaker_call [OF assms(1,5)] by blast
  with assms(2-4) show ?thesis
    by (simp add: Module1_SubmitTask_def connected_call_def ensureConnected_def run_simps)
qed

text \<open>While the circuit breaker of the scheduler's client is open, before its recovery time and with a connection
  that is not known to be broken,
  the gateway answers every well-formed creation request with 503 and \<open>Retry-After: 30\<close> at once: no
  call, dial or wait is made, and the client stays as it is.\<close>

theorem open_breaker_at_api:
  assumes "admissible s r req" and "ap_module1Client s = Some (client_submit env)"
    and "mc_circuitState c = StateOpen" and "mc_conn c = Some conn"
    and "rpc_GetState env conn w = (st, w1)" and "st \<notin> {TransientFailure, Shutdown}"
    and "fst (rpc_Now env w1) - mc_lastFailTime c \<le> sint (cc_CircuitRecoverTime (mc_config c))"
  shows "\<exists>resp w'. run_state (HandleCreateTask s r new_response) ((w, c), tr) = (Return resp, ((w', c), tr)) \<and>
    rs_status resp = Some 503 \<and> rs_headers resp ''Retry-After'' = Some ''30''"
proof -
  obtain e w' where "run_state (Module1_SubmitTask env c (submit_request s req)) (w, tr) = ((Inl e, c), (w', tr))"
    using open_breaker_submit [OF assms(3-7)] by blast
  then have "run_state (client_submit env (submit_request s req)) ((w, c), tr) = (Inl e, ((w', c), tr))"
    by (simp add: client_submit_def)
  then show ?thesis
    by (auto simp: create_admissible [OF assms(1,2)] run_simps submit_reply_def Server_writeError_def reply_status
        new_response_def) (simp add: Header_Set_def)
qed

section \<open>The headers of the request logger\<close>

text \<open>What a program returns, whatever the world does.\<close>

definition always :: "('w, 'e, 'a) act \<Rightarrow> ('a \<Rightarrow> bool) \<Rightarrow> bool" where
  "always f P \<longleftrightarrow> (\<forall>s. P (fst (run_state f s)))"

lemma always_return: "P a \<Longrightarrow> always (State_Monad.return a) P"
  by (simp add: always_def State_Monad.return_def)

lemma always_bind: "(\<And>a. always (g a) P) \<Longrightarrow> always (State_Monad.bind f g) P"
  by (simp add: always_def State_Monad.bind_def split: prod.split)

lemma always_after: "always f Q \<Longrightarrow> (\<And>a. Q a \<Longrightarrow> always (g a) P) \<Longrightarrow> always (State_Monad.bind f g) P"
  unfolding always_def State_Monad.bind_def by (auto split: prod.split) (metis fst_conv)

definition answered :: "http_response outcome \<Rightarrow> bool" where
  "answered out \<longleftrightarrow> (case out of
     Return w \<Rightarrow> rs_status w \<noteq> None \<and> rs_headers w ''X-Request-ID'' = None | Panic m \<Rightarrow> True)"

definition blank :: "http_response \<Rightarrow> bool" where
  "blank w \<longleftrightarrow> rs_status w = None \<and> rs_headers w ''X-Request-ID'' = None"

lemma answered_json: "blank w \<Longrightarrow> answered (Return (json_reply code b w))"
  by (simp add: answered_def blank_def reply_status)

lemma blank_header: "blank w \<Longrightarrow> k \<noteq> ''X-Request-ID'' \<Longrightarrow> blank (Header_Set k v w)"
  by (simp add: blank_def Header_Set_def)

lemma answered_written: "blank w \<Longrightarrow> answered (Return (Write b (WriteHeader code w)))"
  by (simp add: answered_def blank_def Write_def WriteHeader_def Let_def)

lemmas answered_replies = answered_json answered_written blank_header

lemma logging_answered: "always (h r w) answered \<Longrightarrow> always (withLogging gw h r w) answered"
  unfolding withLogging_def
  by (rule always_bind, rule always_after, assumption)
    (auto split: outcome.split intro!: always_bind always_return simp: answered_def)

lemma limit_answered:
  assumes "always (next r w) answered" and "blank w"
  shows "always (withRateLimit gw next r w) answered"
  unfolding withRateLimit_def using assms
  by (auto split: option.split sum.split outcome.split simp: http_Error_def json_type_def answered_def [of "Panic _"]
      intro!: always_bind always_return answered_replies)

lemma auth_answered:
  assumes "\<And>r. always (next r w) answered" and "blank w"
  shows "always (gateway_auth gw next r w) answered"
  unfolding gateway_auth_def AuthMiddleware_def Let_def using assms
  by (auto split: sum.split intro!: always_bind always_return answered_replies)

lemma create_answered: "blank w \<Longrightarrow> always (HandleCreateTask s r w) answered"
  unfolding HandleCreateTask_def
  by (auto split: sum.split option.split simp: Server_writeError_def intro!: always_bind always_return answered_replies)

lemma simple_answered:
  "blank w \<Longrightarrow> always (HandleGetTask r w) answered" "blank w \<Longrightarrow> always (HandleListTasks r w) answered"
  "blank w \<Longrightarrow> always (HandleDeleteTask r w) answered" "blank w \<Longrightarrow> always (HandleHealth r w) answered"
  "blank w \<Longrightarrow> always (HandleMetrics r w) answered"
  by (auto simp: HandleGetTask_def HandleListTasks_def HandleDeleteTask_def HandleHealth_def HandleMetrics_def
      Server_writeError_def Let_def intro!: always_return answered_replies)

lemma mux_answered: "blank w \<Longrightarrow> always (gateway_mux gw r w) answered"
  unfolding gateway_mux_def gateway_routes_def gateway_task_route_def
  by (auto simp: http_Error_def
      intro!: logging_answered auth_answered limit_answered create_answered simple_answered always_return answered_replies)

text \<open>The identifier that the request logger gives to a request is never sent back: it is set on the response
  only when the status has been written. Whatever the request, every answer of the gateway has a status
  and no header \<open>X-Request-ID\<close>.\<close>

theorem request_id_not_returned:
  "always (gateway_handler gw r new_response) (\<lambda>out. case out of
     Return w \<Rightarrow> rs_status w \<noteq> None \<and> rs_headers w ''X-Request-ID'' = None | Panic m \<Rightarrow> True)"
proof -
  have mux: "always (gateway_mux gw r new_response) answered"
    by (rule mux_answered) (simp add: blank_def new_response_def)
  have "always (gateway_handler gw r new_response) answered"
    unfolding gateway_handler_def RequestLoggingMiddleware_def Let_def
    by (rule always_bind, rule always_bind, rule always_bind, rule always_bind, rule always_after [OF mux])
      (auto split: outcome.split simp: answered_def late_Set_def intro!: always_bind always_return)
  then show ?thesis by (simp add: answered_def [abs_def])
qed

section \<open>A gateway in memory\<close>

definition mem_request :: CreateCloudTaskRequest where
  "mem_request = \<lparr>rq_Name = ''n'', rq_Image = ''i'', rq_Command = [], rq_Args = [], rq_TenantID = ''other'',
     rq_Resources = None, rq_Retries = 0, rq_Timeout = [], rq_Priority = 0\<rparr>"

definition mem_server :: "(SubmitTaskRequest \<Rightarrow> ('v, 'e, error + SubmitTaskResponse) act) \<Rightarrow> ('v, 'e) APIServer" where
  "mem_server submit = \<lparr>ap_Unmarshal = (\<lambda>b. Inr mem_request), ap_undeclared = (\<lambda>q. ([], [], 0)),
     ap_module1Client = Some submit\<rparr>"

datatype gateway_event = SubmittedEvent SubmitTaskRequest | LoggedEvent log_entry

definition mem_accept :: "SubmitTaskRequest \<Rightarrow> 'v \<Rightarrow> (error + SubmitTaskResponse) \<times> 'v" where
  "mem_accept m v = (Inr \<lparr>sp_Accepted = True, sp_QueuePosition = 1, sp_EstimatedStartSeconds = 5, sp_Reason = []\<rparr>, v)"

definition mem_gateway :: "RateLimiter option \<Rightarrow> (unit, string \<Rightarrow> nat, gateway_event) gateway" where
  "mem_gateway rl = \<lparr>gw_Now = (\<lambda>v. (0, v)), gw_jwt = mem_jwt, gw_jwtManager = mem_manager,
     gw_redis = mem_limiter, gw_rateLimiter = rl,
     gw_server = mem_server (\<lambda>m. logged (mem_accept m) (\<lambda>_. SubmittedEvent m)),
     gw_logger = \<lparr>lg_Now = (\<lambda>v. (0, v)), lg_NewUUID = (\<lambda>v. (''u'', v)), lg_ClientIP = (\<lambda>r. []),
       lg_RequestURI = rq_Path, lg_Entry = LoggedEvent\<rparr>\<rparr>"

definition gateway_request :: "string \<Rightarrow> string \<Rightarrow> http_request" where
  "gateway_request path authorization = \<lparr>rq_Method = ''POST'', rq_Path = path,
     rq_Header = (\<lambda>h. if h = ''Authorization'' then authorization else []), rq_Query = (\<lambda>k. []), rq_Body = Inr ''{}'',
     rq_claims = None, rq_requestID = None\<rparr>"

lemma mem_scheme: "ToLower ''Bearer'' = ''bearer''"
  by code_simp

lemma mem_token:
  "extractBearerToken (gateway_request p ''Bearer toksecret'') = ''toksecret''"
  "ValidateToken mem_jwt mem_manager 0 ''toksecret'' = Inr mem_jwt_claims"
  by (simp_all add: extractBearerToken_def gateway_request_def SplitN2_def mem_scheme ValidateToken_def mem_jwt_def
      mem_manager_def keyFunc_def mem_jwt_claims_def token_claims_def NewNumericDate_def hours_def)


definition no_requests :: RateLimiter where
  "no_requests = \<lparr>rl_perMinuteLimit = 0, rl_perHourLimit = 0\<rparr>"

lemma mem_claims_tenant: "cm_TenantID mem_jwt_claims = ''acme''"
  by (simp add: mem_jwt_claims_def token_claims_def)

lemma mem_refuses: "\<exists>d w'. Allow mem_limiter no_requests 0 0 ''acme'' (\<lambda>k. 0) = (Return (False, d, None), w')"
  by (simp add: Allow_def allow_cmds_def mem_limiter_def no_requests_def minute_not_hour minute_not_hour [symmetric])

lemma mem_gateway_fields [simp]:
  "gw_Now (mem_gateway rl) v = (0, v)" "gw_jwt (mem_gateway rl) = mem_jwt" "gw_jwtManager (mem_gateway rl) = mem_manager"
  "gw_redis (mem_gateway rl) = mem_limiter" "gw_rateLimiter (mem_gateway rl) = rl"
  "gw_server (mem_gateway rl) = mem_server (\<lambda>m. logged (mem_accept m) (\<lambda>_. SubmittedEvent m))"
  by (simp_all add: mem_gateway_def)


lemma mem_admissible: "admissible (mem_server submit) (gateway_request p a) mem_request"
  by (simp add: admissible_def mem_server_def gateway_request_def mem_request_def)

lemma mem_allows: "\<exists>d w'. Allow mem_limiter NewRateLimiter 0 0 ''acme'' (\<lambda>k. 0) = (Return (True, d, None), w')"
  by (simp add: Allow_def allow_cmds_def mem_limiter_def NewRateLimiter_def minute_not_hour minute_not_hour [symmetric])


theorem open_breaker_at_api_witness:
  "\<exists>resp w'. run_state (HandleCreateTask (mem_server (client_submit mem_rpc)) (gateway_request ''/tasks/create'' []) new_response)
     ((7, mem_client StateOpen 5), []) = (Return resp, ((w', mem_client StateOpen 5), [])) \<and>
     rs_status resp = Some 503 \<and> rs_headers resp ''Retry-After'' = Some ''30''"
proof (rule open_breaker_at_api [OF mem_admissible])
  show "ap_module1Client (mem_server (client_submit mem_rpc)) = Some (client_submit mem_rpc)"
    by (simp add: mem_server_def)
  show "rpc_GetState mem_rpc () 7 = (Ready, 7)" by (simp add: mem_rpc_def)
  show "fst (rpc_Now mem_rpc 7) - mc_lastFailTime (mem_client StateOpen 5) \<le>
      sint (cc_CircuitRecoverTime (mc_config (mem_client StateOpen 5)))"
    by (simp add: mem_rpc_def seconds_def)
qed simp_all

end
