(* ===== verification/Gateway_Metrics.thy ===== *)
theory Gateway_Metrics
  imports Http Go_Time Float64
begin

text \<open>
  The metrics of requests (\<open>pkg/middleware/metrics_middleware.go\<close>, \<open>pkg/metrics/gateway_metrics.go\<close>) and of
  tasks (\<open>pkg/metrics/operator_metrics.go\<close>). Prometheus is a library: its counters, gauges and
  histograms are the log of the calls they get. Here a handler is a program that returns the
  operations it does on its response writer, in order, and the panic it ends with, if any, since the
  middleware recovers from panics after parts of a response were written.
\<close>

section \<open>Calls of the library\<close>

datatype metric_event =
    RequestsInc string string string
  | DurationObserve string string rat
  | ActiveInc
  | ActiveDec
  | CreatedInc string string
  | CompletedInc string string
  | FailedInc string string string
  | TaskDurationObserve string string rat
  | QueueDepthSet rat
  | PodRestartsInc string string
  | LogPrinted string string string nat duration

definition metric :: "metric_event \<Rightarrow> ('w, metric_event, unit) act" where
  "metric ev = logged (\<lambda>w. ((), w)) (\<lambda>_. ev)"

section \<open>Metrics of the gateway\<close>

definition RecordRequest :: "string \<Rightarrow> string \<Rightarrow> string \<Rightarrow> rat \<Rightarrow> ('w, metric_event, unit) act" where
  "RecordRequest method endpoint status dur =
     do { metric (RequestsInc method endpoint status); metric (DurationObserve method endpoint dur) }"

definition IncActiveConnections :: "('w, metric_event, unit) act" where
  "IncActiveConnections = metric ActiveInc"

definition DecActiveConnections :: "('w, metric_event, unit) act" where
  "DecActiveConnections = metric ActiveDec"

definition formatStatusCode :: "nat \<Rightarrow> string" where
  "formatStatusCode code =
     (if 500 \<le> code then ''5xx'' else if 400 \<le> code then ''4xx'' else if 300 \<le> code then ''3xx''
      else if 200 \<le> code then ''2xx'' else ''unknown'')"

definition RecordHTTPRequest :: "string \<Rightarrow> string \<Rightarrow> nat \<Rightarrow> rat \<Rightarrow> ('w, metric_event, unit) act" where
  "RecordHTTPRequest method endpoint code dur = RecordRequest method endpoint (formatStatusCode code) dur"

section \<open>Metrics of the operator\<close>

definition RecordTaskCreated :: "string \<Rightarrow> string \<Rightarrow> ('w, metric_event, unit) act" where
  "RecordTaskCreated namespace tenantID = metric (CreatedInc namespace tenantID)"

definition RecordTaskCompleted :: "string \<Rightarrow> string \<Rightarrow> ('w, metric_event, unit) act" where
  "RecordTaskCompleted namespace tenantID = metric (CompletedInc namespace tenantID)"

definition RecordTaskFailed :: "string \<Rightarrow> string \<Rightarrow> string \<Rightarrow> ('w, metric_event, unit) act" where
  "RecordTaskFailed namespace tenantID reason = metric (FailedInc namespace tenantID reason)"

definition RecordTaskDuration :: "string \<Rightarrow> string \<Rightarrow> rat \<Rightarrow> ('w, metric_event, unit) act" where
  "RecordTaskDuration namespace tenantID dur = metric (TaskDurationObserve namespace tenantID dur)"

definition Metrics_SetQueueDepth :: "int64 \<Rightarrow> ('w, metric_event, unit) act" where
  "Metrics_SetQueueDepth depth = metric (QueueDepthSet (fl (of_int (sint depth))))"

definition RecordPodRestart :: "string \<Rightarrow> string \<Rightarrow> ('w, metric_event, unit) act" where
  "RecordPodRestart podName namespace = metric (PodRestartsInc podName namespace)"

section \<open>The response writer\<close>

record responseWriter =
  mw_statusCode :: nat
  mw_written :: bool

definition new_writer :: responseWriter where
  "new_writer = \<lparr>mw_statusCode = 200, mw_written = False\<rparr>"

text \<open>An operation on the wrapper, with the operations that it passes on.\<close>

definition Metrics_WriteHeader :: "nat \<Rightarrow> responseWriter \<Rightarrow> responseWriter \<times> writer_op list" where
  "Metrics_WriteHeader code rw =
     (if \<not> mw_written rw then (rw\<lparr>mw_statusCode := code, mw_written := True\<rparr>, [OpStatus code]) else (rw, []))"

definition Metrics_Write :: "payload \<Rightarrow> responseWriter \<Rightarrow> responseWriter \<times> writer_op list" where
  "Metrics_Write b rw =
     (let (rw, ops) = (if \<not> mw_written rw then Metrics_WriteHeader 200 rw else (rw, [])) in (rw, ops @ [OpWrite b]))"

fun writer_step :: "writer_op \<Rightarrow> responseWriter \<Rightarrow> responseWriter \<times> writer_op list" where
  "writer_step (OpHeader k v) rw = (rw, [OpHeader k v])"
| "writer_step (OpStatus c) rw = Metrics_WriteHeader c rw"
| "writer_step (OpWrite b) rw = Metrics_Write b rw"

fun through_writer :: "writer_op list \<Rightarrow> responseWriter \<Rightarrow> responseWriter \<times> writer_op list" where
  "through_writer [] rw = (rw, [])"
| "through_writer (op # ops) rw =
     (let (rw, out) = writer_step op rw; (rw, outs) = through_writer ops rw in (rw, out @ outs))"

section \<open>Middleware\<close>

type_synonym 'w op_handler = "http_request \<Rightarrow> ('w, metric_event, string option \<times> writer_op list) act"

definition normalizeEndpoint :: "string \<Rightarrow> string" where
  "normalizeEndpoint path =
     (if path = ''/healthz'' then ''/healthz''
      else if path = ''/readyz'' then ''/readyz''
      else if path = ''/metrics'' then ''/metrics''
      else if 3 < length path \<and> take 3 path = ''/v1'' then (if 10 < length path then take 10 path else path)
      else path)"

text \<open>The deferred decrement runs also when the handler panics; recording the request does not.\<close>

definition Metrics_Handler :: "('w \<Rightarrow> instant \<times> 'w) \<Rightarrow> 'w op_handler \<Rightarrow> 'w op_handler" where
  "Metrics_Handler clock next r =
     (if rq_Path r = ''/metrics'' then next r
      else do {
        IncActiveConnections;
        start \<leftarrow> silent clock;
        (panic, ops) \<leftarrow> next r;
        let (wrapped, out) = through_writer ops new_writer;
        case panic of
          Some m \<Rightarrow> do { DecActiveConnections; State_Monad.return (Some m, out) }
        | None \<Rightarrow> do {
            now \<leftarrow> silent clock;
            RecordHTTPRequest (rq_Method r) (normalizeEndpoint (rq_Path r)) (mw_statusCode wrapped)
              (Duration_Seconds (Since now start));
            DecActiveConnections;
            State_Monad.return (None, out)
          }
      })"

definition ChainMiddleware :: "'w op_handler \<Rightarrow> ('w op_handler \<Rightarrow> 'w op_handler) list \<Rightarrow> 'w op_handler" where
  "ChainMiddleware handler middlewares = fold (\<lambda>m h. m h) middlewares handler"

definition RecoveryMiddleware :: "'w op_handler \<Rightarrow> 'w op_handler" where
  "RecoveryMiddleware next r =
     do {
       (panic, ops) \<leftarrow> next r;
       State_Monad.return (case panic of
         None \<Rightarrow> (None, ops)
       | Some m \<Rightarrow> (None, ops @ [OpStatus 500, OpWrite (TextBody ''Internal Server Error'')]))
     }"

text \<open>The remote address and the request line that the server gives a request are functions of it.\<close>

definition LoggingMiddleware ::
  "(http_request \<Rightarrow> string) \<Rightarrow> (http_request \<Rightarrow> string) \<Rightarrow> ('w \<Rightarrow> instant \<times> 'w) \<Rightarrow> 'w op_handler \<Rightarrow> 'w op_handler" where
  "LoggingMiddleware RemoteAddr RequestURI clock next r =
     do {
       start \<leftarrow> silent clock;
       (panic, ops) \<leftarrow> next r;
       let (wrapped, out) = through_writer ops new_writer;
       case panic of
         Some m \<Rightarrow> State_Monad.return (Some m, out)
       | None \<Rightarrow> do {
           now \<leftarrow> silent clock;
           metric (LogPrinted (RemoteAddr r) (rq_Method r) (RequestURI r) (mw_statusCode wrapped) (Since now start));
           State_Monad.return (None, out)
         }
     }"

section \<open>Transparency\<close>

lemma through_writer_state:
  assumes "through_writer ops rw = (rw', out)"
    and "if mw_written rw then rs_status w = Some (mw_statusCode rw) else rs_status w = None \<and> mw_statusCode rw = 200"
  shows "fold plain_op out w = fold plain_op ops w \<and>
    mw_statusCode rw' = (case rs_status (fold plain_op ops w) of None \<Rightarrow> 200 | Some c \<Rightarrow> c)"
  using assms
proof (induction ops arbitrary: rw out w)
  case (Cons op ops)
  obtain rw1 out1 where step: "writer_step op rw = (rw1, out1)" by (cases "writer_step op rw")
  obtain out2 where rest: "through_writer ops rw1 = (rw', out2)" and out: "out = out1 @ out2"
    using Cons.prems(1) step by (auto simp: Let_def split: prod.splits)
  have same: "fold plain_op out1 w = plain_op op w" and
    inv: "if mw_written rw1 then rs_status (plain_op op w) = Some (mw_statusCode rw1)
          else rs_status (plain_op op w) = None \<and> mw_statusCode rw1 = 200"
    using step Cons.prems(2)
    by (cases op; cases "mw_written rw"; auto simp: Metrics_WriteHeader_def Metrics_Write_def Header_Set_def
        WriteHeader_def Write_def Let_def)+
  from Cons.IH [OF rest inv] show ?case by (simp add: out same)
qed (auto split: if_splits)

lemma writer_transparent:
  assumes "through_writer ops new_writer = (rw, out)" and "rs_status w = None"
  shows "fold plain_op out w = fold plain_op ops w \<and>
    mw_statusCode rw = (case rs_status (fold plain_op ops w) of None \<Rightarrow> 200 | Some c \<Rightarrow> c)"
  using through_writer_state [OF assms(1)] assms(2) by (simp add: new_writer_def)

definition ops_status :: "writer_op list \<Rightarrow> nat" where
  "ops_status ops = (case rs_status (fold plain_op ops new_response) of None \<Rightarrow> 200 | Some c \<Rightarrow> c)"

lemma writer_status: "mw_statusCode (fst (through_writer ops new_writer)) = ops_status ops"
  using writer_transparent [of ops _ _ new_response] by (cases "through_writer ops new_writer")
    (simp add: ops_status_def new_response_def)

text \<open>Whatever a handler does, the metrics middleware answers as the handler alone would, panics included;
  its gauge of active connections goes up before the handler and down after it, also when it panics,
  and the request is counted once, with its status class, exactly when the handler returns.\<close>

theorem metrics_request_accounted:
  assumes "rq_Path r \<noteq> ''/metrics''" and "clock w = (start, w1)"
    and "run_state (next r) (w1, tr @ [ActiveInc]) = ((panic, ops), (w2, tr'))"
  shows "\<exists>out w3. run_state (Metrics_Handler clock next r) (w, tr) =
      ((panic, out), (w3, tr' @
        (case panic of
           Some m \<Rightarrow> []
         | None \<Rightarrow> [RequestsInc (rq_Method r) (normalizeEndpoint (rq_Path r)) (formatStatusCode (ops_status ops)),
             DurationObserve (rq_Method r) (normalizeEndpoint (rq_Path r))
               (Duration_Seconds (Since (fst (clock w2)) start))]) @ [ActiveDec])) \<and>
    (\<forall>resp. rs_status resp = None \<longrightarrow> fold plain_op out resp = fold plain_op ops resp)"
proof -
  obtain rw out where tw: "through_writer ops new_writer = (rw, out)" by (cases "through_writer ops new_writer")
  with writer_status [of ops] have "mw_statusCode rw = ops_status ops" by simp
  with assms tw writer_transparent [OF tw] show ?thesis
    by (cases panic; cases "clock w2")
      (simp_all add: Metrics_Handler_def run_simps metric_def IncActiveConnections_def DecActiveConnections_def
        RecordHTTPRequest_def RecordRequest_def)
qed

section \<open>The order of a chain\<close>

text \<open>The last middleware of a list is the outermost one.\<close>

lemma chain_last: "ChainMiddleware h (ms @ [m]) = m (ChainMiddleware h ms)"
  by (simp add: ChainMiddleware_def)

lemma chain_documented: "ChainMiddleware h [a, b, c] = c (b (a h))"
  by (simp add: ChainMiddleware_def)

definition counted_requests :: "metric_event list \<Rightarrow> (string \<times> string \<times> string) list" where
  "counted_requests es = concat (map (\<lambda>ev. case ev of RequestsInc m e s \<Rightarrow> [(m, e, s)] | _ \<Rightarrow> []) es)"

lemma wlog_metric [wlog_intros]: "P [ev] () \<Longrightarrow> wlog (metric ev) P"
  unfolding metric_def by (rule wlog_logged) simp

definition panics_unanswered :: "metric_event list \<Rightarrow> string option \<times> writer_op list \<Rightarrow> bool" where
  "panics_unanswered es res \<longleftrightarrow> counted_requests es = [] \<and> fst res \<noteq> None \<and>
     rs_status (fold plain_op (snd res) new_response) = None"

lemma counted_append: "counted_requests (es @ es') = counted_requests es @ counted_requests es'"
  by (simp add: counted_requests_def)

lemma counted_Cons:
  "counted_requests [] = []" "counted_requests (RequestsInc m e s # es) = (m, e, s) # counted_requests es"
  "counted_requests (DurationObserve m e d # es) = counted_requests es"
  "counted_requests (ActiveInc # es) = counted_requests es" "counted_requests (ActiveDec # es) = counted_requests es"
  "counted_requests (LogPrinted a b u c x # es) = counted_requests es"
  by (simp_all add: counted_requests_def)

text \<open>What each middleware makes of a handler that panics before it answers, or answers with 500.\<close>

lemma writer_sent:
  "through_writer ops new_writer = (rw, out) \<Longrightarrow>
   rs_status (fold plain_op out new_response) = rs_status (fold plain_op ops new_response) \<and>
   mw_statusCode rw = ops_status ops"
  using writer_transparent [of ops rw out new_response] by (simp add: ops_status_def new_response_def)

lemmas chain_defs = Metrics_Handler_def RecoveryMiddleware_def LoggingMiddleware_def IncActiveConnections_def
  DecActiveConnections_def RecordHTTPRequest_def RecordRequest_def

lemma metrics_panic:
  assumes "wlog (h r) panics_unanswered" and "rq_Path r \<noteq> ''/metrics''"
  shows "wlog (Metrics_Handler clock h r) panics_unanswered"
  using assms(2) unfolding chain_defs
  by (auto intro!: wlog_bind wlog_intros wlog_mono [OF assms(1)] split: prod.splits option.splits dest!: writer_sent
      simp: panics_unanswered_def counted_append counted_Cons)

definition answers_500 :: "(string \<times> string \<times> string) list \<Rightarrow> metric_event list \<Rightarrow> string option \<times> writer_op list \<Rightarrow> bool" where
  "answers_500 reqs es res \<longleftrightarrow> counted_requests es = reqs \<and> fst res = None \<and>
     rs_status (fold plain_op (snd res) new_response) = Some 500"

lemma recovery_panic:
  assumes "wlog (h r) panics_unanswered"
  shows "wlog (RecoveryMiddleware h r) (answers_500 [])"
  unfolding chain_defs
  by (auto intro!: wlog_bind wlog_intros wlog_mono [OF assms] split: prod.splits option.splits
      simp: panics_unanswered_def answers_500_def WriteHeader_def Write_def Let_def)

lemma logging_500:
  assumes "wlog (h r) (answers_500 reqs)"
  shows "wlog (LoggingMiddleware addr uri clock h r) (answers_500 reqs)"
  unfolding chain_defs
  by (auto intro!: wlog_bind wlog_intros wlog_mono [OF assms] split: prod.splits option.splits dest!: writer_sent
      simp: answers_500_def counted_append counted_Cons)

lemma metrics_500:
  assumes "wlog (h r) (answers_500 [])" and "rq_Path r \<noteq> ''/metrics''"
  shows "wlog (Metrics_Handler clock h r) (answers_500 [(rq_Method r, normalizeEndpoint (rq_Path r), ''5xx'')])"
  using assms(2) unfolding chain_defs
  by (auto intro!: wlog_bind wlog_intros wlog_mono [OF assms(1)] split: prod.splits option.splits dest!: writer_sent
      simp: answers_500_def counted_append counted_Cons ops_status_def formatStatusCode_def)

text \<open>When a handler panics before it answers, the client gets 500 from the chain that the source documents, but the
  request is not counted: the metrics stand inside the recovery, since the last middleware of a list
  is the outermost. With the metrics after the recovery it is counted once, as a server error.\<close>

theorem documented_chain_misses_panics:
  assumes "wlog (h r) panics_unanswered" and "rq_Path r \<noteq> ''/metrics''"
  shows "wlog (ChainMiddleware h [Metrics_Handler clock, RecoveryMiddleware, LoggingMiddleware addr uri clock] r) (answers_500 []) \<and>
    wlog (ChainMiddleware h [RecoveryMiddleware, Metrics_Handler clock, LoggingMiddleware addr uri clock] r)
      (answers_500 [(rq_Method r, normalizeEndpoint (rq_Path r), ''5xx'')])"
  unfolding chain_documented
  by (intro conjI logging_500 recovery_panic metrics_500 metrics_panic assms)

section \<open>Labels\<close>

text \<open>Labels of endpoints are not bounded in number: a path outside \<open>/v1\<close> is its own label, and a client that
  asks for new paths makes new time series. Only paths under \<open>/v1\<close> are cut, after 10 characters.\<close>

theorem endpoint_labels_unbounded:
  "infinite (range normalizeEndpoint) \<and>
   length (normalizeEndpoint (''/v1'' @ rest)) \<le> 10"
proof -
  have "normalizeEndpoint (''/x'' @ replicate n CHR ''y'') = ''/x'' @ replicate n CHR ''y''" for n
    by (simp add: normalizeEndpoint_def)
  then have "(\<lambda>n. ''/x'' @ replicate n CHR ''y'') ` UNIV \<subseteq> range normalizeEndpoint" by (metis image_subsetI rangeI)
  moreover have "inj (\<lambda>n. ''/x'' @ replicate n CHR ''y'')" by (auto intro!: injI dest: arg_cong [where f = length])
  ultimately have "infinite (range normalizeEndpoint)"
    by (meson infinite_UNIV_nat finite_imageD finite_subset)
  then show ?thesis by (auto simp: normalizeEndpoint_def)
qed

section \<open>Witnesses\<close>

definition failing_handler :: "unit op_handler" where
  "failing_handler r = State_Monad.return (Some ''boom'', [])"

definition tasks_request :: http_request where
  "tasks_request = \<lparr>rq_Method = ''GET'', rq_Path = ''/v1/tasks/7'', rq_Header = (\<lambda>h. []), rq_Query = (\<lambda>k. []),
     rq_Body = Inr [], rq_claims = None, rq_requestID = None\<rparr>"

theorem metrics_request_accounted_witness:
  "\<exists>out. run_state (Metrics_Handler (\<lambda>w. (0, w)) failing_handler tasks_request) ((), []) =
     ((Some ''boom'', out), ((), [ActiveInc, ActiveDec]))"
  using metrics_request_accounted [of tasks_request "\<lambda>w. (0, w)" "()" 0 "()" failing_handler "[]" "Some ''boom''" "[]" "()"
      "[ActiveInc]"]
  by (auto simp: tasks_request_def failing_handler_def run_simps)

theorem documented_chain_misses_panics_witness:
  "wlog (ChainMiddleware failing_handler [Metrics_Handler (\<lambda>w. (0, w)), RecoveryMiddleware, LoggingMiddleware (\<lambda>r. ''10.0.0.7:5511'') rq_Path (\<lambda>w. (0, w))]
     tasks_request) (answers_500 [])"
proof -
  have "wlog (failing_handler tasks_request) panics_unanswered"
    unfolding failing_handler_def
    by (intro wlog_intros) (simp add: panics_unanswered_def counted_Cons new_response_def)
  from documented_chain_misses_panics [where h = failing_handler and r = tasks_request and
      clock = "\<lambda>w. (0, w)" and addr = "\<lambda>r. ''10.0.0.7:5511''" and uri = rq_Path, OF this] show ?thesis by (simp add: tasks_request_def)
qed

end
