(* ===== verification/Metrics_Collector.thy ===== *)
theory Metrics_Collector
  imports Go_Time Float64
begin

text \<open>
  The collector of metrics for scaling (\<open>pkg/scaling/metrics.go\<close>): registration, the goroutines that update
  the gauges, and stopping. Registering with Prometheus is a parameter; a gauge is its value. The
  readers of Redis and of the storage return the placeholders they return in the source.
\<close>

section \<open>The collector\<close>

record MetricsCollector =
  mk_updateInterval :: duration
  mk_stopCh_closed :: bool
  mk_queueDepthGauge :: float64
  mk_activeTasksGauge :: float64
  mk_failedTasksGauge :: float64
  mk_avgDurationGauge :: float64

definition NewMetricsCollector :: "duration \<Rightarrow> MetricsCollector" where
  "NewMetricsCollector updateInterval = \<lparr>mk_updateInterval = updateInterval, mk_stopCh_closed = False,
     mk_queueDepthGauge = 0, mk_activeTasksGauge = 0, mk_failedTasksGauge = 0, mk_avgDurationGauge = 0\<rparr>"

definition gauge_names :: "string list" where
  "gauge_names = [''current_queue_depth'', ''active_task_count'', ''failed_task_count'', ''avg_task_duration_seconds'']"

datatype registration = Registered | AlreadyRegistered | Refused error

fun register_all :: "(string \<Rightarrow> 'w \<Rightarrow> registration \<times> 'w) \<Rightarrow> string list \<Rightarrow> 'w \<Rightarrow> error option \<times> 'w" where
  "register_all register [] w = (None, w)"
| "register_all register (m # ms) w =
     (case register m w of
        (Refused e, w') \<Rightarrow> (Some e, w')
      | (_, w') \<Rightarrow> register_all register ms w')"

definition Collector_Register :: "(string \<Rightarrow> 'w \<Rightarrow> registration \<times> 'w) \<Rightarrow> 'w \<Rightarrow> error option \<times> 'w" where
  "Collector_Register register = register_all register gauge_names"

definition getQueueDepth :: "error + int64" where "getQueueDepth = Inr 0"
definition getActiveTasks :: "error + int64" where "getActiveTasks = Inr 0"
definition getFailedTasks :: "error + int64" where "getFailedTasks = Inr 0"
definition getAvgDuration :: "error + float64" where "getAvgDuration = Inr 0"

definition updateMetrics :: "MetricsCollector \<Rightarrow> MetricsCollector" where
  "updateMetrics mc =
     (let mc = mc\<lparr>mk_queueDepthGauge := 0, mk_activeTasksGauge := 0, mk_failedTasksGauge := 0, mk_avgDurationGauge := 0\<rparr>;
          mc = (case getQueueDepth of Inr n \<Rightarrow> mc\<lparr>mk_queueDepthGauge := fl (of_int (sint n))\<rparr> | Inl _ \<Rightarrow> mc);
          mc = (case getActiveTasks of Inr n \<Rightarrow> mc\<lparr>mk_activeTasksGauge := fl (of_int (sint n))\<rparr> | Inl _ \<Rightarrow> mc);
          mc = (case getFailedTasks of Inr n \<Rightarrow> mc\<lparr>mk_failedTasksGauge := fl (of_int (sint n))\<rparr> | Inl _ \<Rightarrow> mc)
      in case getAvgDuration of Inr d \<Rightarrow> mc\<lparr>mk_avgDurationGauge := d\<rparr> | Inl _ \<Rightarrow> mc)"

definition Collector_Stop :: "MetricsCollector \<Rightarrow> MetricsCollector outcome" where
  "Collector_Stop mc =
     (if mk_stopCh_closed mc then Panic ''close of closed channel'' else Return (mc\<lparr>mk_stopCh_closed := True\<rparr>))"

section \<open>Runs\<close>

text \<open>
  The goroutines of a collector, by the contexts they were started with: those that have not begun and
  those in their loop. A panic, of \<open>Stop\<close> in the caller or of a goroutine that makes its ticker, ends the program.
\<close>

record collector_state =
  co_mc :: MetricsCollector
  co_started :: "nat list"
  co_loops :: "nat list"
  co_cancelled :: "nat set"
  co_panic :: "string option"

definition collector_start :: "duration \<Rightarrow> collector_state" where
  "collector_start d = \<lparr>co_mc = NewMetricsCollector d, co_started = [], co_loops = [], co_cancelled = {}, co_panic = None\<rparr>"

datatype collector_label = CStart nat | CBegin nat | CTick nat | CEnd nat | CStop | CCancel nat

inductive collector_step :: "collector_state \<Rightarrow> collector_label \<Rightarrow> collector_state \<Rightarrow> bool" where
  start: "co_panic s = None \<Longrightarrow> collector_step s (CStart ctx) (s\<lparr>co_started := co_started s @ [ctx]\<rparr>)"
| begin_loop: "co_panic s = None \<Longrightarrow> ctx \<in> set (co_started s) \<Longrightarrow> 0 < sint (mk_updateInterval (co_mc s)) \<Longrightarrow>
    collector_step s (CBegin ctx)
      (s\<lparr>co_started := remove1 ctx (co_started s), co_loops := co_loops s @ [ctx], co_mc := updateMetrics (co_mc s)\<rparr>)"
| no_ticker: "co_panic s = None \<Longrightarrow> ctx \<in> set (co_started s) \<Longrightarrow> sint (mk_updateInterval (co_mc s)) \<le> 0 \<Longrightarrow>
    collector_step s (CBegin ctx) (s\<lparr>co_panic := Some ''non-positive interval for NewTicker''\<rparr>)"
| tick: "co_panic s = None \<Longrightarrow> ctx \<in> set (co_loops s) \<Longrightarrow>
    collector_step s (CTick ctx) (s\<lparr>co_mc := updateMetrics (co_mc s)\<rparr>)"
| loop_ends: "co_panic s = None \<Longrightarrow> ctx \<in> set (co_loops s) \<Longrightarrow> mk_stopCh_closed (co_mc s) \<or> ctx \<in> co_cancelled s \<Longrightarrow>
    collector_step s (CEnd ctx) (s\<lparr>co_loops := remove1 ctx (co_loops s)\<rparr>)"
| stop: "co_panic s = None \<Longrightarrow> Collector_Stop (co_mc s) = Return mc \<Longrightarrow> collector_step s CStop (s\<lparr>co_mc := mc\<rparr>)"
| stop_again: "co_panic s = None \<Longrightarrow> Collector_Stop (co_mc s) = Panic m \<Longrightarrow> collector_step s CStop (s\<lparr>co_panic := Some m\<rparr>)"
| cancel: "co_panic s = None \<Longrightarrow> collector_step s (CCancel ctx) (s\<lparr>co_cancelled := insert ctx (co_cancelled s)\<rparr>)"

inductive collector_run :: "duration \<Rightarrow> collector_label list \<Rightarrow> collector_state \<Rightarrow> bool" where
  new: "collector_run d [] (collector_start d)"
| step: "collector_run d ls s \<Longrightarrow> collector_step s l s' \<Longrightarrow> collector_run d (ls @ [l]) s'"

lemma update_fields [simp]:
  "mk_updateInterval (updateMetrics mc) = mk_updateInterval mc" "mk_stopCh_closed (updateMetrics mc) = mk_stopCh_closed mc"
  "mk_queueDepthGauge (updateMetrics mc) = 0" "mk_activeTasksGauge (updateMetrics mc) = 0"
  "mk_failedTasksGauge (updateMetrics mc) = 0" "mk_avgDurationGauge (updateMetrics mc) = 0"
  by (simp_all add: updateMetrics_def getQueueDepth_def getActiveTasks_def getFailedTasks_def getAvgDuration_def Let_def)

text \<open>Registering tolerates metrics that are registered already, and stops at the first that is refused.\<close>

lemma register_all_None:
  "(\<And>m w. m \<in> set ms \<Longrightarrow> \<exists>w'. register m w \<in> {(Registered, w'), (AlreadyRegistered, w')}) \<Longrightarrow> fst (register_all register ms w) = None"
proof (induction ms arbitrary: w)
  case (Cons m ms)
  from Cons.prems [of m w] obtain w' where "register m w \<in> {(Registered, w'), (AlreadyRegistered, w')}" by auto
  with Cons.IH [of w'] Cons.prems show ?case by auto
qed simp

text \<open>Whatever the interleaving, all four gauges read zero at all times, so nothing that scales on them ever scales;
  the collector ends the program exactly when a goroutine starts with an interval that is not
  positive or \<open>Stop\<close> is called twice.\<close>

theorem collector_reports_zero:
  assumes "collector_run d ls s"
  shows "mk_queueDepthGauge (co_mc s) = 0 \<and> mk_activeTasksGauge (co_mc s) = 0 \<and>
    mk_failedTasksGauge (co_mc s) = 0 \<and> mk_avgDurationGauge (co_mc s) = 0 \<and>
    (co_panic s = None \<longleftrightarrow> count_list ls CStop \<le> 1 \<and> (0 < sint d \<or> (\<forall>ctx. CBegin ctx \<notin> set ls)))"
proof -
  have "mk_updateInterval (co_mc s) = d \<and> mk_queueDepthGauge (co_mc s) = 0 \<and> mk_activeTasksGauge (co_mc s) = 0 \<and>
    mk_failedTasksGauge (co_mc s) = 0 \<and> mk_avgDurationGauge (co_mc s) = 0 \<and>
    (co_panic s = None \<longrightarrow> count_list ls CStop = of_bool (mk_stopCh_closed (co_mc s))) \<and>
    (co_panic s = None \<longleftrightarrow> count_list ls CStop \<le> 1 \<and> (0 < sint d \<or> (\<forall>ctx. CBegin ctx \<notin> set ls)))"
    using assms
  proof (induction rule: collector_run.induct)
    case (new d)
    show ?case by (simp add: collector_start_def NewMetricsCollector_def)
  next
    case (step d ls s l s')
    from step.hyps(2) step.IH show ?case
      by (induction rule: collector_step.cases) (auto simp: Collector_Stop_def split: if_splits)
  qed
  then show ?thesis by blast
qed

theorem collector_reports_zero_witness:
  "co_panic ((collector_start (seconds 15))\<lparr>co_started := [1]\<rparr>) = None"
proof -
  have "collector_run (seconds 15) ([] @ [CStart 1]) ((collector_start (seconds 15))\<lparr>co_started := [1]\<rparr>)"
    using collector_run.step [OF collector_run.new collector_step.start [of "collector_start (seconds 15)" 1]]
    by (simp add: collector_start_def)
  from collector_reports_zero [OF this] show ?thesis by simp
qed

end
