(* ===== verification/Postgres_Store.thy ===== *)
theory Postgres_Store
  imports Go_Time Effects
begin

text \<open>
  The store of the history of tasks (\<open>pkg/storage/postgres.go\<close>, \<open>types.go\<close>): connecting with retries,
  recording starts, completions and failures, the four queries, and closing. \<open>database/sql\<close> with its
  driver and the clock are a parameter: functions on a world \<open>'w\<close>, database handles being values of
  type \<open>'h\<close> and rows of type \<open>'r\<close>, which the library scans into Go's variables. The log records the
  statements with their arguments, and what is done to handles.
\<close>

section \<open>Records\<close>

text \<open>\<open>sql.NullString\<close> and its relatives are options; instant 0 is the zero time.\<close>

definition TaskStatusPending :: string where "TaskStatusPending = ''pending''"
definition TaskStatusRunning :: string where "TaskStatusRunning = ''running''"
definition TaskStatusCompleted :: string where "TaskStatusCompleted = ''completed''"
definition TaskStatusFailed :: string where "TaskStatusFailed = ''failed''"
definition TaskStatusCancelled :: string where "TaskStatusCancelled = ''cancelled''"
definition TaskStatusPaused :: string where "TaskStatusPaused = ''paused''"

lemmas task_status_defs = TaskStatusPending_def TaskStatusRunning_def TaskStatusCompleted_def
  TaskStatusFailed_def TaskStatusCancelled_def TaskStatusPaused_def

record TaskRecord =
  te_ID :: string
  te_TaskID :: string
  te_TenantID :: string
  te_PodName :: string
  te_Namespace :: string
  te_ContainerID :: "string option"
  te_Status :: string
  te_ExitCode :: "int32 option"
  te_RetryAttempt :: int64
  te_MaxRetries :: int64
  te_StartedAt :: "instant option"
  te_CompletedAt :: "instant option"
  te_Duration :: "int64 option"
  te_Reason :: "string option"
  te_Message :: "string option"
  te_CreatedAt :: instant
  te_UpdatedAt :: instant

record TaskExecutionStats =
  es_TotalTasks :: int64
  es_CompletedTasks :: int64
  es_FailedTasks :: int64
  es_SuccessRate :: rat
  es_AvgDuration :: rat
  es_MaxDuration :: int64

record TaskFilter =
  tf_TenantID :: string
  tf_Status :: string
  tf_StartDate :: instant
  tf_EndDate :: instant
  tf_PodName :: string
  tf_OnlyFailed :: bool
  tf_Limit :: int64
  tf_Offset :: int64

record RecentFailure =
  rf_ID :: string
  rf_TaskID :: string
  rf_PodName :: string
  rf_Reason :: string
  rf_Message :: string
  rf_FailedAt :: instant
  rf_CreatedAt :: instant

section \<open>The library\<close>

datatype sql_arg =
    ArgString string
  | ArgInt32 int32
  | ArgInt int64
  | ArgFloat rat
  | ArgTime instant

text \<open>
  \<open>sq_QueryRow\<close> returns the first row, or the error of the query, \<open>sql_ErrNoRows\<close> when it has none;
  \<open>sq_Query\<close> returns the rows that \<open>Next\<close> yields, with the error that \<open>Err\<close> then reports. A failure is
  scanned with the time at which it failed in a variable of its own.
\<close>

record ('h, 'r, 'w) sql_api =
  sq_Now :: "'w \<Rightarrow> instant \<times> 'w"
  sq_Sleep :: "duration \<Rightarrow> 'w \<Rightarrow> unit \<times> 'w"
  sq_Open :: "string \<Rightarrow> ('w, 'h) io"
  sq_Ping :: "'h \<Rightarrow> 'w \<Rightarrow> error option \<times> 'w"
  sq_Close :: "'h \<Rightarrow> 'w \<Rightarrow> error option \<times> 'w"
  sq_Exec :: "'h \<Rightarrow> string \<Rightarrow> sql_arg list \<Rightarrow> ('w, error + int64) io"
  sq_QueryRow :: "'h \<Rightarrow> string \<Rightarrow> sql_arg list \<Rightarrow> ('w, 'r) io"
  sq_Query :: "'h \<Rightarrow> string \<Rightarrow> sql_arg list \<Rightarrow> ('w, 'r list \<times> error option) io"
  sq_ScanID :: "'r \<Rightarrow> error + string"
  sq_ScanTask :: "'r \<Rightarrow> error + TaskRecord"
  sq_ScanStats :: "'r \<Rightarrow> error + TaskExecutionStats"
  sq_ScanFailure :: "'r \<Rightarrow> error + (RecentFailure \<times> instant option)"

definition sql_ErrNoRows :: error where
  "sql_ErrNoRows = PlainError ''sql: no rows in result set''"

datatype 'h sql_event =
    OpenEvent "error + 'h"
  | PingEvent 'h
  | CloseEvent 'h
  | PoolEvent 'h int64 int64 duration duration
  | SleepEvent duration
  | StatementEvent 'h string "sql_arg list"

section \<open>Connecting\<close>

record 'h PostgresStore =
  ps_db :: 'h
  ps_closed :: bool

text \<open>
  The loop of \<open>NewPostgresStore\<close>, with the number of attempts left after this one: the code sleeps
  before every attempt but the first, doubling the delay, and closes a handle that does not answer.
\<close>

fun connect :: "('h, 'r, 'w) sql_api \<Rightarrow> string \<Rightarrow> nat \<Rightarrow> duration \<Rightarrow> ('w, 'h sql_event, error + 'h) act" where
  "connect sq conn n delay =
     do {
       r \<leftarrow> logged (sq_Open sq conn) OpenEvent;
       case r of
         Inl e \<Rightarrow>
           (case n of 0 \<Rightarrow> State_Monad.return (Inl e)
            | Suc m \<Rightarrow> do {
                logged (sq_Sleep sq delay) (\<lambda>_. SleepEvent delay);
                connect sq conn m (delay * 2)
              })
       | Inr h \<Rightarrow> do {
           p \<leftarrow> logged (sq_Ping sq h) (\<lambda>_. PingEvent h);
           case p of
             None \<Rightarrow> State_Monad.return (Inr h)
           | Some e \<Rightarrow> do {
               logged (sq_Close sq h) (\<lambda>_. CloseEvent h);
               case n of 0 \<Rightarrow> State_Monad.return (Inl e)
               | Suc m \<Rightarrow> do {
                   logged (sq_Sleep sq delay) (\<lambda>_. SleepEvent delay);
                   connect sq conn m (delay * 2)
                 }
             }
         }
     }"

declare connect.simps [simp del]

definition connectRetries :: nat where "connectRetries = 5"

definition NewPostgresStore ::
  "('h, 'r, 'w) sql_api \<Rightarrow> string \<Rightarrow> ('w, 'h sql_event, error + 'h PostgresStore) act" where
  "NewPostgresStore sq conn =
     do {
       r \<leftarrow> connect sq conn (connectRetries - 1) (seconds 1);
       case r of
         Inl e \<Rightarrow> State_Monad.return (Inl (WrapError ''failed to connect to PostgreSQL after 5 attempts'' e))
       | Inr h \<Rightarrow> do {
           logged (\<lambda>w. ((), w)) (\<lambda>_. PoolEvent h 10 5 (seconds 3600) (seconds 600));
           State_Monad.return (Inr \<lparr>ps_db = h, ps_closed = False\<rparr>)
         }
     }"

section \<open>Statements\<close>

text \<open>A line of a raw string literal: a line feed, tabs and the text.\<close>

definition sql_line :: "nat \<Rightarrow> string \<Rightarrow> string" where
  "sql_line tabs s = CHR 0x0A # replicate tabs (CHR 0x09) @ s"

definition insert_sql :: string where
  "insert_sql = concat
     [sql_line 2 ''INSERT INTO task_executions (task_id, tenant_id, pod_name, namespace, status, started_at)'',
      sql_line 2 ''VALUES ($1, $2, $3, $4, $5, $6)'',
      sql_line 2 ''RETURNING id'',
      sql_line 1 []]"

definition completion_sql :: string where
  "completion_sql = concat
     [sql_line 2 ''UPDATE task_executions'',
      sql_line 2 ''SET'',
      sql_line 3 ''status = $1,'',
      sql_line 3 ''exit_code = $2,'',
      sql_line 3 ''duration_seconds = $3,'',
      sql_line 3 ''completed_at = $4'',
      sql_line 2 ''WHERE pod_name = $5 AND task_id = $6 AND status != $7'',
      sql_line 1 []]"

definition failure_sql :: string where
  "failure_sql = concat
     [sql_line 2 ''UPDATE task_executions'',
      sql_line 2 ''SET'',
      sql_line 3 ''status = $1,'',
      sql_line 3 ''exit_code = $2,'',
      sql_line 3 ''duration_seconds = $3,'',
      sql_line 3 ''completed_at = $4,'',
      sql_line 3 ''reason = $5,'',
      sql_line 3 ''message = $6,'',
      sql_line 3 ''retry_attempt = $7,'',
      sql_line 3 ''max_retries = $8'',
      sql_line 2 ''WHERE pod_name = $9 AND task_id = $10 AND status != $11'',
      sql_line 1 []]"

definition select_columns :: string where
  "select_columns = concat
     [sql_line 2 ''SELECT'',
      sql_line 3 ''id, task_id, tenant_id, pod_name, namespace, container_id,'',
      sql_line 3 ''status, exit_code, retry_attempt, max_retries,'',
      sql_line 3 ''started_at, completed_at, duration_seconds,'',
      sql_line 3 ''reason, message,'',
      sql_line 3 ''created_at, updated_at'',
      sql_line 2 ''FROM task_executions'']"

definition history_base :: string where
  "history_base = select_columns @ sql_line 2 ''WHERE tenant_id = $1'' @ sql_line 1 []"

definition by_id_sql :: string where
  "by_id_sql = select_columns @ concat
     [sql_line 2 ''WHERE task_id = $1 AND tenant_id = $2'',
      sql_line 2 ''ORDER BY created_at DESC'',
      sql_line 2 ''LIMIT 1'',
      sql_line 1 []]"

definition stats_sql :: string where
  "stats_sql = concat
     [sql_line 2 ''SELECT'',
      sql_line 3 ''total_tasks,'',
      sql_line 3 ''completed_tasks,'',
      sql_line 3 ''failed_tasks,'',
      sql_line 3 ''success_rate,'',
      sql_line 3 ''avg_duration_seconds,'',
      sql_line 3 ''max_duration_seconds'',
      sql_line 2 ''FROM get_tenant_stats($1, $2)'',
      sql_line 1 []]"

definition failures_sql :: string where
  "failures_sql = concat
     [sql_line 2 ''SELECT'',
      sql_line 3 ''id, task_id, pod_name, reason, message, completed_at, created_at'',
      sql_line 2 ''FROM get_recent_failures($1, $2)'',
      sql_line 1 []]"

subsection \<open>The query of a history\<close>

text \<open>The variables \<open>query\<close>, \<open>args\<close> and \<open>argIdx\<close>; a clause is added with its argument.\<close>

type_synonym query_builder = "string \<times> sql_arg list \<times> nat"

definition add_clause :: "bool \<Rightarrow> string \<Rightarrow> sql_arg \<Rightarrow> query_builder \<Rightarrow> query_builder" where
  "add_clause c text a = (\<lambda>(query, args, argIdx).
     if c then (query @ text @ ''$'' @ Itoa (int argIdx), args @ [a], argIdx + 1)
     else (query, args, argIdx))"

definition history_query :: "TaskFilter \<Rightarrow> string \<times> sql_arg list" where
  "history_query flt =
     (let limit = (if tf_Limit flt = 0 then 100 else tf_Limit flt);
          b = (history_base, [ArgString (tf_TenantID flt)], 2);
          b = add_clause (tf_Status flt \<noteq> []) '' AND status = '' (ArgString (tf_Status flt)) b;
          b = add_clause (tf_OnlyFailed flt) '' AND status = '' (ArgString TaskStatusFailed) b;
          b = add_clause (tf_StartDate flt \<noteq> 0) '' AND created_at >= '' (ArgTime (tf_StartDate flt)) b;
          b = add_clause (tf_EndDate flt \<noteq> 0) '' AND created_at <= '' (ArgTime (tf_EndDate flt)) b;
          b = add_clause (tf_PodName flt \<noteq> []) '' AND pod_name ILIKE ''
                (ArgString (''%'' @ tf_PodName flt @ ''%'')) b;
          b = add_clause True '' ORDER BY created_at DESC LIMIT '' (ArgInt limit) b;
          (query, args, _) = add_clause (0 < sint (tf_Offset flt)) '' OFFSET '' (ArgInt (tf_Offset flt)) b
      in (query, args))"

section \<open>Operations\<close>

definition store_closed :: error where
  "store_closed = PlainError ''store is closed''"

text \<open>\<open>QueryRowContext(...).Scan(...)\<close> fails with the error of the query or that of the conversion.\<close>

definition scan :: "('r \<Rightarrow> error + 'a) \<Rightarrow> error + 'r \<Rightarrow> error + 'a" where
  "scan conv r = (case r of Inl e \<Rightarrow> Inl e | Inr row \<Rightarrow> conv row)"

definition RecordTaskStart ::
  "('h, 'r, 'w) sql_api \<Rightarrow> 'h PostgresStore \<Rightarrow> string \<Rightarrow> string \<Rightarrow> string \<Rightarrow> string \<Rightarrow>
   ('w, 'h sql_event, error option) act" where
  "RecordTaskStart sq ps taskID tenantID podName namespace =
     (if ps_closed ps then State_Monad.return (Some store_closed)
      else do {
        now \<leftarrow> silent (sq_Now sq);
        let args = [ArgString taskID, ArgString tenantID, ArgString podName, ArgString namespace,
                    ArgString TaskStatusRunning, ArgTime now];
        r \<leftarrow> logged (sq_QueryRow sq (ps_db ps) insert_sql args) (\<lambda>_. StatementEvent (ps_db ps) insert_sql args);
        State_Monad.return
          (case scan (sq_ScanID sq) r of
             Inl e \<Rightarrow> Some (WrapError ''failed to record task start'' e)
           | Inr _ \<Rightarrow> None)
      })"

text \<open>What both updates do with the result of the statement.\<close>

definition update_result :: "string \<Rightarrow> string \<Rightarrow> error + error + int64 \<Rightarrow> error option" where
  "update_result failed none r =
     (case r of
        Inl e \<Rightarrow> Some (WrapError failed e)
      | Inr (Inl e) \<Rightarrow> Some (WrapError ''failed to get rows affected'' e)
      | Inr (Inr rowsAffected) \<Rightarrow> if rowsAffected = 0 then Some (PlainError none) else None)"

definition completion_args :: "instant \<Rightarrow> string \<Rightarrow> string \<Rightarrow> int32 \<Rightarrow> duration \<Rightarrow> sql_arg list" where
  "completion_args now taskID podName exitCode dur =
     [ArgString TaskStatusCompleted, ArgInt32 exitCode, ArgFloat (Duration_Seconds dur), ArgTime now,
      ArgString podName, ArgString taskID, ArgString TaskStatusCompleted]"

definition RecordTaskCompletion ::
  "('h, 'r, 'w) sql_api \<Rightarrow> 'h PostgresStore \<Rightarrow> string \<Rightarrow> string \<Rightarrow> int32 \<Rightarrow> duration \<Rightarrow>
   ('w, 'h sql_event, error option) act" where
  "RecordTaskCompletion sq ps taskID podName exitCode dur =
     (if ps_closed ps then State_Monad.return (Some store_closed)
      else do {
        now \<leftarrow> silent (sq_Now sq);
        let args = completion_args now taskID podName exitCode dur;
        r \<leftarrow> logged (sq_Exec sq (ps_db ps) completion_sql args)
               (\<lambda>_. StatementEvent (ps_db ps) completion_sql args);
        State_Monad.return
          (update_result ''failed to record task completion'' ''task not found or already completed'' r)
      })"

definition failure_args ::
  "instant \<Rightarrow> string \<Rightarrow> string \<Rightarrow> string \<Rightarrow> string \<Rightarrow> int32 \<Rightarrow> duration \<Rightarrow> int64 \<Rightarrow> int64 \<Rightarrow> sql_arg list" where
  "failure_args now taskID podName reason message exitCode dur retryAttempt maxRetries =
     [ArgString TaskStatusFailed, ArgInt32 exitCode, ArgFloat (Duration_Seconds dur), ArgTime now,
      ArgString reason, ArgString message, ArgInt retryAttempt, ArgInt maxRetries,
      ArgString podName, ArgString taskID, ArgString TaskStatusFailed]"

definition RecordTaskFailure ::
  "('h, 'r, 'w) sql_api \<Rightarrow> 'h PostgresStore \<Rightarrow> string \<Rightarrow> string \<Rightarrow> string \<Rightarrow> string \<Rightarrow> int32 \<Rightarrow> duration \<Rightarrow>
   int64 \<Rightarrow> int64 \<Rightarrow> ('w, 'h sql_event, error option) act" where
  "RecordTaskFailure sq ps taskID podName reason message exitCode dur retryAttempt maxRetries =
     (if ps_closed ps then State_Monad.return (Some store_closed)
      else do {
        now \<leftarrow> silent (sq_Now sq);
        let args = failure_args now taskID podName reason message exitCode dur retryAttempt maxRetries;
        r \<leftarrow> logged (sq_Exec sq (ps_db ps) failure_sql args)
               (\<lambda>_. StatementEvent (ps_db ps) failure_sql args);
        State_Monad.return
          (update_result ''failed to record task failure'' ''task not found or already failed'' r)
      })"

text \<open>The loop over rows stops at the first one that does not scan.\<close>

fun scan_rows :: "('r \<Rightarrow> error + 'a) \<Rightarrow> 'r list \<Rightarrow> error + 'a list" where
  "scan_rows conv [] = Inr []"
| "scan_rows conv (row # rows) =
     (case conv row of
        Inl e \<Rightarrow> Inl e
      | Inr a \<Rightarrow> (case scan_rows conv rows of Inl e \<Rightarrow> Inl e | Inr as \<Rightarrow> Inr (a # as)))"

definition read_rows ::
  "string \<Rightarrow> string \<Rightarrow> string \<Rightarrow> ('r \<Rightarrow> error + 'a) \<Rightarrow> error + 'r list \<times> error option \<Rightarrow> error + 'a list" where
  "read_rows query_failed scan_failed iter_failed conv r =
     (case r of
        Inl e \<Rightarrow> Inl (WrapError query_failed e)
      | Inr (rows, rows_err) \<Rightarrow>
          (case scan_rows conv rows of
             Inl e \<Rightarrow> Inl (WrapError scan_failed e)
           | Inr as \<Rightarrow> (case rows_err of None \<Rightarrow> Inr as | Some e \<Rightarrow> Inl (WrapError iter_failed e))))"

definition GetTaskHistory ::
  "('h, 'r, 'w) sql_api \<Rightarrow> 'h PostgresStore \<Rightarrow> TaskFilter \<Rightarrow> ('w, 'h sql_event, error + TaskRecord list) act" where
  "GetTaskHistory sq ps flt =
     (if ps_closed ps then State_Monad.return (Inl store_closed)
      else if tf_TenantID flt = [] then State_Monad.return (Inl (PlainError ''tenant_id is required''))
      else do {
        let (query, args) = history_query flt;
        r \<leftarrow> logged (sq_Query sq (ps_db ps) query args) (\<lambda>_. StatementEvent (ps_db ps) query args);
        State_Monad.return
          (read_rows ''failed to query task history'' ''failed to scan task record'' ''error iterating rows''
             (sq_ScanTask sq) r)
      })"

definition GetTaskByID ::
  "('h, 'r, 'w) sql_api \<Rightarrow> 'h PostgresStore \<Rightarrow> string \<Rightarrow> string \<Rightarrow> ('w, 'h sql_event, error + TaskRecord) act" where
  "GetTaskByID sq ps taskID tenantID =
     (if ps_closed ps then State_Monad.return (Inl store_closed)
      else do {
        let args = [ArgString taskID, ArgString tenantID];
        r \<leftarrow> logged (sq_QueryRow sq (ps_db ps) by_id_sql args) (\<lambda>_. StatementEvent (ps_db ps) by_id_sql args);
        State_Monad.return
          (case scan (sq_ScanTask sq) r of
             Inl e \<Rightarrow> Inl (if e = sql_ErrNoRows then PlainError ''task not found''
                           else WrapError ''failed to query task'' e)
           | Inr rec \<Rightarrow> Inr rec)
      })"

text \<open>\<open>GetTenantStats\<close> of the store, beside the method of the rate limiter.\<close>

definition Store_GetTenantStats ::
  "('h, 'r, 'w) sql_api \<Rightarrow> 'h PostgresStore \<Rightarrow> string \<Rightarrow> int64 \<Rightarrow>
   ('w, 'h sql_event, error + TaskExecutionStats) act" where
  "Store_GetTenantStats sq ps tenantID days =
     (if ps_closed ps then State_Monad.return (Inl store_closed)
      else do {
        let args = [ArgString tenantID, ArgInt (if days = 0 then 30 else days)];
        r \<leftarrow> logged (sq_QueryRow sq (ps_db ps) stats_sql args) (\<lambda>_. StatementEvent (ps_db ps) stats_sql args);
        State_Monad.return
          (case scan (sq_ScanStats sq) r of
             Inl e \<Rightarrow> Inl (WrapError ''failed to query tenant stats'' e)
           | Inr stats \<Rightarrow> Inr stats)
      })"

definition set_FailedAt :: "RecentFailure \<times> instant option \<Rightarrow> RecentFailure" where
  "set_FailedAt = (\<lambda>(f, failedAt). case failedAt of None \<Rightarrow> f | Some t \<Rightarrow> f\<lparr>rf_FailedAt := t\<rparr>)"

definition GetRecentFailures ::
  "('h, 'r, 'w) sql_api \<Rightarrow> 'h PostgresStore \<Rightarrow> string \<Rightarrow> int64 \<Rightarrow>
   ('w, 'h sql_event, error + RecentFailure list) act" where
  "GetRecentFailures sq ps tenantID limit =
     (if ps_closed ps then State_Monad.return (Inl store_closed)
      else do {
        let args = [ArgString tenantID, ArgInt (if limit = 0 then 10 else limit)];
        r \<leftarrow> logged (sq_Query sq (ps_db ps) failures_sql args) (\<lambda>_. StatementEvent (ps_db ps) failures_sql args);
        State_Monad.return
          (map_sum id (map set_FailedAt)
             (read_rows ''failed to query recent failures'' ''failed to scan failure record''
                ''error iterating failure rows'' (sq_ScanFailure sq) r))
      })"

definition Store_Close ::
  "('h, 'r, 'w) sql_api \<Rightarrow> 'h PostgresStore \<Rightarrow> ('w, 'h sql_event, error option \<times> 'h PostgresStore) act" where
  "Store_Close sq ps =
     (if ps_closed ps then State_Monad.return (None, ps)
      else do {
        r \<leftarrow> logged (sq_Close sq (ps_db ps)) (\<lambda>_. CloseEvent (ps_db ps));
        State_Monad.return
          (case r of Some e \<Rightarrow> (Some (WrapError ''failed to close database'' e), ps)
           | None \<Rightarrow> (None, ps\<lparr>ps_closed := True\<rparr>))
      })"

section \<open>Placeholders\<close>

text \<open>The numbers of the placeholders \<open>$n\<close> of a statement, in the order of the text.\<close>

fun placeholders :: "string \<Rightarrow> nat list" where
  "placeholders [] = []"
| "placeholders (c # s) =
     (if c = CHR ''$'' then digits_val (takeWhile is_digit s) # placeholders s else placeholders s)"

lemma placeholders_append:
  "t = [] \<or> \<not> is_digit (hd t) \<Longrightarrow> placeholders (s @ t) = placeholders s @ placeholders t"
proof (induction s)
  case (Cons c s)
  from Cons.prems have "takeWhile is_digit t = []" by (cases t) auto
  then have "takeWhile is_digit (s @ t) = takeWhile is_digit s" by (induction s) simp_all
  with Cons show ?case by simp
qed simp

lemma placeholders_digits: "list_all is_digit ds \<Longrightarrow> placeholders ds = []"
  by (induction ds) (auto simp: is_digit_def)

lemma placeholders_numbered: "placeholders (''$'' @ Itoa (int n)) = [n]"
  using nat_digits_digits [of n]
  by (simp add: Itoa_def placeholders_digits digits_val_nat_digits takeWhile_eq_all_conv [THEN iffD2] list_all_iff)

lemma fixed_placeholders:
  "placeholders insert_sql = [1,2,3,4,5,6]"
  "placeholders completion_sql = [1,2,3,4,5,6,7]"
  "placeholders failure_sql = [1,2,3,4,5,6,7,8,9,10,11]"
  "placeholders history_base = [1]"
  "placeholders by_id_sql = [1,2]"
  "placeholders stats_sql = [1,2]"
  "placeholders failures_sql = [1,2]"
  by code_simp+

text \<open>A builder whose text uses each argument once, in order.\<close>

fun bound :: "query_builder \<Rightarrow> bool" where
  "bound (query, args, argIdx) \<longleftrightarrow> argIdx = Suc (length args) \<and> placeholders query = [1..<argIdx]"

lemma bound_add_clause:
  assumes "bound b" and "placeholders text = []" and "text \<noteq> []" and "\<not> is_digit (hd text)"
  shows "bound (add_clause c text a b)"
proof (cases b)
  case (fields query args argIdx)
  have "placeholders (query @ text @ ''$'' @ Itoa (int argIdx)) = placeholders query @ [argIdx]"
    using assms(2-4) placeholders_append [of "text @ ''$'' @ Itoa (int argIdx)" query]
      placeholders_append [of "''$'' @ Itoa (int argIdx)" "text"]
    by (simp add: placeholders_numbered [simplified] is_digit_def)
  with assms(1) fields show ?thesis by (simp add: add_clause_def)
qed

lemma bound_history_query:
  assumes "history_query flt = (query, args)"
  shows "placeholders query = [1..<Suc (length args)]"
proof -
  have base: "bound (history_base, [ArgString t], 2)" for t
    by (simp add: fixed_placeholders numeral_2_eq_2)
  have "\<exists>i. bound (query, args, i)"
    using assms unfolding history_query_def Let_def
    by (auto split: prod.splits simp del: bound.simps
        dest!: arg_cong [where f = bound] intro!: bound_add_clause base simp: is_digit_def)
  then show ?thesis by auto
qed

section \<open>The statements that are sent\<close>

text \<open>The text of a history query by the clauses it has, and the texts of all statements.\<close>

definition history_text :: "bool \<Rightarrow> bool \<Rightarrow> bool \<Rightarrow> bool \<Rightarrow> bool \<Rightarrow> bool \<Rightarrow> string" where
  "history_text status failed start end_date pod offset =
     fst (history_query \<lparr>tf_TenantID = ''t'', tf_Status = (if status then ''s'' else []),
       tf_StartDate = (if start then 1 else 0), tf_EndDate = (if end_date then 1 else 0),
       tf_PodName = (if pod then ''p'' else []), tf_OnlyFailed = failed, tf_Limit = 1,
       tf_Offset = (if offset then 1 else 0)\<rparr>)"

definition statement_texts :: "string set" where
  "statement_texts = {insert_sql, completion_sql, failure_sql, by_id_sql, stats_sql, failures_sql} \<union>
     range (\<lambda>(a, b, c, d, e, f). history_text a b c d e f)"

lemma fst_add_clause:
  "add_clause c t a (query, args, i) =
     (query @ (if c then t @ ''$'' @ Itoa (int i) else []), args @ (if c then [a] else []), if c then i + 1 else i)"
  by (simp add: add_clause_def)

lemma history_query_text:
  "fst (history_query flt) =
     history_text (tf_Status flt \<noteq> []) (tf_OnlyFailed flt) (tf_StartDate flt \<noteq> 0) (tf_EndDate flt \<noteq> 0)
       (tf_PodName flt \<noteq> []) (0 < sint (tf_Offset flt))"
  by (simp add: history_text_def history_query_def fst_add_clause Let_def)

lemma history_text_listed: "history_text a b c d e f \<in> statement_texts"
proof -
  have "history_text a b c d e f \<in> range (\<lambda>(a, b, c, d, e, f). history_text a b c d e f)"
    by (rule image_eqI [of _ _ "(a, b, c, d, e, f)"]) simp_all
  then show ?thesis unfolding statement_texts_def by simp
qed

lemma finite_statement_texts: "finite statement_texts"
  unfolding statement_texts_def by simp

lemma history_query_tenant: "hd (snd (history_query flt)) = ArgString (tf_TenantID flt)"
  by (simp add: history_query_def fst_add_clause Let_def)

text \<open>A call of the store, with the error that it returns.\<close>

datatype store_call =
    StartCall string string string string
  | CompletionCall string string int32 duration
  | FailureCall string string string string int32 duration int64 int64
  | HistoryCall TaskFilter
  | ByIDCall string string
  | StatsCall string int64
  | FailuresCall string int64

definition error_of :: "error + 'a \<Rightarrow> error option" where
  "error_of r = (case r of Inl e \<Rightarrow> Some e | Inr _ \<Rightarrow> None)"

fun serve_call :: "('h, 'r, 'w) sql_api \<Rightarrow> 'h PostgresStore \<Rightarrow> store_call \<Rightarrow> ('w, 'h sql_event, error option) act" where
  "serve_call sq ps (StartCall t n p ns) = RecordTaskStart sq ps t n p ns"
| "serve_call sq ps (CompletionCall t p c d) = RecordTaskCompletion sq ps t p c d"
| "serve_call sq ps (FailureCall t p r m c d a x) = RecordTaskFailure sq ps t p r m c d a x"
| "serve_call sq ps (HistoryCall flt) = do { r \<leftarrow> GetTaskHistory sq ps flt; State_Monad.return (error_of r) }"
| "serve_call sq ps (ByIDCall t n) = do { r \<leftarrow> GetTaskByID sq ps t n; State_Monad.return (error_of r) }"
| "serve_call sq ps (StatsCall n d) = do { r \<leftarrow> Store_GetTenantStats sq ps n d; State_Monad.return (error_of r) }"
| "serve_call sq ps (FailuresCall n l) = do { r \<leftarrow> GetRecentFailures sq ps n l; State_Monad.return (error_of r) }"

text \<open>The tenant to whom a query is restricted.\<close>

fun call_tenant :: "store_call \<Rightarrow> string option" where
  "call_tenant (HistoryCall flt) = Some (tf_TenantID flt)"
| "call_tenant (ByIDCall t n) = Some n"
| "call_tenant (StatsCall n d) = Some n"
| "call_tenant (FailuresCall n l) = Some n"
| "call_tenant c = None"

text \<open>At most one statement, with a fixed text and an argument for every placeholder.\<close>

definition bound_event :: "'h PostgresStore \<Rightarrow> store_call \<Rightarrow> 'h sql_event \<Rightarrow> bool" where
  "bound_event ps c ev \<longleftrightarrow> (case ev of
     StatementEvent h query args \<Rightarrow>
       h = ps_db ps \<and> query \<in> statement_texts \<and> placeholders query = [1..<Suc (length args)] \<and>
       (case call_tenant c of None \<Rightarrow> True | Some t \<Rightarrow> ArgString t \<in> set args)
   | _ \<Rightarrow> False)"

lemma fixed_bound:
  "placeholders query = [1..<Suc (length args)] \<Longrightarrow> query \<in> statement_texts \<Longrightarrow>
   (case call_tenant c of None \<Rightarrow> True | Some t \<Rightarrow> ArgString t \<in> set args) \<Longrightarrow>
   bound_event ps c (StatementEvent (ps_db ps) query args)"
  by (simp add: bound_event_def)

lemma history_bound:
  assumes "history_query flt = (query, args)"
  shows "bound_event ps (HistoryCall flt) (StatementEvent (ps_db ps) query args)"
proof (rule fixed_bound)
  show "placeholders query = [1..<Suc (length args)]" by (rule bound_history_query [OF assms])
  show "query \<in> statement_texts"
    using assms history_query_text [of flt] history_text_listed by simp
  have "args \<noteq> []" using assms by (auto simp: history_query_def fst_add_clause Let_def)
  then have "hd args \<in> set args" by simp
  then show "case call_tenant (HistoryCall flt) of None \<Rightarrow> True | Some t \<Rightarrow> ArgString t \<in> set args"
    using assms history_query_tenant [of flt] by simp
qed

lemmas operation_defs = RecordTaskStart_def RecordTaskCompletion_def RecordTaskFailure_def GetTaskHistory_def
  GetTaskByID_def Store_GetTenantStats_def GetRecentFailures_def

lemma serve_call_log:
  "wlog (serve_call sq ps c) (\<lambda>es r.
     if ps_closed ps then es = [] \<and> r = Some store_closed
     else length es \<le> 1 \<and> list_all (bound_event ps c) es)"
proof (cases c)
  case (HistoryCall flt)
  obtain query args where "history_query flt = (query, args)" by (cases "history_query flt")
  with HistoryCall history_bound [OF this, of ps] show ?thesis
    by (auto simp: operation_defs error_of_def intro!: wlog_intros wlog_bind)
qed (auto simp: operation_defs Let_def completion_args_def failure_args_def fixed_placeholders
      statement_texts_def error_of_def upt_rec intro!: wlog_intros wlog_bind fixed_bound)

end
