(* ===== verification/Postgres_Properties.thy ===== *)
theory Postgres_Properties
  imports Postgres_Store
begin

text \<open>
  Properties of the store of the history of tasks: connecting keeps no handle open but the one it
  returns, statements have fixed texts with an argument for every placeholder, and what the two
  updates do to the table when the database runs them as documented.
\<close>

section \<open>Connecting\<close>

definition opened :: "'h sql_event list \<Rightarrow> 'h list" where
  "opened es = concat (map (\<lambda>ev. case ev of OpenEvent (Inr h) \<Rightarrow> [h] | _ \<Rightarrow> []) es)"

definition closed_handles :: "'h sql_event list \<Rightarrow> 'h list" where
  "closed_handles es = concat (map (\<lambda>ev. case ev of CloseEvent h \<Rightarrow> [h] | _ \<Rightarrow> []) es)"

definition attempts :: "'h sql_event list \<Rightarrow> nat" where
  "attempts es = length (filter (\<lambda>ev. case ev of OpenEvent _ \<Rightarrow> True | _ \<Rightarrow> False) es)"

definition sleeps :: "'h sql_event list \<Rightarrow> duration list" where
  "sleeps es = concat (map (\<lambda>ev. case ev of SleepEvent d \<Rightarrow> [d] | _ \<Rightarrow> []) es)"

lemmas history_defs = opened_def closed_handles_def attempts_def sleeps_def

lemma history_append:
  "opened (es @ es') = opened es @ opened es'"
  "closed_handles (es @ es') = closed_handles es @ closed_handles es'"
  "attempts (es @ es') = attempts es + attempts es'"
  "sleeps (es @ es') = sleeps es @ sleeps es'"
  by (simp_all add: history_defs)

lemma history_events:
  "opened [] = []" "closed_handles [] = []" "attempts [] = 0" "sleeps [] = []"
  "opened (OpenEvent (Inl e) # es) = opened es" "opened (OpenEvent (Inr h) # es) = h # opened es"
  "opened (PingEvent h # es) = opened es" "opened (CloseEvent h # es) = opened es"
  "opened (SleepEvent d # es) = opened es" "opened (PoolEvent h i j x y # es) = opened es"
  "closed_handles (OpenEvent r # es) = closed_handles es" "closed_handles (PingEvent h # es) = closed_handles es"
  "closed_handles (CloseEvent h # es) = h # closed_handles es" "closed_handles (SleepEvent d # es) = closed_handles es"
  "closed_handles (PoolEvent h i j x y # es) = closed_handles es"
  "attempts (OpenEvent r # es) = Suc (attempts es)" "attempts (PingEvent h # es) = attempts es"
  "attempts (CloseEvent h # es) = attempts es" "attempts (SleepEvent d # es) = attempts es"
  "attempts (PoolEvent h i j x y # es) = attempts es"
  "sleeps (OpenEvent r # es) = sleeps es" "sleeps (PingEvent h # es) = sleeps es"
  "sleeps (CloseEvent h # es) = sleeps es" "sleeps (SleepEvent d # es) = d # sleeps es"
  "sleeps (PoolEvent h i j x y # es) = sleeps es"
  by (simp_all add: history_defs)

lemmas history_simps = history_append history_events

text \<open>What the loop does with \<open>n\<close> attempts left after this one.\<close>

definition connect_log :: "nat \<Rightarrow> duration \<Rightarrow> 'h sql_event list \<Rightarrow> error + 'h \<Rightarrow> bool" where
  "connect_log n d es r \<longleftrightarrow>
     1 \<le> attempts es \<and> attempts es \<le> Suc n \<and>
     sleeps es = map (\<lambda>i. d * 2 ^ i) [0..<attempts es - 1] \<and>
     (case r of
        Inl e \<Rightarrow> attempts es = Suc n \<and> opened es = closed_handles es
      | Inr h \<Rightarrow> opened es = closed_handles es @ [h])"

lemma doubling: "d # map (\<lambda>i. d * 2 * 2 ^ i) [0..<k] = map (\<lambda>i. d * 2 ^ i) [0..<Suc k]"
  for d :: duration
  by (simp add: upt_conv_Cons map_Suc_upt [symmetric] comp_def mult.assoc del: upt_Suc)

lemma connect_log_retry:
  assumes "connect_log n (d * 2) es' r" and "opened es = closed_handles es" and "attempts es = 1" and "sleeps es = [d]"
  shows "connect_log (Suc n) d (es @ es') r"
proof -
  obtain k where "attempts es' = Suc k" using assms(1) by (cases "attempts es'") (auto simp: connect_log_def)
  with assms doubling [of d k] show ?thesis
    by (auto simp: connect_log_def history_append split: sum.splits)
qed

lemma connect_logged: "wlog (connect sq conn n d) (connect_log n d)"
proof (induction n arbitrary: d)
  case 0
  show ?case
    by (subst connect.simps, unfold nat.case)
      (intro wlog_bind wlog_intros; simp add: connect_log_def history_simps)
next
  case (Suc n)
  have retry: "wlog (connect sq conn n (d * 2)) (\<lambda>es' r. connect_log (Suc n) d (es @ es') r)"
    if "opened es = closed_handles es" "attempts es = 1" "sleeps es = [d]" for es
    by (rule wlog_mono [OF Suc [of "d * 2"]]) (rule connect_log_retry [OF _ that])
  have retry_open: "wlog (connect sq conn n (d * 2))
      (\<lambda>es' r. connect_log (Suc n) d (OpenEvent (Inl e) # SleepEvent d # es') r)" for e
    using retry [of "[OpenEvent (Inl e), SleepEvent d]"] by (simp add: history_simps)
  have retry_ping: "wlog (connect sq conn n (d * 2))
      (\<lambda>es' r. connect_log (Suc n) d (OpenEvent (Inr h) # PingEvent h # CloseEvent h # SleepEvent d # es') r)" for h
    using retry [of "[OpenEvent (Inr h), PingEvent h, CloseEvent h, SleepEvent d]"] by (simp add: history_simps)
  show ?case
    by (subst connect.simps, unfold nat.case)
      (intro wlog_bind wlog_intros; (simp only: append_Cons append_Nil)?;
        (rule retry_open retry_ping | simp add: connect_log_def history_simps))
qed

text \<open>C39. \<open>NewPostgresStore\<close> makes at least one and at most five attempts, sleeping 1, 2, 4 and 8 seconds
  between them, and fails only after the fifth. Whatever the database does, every handle that it
  opened is closed again, but for the one of the store that it returns.\<close>

theorem connecting_leaks_no_handle:
  "wlog (NewPostgresStore sq conn) (\<lambda>es r.
     1 \<le> attempts es \<and> attempts es \<le> 5 \<and>
     sleeps es = take (attempts es - 1) [seconds 1, seconds 2, seconds 4, seconds 8] \<and>
     (case r of
        Inl e \<Rightarrow> attempts es = 5 \<and> opened es = closed_handles es
      | Inr ps \<Rightarrow> opened es = closed_handles es @ [ps_db ps] \<and> \<not> ps_closed ps))"
  unfolding NewPostgresStore_def
proof (rule wlog_seq [OF connect_logged], goal_cases)
  case (1 es r)
  then have n: "1 \<le> attempts es" "attempts es \<le> 5" by (simp_all add: connect_log_def connectRetries_def)
  then have "attempts es \<in> {1, 2, 3, 4, 5}" by auto
  then have "map (\<lambda>i. seconds 1 * 2 ^ i) [0..<attempts es - 1] =
      take (attempts es - 1) [seconds 1, seconds 2, seconds 4, seconds 8]"
    by (auto simp: seconds_def upt_rec)
  with 1 n show ?case
    by (auto simp: connect_log_def connectRetries_def history_simps intro!: wlog_intros wlog_bind)
qed

section \<open>Statements\<close>

text \<open>C15. Whatever strings a caller passes, a call of the store sends at most one statement, its text is
  one of a finite set of texts that are fixed in the code, its placeholders are \<open>$1\<close> to \<open>$n\<close> in order
  for its \<open>n\<close> arguments, and the arguments of a query contain the tenant that asks. A closed store
  sends nothing and returns an error.\<close>

theorem store_statements_fixed:
  "finite statement_texts \<and>
   wlog (serve_call sq ps c) (\<lambda>es r.
     if ps_closed ps then es = [] \<and> r = Some store_closed
     else length es \<le> 1 \<and> list_all (bound_event ps c) es)"
  using finite_statement_texts serve_call_log by blast

section \<open>Updates\<close>

text \<open>
  A database that runs the two updates as documented on a table of records: \<open>UPDATE\<close> changes the rows
  that match, and reports their number, provided that the values meet the types and constraints of the
  columns (\<open>config/postgres/migrations/001_create_task_executions.sql\<close>): whole numbers of seconds, texts
  of plain characters, statuses of the enumeration, times of years 1 to 9999. Times are stored rounded,
  so the instant stored is only said to exist; a trigger sets \<open>updated_at\<close>.
\<close>

definition pending_row :: "string \<Rightarrow> string \<Rightarrow> string \<Rightarrow> TaskRecord \<Rightarrow> bool" where
  "pending_row podName taskID status r \<longleftrightarrow>
     te_PodName r = podName \<and> te_TaskID r = taskID \<and> te_Status r \<noteq> status"

definition plain_text :: "string \<Rightarrow> bool" where
  "plain_text s \<longleftrightarrow> list_all (\<lambda>c. 0 < (of_char c :: nat) \<and> (of_char c :: nat) < 128) s"

definition status_values :: "string set" where
  "status_values = {TaskStatusPending, TaskStatusRunning, TaskStatusCompleted, TaskStatusFailed, TaskStatusCancelled,
     TaskStatusPaused}"

definition storable :: "int32 \<Rightarrow> int \<Rightarrow> instant \<Rightarrow> TaskRecord list \<Rightarrow> bool" where
  "storable code secs now rs \<longleftrightarrow>
     0 \<le> now \<and> now < 315537897600 * 1000000000 \<and> - 1 \<le> sint code \<and> sint code \<le> 255 \<and> 0 \<le> secs \<and> secs < 2 ^ 63 \<and> length rs < 2 ^ 63 \<and>
     list_all (\<lambda>r. case te_StartedAt r of None \<Rightarrow> True | Some t \<Rightarrow> t \<le> now) rs"

definition storable_failure :: "string \<Rightarrow> string \<Rightarrow> int64 \<Rightarrow> int64 \<Rightarrow> bool" where
  "storable_failure reason message attempt maxRetries \<longleftrightarrow>
     plain_text reason \<and> plain_text message \<and> length reason \<le> 100 \<and> 0 \<le> sint attempt \<and> sint attempt < 2 ^ 31 \<and>
     - (2 ^ 31) \<le> sint maxRetries \<and> sint maxRetries < 2 ^ 31"

definition set_completion :: "int32 \<Rightarrow> int \<Rightarrow> instant \<Rightarrow> instant \<Rightarrow> string \<Rightarrow> TaskRecord \<Rightarrow> TaskRecord" where
  "set_completion code secs t u status r =
     r\<lparr>te_Status := status, te_ExitCode := Some code, te_Duration := Some (word_of_int secs),
       te_CompletedAt := Some t, te_UpdatedAt := u\<rparr>"

definition set_failure :: "string \<Rightarrow> string \<Rightarrow> int64 \<Rightarrow> int64 \<Rightarrow> TaskRecord \<Rightarrow> TaskRecord" where
  "set_failure reason message attempt maxRetries r =
     r\<lparr>te_Reason := Some reason, te_Message := Some message, te_RetryAttempt := attempt,
       te_MaxRetries := maxRetries\<rparr>"

definition update_where :: "('a \<Rightarrow> bool) \<Rightarrow> ('a \<Rightarrow> 'a) \<Rightarrow> 'a list \<Rightarrow> 'a list" where
  "update_where P f rs = map (\<lambda>r. if P r then f r else r) rs"

definition runs_updates :: "('h, 'r, 'w) sql_api \<Rightarrow> 'h \<Rightarrow> ('w \<Rightarrow> TaskRecord list) \<Rightarrow> bool" where
  "runs_updates sq h table \<longleftrightarrow>
     (\<forall>w. table (snd (sq_Now sq w)) = table w) \<and>
     (\<forall>w status code secs now podName taskID other.
        storable code secs now (table w) \<and> plain_text podName \<and> plain_text taskID \<and>
        status \<in> status_values \<and> other \<in> status_values \<longrightarrow>
        (\<exists>t u w'. sq_Exec sq h completion_sql
             [ArgString status, ArgInt32 code, ArgFloat (of_int secs), ArgTime now,
              ArgString podName, ArgString taskID, ArgString other] w =
             (Inr (Inr (of_nat (length (filter (pending_row podName taskID other) (table w))))), w') \<and>
           table w' = update_where (pending_row podName taskID other)
             (set_completion code secs t u status) (table w))) \<and>
     (\<forall>w status code secs now reason message attempt maxRetries podName taskID other.
        storable code secs now (table w) \<and> plain_text podName \<and> plain_text taskID \<and>
        status \<in> status_values \<and> other \<in> status_values \<and>
        storable_failure reason message attempt maxRetries \<longrightarrow>
        (\<exists>t u w'. sq_Exec sq h failure_sql
             [ArgString status, ArgInt32 code, ArgFloat (of_int secs), ArgTime now,
              ArgString reason, ArgString message, ArgInt attempt, ArgInt maxRetries,
              ArgString podName, ArgString taskID, ArgString other] w =
             (Inr (Inr (of_nat (length (filter (pending_row podName taskID other) (table w))))), w') \<and>
           table w' = update_where (pending_row podName taskID other)
             (\<lambda>r. set_failure reason message attempt maxRetries (set_completion code secs t u status r))
             (table w)))"

lemma runs_completion:
  assumes "runs_updates sq h table" and "storable code secs now (table w)" and "Duration_Seconds dur = of_int secs"
    and "plain_text podName" and "plain_text taskID"
  shows "\<exists>t u w'. sq_Exec sq h completion_sql (completion_args now taskID podName code dur) w =
       (Inr (Inr (of_nat (length (filter (pending_row podName taskID TaskStatusCompleted) (table w))))), w') \<and>
     table w' = update_where (pending_row podName taskID TaskStatusCompleted)
       (set_completion code secs t u TaskStatusCompleted) (table w)"
  unfolding completion_args_def assms(3)
  by (rule assms(1) [unfolded runs_updates_def, THEN conjunct2, THEN conjunct1, rule_format])
    (simp_all add: assms status_values_def)

lemma runs_failure:
  assumes "runs_updates sq h table" and "storable code secs now (table w)" and "Duration_Seconds dur = of_int secs"
    and "storable_failure reason message attempt maxRetries"
    and "plain_text podName" and "plain_text taskID"
  shows "\<exists>t u w'. sq_Exec sq h failure_sql
         (failure_args now taskID podName reason message code dur attempt maxRetries) w =
       (Inr (Inr (of_nat (length (filter (pending_row podName taskID TaskStatusFailed) (table w))))), w') \<and>
     table w' = update_where (pending_row podName taskID TaskStatusFailed)
       (\<lambda>r. set_failure reason message attempt maxRetries
          (set_completion code secs t u TaskStatusFailed r)) (table w)"
  unfolding failure_args_def assms(3)
  by (rule assms(1) [unfolded runs_updates_def, THEN conjunct2, THEN conjunct2, rule_format])
    (simp_all add: assms status_values_def)

lemma runs_now: "runs_updates sq h table \<Longrightarrow> sq_Now sq w = (now, w') \<Longrightarrow> table w' = table w"
  unfolding runs_updates_def by (metis snd_conv)

lemma of_nat_int64_0: "n < 2 ^ 63 \<Longrightarrow> (of_nat n :: int64) = 0 \<longleftrightarrow> n = 0"
  by (auto simp: word_of_nat_eq_0_iff dest: dvd_imp_le)

lemma affected_none:
  assumes "storable code secs now rs"
  shows "(of_nat (length (filter P rs)) :: int64) = 0 \<longleftrightarrow> \<not> list_ex P rs"
proof -
  have "length (filter P rs) < 2 ^ 63"
    using assms by (intro le_less_trans [OF length_filter_le]) (simp add: storable_def)
  then show ?thesis by (simp add: of_nat_int64_0 filter_empty_conv list_ex_iff)
qed

lemma completion_run:
  assumes "runs_updates sq (ps_db ps) table" and "\<not> ps_closed ps"
    and "storable code secs (fst (sq_Now sq w)) (table w)" and "Duration_Seconds dur = of_int secs"
    and plain: "plain_text podName" "plain_text taskID"
    and run: "run_state (RecordTaskCompletion sq ps taskID podName code dur) (w, tr) = (r, w', tr')"
  obtains t u where
    "r = (if list_ex (pending_row podName taskID TaskStatusCompleted) (table w) then None
          else Some (PlainError ''task not found or already completed''))"
    "table w' = update_where (pending_row podName taskID TaskStatusCompleted)
       (set_completion code secs t u TaskStatusCompleted) (table w)"
proof -
  obtain now w0 where now: "sq_Now sq w = (now, w0)" by (cases "sq_Now sq w")
  have w0: "table w0 = table w" by (rule runs_now [OF assms(1) now])
  with assms(3) now have st: "storable code secs now (table w0)" by simp
  from runs_completion [OF assms(1) st assms(4) plain] obtain t u w1 n where
    ex: "sq_Exec sq (ps_db ps) completion_sql (completion_args now taskID podName code dur) w0 =
       (Inr (Inr n), w1)" and n: "n = 0 \<longleftrightarrow> \<not> list_ex (pending_row podName taskID TaskStatusCompleted) (table w0)"
    and upd: "table w1 = update_where (pending_row podName taskID TaskStatusCompleted)
       (set_completion code secs t u TaskStatusCompleted) (table w0)"
    using affected_none [OF st] by blast
  have
    "r = (if list_ex (pending_row podName taskID TaskStatusCompleted) (table w0) then None
          else Some (PlainError ''task not found or already completed''))" and "w' = w1"
    using run assms(2) by (auto simp: RecordTaskCompletion_def run_simps Let_def update_result_def now ex n)
  with upd w0 now show thesis by (intro that [of t u]) simp_all
qed

lemma failure_run:
  assumes "runs_updates sq (ps_db ps) table" and "\<not> ps_closed ps"
    and "storable code secs (fst (sq_Now sq w)) (table w)" and "Duration_Seconds dur = of_int secs"
    and "storable_failure reason message attempt maxRetries"
    and plain: "plain_text podName" "plain_text taskID"
    and run: "run_state (RecordTaskFailure sq ps taskID podName reason message code dur attempt maxRetries) (w, tr) =
      (r, w', tr')"
  obtains t u where
    "r = (if list_ex (pending_row podName taskID TaskStatusFailed) (table w) then None
          else Some (PlainError ''task not found or already failed''))"
    "table w' = update_where (pending_row podName taskID TaskStatusFailed)
       (\<lambda>r. set_failure reason message attempt maxRetries
          (set_completion code secs t u TaskStatusFailed r)) (table w)"
proof -
  obtain now w0 where now: "sq_Now sq w = (now, w0)" by (cases "sq_Now sq w")
  have w0: "table w0 = table w" by (rule runs_now [OF assms(1) now])
  with assms(3) now have st: "storable code secs now (table w0)" by simp
  from runs_failure [OF assms(1) st assms(4,5) plain] obtain t u w1 n where
    ex: "sq_Exec sq (ps_db ps) failure_sql
         (failure_args now taskID podName reason message code dur attempt maxRetries) w0 =
       (Inr (Inr n), w1)" and n: "n = 0 \<longleftrightarrow> \<not> list_ex (pending_row podName taskID TaskStatusFailed) (table w0)"
    and upd: "table w1 = update_where (pending_row podName taskID TaskStatusFailed)
       (\<lambda>r. set_failure reason message attempt maxRetries
          (set_completion code secs t u TaskStatusFailed r)) (table w0)"
    using affected_none [OF st] by blast
  have
    "r = (if list_ex (pending_row podName taskID TaskStatusFailed) (table w0) then None
          else Some (PlainError ''task not found or already failed''))" and "w' = w1"
    using run assms(2) by (auto simp: RecordTaskFailure_def run_simps Let_def update_result_def now ex n)
  with upd w0 now show thesis by (intro that [of t u]) simp_all
qed


lemma update_where_ex:
  assumes "list_ex R rs" and "\<And>r. R r \<Longrightarrow> P r \<and> Q (f r)"
  shows "list_ex Q (update_where P f rs)"
  using assms by (induction rs) (auto simp: update_where_def)

lemma update_where_all:
  assumes "\<And>r. P r \<Longrightarrow> Q (f r)" and "\<And>r. \<not> P r \<Longrightarrow> Q r"
  shows "list_all Q (update_where P f rs)"
  using assms by (auto simp: list_all_iff update_where_def)

text \<open>A final status is not final: after a failure was recorded, a completion of the same task and pod
  is recorded without an error. All rows of the task and pod are then completed, and one of them
  still carries the reason and the message of the failure.\<close>

theorem failure_overwritten:
  assumes "runs_updates sq (ps_db ps) table" and "\<not> ps_closed ps"
    and "storable code secs (fst (sq_Now sq w)) (table w)" and "Duration_Seconds dur = of_int secs"
    and "storable_failure reason message attempt maxRetries"
    and "plain_text podName" and "plain_text taskID"
    and "run_state (RecordTaskFailure sq ps taskID podName reason message code dur attempt maxRetries) (w, []) =
      (None, w1, tr1)"
    and "storable code' secs' (fst (sq_Now sq w1)) (table w1)" and "Duration_Seconds dur' = of_int secs'"
    and "run_state (RecordTaskCompletion sq ps taskID podName code' dur') (w1, []) = (r, w2, tr2)"
  shows "r = None \<and>
    list_all (\<lambda>x. te_PodName x = podName \<longrightarrow> te_TaskID x = taskID \<longrightarrow> te_Status x = TaskStatusCompleted) (table w2) \<and>
    list_ex (\<lambda>x. te_PodName x = podName \<and> te_TaskID x = taskID \<and> te_Status x = TaskStatusCompleted \<and>
       te_Reason x = Some reason \<and> te_Message x = Some message) (table w2)"
proof (rule failure_run [OF assms(1-8)], rule completion_run [OF assms(1,2,9,10,6,7,11)], goal_cases)
  case (1 t u t' u')
  let ?failed = "\<lambda>x. pending_row podName taskID TaskStatusCompleted x \<and> te_Reason x = Some reason \<and>
    te_Message x = Some message"
  from 1(1) have "list_ex (pending_row podName taskID TaskStatusFailed) (table w)" by (simp split: if_splits)
  then have f: "list_ex ?failed (table w1)" unfolding 1(2)
    by (rule update_where_ex) (simp add: pending_row_def set_failure_def set_completion_def task_status_defs)
  then have "list_ex (pending_row podName taskID TaskStatusCompleted) (table w1)" by (auto simp: list_ex_iff)
  moreover have "list_ex (\<lambda>x. te_PodName x = podName \<and> te_TaskID x = taskID \<and> te_Status x = TaskStatusCompleted \<and>
       te_Reason x = Some reason \<and> te_Message x = Some message) (table w2)"
    using f unfolding 1(4) by (rule update_where_ex) (simp add: pending_row_def set_completion_def)
  moreover have "list_all (\<lambda>x. te_PodName x = podName \<longrightarrow> te_TaskID x = taskID \<longrightarrow>
      te_Status x = TaskStatusCompleted) (table w2)"
    unfolding 1(4) by (rule update_where_all) (auto simp: pending_row_def set_completion_def)
  ultimately show ?case using 1(3) by simp
qed

section \<open>A database in memory\<close>

text \<open>The clock and the table; the updates are run as documented.\<close>

fun arg_string :: "sql_arg \<Rightarrow> string" where
  "arg_string (ArgString s) = s" | "arg_string _ = []"

fun arg_int32 :: "sql_arg \<Rightarrow> int32" where
  "arg_int32 (ArgInt32 i) = i" | "arg_int32 _ = 0"

fun arg_int :: "sql_arg \<Rightarrow> int64" where
  "arg_int (ArgInt i) = i" | "arg_int _ = 0"

fun arg_secs :: "sql_arg \<Rightarrow> int" where
  "arg_secs (ArgFloat x) = floor x" | "arg_secs _ = 0"

fun arg_time :: "sql_arg \<Rightarrow> instant" where
  "arg_time (ArgTime t) = t" | "arg_time _ = 0"

definition mem_exec :: "string \<Rightarrow> sql_arg list \<Rightarrow> instant \<times> TaskRecord list \<Rightarrow>
    (error + error + int64) \<times> (instant \<times> TaskRecord list)" where
  "mem_exec q args = (\<lambda>(t, rs).
     let n = length args;
         P = pending_row (arg_string (args ! (n - 3))) (arg_string (args ! (n - 2))) (arg_string (args ! (n - 1)));
         upd = set_completion (arg_int32 (args ! 1)) (arg_secs (args ! 2)) (arg_time (args ! 3)) t (arg_string (args ! 0));
         fail = set_failure (arg_string (args ! 4)) (arg_string (args ! 5)) (arg_int (args ! 6)) (arg_int (args ! 7))
     in (Inr (Inr (of_nat (length (filter P rs)))),
         (t, update_where P (\<lambda>r. if n = 11 then fail (upd r) else upd r) rs)))"

definition mem_sql :: "(unit, TaskRecord, instant \<times> TaskRecord list) sql_api" where
  "mem_sql = \<lparr>sq_Now = (\<lambda>w. (fst w, w)), sq_Sleep = (\<lambda>d w. ((), w)), sq_Open = (\<lambda>c w. (Inr (), w)),
     sq_Ping = (\<lambda>h w. (None, w)), sq_Close = (\<lambda>h w. (None, w)), sq_Exec = (\<lambda>h. mem_exec),
     sq_QueryRow = (\<lambda>h q args w. (Inl sql_ErrNoRows, w)), sq_Query = (\<lambda>h q args w. (Inr ([], None), w)),
     sq_ScanID = (\<lambda>r. Inr (te_ID r)), sq_ScanTask = Inr,
     sq_ScanStats = (\<lambda>r. Inl (PlainError ''scan'')), sq_ScanFailure = (\<lambda>r. Inl (PlainError ''scan''))\<rparr>"

lemma mem_runs_updates: "runs_updates mem_sql h snd"
  by (auto simp: runs_updates_def mem_sql_def mem_exec_def Let_def)

definition mem_record :: TaskRecord where
  "mem_record = \<lparr>te_ID = ''1'', te_TaskID = ''t'', te_TenantID = ''a'', te_PodName = ''p'', te_Namespace = ''ns'',
     te_ContainerID = None, te_Status = TaskStatusRunning, te_ExitCode = None, te_RetryAttempt = 0, te_MaxRetries = 0,
     te_StartedAt = Some 5, te_CompletedAt = None, te_Duration = None, te_Reason = None, te_Message = None,
     te_CreatedAt = 5, te_UpdatedAt = 5\<rparr>"

definition mem_store :: "unit PostgresStore" where
  "mem_store = \<lparr>ps_db = (), ps_closed = False\<rparr>"

lemma mem_whole_seconds: "Duration_Seconds (seconds 2) = of_int 2"
  using Duration_Seconds_whole [of 2] by (simp add: seconds_def)

lemma mem_storable: "storable 0 2 7 [mem_record]" "storable 0 2 7 [mem_record\<lparr>te_Status := s, te_ExitCode := c,
    te_Duration := d, te_CompletedAt := t, te_UpdatedAt := u, te_Reason := a, te_Message := b, te_RetryAttempt := x,
    te_MaxRetries := y\<rparr>]"
  by (simp_all add: storable_def mem_record_def)

lemmas mem_sql_simps = mem_sql_def mem_store_def mem_exec_def Let_def RecordTaskCompletion_def RecordTaskFailure_def run_simps
  completion_args_def failure_args_def update_result_def update_where_def pending_row_def set_completion_def
  set_failure_def mem_record_def task_status_defs


definition mem_failed :: TaskRecord where
  "mem_failed = mem_record\<lparr>te_Status := TaskStatusFailed, te_ExitCode := Some 0, te_Duration := Some 2,
     te_CompletedAt := Some 7, te_UpdatedAt := 7, te_Reason := Some ''OOMKilled'', te_Message := Some ''m'',
     te_RetryAttempt := 0, te_MaxRetries := 3\<rparr>"

lemma mem_failure_run:
  "\<exists>tr. run_state (RecordTaskFailure mem_sql mem_store ''t'' ''p'' ''OOMKilled'' ''m'' 0 (seconds 2) 0 3)
     ((7, [mem_record]), []) = (None, (7, [mem_failed]), tr)"
  using mem_whole_seconds by (simp add: mem_sql_simps mem_failed_def)

theorem failure_overwritten_witness:
  "fst (run_state (RecordTaskCompletion mem_sql mem_store ''t'' ''p'' 0 (seconds 2)) ((7, [mem_failed]), [])) = None"
proof -
  obtain tr1 where fail: "run_state (RecordTaskFailure mem_sql mem_store ''t'' ''p'' ''OOMKilled'' ''m'' 0 (seconds 2) 0 3)
      ((7, [mem_record]), []) = (None, (7, [mem_failed]), tr1)" using mem_failure_run by blast
  obtain r w' tr where run: "run_state (RecordTaskCompletion mem_sql mem_store ''t'' ''p'' 0 (seconds 2))
      ((7, [mem_failed]), []) = (r, w', tr)" by (metis surj_pair)
  have "r = None"
    using failure_overwritten [OF mem_runs_updates _ _ mem_whole_seconds _ _ _ fail _ mem_whole_seconds run] mem_storable
    by (simp add: mem_store_def mem_sql_def storable_failure_def mem_failed_def plain_text_def)
  with run show ?thesis by simp
qed

end
