(* ===== verification/Mock_Scheduler.thy ===== *)
theory Mock_Scheduler
  imports Go_Text Go_Time "HOL-Library.AList"
begin

text \<open>
  The mock of the scheduler (\<open>pkg/mock/scheduler_service.go\<close>). Tasks are objects on a heap, a list in
  which a pointer is an index, since the map of tasks and the goroutines that move a task through
  its states share them: a task whose identifier is submitted again leaves the map but not the
  goroutine. Every method and every section of a goroutine that holds the mutex is one step.
\<close>

section \<open>State\<close>

record Task =
  mt_ID :: string
  mt_TenantID :: string
  mt_Status :: string
  mt_QueuePosition :: int32
  mt_StartedAt :: int64
  mt_CompletedAt :: int64
  mt_ExitCode :: int32
  mt_CPURequest :: string
  mt_MemoryRequest :: string
  mt_PodName :: string
  mt_CreatedAt :: instant

text \<open>Where a goroutine \<open>scheduleTaskTransition\<close> is: in its first or second sleep, or returned.\<close>

datatype transition_stage = Delaying | Executing | Done

text \<open>
  \<open>ss_redis\<close> says that there is a Redis client, \<open>ss_published\<close> collects what it was given to publish, and
  \<open>ss_workers\<close> holds the goroutines with the pointers to their tasks.
\<close>

record SchedulerService =
  ss_delayMS :: int64
  ss_failureRate :: int64
  ss_redis :: bool
  ss_tasks :: "(string \<times> nat) list"
  ss_queueDepth :: int32
  ss_stopped :: bool
  ss_heap :: "Task list"
  ss_workers :: "(nat \<times> transition_stage) list"
  ss_published :: "(string \<times> string) list"

definition NewSchedulerService :: "int64 \<Rightarrow> int64 \<Rightarrow> SchedulerService" where
  "NewSchedulerService delayMS failureRate =
     \<lparr>ss_delayMS = delayMS, ss_failureRate = failureRate, ss_redis = True, ss_tasks = [], ss_queueDepth = 0,
      ss_stopped = False, ss_heap = [], ss_workers = [], ss_published = []\<rparr>"

section \<open>Methods\<close>

text \<open>A request maps keys to values printed by \<open>%v\<close>; a missing key prints as nil.\<close>

definition request_value :: "(string \<rightharpoonup> string) \<Rightarrow> string \<Rightarrow> string" where
  "request_value req k = (case req k of None \<Rightarrow> ''<nil>'' | Some v \<Rightarrow> v)"

definition store_task :: "Task \<Rightarrow> SchedulerService \<Rightarrow> SchedulerService" where
  "store_task t s =
     s\<lparr>ss_heap := ss_heap s @ [t], ss_tasks := AList.update (mt_ID t) (length (ss_heap s)) (ss_tasks s),
       ss_queueDepth := ss_queueDepth s + 1\<rparr>"

record SubmitReply =
  sy_accepted :: bool
  sy_queue_position :: int32
  sy_estimated_start_seconds :: int64
  sy_reason :: string

definition submitted_task :: "SchedulerService \<Rightarrow> instant \<Rightarrow> instant \<Rightarrow> (string \<rightharpoonup> string) \<Rightarrow> Task" where
  "submitted_task s now now' req =
     \<lparr>mt_ID = request_value req ''task_id'', mt_TenantID = request_value req ''tenant_id'', mt_Status = ''Pending'',
      mt_QueuePosition = ss_queueDepth s + 1, mt_StartedAt = 0, mt_CompletedAt = 0, mt_ExitCode = 0,
      mt_CPURequest = request_value req ''cpu_request'', mt_MemoryRequest = request_value req ''memory_request'',
      mt_PodName = request_value req ''task_id'' @ ''-pod-'' @ Itoa (sint (Now_Unix now)), mt_CreatedAt = now'\<rparr>"

definition Service_SubmitTask ::
  "instant \<Rightarrow> instant \<Rightarrow> (string \<rightharpoonup> string) \<Rightarrow> SchedulerService \<Rightarrow> SubmitReply \<times> SchedulerService" where
  "Service_SubmitTask now now' req s =
     (let task = submitted_task s now now' req;
          p = length (ss_heap s);
          s = store_task task s
      in (\<lparr>sy_accepted = True, sy_queue_position = mt_QueuePosition task,
           sy_estimated_start_seconds = go_div (ss_delayMS s) 1000, sy_reason = []\<rparr>,
          s\<lparr>ss_workers := ss_workers s @ [(p, Delaying)]\<rparr>))"

definition find_task :: "SchedulerService \<Rightarrow> string \<Rightarrow> nat option" where
  "find_task s taskID = map_of (ss_tasks s) taskID"

record StatusReply =
  sl_task_id :: string
  sl_status :: string
  sl_pod_name :: string
  sl_started_at :: int64
  sl_completed_at :: int64
  sl_exit_code :: int32

definition task_not_found :: "string \<Rightarrow> error" where
  "task_not_found taskID = PlainError (''task not found: '' @ taskID)"

definition Service_GetTaskStatus :: "SchedulerService \<Rightarrow> string \<Rightarrow> string \<Rightarrow> error + StatusReply" where
  "Service_GetTaskStatus s taskID tenantID =
     (case find_task s taskID of
        None \<Rightarrow> Inl (task_not_found taskID)
      | Some p \<Rightarrow>
          let t = ss_heap s ! p
          in Inr \<lparr>sl_task_id = mt_ID t, sl_status = mt_Status t, sl_pod_name = mt_PodName t,
                  sl_started_at = mt_StartedAt t, sl_completed_at = mt_CompletedAt t, sl_exit_code = mt_ExitCode t\<rparr>)"

text \<open>The message that is published is not escaped.\<close>

definition event_message :: "instant \<Rightarrow> Task \<Rightarrow> string" where
  "event_message now t =
     ''{\"task_id\":\"'' @ mt_ID t @ ''\",\"tenant_id\":\"'' @ mt_TenantID t @ ''\",\"status\":\"'' @ mt_Status t @
     ''\",\"exit_code\":'' @ Itoa (sint (mt_ExitCode t)) @ '',\"timestamp\":'' @ Itoa (sint (Now_Unix now)) @
     '',\"pod_name\":\"'' @ mt_PodName t @ ''\"}''"

definition publishEvent :: "instant \<Rightarrow> string \<Rightarrow> Task \<Rightarrow> SchedulerService \<Rightarrow> SchedulerService" where
  "publishEvent now channel t s =
     (if \<not> ss_redis s then s
      else s\<lparr>ss_published := ss_published s @ [(channel, event_message now t)]\<rparr>)"

definition set_task :: "nat \<Rightarrow> Task \<Rightarrow> SchedulerService \<Rightarrow> SchedulerService" where
  "set_task p t s = s\<lparr>ss_heap := (ss_heap s)[p := t]\<rparr>"

definition Service_CancelTask ::
  "instant \<Rightarrow> instant \<Rightarrow> string \<Rightarrow> string \<Rightarrow> SchedulerService \<Rightarrow> (bool \<times> string) \<times> SchedulerService" where
  "Service_CancelTask now now' taskID tenantID s =
     (case find_task s taskID of
        None \<Rightarrow> ((False, ''task not found''), s)
      | Some p \<Rightarrow>
          let t = ss_heap s ! p
          in if mt_Status t = ''Completed'' \<or> mt_Status t = ''Failed''
             then ((False, ''cannot cancel '' @ mt_Status t @ '' task''), s)
             else let t = t\<lparr>mt_Status := ''Failed'', mt_CompletedAt := Now_Unix now, mt_ExitCode := 137\<rparr>;
                      s = (set_task p t s)\<lparr>ss_queueDepth := ss_queueDepth s - 1\<rparr>
                  in ((True, []), publishEvent now' ''tasks:cancelled'' t s))"

record DepthReply =
  sd_total_queued :: int32
  sd_pending_tasks :: int32
  sd_running_tasks :: int32

definition count_status :: "SchedulerService \<Rightarrow> string \<Rightarrow> nat" where
  "count_status s status = length (filter (\<lambda>(k, p). mt_Status (ss_heap s ! p) = status) (ss_tasks s))"

definition Service_GetQueueDepth :: "SchedulerService \<Rightarrow> DepthReply" where
  "Service_GetQueueDepth s =
     \<lparr>sd_total_queued = ss_queueDepth s, sd_pending_tasks = of_nat (count_status s ''Pending''),
      sd_running_tasks = of_nat (count_status s ''Running'')\<rparr>"

record AllocationReply =
  sa_task_id :: string
  sa_cpu_allocation :: string
  sa_memory_allocation :: string
  sa_node_name :: string

definition GetResourceAllocation :: "SchedulerService \<Rightarrow> string \<Rightarrow> error + AllocationReply" where
  "GetResourceAllocation s taskID =
     (case find_task s taskID of
        None \<Rightarrow> Inl (task_not_found taskID)
      | Some p \<Rightarrow>
          let t = ss_heap s ! p
          in Inr \<lparr>sa_task_id = mt_ID t, sa_cpu_allocation = mt_CPURequest t,
                  sa_memory_allocation = mt_MemoryRequest t, sa_node_name = ''mock-node''\<rparr>)"

definition AddPendingTask :: "instant \<Rightarrow> string \<Rightarrow> SchedulerService \<Rightarrow> SchedulerService" where
  "AddPendingTask now taskID s =
     store_task
       \<lparr>mt_ID = taskID, mt_TenantID = ''system'', mt_Status = ''Pending'', mt_QueuePosition = ss_queueDepth s + 1,
        mt_StartedAt = 0, mt_CompletedAt = 0, mt_ExitCode = 0, mt_CPURequest = [], mt_MemoryRequest = [],
        mt_PodName = taskID @ ''-pod'', mt_CreatedAt = now\<rparr> s"

section \<open>The goroutine of a task\<close>

text \<open>Its two sections under the mutex, the second with a random number below 100.\<close>

definition start_task :: "instant \<Rightarrow> nat \<Rightarrow> SchedulerService \<Rightarrow> SchedulerService" where
  "start_task now p s =
     set_task p ((ss_heap s ! p)\<lparr>mt_Status := ''Running'', mt_StartedAt := Now_Unix now\<rparr>) s"

definition finish_task :: "instant \<Rightarrow> instant \<Rightarrow> nat \<Rightarrow> nat \<Rightarrow> SchedulerService \<Rightarrow> SchedulerService" where
  "finish_task now now' random p s =
     (let shouldFail = 0 < sint (ss_failureRate s) \<and> int random < sint (ss_failureRate s);
          t = (ss_heap s ! p)\<lparr>mt_CompletedAt := Now_Unix now\<rparr>;
          t = (if shouldFail then t\<lparr>mt_Status := ''Failed'', mt_ExitCode := 1\<rparr>
               else t\<lparr>mt_Status := ''Completed'', mt_ExitCode := 0\<rparr>);
          s = publishEvent now' (if shouldFail then ''tasks:failed'' else ''tasks:completed'') t (set_task p t s)
      in s\<lparr>ss_queueDepth := ss_queueDepth s - 1\<rparr>)"

text \<open>Closing a closed channel panics; \<open>close_err\<close> is what the Redis client returns when it is closed.\<close>

definition Service_Close :: "error option \<Rightarrow> SchedulerService \<Rightarrow> (error option \<times> SchedulerService) outcome" where
  "Service_Close close_err s =
     (if ss_stopped s then Panic ''close of closed channel''
      else Return (if ss_redis s then close_err else None, s\<lparr>ss_stopped := True\<rparr>))"

section \<open>The service\<close>

text \<open>
  The handlers of \<open>RegisterSchedulerService\<close>. A request is what the decoder returns; a key that is
  missing reads as the empty string, except in \<open>SubmitTask\<close>.
\<close>

definition struct_id :: "(string \<rightharpoonup> string) \<Rightarrow> string \<Rightarrow> string" where
  "struct_id m k = (case m k of None \<Rightarrow> [] | Some v \<Rightarrow> v)"

datatype scheduler_reply =
    SubmitReplied SubmitReply
  | StatusReplied StatusReply
  | CancelReplied bool string
  | DepthReplied DepthReply

definition handle_SubmitTask ::
  "instant \<Rightarrow> instant \<Rightarrow> error + (string \<rightharpoonup> string) \<Rightarrow> SchedulerService \<Rightarrow> (error + scheduler_reply) \<times> SchedulerService" where
  "handle_SubmitTask now now' dec s =
     (case dec of
        Inl e \<Rightarrow> (Inl e, s)
      | Inr m \<Rightarrow> let (r, s') = Service_SubmitTask now now' m s in (Inr (SubmitReplied r), s'))"

definition handle_GetTaskStatus :: "error + (string \<rightharpoonup> string) \<Rightarrow> SchedulerService \<Rightarrow> error + scheduler_reply" where
  "handle_GetTaskStatus dec s =
     (case dec of
        Inl e \<Rightarrow> Inl e
      | Inr m \<Rightarrow> map_sum id StatusReplied (Service_GetTaskStatus s (struct_id m ''task_id'') (struct_id m ''tenant_id'')))"

definition handle_CancelTask ::
  "instant \<Rightarrow> instant \<Rightarrow> error + (string \<rightharpoonup> string) \<Rightarrow> SchedulerService \<Rightarrow> (error + scheduler_reply) \<times> SchedulerService" where
  "handle_CancelTask now now' dec s =
     (case dec of
        Inl e \<Rightarrow> (Inl e, s)
      | Inr m \<Rightarrow>
          let ((cancelled, reason), s') = Service_CancelTask now now' (struct_id m ''task_id'') (struct_id m ''tenant_id'') s
          in (Inr (CancelReplied cancelled reason), s'))"

definition handle_GetQueueDepth :: "SchedulerService \<Rightarrow> error + scheduler_reply" where
  "handle_GetQueueDepth s = Inr (DepthReplied (Service_GetQueueDepth s))"

section \<open>Steps\<close>

text \<open>
  What can happen to a service, with the readings of the clock: a method is called, or the \<open>i\<close>th
  goroutine enters its next section.
\<close>

datatype scheduler_label =
    LSubmit "string \<rightharpoonup> string"
  | LAdd string
  | LCancel string string bool
  | LStart nat
  | LFinish nat nat

inductive scheduler_step :: "SchedulerService \<Rightarrow> scheduler_label \<Rightarrow> SchedulerService \<Rightarrow> bool" where
  submit: "Service_SubmitTask now now' req s = (r, s') \<Longrightarrow> scheduler_step s (LSubmit req) s'"
| add: "scheduler_step s (LAdd taskID) (AddPendingTask now taskID s)"
| cancel: "Service_CancelTask now now' taskID tenantID s = ((ok, reason), s') \<Longrightarrow>
    scheduler_step s (LCancel taskID tenantID ok) s'"
| start: "i < length (ss_workers s) \<Longrightarrow> ss_workers s ! i = (p, Delaying) \<Longrightarrow>
    scheduler_step s (LStart i) ((start_task now p s)\<lparr>ss_workers := (ss_workers s)[i := (p, Executing)]\<rparr>)"
| finish: "i < length (ss_workers s) \<Longrightarrow> ss_workers s ! i = (p, Executing) \<Longrightarrow> random < 100 \<Longrightarrow>
    scheduler_step s (LFinish i random)
      ((finish_task now now' random p s)\<lparr>ss_workers := (ss_workers s)[i := (p, Done)]\<rparr>)"

inductive_cases submit_stepE: "scheduler_step s (LSubmit req) s'"
inductive_cases add_stepE: "scheduler_step s (LAdd taskID) s'"
inductive_cases cancel_stepE: "scheduler_step s (LCancel taskID tenantID ok) s'"
inductive_cases start_stepE: "scheduler_step s (LStart i) s'"
inductive_cases finish_stepE: "scheduler_step s (LFinish i random) s'"

inductive scheduler_run :: "SchedulerService \<Rightarrow> scheduler_label list \<Rightarrow> SchedulerService \<Rightarrow> bool" where
  none: "scheduler_run s [] s"
| step: "scheduler_run s ls s' \<Longrightarrow> scheduler_step s' l s'' \<Longrightarrow> scheduler_run s (ls @ [l]) s''"

text \<open>The effects of a method on the fields, for the proofs below.\<close>

lemma publishEvent_fields [simp]:
  "ss_tasks (publishEvent now c t s) = ss_tasks s" "ss_heap (publishEvent now c t s) = ss_heap s"
  "ss_queueDepth (publishEvent now c t s) = ss_queueDepth s" "ss_workers (publishEvent now c t s) = ss_workers s"
  "ss_failureRate (publishEvent now c t s) = ss_failureRate s"
  by (simp_all add: publishEvent_def)

lemma set_task_fields [simp]:
  "ss_tasks (set_task p t s) = ss_tasks s" "ss_heap (set_task p t s) = (ss_heap s)[p := t]"
  "ss_queueDepth (set_task p t s) = ss_queueDepth s" "ss_workers (set_task p t s) = ss_workers s"
  "ss_failureRate (set_task p t s) = ss_failureRate s"
  by (simp_all add: set_task_def)

lemma store_task_fields [simp]:
  "ss_tasks (store_task t s) = AList.update (mt_ID t) (length (ss_heap s)) (ss_tasks s)"
  "ss_heap (store_task t s) = ss_heap s @ [t]"
  "ss_queueDepth (store_task t s) = ss_queueDepth s + 1" "ss_workers (store_task t s) = ss_workers s"
  by (simp_all add: store_task_def)

lemmas method_defs = Service_SubmitTask_def submitted_task_def AddPendingTask_def Service_CancelTask_def start_task_def
  finish_task_def Let_def find_task_def

end
