(* ===== verification/Mock_Properties.thy ===== *)
theory Mock_Properties
  imports Mock_Scheduler
begin

text \<open>
  Properties of the mock scheduler over all interleavings of its methods and goroutines: what its queue
  depth counts, that its pointers and states are in order, that the depth agrees with the counted
  states as long as nothing is cancelled or submitted twice, and what a cancellation comes to.
\<close>

section \<open>Well-formed services\<close>

definition task_ok :: "Task \<Rightarrow> bool" where
  "task_ok t \<longleftrightarrow> mt_Status t \<in> {''Pending'', ''Running'', ''Completed'', ''Failed''} \<and>
     (mt_Status t = ''Completed'' \<longrightarrow> mt_ExitCode t = 0) \<and>
     (mt_Status t = ''Failed'' \<longrightarrow> mt_ExitCode t \<in> {1, 137})"

definition service_ok :: "SchedulerService \<Rightarrow> bool" where
  "service_ok s \<longleftrightarrow>
     distinct (map fst (ss_tasks s)) \<and>
     list_all (\<lambda>(k, p). p < length (ss_heap s) \<and> mt_ID (ss_heap s ! p) = k) (ss_tasks s) \<and>
     list_all (\<lambda>(p, st). p < length (ss_heap s)) (ss_workers s) \<and>
     list_all task_ok (ss_heap s)"

lemma all_update: "list_all P xs \<Longrightarrow> P y \<Longrightarrow> list_all P (xs[i := y])"
  by (induction xs arbitrary: i) (auto split: nat.split)

lemma service_ok_set:
  assumes "service_ok s" and "task_ok t" and "mt_ID t = mt_ID (ss_heap s ! p)"
    and "ss_heap s' = (ss_heap s)[p := t]" and "ss_tasks s' = ss_tasks s"
    and "list_all (\<lambda>(p, st). p < length (ss_heap s)) (ss_workers s')"
  shows "service_ok s'"
proof -
  have "list_all task_ok (ss_heap s')"
    using assms(1,2) unfolding assms(4) service_ok_def by (intro all_update) simp_all
  moreover have "mt_ID ((ss_heap s)[p := t] ! q) = mt_ID (ss_heap s ! q)" if "q < length (ss_heap s)" for q
    using that assms(3) by (cases "q = p") simp_all
  ultimately show ?thesis
    using assms(1,6) unfolding service_ok_def assms(4,5) by (auto simp: list_all_iff)
qed

lemma update_entries:
  "(k, v) \<in> set (AList.update a b al) \<Longrightarrow> (k = a \<and> v = b) \<or> (k \<noteq> a \<and> (k, v) \<in> set al)"
  if "distinct (map fst al)" for al :: "('k \<times> 'v) list"
  using that by (induction al) (auto split: if_splits simp: image_iff)

lemma service_ok_store:
  assumes "service_ok s" and "task_ok t"
  shows "service_ok (store_task t s)"
proof -
  have d: "distinct (map fst (ss_tasks s))" using assms(1) by (simp add: service_ok_def)
  have "list_all (\<lambda>(k, p). p < Suc (length (ss_heap s)) \<and> mt_ID ((ss_heap s @ [t]) ! p) = k)
      (AList.update (mt_ID t) (length (ss_heap s)) (ss_tasks s))"
    using assms(1) by (auto simp: list_all_iff service_ok_def nth_append dest!: update_entries [OF d])
  then show ?thesis
    using assms d by (auto simp: service_ok_def distinct_update list_all_iff)
qed

lemma service_ok_workers:
  "service_ok s \<Longrightarrow> list_all (\<lambda>(p, st). p < length (ss_heap s)) ws \<Longrightarrow> service_ok (s\<lparr>ss_workers := ws\<rparr>)"
  by (simp add: service_ok_def)

lemma find_task_ok:
  "service_ok s \<Longrightarrow> find_task s k = Some p \<Longrightarrow> p < length (ss_heap s) \<and> mt_ID (ss_heap s ! p) = k"
  by (auto simp: service_ok_def find_task_def list_all_iff dest!: map_of_SomeD)

lemma cancel_ok:
  assumes cancel: "Service_CancelTask now now' taskID tenantID s = (r, s')" and ok: "service_ok s"
  shows "service_ok s'"
proof (cases "find_task s taskID")
  case (Some p)
  let ?t = "(ss_heap s ! p)\<lparr>mt_Status := ''Failed'', mt_CompletedAt := Now_Unix now, mt_ExitCode := 137\<rparr>"
  from cancel Some consider "s' = s" | "ss_heap s' = (ss_heap s)[p := ?t]" "ss_tasks s' = ss_tasks s"
    "ss_workers s' = ss_workers s"
    by (auto simp: Service_CancelTask_def Let_def split: if_splits)
  then show ?thesis
  proof cases
    case 2
    moreover have "list_all (\<lambda>(p, st). p < length (ss_heap s)) (ss_workers s)" using ok by (simp add: service_ok_def)
    ultimately show ?thesis by (intro service_ok_set [OF ok, of ?t p]) (simp_all add: task_ok_def)
  qed (simp add: ok)
next
  case None
  with cancel have "s' = s" by (simp add: Service_CancelTask_def)
  with ok show ?thesis by simp
qed

lemma step_ok:
  assumes "scheduler_step s l s'" and "service_ok s"
  shows "service_ok s'"
proof -
  have workers: "list_all (\<lambda>(p, st). p < length (ss_heap s)) (ss_workers s)"
    using assms(2) by (simp add: service_ok_def)
  then have worker_pointer: "p < length (ss_heap s)" if "i < length (ss_workers s)" "ss_workers s ! i = (p, st)" for i p st
    using that by (auto simp: list_all_length dest!: spec [of _ i])
  from assms(1) show ?thesis
  proof cases
    case (submit now now' req r)
    then have s': "s' = (store_task (submitted_task s now now' req) s)
        \<lparr>ss_workers := ss_workers s @ [(length (ss_heap s), Delaying)]\<rparr>"
      by (simp add: Service_SubmitTask_def Let_def)
    have "service_ok (store_task (submitted_task s now now' req) s)"
      using assms(2) by (rule service_ok_store) (simp add: task_ok_def submitted_task_def)
    then show ?thesis unfolding s'
      by (rule service_ok_workers) (use assms(2) in \<open>auto simp: service_ok_def list_all_iff\<close>)
  next
    case (add taskID now)
    then show ?thesis using assms(2)
      by (auto simp: AddPendingTask_def task_ok_def intro!: service_ok_store)
  next
    case (cancel now now' taskID tenantID ok reason)
    with assms(2) show ?thesis by (blast intro: cancel_ok)
  next
    case (start i p now)
    then have "p < length (ss_heap s)" using worker_pointer by simp
    with start show ?thesis
      by (intro service_ok_set [OF assms(2), of "(ss_heap s ! p)\<lparr>mt_Status := ''Running'', mt_StartedAt := Now_Unix now\<rparr>" p])
        (simp_all add: start_task_def task_ok_def workers all_update)
  next
    case (finish i p random now now')
    define t where "t = ss_heap s' ! p"
    from finish have p: "p < length (ss_heap s)" using worker_pointer by simp
    with finish t_def have "ss_heap s' = (ss_heap s)[p := t]" "task_ok t" "mt_ID t = mt_ID (ss_heap s ! p)"
      by (auto simp: finish_task_def Let_def task_ok_def)
    with finish p show ?thesis
      by (intro service_ok_set [OF assms(2), of t p]) (simp_all add: finish_task_def Let_def workers all_update)
  qed
qed

lemma run_invariant:
  assumes "scheduler_run s ls s'" and "I s" and "\<And>s l s'. scheduler_step s l s' \<Longrightarrow> I s \<Longrightarrow> I s'"
  shows "I s'"
  using assms by induction auto

lemma new_service_ok: "service_ok (NewSchedulerService d f)"
  by (simp add: service_ok_def NewSchedulerService_def)

text \<open>C37. In every reachable state of the mock scheduler, all pointers of its map and of its goroutines are
  valid, a task is stored under its own identifier, and every task is in one of the four states,
  with exit code 0 when completed and 1 or 137 when failed.\<close>

theorem mock_scheduler_type:
  assumes "scheduler_run (NewSchedulerService delayMS failureRate) ls s"
  shows "service_ok s"
  using assms new_service_ok step_ok by (rule run_invariant)

section \<open>The queue depth\<close>

definition live_workers :: "SchedulerService \<Rightarrow> nat" where
  "live_workers s = length (filter (\<lambda>(p, st). st \<noteq> Done) (ss_workers s))"

fun is_add :: "scheduler_label \<Rightarrow> bool" where
  "is_add (LAdd taskID) = True" | "is_add _ = False"

fun is_cancel :: "scheduler_label \<Rightarrow> bool" where
  "is_cancel (LCancel taskID tenantID ok) = ok" | "is_cancel _ = False"

lemma length_filter_update:
  "i < length xs \<Longrightarrow>
   length (filter P (xs[i := y])) + (if P (xs ! i) then 1 else 0) = length (filter P xs) + (if P y then 1 else 0)"
proof (induction xs arbitrary: i)
  case (Cons x xs)
  show ?case
  proof (cases i)
    case (Suc j)
    with Cons.prems Cons.IH [of j] show ?thesis by simp
  qed simp
qed simp

lemma live_start:
  "i < length ws \<Longrightarrow> ws ! i = (p, Delaying) \<Longrightarrow>
   length (filter (\<lambda>(p, st). st \<noteq> Done) (ws[i := (p, Executing)])) = length (filter (\<lambda>(p, st). st \<noteq> Done) ws)"
  using length_filter_update [of i ws "\<lambda>(p, st). st \<noteq> Done" "(p, Executing)"] by simp

lemma live_finish:
  assumes "i < length ws" and "ws ! i = (p, Executing)"
  shows "(of_nat (length (filter (\<lambda>(p, st). st \<noteq> Done) (ws[i := (p, Done)]))) :: int32) =
    of_nat (length (filter (\<lambda>(p, st). st \<noteq> Done) ws)) - 1"
proof -
  have "length (filter (\<lambda>(p, st). st \<noteq> Done) ws) = Suc (length (filter (\<lambda>(p, st). st \<noteq> Done) (ws[i := (p, Done)])))"
    using assms length_filter_update [of i ws "\<lambda>(p, st). st \<noteq> Done" "(p, Done)"] by simp
  then show ?thesis by simp
qed

lemma cancel_depth:
  "Service_CancelTask now now' taskID tenantID s = ((ok, reason), s') \<Longrightarrow>
   ss_queueDepth s' = ss_queueDepth s - (if ok then 1 else 0) \<and> ss_workers s' = ss_workers s"
  by (auto simp: Service_CancelTask_def Let_def split: option.splits if_splits)

text \<open>The depth without the goroutines that count in it.\<close>

definition surplus :: "SchedulerService \<Rightarrow> int32" where
  "surplus s = ss_queueDepth s - of_nat (live_workers s)"

lemma surplus_new: "surplus (NewSchedulerService delayMS failureRate) = 0"
  by (simp add: surplus_def live_workers_def NewSchedulerService_def)

lemma step_surplus:
  assumes "scheduler_step s l s'"
  shows "surplus s' = surplus s + (if is_add l then 1 else 0) - (if is_cancel l then 1 else 0)"
  using assms
proof cases
  case (submit now now' req r)
  then show ?thesis by (auto simp: surplus_def live_workers_def Service_SubmitTask_def Let_def)
next
  case (add taskID now)
  then show ?thesis by (simp add: surplus_def live_workers_def AddPendingTask_def)
next
  case (cancel now now' taskID tenantID ok reason)
  then show ?thesis using cancel_depth [OF cancel(2)] by (simp add: surplus_def live_workers_def)
next
  case (start i p now)
  then show ?thesis by (simp add: surplus_def live_workers_def start_task_def live_start)
next
  case (finish i p random now now')
  then show ?thesis by (simp add: surplus_def live_workers_def finish_task_def Let_def live_finish)
qed

text \<open>C23. The queue depth of the mock scheduler counts, modulo the width of its type, the goroutines that have not
  finished, plus the tasks that were only added, minus the cancellations that were granted,
  whatever the interleaving. A granted cancellation is thus counted twice once its goroutine finishes.\<close>

theorem mock_depth_accounting:
  assumes "scheduler_run (NewSchedulerService delayMS failureRate) ls s"
  shows "ss_queueDepth s =
    of_nat (live_workers s) + of_nat (length (filter is_add ls)) - of_nat (length (filter is_cancel ls))"
proof -
  have "surplus s = of_nat (length (filter is_add ls)) - of_nat (length (filter is_cancel ls))"
    using assms
    by (induction "NewSchedulerService delayMS failureRate" ls s rule: scheduler_run.induct)
      (simp_all add: step_surplus surplus_new)
  then show ?thesis by (simp add: surplus_def algebra_simps)
qed

section \<open>Depth and counted states\<close>

text \<open>Steps that neither cancel nor reuse an identifier.\<close>

fun fresh_label :: "SchedulerService \<Rightarrow> scheduler_label \<Rightarrow> bool" where
  "fresh_label s (LSubmit req) \<longleftrightarrow> request_value req ''task_id'' \<notin> fst ` set (ss_tasks s)"
| "fresh_label s (LAdd taskID) \<longleftrightarrow> taskID \<notin> fst ` set (ss_tasks s)"
| "fresh_label s (LCancel taskID tenantID ok) \<longleftrightarrow> \<not> ok"
| "fresh_label s _ \<longleftrightarrow> True"

definition is_live :: "Task \<Rightarrow> bool" where
  "is_live t \<longleftrightarrow> mt_Status t = ''Pending'' \<or> mt_Status t = ''Running''"

text \<open>
  Then the map holds every task once, a goroutine knows the state of its task, no two goroutines share
  one, and the depth is the number of tasks that are pending or running.
\<close>

fun stage_status :: "transition_stage \<Rightarrow> string set" where
  "stage_status Delaying = {''Pending''}"
| "stage_status Executing = {''Running''}"
| "stage_status Done = {''Completed'', ''Failed''}"

fun stage_ok :: "Task list \<Rightarrow> nat \<times> transition_stage \<Rightarrow> bool" where
  "stage_ok h (p, st) \<longleftrightarrow> p < length h \<and> mt_Status (h ! p) \<in> stage_status st"

definition counted :: "SchedulerService \<Rightarrow> bool" where
  "counted s \<longleftrightarrow>
     map snd (ss_tasks s) = [0..<length (ss_heap s)] \<and>
     distinct (map fst (ss_workers s)) \<and>
     list_all (stage_ok (ss_heap s)) (ss_workers s) \<and>
     ss_queueDepth s = of_nat (length (filter is_live (ss_heap s)))"

lemma update_fresh: "k \<notin> fst ` set al \<Longrightarrow> AList.update k v al = al @ [(k, v)]"
  by (induction al) auto

lemma counted_store:
  assumes "counted s" and "mt_ID t \<notin> fst ` set (ss_tasks s)" and "mt_Status t = ''Pending''"
  shows "counted (store_task t s)"
  using assms by (auto simp: counted_def update_fresh is_live_def nth_append list_all_iff)

lemma counted_worker:
  assumes "counted s" and "mt_Status (ss_heap s ! p) = ''Pending''" and "p < length (ss_heap s)"
    and "p \<notin> fst ` set (ss_workers s)"
  shows "counted (s\<lparr>ss_workers := ss_workers s @ [(p, Delaying)]\<rparr>)"
  using assms by (auto simp: counted_def)

lemma counted_set:
  assumes "counted s" and i: "i < length (ss_workers s)" "ss_workers s ! i = (p, st)"
    and "mt_Status t \<in> stage_status st'"
    and s': "ss_heap s' = (ss_heap s)[p := t]" "ss_tasks s' = ss_tasks s" "ss_workers s' = (ss_workers s)[i := (p, st')]"
    and depth: "ss_queueDepth s' = of_nat (length (filter is_live (ss_heap s')))"
  shows "counted s'"
proof -
  have d: "distinct (map fst (ss_workers s))" using assms(1) by (simp add: counted_def)
  have fst: "map fst ((ss_workers s)[i := (p, st')]) = map fst (ss_workers s)"
    using i by (metis fst_conv list_update_id map_update)
  have other: "fst (ss_workers s ! j) \<noteq> p" if "j < length (ss_workers s)" "j \<noteq> i" for j
    using d i that by (metis fst_conv length_map nth_eq_iff_index_eq nth_map)
  have ok: "stage_ok (ss_heap s) (ss_workers s ! j)" if "j < length (ss_workers s)" for j
    using assms(1) that by (simp add: counted_def list_all_length)
  have "stage_ok ((ss_heap s)[p := t]) ((ss_workers s)[i := (p, st')] ! j)" if "j < length (ss_workers s)" for j
    using ok [OF that] ok [OF i(1)] i other [OF that] assms(4)
    by (cases "j = i"; cases "ss_workers s ! j") simp_all
  then have "list_all (stage_ok ((ss_heap s)[p := t])) ((ss_workers s)[i := (p, st')])"
    by (simp add: list_all_length)
  then show ?thesis using assms(1) d depth fst unfolding counted_def s' by simp
qed

lemma counted_workers_bound: "counted s \<Longrightarrow> p \<in> fst ` set (ss_workers s) \<Longrightarrow> p < length (ss_heap s)"
  by (auto simp: counted_def list_all_iff)

lemma counted_stage:
  "counted s \<Longrightarrow> i < length (ss_workers s) \<Longrightarrow> ss_workers s ! i = (p, st) \<Longrightarrow>
   p < length (ss_heap s) \<and> mt_Status (ss_heap s ! p) \<in> stage_status st"
  by (auto simp: counted_def list_all_length dest!: spec [of _ i])

lemma live_start_task:
  assumes "p < length h" and "is_live (h ! p)" and "is_live t"
  shows "length (filter is_live (h[p := t])) = length (filter is_live h)"
  using assms length_filter_update [of p h is_live t] by simp

lemma live_finish_task:
  assumes "p < length h" and "is_live (h ! p)" and "\<not> is_live t"
  shows "(of_nat (length (filter is_live (h[p := t]))) :: int32) = of_nat (length (filter is_live h)) - 1"
proof -
  have "length (filter is_live h) = Suc (length (filter is_live (h[p := t])))"
    using assms length_filter_update [of p h is_live t] by simp
  then show ?thesis by simp
qed

lemma step_counted:
  assumes "scheduler_step s l s'" and "fresh_label s l" and "counted s"
  shows "counted s'"
  using assms(1)
proof cases
  case (submit now now' req r)
  let ?t = "submitted_task s now now' req"
  have "counted (store_task ?t s)"
    using assms(2,3) submit by (intro counted_store) (simp_all add: submitted_task_def)
  moreover have "length (ss_heap s) \<notin> fst ` set (ss_workers s)" using counted_workers_bound [OF assms(3)] by blast
  ultimately have "counted ((store_task ?t s)\<lparr>ss_workers := ss_workers (store_task ?t s) @ [(length (ss_heap s), Delaying)]\<rparr>)"
    by (intro counted_worker) (simp_all add: submitted_task_def)
  with submit show ?thesis by (simp add: Service_SubmitTask_def Let_def)
next
  case (add taskID now)
  with assms(2,3) show ?thesis
    unfolding add AddPendingTask_def by (intro counted_store) simp_all
next
  case (cancel now now' taskID tenantID ok reason)
  with assms(2) have "s' = s" by (auto simp: Service_CancelTask_def Let_def split: option.splits if_splits)
  with assms(3) show ?thesis by simp
next
  case (start i p now)
  let ?t = "(ss_heap s ! p)\<lparr>mt_Status := ''Running'', mt_StartedAt := Now_Unix now\<rparr>"
  from counted_stage [OF assms(3) start(3,4)] assms(3) live_start_task [of p "ss_heap s" ?t] show ?thesis
    by (intro counted_set [OF assms(3) start(3,4), of ?t Executing])
      (simp_all add: start start_task_def is_live_def counted_def)
next
  case (finish i p random now now')
  define t where "t = ss_heap s' ! p"
  from counted_stage [OF assms(3) finish(3,4)] have p: "p < length (ss_heap s)" "is_live (ss_heap s ! p)"
    by (simp_all add: is_live_def)
  with finish t_def have heap: "ss_heap s' = (ss_heap s)[p := t]" and t: "mt_Status t \<in> {''Completed'', ''Failed''}"
    by (auto simp: finish_task_def Let_def)
  then have "\<not> is_live t" by (auto simp: is_live_def)
  with live_finish_task [OF p] assms(3) finish heap have
    "ss_queueDepth s' = of_nat (length (filter is_live (ss_heap s')))"
    by (simp add: finish_task_def Let_def counted_def)
  with heap t finish show ?thesis
    by (intro counted_set [OF assms(3) finish(3,4), of t Done]) (simp_all add: finish_task_def Let_def)
qed

inductive fresh_run :: "SchedulerService \<Rightarrow> scheduler_label list \<Rightarrow> SchedulerService \<Rightarrow> bool" where
  none: "fresh_run s [] s"
| step: "fresh_run s ls s' \<Longrightarrow> scheduler_step s' l s'' \<Longrightarrow> fresh_label s' l \<Longrightarrow> fresh_run s (ls @ [l]) s''"

lemma filter_indices: "length (filter (\<lambda>p. P (xs ! p)) [0..<length xs]) = length (filter P xs)"
proof -
  have "filter P xs = filter P (map ((!) xs) [0..<length xs])" by (simp add: map_nth)
  then show ?thesis by (simp add: filter_map comp_def)
qed

lemma counted_status: "counted s \<Longrightarrow> count_status s st = length (filter (\<lambda>t. mt_Status t = st) (ss_heap s))"
proof -
  assume "counted s"
  then have "map snd (ss_tasks s) = [0..<length (ss_heap s)]" by (simp add: counted_def)
  moreover have "count_status s st = length (filter (\<lambda>p. mt_Status (ss_heap s ! p) = st) (map snd (ss_tasks s)))"
    by (simp add: count_status_def filter_map comp_def case_prod_unfold)
  ultimately show ?thesis
    using filter_indices [of "\<lambda>t. mt_Status t = st" "ss_heap s"] by (simp only:)
qed

lemma count_live: "length (filter is_live h) =
    length (filter (\<lambda>t. mt_Status t = ''Pending'') h) + length (filter (\<lambda>t. mt_Status t = ''Running'') h)"
  by (induction h) (auto simp: is_live_def)

lemma fresh_counted:
  assumes "fresh_run (NewSchedulerService delayMS failureRate) ls s"
  shows "counted s"
proof -
  have "counted (NewSchedulerService delayMS failureRate)" by (simp add: counted_def NewSchedulerService_def)
  with assms show ?thesis by induction (auto intro: step_counted)
qed

lemma counted_depth:
  "counted s \<Longrightarrow> sd_total_queued (Service_GetQueueDepth s) =
    sd_pending_tasks (Service_GetQueueDepth s) + sd_running_tasks (Service_GetQueueDepth s)"
  by (simp add: Service_GetQueueDepth_def counted_status) (simp add: counted_def count_live)

text \<open>As long as no cancellation is granted and no identifier is used twice, the total that \<open>GetQueueDepth\<close>
  of the mock scheduler reports is the sum of its pending and running tasks, whatever the order in
  which its methods and goroutines run.\<close>

theorem mock_depth_counts_tasks:
  assumes "fresh_run (NewSchedulerService delayMS failureRate) ls s"
  shows "sd_total_queued (Service_GetQueueDepth s) =
    sd_pending_tasks (Service_GetQueueDepth s) + sd_running_tasks (Service_GetQueueDepth s)"
  using assms by (intro counted_depth fresh_counted)

section \<open>Cancellation\<close>

text \<open>A cancellation that the mock scheduler grants while the task waits does not last: the goroutine of the
  task still puts it to Running, with exit code 137, and then, with no failures configured, to
  Completed with exit code 0, and the queue depth has gone down by two for one task.\<close>

theorem cancelled_task_completes:
  assumes "service_ok s" and "i < length (ss_workers s)" and "ss_workers s ! i = (p, Delaying)"
    and "find_task s taskID = Some p" and "sint (ss_failureRate s) \<le> 0"
    and "Service_CancelTask now now' taskID tenantID s = ((True, reason), s1)"
    and "scheduler_step s1 (LStart i) s2" and "scheduler_step s2 (LFinish i random) s3"
  shows "mt_Status (ss_heap s1 ! p) = ''Failed'' \<and>
    mt_Status (ss_heap s2 ! p) = ''Running'' \<and> mt_ExitCode (ss_heap s2 ! p) = 137 \<and>
    mt_Status (ss_heap s3 ! p) = ''Completed'' \<and> mt_ExitCode (ss_heap s3 ! p) = 0 \<and>
    ss_queueDepth s3 = ss_queueDepth s - 2"
proof -
  have p: "p < length (ss_heap s)" using find_task_ok [OF assms(1,4)] by simp
  let ?t = "(ss_heap s ! p)\<lparr>mt_Status := ''Failed'', mt_CompletedAt := Now_Unix now, mt_ExitCode := 137\<rparr>"
  from assms(4,6) have s1: "ss_heap s1 = (ss_heap s)[p := ?t]" "ss_workers s1 = ss_workers s"
    "ss_queueDepth s1 = ss_queueDepth s - 1" "ss_failureRate s1 = ss_failureRate s"
    by (auto simp: Service_CancelTask_def Let_def split: if_splits)
  from assms(7) obtain now1 where s2: "ss_heap s2 = (ss_heap s1)[p := ?t\<lparr>mt_Status := ''Running'', mt_StartedAt := Now_Unix now1\<rparr>]"
    "ss_workers s2 = (ss_workers s)[i := (p, Executing)]" "ss_queueDepth s2 = ss_queueDepth s - 1"
    "ss_failureRate s2 = ss_failureRate s"
    by (rule start_stepE) (use assms(3) p s1 in \<open>auto simp: start_task_def\<close>)
  from assms(8) have "mt_Status (ss_heap s3 ! p) = ''Completed'' \<and> mt_ExitCode (ss_heap s3 ! p) = 0 \<and>
      ss_queueDepth s3 = ss_queueDepth s2 - 1"
    by (rule finish_stepE) (use assms(2,5) p s1(1) s2 in \<open>auto simp: finish_task_def Let_def\<close>)
  with p s1 s2 show ?thesis by simp
qed

section \<open>Witnesses\<close>

definition one_request :: "string \<rightharpoonup> string" where
  "one_request = [''task_id'' \<mapsto> ''t'', ''tenant_id'' \<mapsto> ''a'']"

definition after_submit :: SchedulerService where
  "after_submit = snd (Service_SubmitTask 0 0 one_request (NewSchedulerService 100 0))"

lemma one_step: "scheduler_step (NewSchedulerService 100 0) (LSubmit one_request) after_submit"
  unfolding after_submit_def by (rule scheduler_step.submit [OF prod.collapse [symmetric]])

lemma one_run: "scheduler_run (NewSchedulerService 100 0) [LSubmit one_request] after_submit"
  using scheduler_run.step [OF scheduler_run.none one_step] by simp

lemma one_fresh: "fresh_run (NewSchedulerService 100 0) [LSubmit one_request] after_submit"
  using fresh_run.step [OF fresh_run.none one_step] by (simp add: NewSchedulerService_def)

theorem mock_scheduler_type_witness: "service_ok after_submit"
  by (rule mock_scheduler_type [OF one_run])

lemmas after_submit_simps = after_submit_def one_request_def Service_SubmitTask_def submitted_task_def
  NewSchedulerService_def Let_def request_value_def store_task_def

theorem mock_depth_accounting_witness: "ss_queueDepth after_submit = 1"
  using mock_depth_accounting [OF one_run] by (simp add: live_workers_def after_submit_simps)

theorem mock_depth_counts_tasks_witness:
  "sd_pending_tasks (Service_GetQueueDepth after_submit) + sd_running_tasks (Service_GetQueueDepth after_submit) = 1"
  using mock_depth_counts_tasks [OF one_fresh] by (simp add: Service_GetQueueDepth_def after_submit_simps)

theorem cancelled_task_completes_witness:
  "\<exists>s :: SchedulerService. mt_Status (ss_heap s ! 0) = ''Completed'' \<and> ss_queueDepth s = - 1"
proof -
  define s1 where "s1 = snd (Service_CancelTask 0 0 ''t'' ''a'' after_submit)"
  define s2 where "s2 = (start_task 0 0 s1)\<lparr>ss_workers := (ss_workers s1)[0 := (0, Executing)]\<rparr>"
  define s3 where "s3 = (finish_task 0 0 0 0 s2)\<lparr>ss_workers := (ss_workers s2)[0 := (0, Done)]\<rparr>"
  have ok: "service_ok after_submit" by (rule run_invariant [where I = service_ok, OF one_run new_service_ok step_ok])
  have cancel: "Service_CancelTask 0 0 ''t'' ''a'' after_submit = ((True, []), s1)"
    unfolding s1_def by (simp add: Service_CancelTask_def find_task_def after_submit_simps)
  have ws: "ss_workers s1 = [(0, Delaying)]"
    using cancel_depth [OF cancel] by (simp add: after_submit_simps)
  have start: "scheduler_step s1 (LStart 0) s2"
    unfolding s2_def by (rule scheduler_step.start) (simp_all add: ws)
  have finish: "scheduler_step s2 (LFinish 0 0) s3"
    unfolding s3_def by (rule scheduler_step.finish) (simp_all add: s2_def ws)
  have "mt_Status (ss_heap s3 ! 0) = ''Completed'' \<and> ss_queueDepth s3 = ss_queueDepth after_submit - 2"
    using cancelled_task_completes [OF ok _ _ _ _ cancel start finish, of 0]
    by (simp add: find_task_def after_submit_simps)
  moreover have "ss_queueDepth after_submit = 1" by (simp add: after_submit_simps)
  ultimately show ?thesis by (intro exI [of _ s3]) simp
qed

end
