(* ===== verification/Redis_PubSub.thy ===== *)
theory Redis_PubSub
  imports Rate_Limiter
begin

text \<open>
  Publishing the events of tasks (\<open>pkg/pubsub/redis_pubsub.go\<close>, \<open>types.go\<close>) to Redis and to subscribers in
  the process. The lists of subscribers are slices, and a slice shares its array with the slices it
  was cut from, which a publication that is under way can observe; so arrays are explicit. A Go
  channel is its buffer, with its capacity, with no receiver waiting. Redis, the JSON encoder and the clock are parameters.
\<close>

section \<open>Events\<close>

definition ChannelTaskCompleted :: string where "ChannelTaskCompleted = ''tasks:completed''"
definition ChannelTaskFailed :: string where "ChannelTaskFailed = ''tasks:failed''"
definition ChannelScalingEvent :: string where "ChannelScalingEvent = ''scaling:event''"
definition ChannelPodStateChange :: string where "ChannelPodStateChange = ''pods:state-change''"

record TaskCompletionEvent =
  ce_EventType :: string
  ce_TaskID :: string
  ce_PodName :: string
  ce_Namespace :: string
  ce_TenantID :: string
  ce_ExitCode :: int32
  ce_DurationMs :: int64
  ce_Timestamp :: instant

record TaskFailureEvent =
  fe_EventType :: string
  fe_TaskID :: string
  fe_PodName :: string
  fe_Namespace :: string
  fe_TenantID :: string
  fe_Reason :: string
  fe_Message :: string
  fe_ExitCode :: int32
  fe_DurationMs :: int64
  fe_Timestamp :: instant
  fe_RetryAttempt :: int64
  fe_MaxRetries :: int64

record ScalingEvent =
  se_EventType :: string
  se_ScalingAction :: string
  se_Namespace :: string
  se_DeploymentName :: string
  se_CurrentReplicas :: int32
  se_DesiredReplicas :: int32
  se_Metric :: string
  se_MetricValue :: rat
  se_Threshold :: rat
  se_Timestamp :: instant
  se_Reason :: string

record PodStateChangeEvent =
  pe_EventType :: string
  pe_PodName :: string
  pe_Namespace :: string
  pe_TaskID :: string
  pe_OldState :: string
  pe_NewState :: string
  pe_StateReason :: string
  pe_Timestamp :: instant
  pe_ContainerID :: string
  pe_RestartCount :: int32

record QueueDepthEvent =
  qe_EventType :: string
  qe_TenantID :: string
  qe_Depth :: int64
  qe_Timestamp :: instant

datatype message =
    CompletionMessage TaskCompletionEvent
  | FailureMessage TaskFailureEvent
  | ScalingMessage ScalingEvent
  | PodMessage PodStateChangeEvent
  | DepthMessage QueueDepthEvent

section \<open>Go channels\<close>

type_synonym chan = nat

record chan_state =
  cn_buf :: "message list"
  cn_cap :: nat
  cn_closed :: bool

type_synonym chans = "chan \<Rightarrow> chan_state"

text \<open>
  The context of a publication: its error at the \<open>i\<close>th subscriber if it is done by then, and whether
  the \<open>select\<close>, which picks any case that is ready, then picks that one.
\<close>

record pub_context =
  cx_Err :: "nat \<Rightarrow> error option"
  cx_pick :: "nat \<Rightarrow> bool"

section \<open>Slices\<close>

text \<open>A slice has an array and a length; the capacity is the length of the array.\<close>

datatype chan_slice = Slice (sl_arr: nat) (sl_len: nat)

record 'c RedisPubSub =
  rp_client :: 'c
  rp_addr :: string
  rp_password :: string
  rp_closed :: bool
  rp_reconnectCount :: int64
  rp_subscribers :: "string \<rightharpoonup> chan_slice"
  rp_arrays :: "chan list list"

definition slice_list :: "chan list list \<Rightarrow> chan_slice \<Rightarrow> chan list" where
  "slice_list arrays s = take (sl_len s) (arrays ! sl_arr s)"

text \<open>
  \<open>append(s, x)\<close> writes in place when there is room, and else copies to a new array, whose capacity for
  \<open>n\<close> elements is \<open>grow n\<close>; unused cells are nil.
\<close>

definition append_slice :: "(nat \<Rightarrow> nat) \<Rightarrow> chan list list \<Rightarrow> chan_slice \<Rightarrow> chan \<Rightarrow> chan_slice \<times> chan list list" where
  "append_slice grow arrays s x =
     (let a = sl_arr s; n = sl_len s
      in if n < length (arrays ! a) then (Slice a (Suc n), arrays[a := (arrays ! a)[n := x]])
         else (Slice (length arrays) (Suc n),
               arrays @ [slice_list arrays s @ [x] @ replicate (grow (Suc n) - Suc n) 0]))"

text \<open>\<open>append(s[:i], s[i+1:]...)\<close> always has room and shifts the elements behind \<open>i\<close> down in place.\<close>

definition delete_slice :: "chan list list \<Rightarrow> chan_slice \<Rightarrow> nat \<Rightarrow> chan_slice \<times> chan list list" where
  "delete_slice arrays s i =
     (let a = sl_arr s; n = sl_len s; xs = arrays ! a
      in (Slice a (n - 1), arrays[a := take i xs @ drop (Suc i) (take n xs) @ drop (n - 1) xs]))"

section \<open>Redis\<close>

record ('c, 'w) redis_client =
  rc_Now :: "'w \<Rightarrow> instant \<times> 'w"
  rc_NewClient :: "string \<Rightarrow> string \<Rightarrow> 'w \<Rightarrow> 'c \<times> 'w"
  rc_Ping :: "'c \<Rightarrow> 'w \<Rightarrow> error option \<times> 'w"
  rc_Publish :: "'c \<Rightarrow> string \<Rightarrow> string \<Rightarrow> 'w \<Rightarrow> error option \<times> 'w"
  rc_Set :: "'c \<Rightarrow> string \<Rightarrow> string \<Rightarrow> duration \<Rightarrow> 'w \<Rightarrow> error option \<times> 'w"
  rc_Get :: "'c \<Rightarrow> string \<Rightarrow> ('w, string option) io"
  rc_Close :: "'c \<Rightarrow> 'w \<Rightarrow> error option \<times> 'w"
  rc_Marshal :: "message \<Rightarrow> error + string"

datatype redis_event =
    PublishEvent string string
  | SetEvent string string
  | GetEvent string
  | CloseClientEvent

section \<open>The client\<close>

definition NewRedisPubSub ::
  "('c, 'w) redis_client \<Rightarrow> string \<Rightarrow> string \<Rightarrow> ('w, redis_event, error + 'c RedisPubSub) act" where
  "NewRedisPubSub rc addr password =
     do {
       client \<leftarrow> silent (rc_NewClient rc addr password);
       r \<leftarrow> silent (rc_Ping rc client);
       State_Monad.return (case r of
         Some e \<Rightarrow> Inl (WrapError (''failed to connect to Redis at '' @ addr) e)
       | None \<Rightarrow> Inr \<lparr>rp_client = client, rp_addr = addr, rp_password = password, rp_closed = False,
                      rp_reconnectCount = 0, rp_subscribers = Map.empty, rp_arrays = []\<rparr>)
     }"

text \<open>
  The loop over the subscribers from the \<open>i\<close>th on. A subscriber whose channel has no room is passed
  over; the loop ends when the context is done and that case is picked; a send on a closed
  channel panics.
\<close>

definition can_send :: "chan_state \<Rightarrow> bool" where
  "can_send c \<longleftrightarrow> cn_closed c \<or> length (cn_buf c) < cn_cap c"

definition send :: "message \<Rightarrow> chan_state \<Rightarrow> chan_state" where
  "send m c = c\<lparr>cn_buf := cn_buf c @ [m]\<rparr>"

fun notify :: "pub_context \<Rightarrow> nat \<Rightarrow> chan list \<Rightarrow> message \<Rightarrow> chans \<Rightarrow> error option outcome \<times> chans" where
  "notify cx i [] m st = (Return None, st)"
| "notify cx i (c # cs) m st =
     (case cx_Err cx i of
        Some e \<Rightarrow>
          (if \<not> can_send (st c) \<or> cx_pick cx i then (Return (Some e), st)
           else if cn_closed (st c) then (Panic ''send on closed channel'', st)
           else notify cx (Suc i) cs m (st(c := send m (st c))))
      | None \<Rightarrow>
          (if \<not> can_send (st c) then notify cx (Suc i) cs m st
           else if cn_closed (st c) then (Panic ''send on closed channel'', st)
           else notify cx (Suc i) cs m (st(c := send m (st c)))))"

definition subscribers_of :: "'c RedisPubSub \<Rightarrow> string \<Rightarrow> chan list" where
  "subscribers_of rp channel =
     (case rp_subscribers rp channel of None \<Rightarrow> [] | Some s \<Rightarrow> slice_list (rp_arrays rp) s)"

definition publish ::
  "('c, 'w) redis_client \<Rightarrow> 'c RedisPubSub \<Rightarrow> pub_context \<Rightarrow> string \<Rightarrow> message \<Rightarrow> chans \<Rightarrow>
   ('w, redis_event, error option outcome \<times> chans) act" where
  "publish rc rp cx channel m st =
     (if rp_closed rp then State_Monad.return (Return (Some (PlainError ''pubsub client is closed'')), st)
      else case rc_Marshal rc m of
        Inl e \<Rightarrow> State_Monad.return (Return (Some (WrapError ''failed to marshal event'' e)), st)
      | Inr json \<Rightarrow> do {
          r \<leftarrow> logged (rc_Publish rc (rp_client rp) channel json) (\<lambda>_. PublishEvent channel json);
          State_Monad.return (case r of
            Some e \<Rightarrow> (Return (Some (WrapError (''failed to publish to '' @ channel) e)), st)
          | None \<Rightarrow> notify cx 0 (subscribers_of rp channel) m st)
        })"

definition PublishTaskCompletion ::
  "('c, 'w) redis_client \<Rightarrow> 'c RedisPubSub \<Rightarrow> pub_context \<Rightarrow> string \<Rightarrow> string \<Rightarrow> string \<Rightarrow> string \<Rightarrow> int32 \<Rightarrow> duration \<Rightarrow>
   chans \<Rightarrow> ('w, redis_event, error option outcome \<times> chans) act" where
  "PublishTaskCompletion rc rp cx taskID podName namespace tenantID exitCode dur st =
     do {
       now \<leftarrow> silent (rc_Now rc);
       publish rc rp cx ChannelTaskCompleted (CompletionMessage
         \<lparr>ce_EventType = ''task.completed'', ce_TaskID = taskID, ce_PodName = podName, ce_Namespace = namespace,
          ce_TenantID = tenantID, ce_ExitCode = exitCode, ce_DurationMs = Milliseconds dur, ce_Timestamp = now\<rparr>) st
     }"

definition PublishTaskFailure ::
  "('c, 'w) redis_client \<Rightarrow> 'c RedisPubSub \<Rightarrow> pub_context \<Rightarrow> string \<Rightarrow> string \<Rightarrow> string \<Rightarrow> string \<Rightarrow> string \<Rightarrow> string \<Rightarrow>
   int32 \<Rightarrow> duration \<Rightarrow> int64 \<Rightarrow> int64 \<Rightarrow> chans \<Rightarrow> ('w, redis_event, error option outcome \<times> chans) act" where
  "PublishTaskFailure rc rp cx taskID podName namespace tenantID reason msg exitCode dur retryAttempt maxRetries st =
     do {
       now \<leftarrow> silent (rc_Now rc);
       publish rc rp cx ChannelTaskFailed (FailureMessage
         \<lparr>fe_EventType = ''task.failed'', fe_TaskID = taskID, fe_PodName = podName, fe_Namespace = namespace,
          fe_TenantID = tenantID, fe_Reason = reason, fe_Message = msg, fe_ExitCode = exitCode,
          fe_DurationMs = Milliseconds dur, fe_Timestamp = now, fe_RetryAttempt = retryAttempt,
          fe_MaxRetries = maxRetries\<rparr>) st
     }"

definition PublishScalingEvent ::
  "('c, 'w) redis_client \<Rightarrow> 'c RedisPubSub \<Rightarrow> pub_context \<Rightarrow> ScalingEvent \<Rightarrow> chans \<Rightarrow>
   ('w, redis_event, error option outcome \<times> chans) act" where
  "PublishScalingEvent rc rp cx event st =
     do {
       now \<leftarrow> (if se_Timestamp event = 0 then silent (rc_Now rc) else State_Monad.return (se_Timestamp event));
       publish rc rp cx ChannelScalingEvent
         (ScalingMessage (event\<lparr>se_EventType := ''scaling.event'', se_Timestamp := now\<rparr>)) st
     }"

definition PublishPodStateChange ::
  "('c, 'w) redis_client \<Rightarrow> 'c RedisPubSub \<Rightarrow> pub_context \<Rightarrow> PodStateChangeEvent \<Rightarrow> chans \<Rightarrow>
   ('w, redis_event, error option outcome \<times> chans) act" where
  "PublishPodStateChange rc rp cx event st =
     do {
       now \<leftarrow> (if pe_Timestamp event = 0 then silent (rc_Now rc) else State_Monad.return (pe_Timestamp event));
       publish rc rp cx ChannelPodStateChange
         (PodMessage (event\<lparr>pe_EventType := ''pod.state_change'', pe_Timestamp := now\<rparr>)) st
     }"

definition depth_key :: "string \<Rightarrow> string" where
  "depth_key tenantID = ''queue:depth:'' @ tenantID"

definition PubSub_PublishQueueDepth ::
  "('c, 'w) redis_client \<Rightarrow> 'c RedisPubSub \<Rightarrow> pub_context \<Rightarrow> string \<Rightarrow> int64 \<Rightarrow> chans \<Rightarrow>
   ('w, redis_event, error option outcome \<times> chans) act" where
  "PubSub_PublishQueueDepth rc rp cx tenantID depth st =
     do {
       now \<leftarrow> silent (rc_Now rc);
       r \<leftarrow> logged (rc_Set rc (rp_client rp) (depth_key tenantID) (Itoa (sint depth)) (seconds 300))
              (\<lambda>_. SetEvent (depth_key tenantID) (Itoa (sint depth)));
       case r of
         Some e \<Rightarrow> State_Monad.return (Return (Some (WrapError ''failed to set queue depth'' e)), st)
       | None \<Rightarrow> publish rc rp cx ''queue:depth''
           (DepthMessage \<lparr>qe_EventType = ''queue.depth'', qe_TenantID = tenantID, qe_Depth = depth, qe_Timestamp = now\<rparr>) st
     }"

text \<open>A missing key, which the library reports as an error of its own, counts as depth 0.\<close>

definition PubSub_GetCurrentQueueDepth ::
  "('c, 'w) redis_client \<Rightarrow> 'c RedisPubSub \<Rightarrow> string \<Rightarrow> ('w, redis_event, error + int64) act" where
  "PubSub_GetCurrentQueueDepth rc rp tenantID =
     do {
       r \<leftarrow> logged (rc_Get rc (rp_client rp) (depth_key tenantID)) (\<lambda>_. GetEvent (depth_key tenantID));
       State_Monad.return (case (case r of Inl e \<Rightarrow> Inl e | Inr v \<Rightarrow> reply_Int64 v) of
         Inl e \<Rightarrow> Inl (WrapError ''failed to get queue depth'' e)
       | Inr depth \<Rightarrow> Inr depth)
     }"

definition Subscribe :: "(nat \<Rightarrow> nat) \<Rightarrow> string \<Rightarrow> chan \<Rightarrow> 'c RedisPubSub \<Rightarrow> 'c RedisPubSub" where
  "Subscribe grow channel ch rp =
     (let (s, arrays) = (case rp_subscribers rp channel of
            None \<Rightarrow> (Slice (length (rp_arrays rp)) 0, rp_arrays rp @ [[]])
          | Some s \<Rightarrow> (s, rp_arrays rp));
          (s, arrays) = append_slice grow arrays s ch
      in rp\<lparr>rp_subscribers := (rp_subscribers rp)(channel \<mapsto> s), rp_arrays := arrays\<rparr>)"

fun index_of :: "'a \<Rightarrow> 'a list \<Rightarrow> nat option" where
  "index_of x [] = None"
| "index_of x (y # ys) = (if y = x then Some 0 else map_option Suc (index_of x ys))"

definition Unsubscribe :: "string \<Rightarrow> chan \<Rightarrow> 'c RedisPubSub \<Rightarrow> 'c RedisPubSub" where
  "Unsubscribe channel ch rp =
     (case rp_subscribers rp channel of
        None \<Rightarrow> rp
      | Some subs \<Rightarrow>
          (case index_of ch (slice_list (rp_arrays rp) subs) of
             None \<Rightarrow> rp
           | Some i \<Rightarrow>
               let (s, arrays) = delete_slice (rp_arrays rp) subs i
               in rp\<lparr>rp_subscribers := (rp_subscribers rp)(channel \<mapsto> s), rp_arrays := arrays\<rparr>))"

definition SetAddress ::
  "('c, 'w) redis_client \<Rightarrow> string \<Rightarrow> 'c RedisPubSub \<Rightarrow> ('w, redis_event, 'c RedisPubSub) act" where
  "SetAddress rc addr rp =
     do {
       logged (rc_Close rc (rp_client rp)) (\<lambda>_. CloseClientEvent);
       client \<leftarrow> silent (rc_NewClient rc addr (rp_password rp));
       State_Monad.return (rp\<lparr>rp_addr := addr, rp_reconnectCount := rp_reconnectCount rp + 1, rp_client := client\<rparr>)
     }"

definition GetReconnectCount :: "'c RedisPubSub \<Rightarrow> int64" where
  "GetReconnectCount rp = rp_reconnectCount rp"

definition PubSub_Close ::
  "('c, 'w) redis_client \<Rightarrow> 'c RedisPubSub \<Rightarrow> ('w, redis_event, error option \<times> 'c RedisPubSub) act" where
  "PubSub_Close rc rp =
     (if rp_closed rp then State_Monad.return (None, rp)
      else do {
        r \<leftarrow> logged (rc_Close rc (rp_client rp)) (\<lambda>_. CloseClientEvent);
        State_Monad.return (r, rp\<lparr>rp_closed := True\<rparr>)
      })"

end
