(* ===== verification/PubSub_Properties.thy ===== *)
theory PubSub_Properties
  imports Redis_PubSub
begin

text \<open>
  Properties of publishing: what each subscriber receives, that slices of subscribers behave as lists
  between two operations, what a publication under way sees of an unsubscription, and that a queue
  depth is read back as it was published.
\<close>

section \<open>Delivery\<close>

text \<open>What \<open>k\<close> sends without a receiver do to a channel: it takes what it has room for.\<close>

definition offered :: "message \<Rightarrow> nat \<Rightarrow> chan_state \<Rightarrow> chan_state" where
  "offered m k c = c\<lparr>cn_buf := cn_buf c @ replicate (min k (cn_cap c - length (cn_buf c))) m\<rparr>"

lemma offered_0 [simp]: "offered m 0 c = c"
  by (simp add: offered_def)

lemma offered_Suc:
  "offered m (Suc k) c = offered m k (if length (cn_buf c) < cn_cap c then send m c else c)"
  by (cases "cn_cap c - length (cn_buf c)") (auto simp: offered_def send_def min_def)

lemma offered_closed [simp]: "cn_closed (offered m k c) = cn_closed c"
  by (simp add: offered_def)

lemma notify_live:
  assumes "\<And>j. cx_Err cx j = None" and "\<And>c. c \<in> set cs \<Longrightarrow> \<not> cn_closed (st c)"
  shows "notify cx i cs m st = (Return None, \<lambda>c. offered m (count_list cs c) (st c))"
  using assms(2)
proof (induction cs arbitrary: i st)
  case (Cons c cs)
  let ?st = "if length (cn_buf (st c)) < cn_cap (st c) then st(c := send m (st c)) else st"
  have "notify cx i (c # cs) m st = notify cx (Suc i) cs m ?st"
    using Cons.prems [of c] by (simp add: assms(1) can_send_def)
  also have "\<dots> = (Return None, \<lambda>x. offered m (count_list cs x) (?st x))"
    using Cons.prems by (intro Cons.IH) (auto simp: send_def)
  also have "(\<lambda>x. offered m (count_list cs x) (?st x)) = (\<lambda>x. offered m (count_list (c # cs) x) (st x))"
    by (auto simp: offered_Suc)
  finally show ?case .
qed simp

text \<open>C25. With a context that is not done and subscribers whose channels are open, \<open>publish\<close> to an open client
  never blocks: after Redis accepted the message, it goes once per subscription to every
  channel as long as that has room, is dropped for a full one, no other channel changes, and no
  error is returned. When Redis refuses it, no subscriber receives it.\<close>

theorem publish_delivers:
  assumes "\<not> rp_closed rp" and "rc_Marshal rc m = Inr json" and "\<forall>j. cx_Err cx j = None"
    and "\<forall>c \<in> set (subscribers_of rp channel). \<not> cn_closed (st c)"
    and "rc_Publish rc (rp_client rp) channel json w = (r, w')"
  shows "run_state (publish rc rp cx channel m st) (w, tr) =
    ((case r of
        None \<Rightarrow> (Return None, \<lambda>c. offered m (count_list (subscribers_of rp channel) c) (st c))
      | Some e \<Rightarrow> (Return (Some (WrapError (''failed to publish to '' @ channel) e)), st)),
     (w', tr @ [PublishEvent channel json]))"
  using assms notify_live [of cx "subscribers_of rp channel" st]
  by (simp add: publish_def run_simps split: option.split)

section \<open>Slices as lists\<close>

definition pubsub_ok :: "'c RedisPubSub \<Rightarrow> bool" where
  "pubsub_ok rp \<longleftrightarrow>
     (\<forall>channel s. rp_subscribers rp channel = Some s \<longrightarrow>
        sl_arr s < length (rp_arrays rp) \<and> sl_len s \<le> length (rp_arrays rp ! sl_arr s)) \<and>
     (\<forall>a b s t. rp_subscribers rp a = Some s \<longrightarrow> rp_subscribers rp b = Some t \<longrightarrow> sl_arr s = sl_arr t \<longrightarrow> a = b)"

lemma index_of_None: "index_of x xs = None \<Longrightarrow> remove1 x xs = xs"
  by (induction xs) (auto split: if_splits)

lemma index_of_Some:
  "index_of x xs = Some i \<Longrightarrow> i < length xs \<and> remove1 x xs = take i xs @ drop (Suc i) xs"
  by (induction xs arbitrary: i) (auto split: if_splits)

text \<open>An operation that moves one slice and writes to its array only.\<close>

lemma move_slice:
  assumes ok: "pubsub_ok rp" and rp': "rp_subscribers rp' = (rp_subscribers rp)(channel \<mapsto> s')"
    and len: "length (rp_arrays rp) \<le> length (rp_arrays rp')"
    and same: "\<And>a. a < length (rp_arrays rp) \<Longrightarrow> a \<noteq> sl_arr s' \<Longrightarrow> rp_arrays rp' ! a = rp_arrays rp ! a"
    and s': "sl_arr s' < length (rp_arrays rp')" "sl_len s' \<le> length (rp_arrays rp' ! sl_arr s')"
    and own: "\<And>b t. b \<noteq> channel \<Longrightarrow> rp_subscribers rp b = Some t \<Longrightarrow> sl_arr t \<noteq> sl_arr s'"
  shows "pubsub_ok rp'" and "subscribers_of rp' = (subscribers_of rp)(channel := slice_list (rp_arrays rp') s')"
proof -
  have other: "sl_arr t < length (rp_arrays rp)" "rp_arrays rp' ! sl_arr t = rp_arrays rp ! sl_arr t"
    if "b \<noteq> channel" "rp_subscribers rp b = Some t" for b t
    using ok own [OF that] same [of "sl_arr t"] that(2) unfolding pubsub_ok_def by blast+
  have "sl_arr t < length (rp_arrays rp') \<and> sl_len t \<le> length (rp_arrays rp' ! sl_arr t)"
    if "rp_subscribers rp' b = Some t" for b t
    using that other [of b t] ok len s' unfolding pubsub_ok_def rp' by (cases "b = channel") force+
  moreover have "a = b"
    if "rp_subscribers rp' a = Some s" "rp_subscribers rp' b = Some t" "sl_arr s = sl_arr t" for a b s t
  proof (rule ccontr)
    assume "a \<noteq> b"
    with that own [of a s] own [of b t] ok show False
      unfolding pubsub_ok_def rp' by (auto split: if_splits)
  qed
  ultimately show "pubsub_ok rp'" unfolding pubsub_ok_def by blast
  show "subscribers_of rp' = (subscribers_of rp)(channel := slice_list (rp_arrays rp') s')"
  proof
    fix b
    show "subscribers_of rp' b = ((subscribers_of rp)(channel := slice_list (rp_arrays rp') s')) b"
      using other(2) [of b] by (auto simp: subscribers_of_def rp' slice_list_def split: option.split)
  qed
qed

lemma append_slice_spec:
  assumes "append_slice grow arrays s x = (s', arrays')"
    and "sl_arr s < length arrays" and "sl_len s \<le> length (arrays ! sl_arr s)"
  shows "slice_list arrays' s' = slice_list arrays s @ [x]"
    and "sl_arr s' = sl_arr s \<or> sl_arr s' = length arrays"
    and "length arrays \<le> length arrays'" and "sl_arr s' < length arrays'"
    and "sl_len s' \<le> length (arrays' ! sl_arr s')"
    and "\<And>a. a < length arrays \<Longrightarrow> a \<noteq> sl_arr s' \<Longrightarrow> arrays' ! a = arrays ! a"
  using assms
  by (auto simp: append_slice_def Let_def slice_list_def nth_append take_Suc_conv_app_nth split: if_splits)

lemma delete_slice_spec:
  assumes "delete_slice arrays s i = (s', arrays')" and "i < length (slice_list arrays s)" and "sl_arr s < length arrays"
    and "sl_len s \<le> length (arrays ! sl_arr s)"
  shows "slice_list arrays' s' = take i (slice_list arrays s) @ drop (Suc i) (slice_list arrays s)"
    and "slice_list arrays' s =
      take i (slice_list arrays s) @ drop (Suc i) (slice_list arrays s) @ [last (slice_list arrays s)]"
    and "sl_arr s' = sl_arr s" and "length arrays' = length arrays"
    and "sl_len s' \<le> length (arrays' ! sl_arr s')"
    and "\<And>a. a \<noteq> sl_arr s' \<Longrightarrow> arrays' ! a = arrays ! a"
proof -
  let ?xs = "arrays ! sl_arr s"
  from assms(2) have "i < sl_len s" by (simp add: slice_list_def)
  then obtain m where n: "sl_len s = Suc m" and i: "i \<le> m" by (cases "sl_len s") auto
  with assms(4) have m: "m < length ?xs" by simp
  have cell: "drop m ?xs = ?xs ! m # drop (Suc m) ?xs" using m by (simp add: Cons_nth_drop_Suc)
  have whole: "slice_list arrays s = take m ?xs @ [?xs ! m]"
    using m by (simp add: slice_list_def n take_Suc_conv_app_nth)
  have def: "s' = Slice (sl_arr s) m"
    "arrays' = arrays[sl_arr s := take i ?xs @ drop (Suc i) (take (Suc m) ?xs) @ drop m ?xs]"
    using assms(1) by (auto simp: delete_slice_def Let_def n)
  have len: "length (take i ?xs @ drop (Suc i) (take (Suc m) ?xs)) = m" using i m by simp
  show "slice_list arrays' s' = take i (slice_list arrays s) @ drop (Suc i) (slice_list arrays s)"
    using i m assms(3) len by (simp add: def slice_list_def n min_def)
  show "slice_list arrays' s = take i (slice_list arrays s) @ drop (Suc i) (slice_list arrays s) @ [last (slice_list arrays s)]"
    using i m assms(3) len unfolding whole by (simp add: def(2) slice_list_def n cell take_Suc_conv_app_nth min_def)
  show "sl_arr s' = sl_arr s" "length arrays' = length arrays" "\<And>a. a \<noteq> sl_arr s' \<Longrightarrow> arrays' ! a = arrays ! a"
    by (simp_all add: def)
  show "sl_len s' \<le> length (arrays' ! sl_arr s')" using i m assms(3) by (simp add: def)
qed

lemma pubsub_okD:
  assumes "pubsub_ok rp" and "rp_subscribers rp channel = Some s"
  shows "sl_arr s < length (rp_arrays rp)" and "sl_len s \<le> length (rp_arrays rp ! sl_arr s)"
    and "\<And>b t. b \<noteq> channel \<Longrightarrow> rp_subscribers rp b = Some t \<Longrightarrow> sl_arr t \<noteq> sl_arr s \<and> sl_arr t < length (rp_arrays rp)"
  using assms unfolding pubsub_ok_def by blast+

lemma Subscribe_spec:
  assumes "pubsub_ok rp"
  shows "pubsub_ok (Subscribe grow channel ch rp) \<and>
    subscribers_of (Subscribe grow channel ch rp) = (subscribers_of rp)(channel := subscribers_of rp channel @ [ch])"
proof (cases "rp_subscribers rp channel")
  case None
  let ?n = "length (rp_arrays rp)"
  obtain s' arrays' where app: "append_slice grow (rp_arrays rp @ [[]]) (Slice ?n 0) ch = (s', arrays')"
    by (cases "append_slice grow (rp_arrays rp @ [[]]) (Slice ?n 0) ch")
  have rp': "Subscribe grow channel ch rp =
      rp\<lparr>rp_subscribers := (rp_subscribers rp)(channel \<mapsto> s'), rp_arrays := arrays'\<rparr>"
    using None app by (simp add: Subscribe_def)
  have bounds: "sl_arr t < ?n" if "rp_subscribers rp b = Some t" for b t
    using assms that unfolding pubsub_ok_def by blast
  note spec = append_slice_spec [OF app]
  from spec(1) have "slice_list arrays' s' = subscribers_of rp channel @ [ch]"
    using None by (simp add: slice_list_def subscribers_of_def)
  moreover have n: "?n \<le> sl_arr s'" using spec(2) by auto
  have "pubsub_ok (Subscribe grow channel ch rp) \<and> subscribers_of (Subscribe grow channel ch rp) =
      (subscribers_of rp)(channel := slice_list (rp_arrays (Subscribe grow channel ch rp)) s')"
    using spec(3-5) spec(6) n bounds
    by (intro conjI move_slice [OF assms]; simp add: rp' nth_append; fastforce)
  ultimately show ?thesis by (simp add: rp')
next
  case (Some s)
  obtain s' arrays' where app: "append_slice grow (rp_arrays rp) s ch = (s', arrays')"
    by (cases "append_slice grow (rp_arrays rp) s ch")
  have rp': "Subscribe grow channel ch rp =
      rp\<lparr>rp_subscribers := (rp_subscribers rp)(channel \<mapsto> s'), rp_arrays := arrays'\<rparr>"
    using Some app by (simp add: Subscribe_def)
  note s = pubsub_okD [OF assms Some] and spec = append_slice_spec [OF app pubsub_okD(1,2) [OF assms Some]]
  have "slice_list arrays' s' = subscribers_of rp channel @ [ch]"
    using Some spec(1) by (simp add: subscribers_of_def)
  moreover have "pubsub_ok (Subscribe grow channel ch rp) \<and> subscribers_of (Subscribe grow channel ch rp) =
      (subscribers_of rp)(channel := slice_list (rp_arrays (Subscribe grow channel ch rp)) s')"
    using spec(2-6) s(3) by (intro conjI move_slice [OF assms]; simp add: rp'; fastforce)
  ultimately show ?thesis by (simp add: rp')
qed

lemma Unsubscribe_spec:
  assumes "pubsub_ok rp"
  shows "pubsub_ok (Unsubscribe channel ch rp) \<and>
    subscribers_of (Unsubscribe channel ch rp) = (subscribers_of rp)(channel := remove1 ch (subscribers_of rp channel))"
proof (cases "rp_subscribers rp channel")
  case None
  with assms show ?thesis by (auto simp: Unsubscribe_def subscribers_of_def)
next
  case (Some s)
  then have subs: "subscribers_of rp channel = slice_list (rp_arrays rp) s" by (simp add: subscribers_of_def)
  show ?thesis
  proof (cases "index_of ch (slice_list (rp_arrays rp) s)")
    case None
    with assms Some show ?thesis by (auto simp: Unsubscribe_def subs index_of_None)
  next
    case i: (Some i)
    obtain s' arrays' where del: "delete_slice (rp_arrays rp) s i = (s', arrays')"
      by (cases "delete_slice (rp_arrays rp) s i")
    have rp': "Unsubscribe channel ch rp =
        rp\<lparr>rp_subscribers := (rp_subscribers rp)(channel \<mapsto> s'), rp_arrays := arrays'\<rparr>"
      using Some i del by (simp add: Unsubscribe_def)
    note s = pubsub_okD [OF assms Some]
      and spec = delete_slice_spec [OF del index_of_Some [OF i, THEN conjunct1] pubsub_okD(1,2) [OF assms Some]]
    have "slice_list arrays' s' = remove1 ch (subscribers_of rp channel)"
      using spec(1) index_of_Some [OF i] by (simp add: subs)
    moreover have "pubsub_ok (Unsubscribe channel ch rp) \<and> subscribers_of (Unsubscribe channel ch rp) =
        (subscribers_of rp)(channel := slice_list (rp_arrays (Unsubscribe channel ch rp)) s')"
      using spec(5) by (intro conjI move_slice [OF assms]) (auto simp: rp' spec(3,4,6) s(1) dest: s(3))
    ultimately show ?thesis by (simp add: rp')
  qed
qed

lemma index_of_member: "x \<in> set xs \<Longrightarrow> \<exists>i. index_of x xs = Some i"
  by (induction xs) auto

text \<open>C24. Between operations, the slices of subscribers, arrays shared and written in place, behave as lists:
  \<open>Subscribe\<close> appends a channel to the subscribers of its topic and \<open>Unsubscribe\<close> removes its first
  occurrence; no other topic is affected, and both keep the arrays of topics apart.\<close>

theorem subscriptions_refine_lists:
  assumes "pubsub_ok rp"
  shows "pubsub_ok (Subscribe grow channel ch rp) \<and>
    subscribers_of (Subscribe grow channel ch rp) = (subscribers_of rp)(channel := subscribers_of rp channel @ [ch]) \<and>
    pubsub_ok (Unsubscribe channel ch rp) \<and>
    subscribers_of (Unsubscribe channel ch rp) =
      (subscribers_of rp)(channel := remove1 ch (subscribers_of rp channel))"
  using Subscribe_spec [OF assms] Unsubscribe_spec [OF assms] by blast

section \<open>Unsubscribing during a publication\<close>

text \<open>A publication under way keeps the slice it read, but not its contents: when a subscriber unsubscribes
  then, the loop goes on over the shifted array, in which the last subscriber stands twice. If
  the first of at least three subscribers unsubscribes after its turn, the message thus passes over
  the second subscriber and is offered twice to the last one.\<close>

theorem unsubscribe_during_publish:
  assumes "pubsub_ok rp" and "rp_subscribers rp channel = Some subs" and "ch \<in> set (slice_list (rp_arrays rp) subs)"
  shows "slice_list (rp_arrays (Unsubscribe channel ch rp)) subs =
      remove1 ch (subscribers_of rp channel) @ [last (subscribers_of rp channel)] \<and>
    (\<forall>second rest. subscribers_of rp channel = ch # second # rest \<longrightarrow> rest \<noteq> [] \<longrightarrow>
      drop 1 (slice_list (rp_arrays (Unsubscribe channel ch rp)) subs) = rest @ [last rest])"
proof -
  have subs: "subscribers_of rp channel = slice_list (rp_arrays rp) subs"
    using assms(2) by (simp add: subscribers_of_def)
  obtain i where i: "index_of ch (slice_list (rp_arrays rp) subs) = Some i"
    using index_of_member [OF assms(3)] by blast
  obtain s' arrays' where del: "delete_slice (rp_arrays rp) subs i = (s', arrays')"
    by (cases "delete_slice (rp_arrays rp) subs i")
  have "slice_list arrays' subs = remove1 ch (subscribers_of rp channel) @ [last (subscribers_of rp channel)]"
    using delete_slice_spec(2) [OF del index_of_Some [OF i, THEN conjunct1] pubsub_okD(1,2) [OF assms(1,2)]]
      index_of_Some [OF i] by (simp add: subs)
  moreover have "rp_arrays (Unsubscribe channel ch rp) = arrays'"
    using assms(2) i del by (simp add: Unsubscribe_def)
  ultimately show ?thesis by auto
qed

section \<open>Queue depths\<close>

text \<open>A server that keeps what is set, as long as it has not expired.\<close>

definition stores_keys :: "('c, 'w) redis_client \<Rightarrow> 'c \<Rightarrow> ('w \<Rightarrow> string \<rightharpoonup> string) \<Rightarrow> bool" where
  "stores_keys rc client store \<longleftrightarrow>
     (\<forall>w. store (snd (rc_Now rc w)) = store w) \<and>
     (\<forall>k v d w. fst (rc_Set rc client k v d w) = None \<and> store (snd (rc_Set rc client k v d w)) = (store w)(k \<mapsto> v)) \<and>
     (\<forall>k w. fst (rc_Get rc client k w) = Inr (store w k)) \<and>
     (\<forall>channel m w. store (snd (rc_Publish rc client channel m w)) = store w)"

lemma stores_keysD:
  assumes "stores_keys rc client store"
  shows "rc_Now rc w = (t, w1) \<Longrightarrow> store w1 = store w"
    and "rc_Set rc client k v d w = (e, w2) \<Longrightarrow> e = None \<and> store w2 = (store w)(k \<mapsto> v)"
    and "rc_Publish rc client channel m w = (e, w3) \<Longrightarrow> store w3 = store w"
  using assms unfolding stores_keys_def by (metis fst_conv snd_conv)+

lemma publish_keeps_keys:
  assumes "stores_keys rc (rp_client rp) store"
    and "run_state (publish rc rp cx channel m st) (w, tr) = (x, w', tr')"
  shows "store w' = store w"
  using assms(2) stores_keysD(3) [OF assms(1)]
  by (auto simp: publish_def run_simps split: if_splits sum.splits prod.splits)

lemma publish_depth_keys:
  assumes "stores_keys rc (rp_client rp) store"
    and "run_state (PubSub_PublishQueueDepth rc rp cx tenantID depth st) (w, tr) = (x, w', tr')"
  shows "store w' = (store w)(depth_key tenantID \<mapsto> Itoa (sint depth))"
proof -
  obtain t w1 where now: "rc_Now rc w = (t, w1)" by (cases "rc_Now rc w")
  obtain e w2 where set: "rc_Set rc (rp_client rp) (depth_key tenantID) (Itoa (sint depth)) (seconds 300) w1 = (e, w2)"
    by (cases "rc_Set rc (rp_client rp) (depth_key tenantID) (Itoa (sint depth)) (seconds 300) w1")
  note keys = stores_keysD(1) [OF assms(1) now] stores_keysD(2) [OF assms(1) set]
  from assms(2) keys(2) have "store w' = store w2"
    by (intro publish_keeps_keys [OF assms(1)]) (simp add: PubSub_PublishQueueDepth_def run_simps now set)
  with keys show ?thesis by simp
qed

lemma get_depth_run:
  assumes "stores_keys rc (rp_client rp) store"
  shows "fst (run_state (PubSub_GetCurrentQueueDepth rc rp tenantID) (w, tr)) =
    (case reply_Int64 (store w (depth_key tenantID)) of
       Inl e \<Rightarrow> Inl (WrapError ''failed to get queue depth'' e) | Inr d \<Rightarrow> Inr d)"
proof -
  obtain w' where "rc_Get rc (rp_client rp) (depth_key tenantID) w = (Inr (store w (depth_key tenantID)), w')"
    using assms unfolding stores_keys_def by (metis prod.collapse)
  then show ?thesis by (simp add: PubSub_GetCurrentQueueDepth_def run_simps)
qed

lemma reply_Int64_Itoa: "reply_Int64 (Some (Itoa (sint d))) = Inr d"
  using Atoi_Itoa [of "sint d"] sint_range_64 [of d] by (simp add: reply_Int64_def Atoi_def)

text \<open>A queue depth is read back as it was published, for every 64-bit value, as long as Redis keeps the key;
  the depths of other tenants are read as before.\<close>

theorem queue_depth_roundtrip:
  assumes "stores_keys rc (rp_client rp) store"
    and "run_state (PubSub_PublishQueueDepth rc rp cx tenantID depth st) (w, tr) = (x, w', tr')"
  shows "fst (run_state (PubSub_GetCurrentQueueDepth rc rp other) (w', tr')) =
    (if other = tenantID then Inr depth else fst (run_state (PubSub_GetCurrentQueueDepth rc rp other) (w, tr)))"
  by (simp add: get_depth_run [OF assms(1)] publish_depth_keys [OF assms] depth_key_def reply_Int64_Itoa)

section \<open>A server in memory\<close>

definition mem_pub :: "(unit, string \<rightharpoonup> string) redis_client" where
  "mem_pub = \<lparr>rc_Now = (\<lambda>w. (1, w)), rc_NewClient = (\<lambda>a p w. ((), w)), rc_Ping = (\<lambda>c w. (None, w)),
     rc_Publish = (\<lambda>c ch m w. (None, w)), rc_Set = (\<lambda>c k v d w. (None, w(k \<mapsto> v))),
     rc_Get = (\<lambda>c k w. (Inr (w k), w)), rc_Close = (\<lambda>c w. (None, w)), rc_Marshal = (\<lambda>m. Inr ''{}'')\<rparr>"

definition mem_pubsub :: "unit RedisPubSub" where
  "mem_pubsub = \<lparr>rp_client = (), rp_addr = ''a'', rp_password = [], rp_closed = False, rp_reconnectCount = 0,
     rp_subscribers = [''tasks:failed'' \<mapsto> Slice 0 3], rp_arrays = [[5, 6, 7, 0]]\<rparr>"

definition live_context :: pub_context where
  "live_context = \<lparr>cx_Err = (\<lambda>i. None), cx_pick = (\<lambda>i. True)\<rparr>"

definition empty_chan :: chan_state where
  "empty_chan = \<lparr>cn_buf = [], cn_cap = 1, cn_closed = False\<rparr>"

definition depth_message :: message where
  "depth_message = DepthMessage \<lparr>qe_EventType = ''queue.depth'', qe_TenantID = ''t'', qe_Depth = 4, qe_Timestamp = 1\<rparr>"

lemma mem_pubsub_ok: "pubsub_ok mem_pubsub"
  by (auto simp: pubsub_ok_def mem_pubsub_def split: if_splits)

lemma mem_subscribers:
  "rp_subscribers mem_pubsub ''tasks:failed'' = Some (Slice 0 3)"
  "slice_list (rp_arrays mem_pubsub) (Slice 0 3) = [5, 6, 7]"
  "subscribers_of mem_pubsub ''tasks:failed'' = [5, 6, 7]"
  by (simp_all add: subscribers_of_def mem_pubsub_def slice_list_def)

lemma mem_stores_keys: "stores_keys mem_pub () (\<lambda>w. w)"
  by (simp add: stores_keys_def mem_pub_def)

theorem publish_delivers_witness:
  "cn_buf (snd (fst (run_state (publish mem_pub mem_pubsub live_context ''tasks:failed'' depth_message (\<lambda>c. empty_chan))
     (Map.empty, []))) 6) = [depth_message]"
  using publish_delivers [of mem_pubsub mem_pub depth_message "''{}''" live_context "''tasks:failed''" "\<lambda>c. empty_chan"]
  by (simp add: mem_pub_def mem_pubsub_def live_context_def empty_chan_def subscribers_of_def slice_list_def offered_def)

theorem subscriptions_refine_lists_witness:
  "subscribers_of (Unsubscribe ''tasks:failed'' 5 mem_pubsub) ''tasks:failed'' = [6, 7]"
  using subscriptions_refine_lists [OF mem_pubsub_ok, of _ "''tasks:failed''" 5]
  by (simp add: mem_subscribers)

theorem unsubscribe_during_publish_witness:
  "drop 1 (slice_list (rp_arrays (Unsubscribe ''tasks:failed'' 5 mem_pubsub)) (Slice 0 3)) = [7, 7]"
  using unsubscribe_during_publish [OF mem_pubsub_ok, of "''tasks:failed''" "Slice 0 3" 5]
  by (simp add: mem_subscribers)

theorem queue_depth_roundtrip_witness:
  "fst (run_state (PubSub_GetCurrentQueueDepth mem_pub mem_pubsub ''t'')
     (fst (snd (run_state (PubSub_PublishQueueDepth mem_pub mem_pubsub live_context ''t'' (- 4) (\<lambda>c. empty_chan)) (Map.empty, []))),
      [])) = Inr (- 4)"
proof -
  obtain x w' tr where run: "run_state (PubSub_PublishQueueDepth mem_pub mem_pubsub live_context ''t'' (- 4) (\<lambda>c. empty_chan))
      (Map.empty, []) = (x, w', tr)" by (metis surj_pair)
  have keys: "stores_keys mem_pub (rp_client mem_pubsub) (\<lambda>w. w)" using mem_stores_keys by simp
  from queue_depth_roundtrip [OF keys run, of "''t''"] show ?thesis
    by (simp add: run get_depth_run [OF keys])
qed

end
