(* ===== verification/Py_Heapq.thy ===== *)
theory Py_Heapq
  imports Main "HOL-Library.Multiset"
begin

text \<open>
  Python's \<open>heapq\<close>, which the queues of \<open>src/scheduler/priority_queue.py\<close> use: \<open>heappush\<close>, \<open>heappop\<close> and
  their loops, on lists, with the comparison \<open><\<close> of the items as a parameter. As in the library, an item that
  moves is written only at its final place. For every strict weak order (locale \<open>weak_order\<close>),
  both operations keep the heap property and the items, and \<open>heappop\<close> returns a least one.
\<close>

section \<open>The operations\<close>

definition parent_pos :: "nat \<Rightarrow> nat" where
  "parent_pos pos = (pos - 1) div 2"

lemma parent_less [simp]: "0 < pos \<Longrightarrow> parent_pos pos < pos"
  by (auto simp: parent_pos_def)

text \<open>\<open>_siftdown(heap, 0, pos)\<close>, with the item at \<open>pos\<close> held in \<open>newitem\<close>.\<close>

function siftdown :: "('a \<Rightarrow> 'a \<Rightarrow> bool) \<Rightarrow> 'a list \<Rightarrow> nat \<Rightarrow> 'a \<Rightarrow> 'a list" where
  "siftdown lt heap pos newitem =
     (if 0 < pos \<and> lt newitem (heap ! parent_pos pos)
      then siftdown lt (heap[pos := heap ! parent_pos pos]) (parent_pos pos) newitem
      else heap[pos := newitem])"
  by pat_completeness auto
termination by (relation "measure (\<lambda>(lt, heap, pos, newitem). pos)") auto

text \<open>The loop of \<open>_siftup(heap, pos)\<close>: the smaller child moves up until \<open>pos\<close> is a leaf.\<close>

definition smaller_child :: "('a \<Rightarrow> 'a \<Rightarrow> bool) \<Rightarrow> 'a list \<Rightarrow> nat \<Rightarrow> nat" where
  "smaller_child lt heap pos =
     (let childpos = 2 * pos + 1; rightpos = childpos + 1
      in if rightpos < length heap \<and> \<not> lt (heap ! childpos) (heap ! rightpos) then rightpos else childpos)"

lemma smaller_child_cases: "smaller_child lt heap pos \<in> {2 * pos + 1, 2 * pos + 2}"
  by (simp add: smaller_child_def Let_def)

lemma smaller_child_less: "pos < smaller_child lt heap pos"
  by (simp add: smaller_child_def Let_def)

lemma smaller_child_length: "2 * pos + 1 < length heap \<Longrightarrow> smaller_child lt heap pos < length heap"
  by (simp add: smaller_child_def Let_def)

function siftup_loop :: "('a \<Rightarrow> 'a \<Rightarrow> bool) \<Rightarrow> 'a list \<Rightarrow> nat \<Rightarrow> 'a list \<times> nat" where
  "siftup_loop lt heap pos =
     (if 2 * pos + 1 < length heap
      then let c = smaller_child lt heap pos in siftup_loop lt (heap[pos := heap ! c]) c
      else (heap, pos))"
  by pat_completeness auto
termination
  by (relation "measure (\<lambda>(lt, heap, pos). length heap - pos)") (auto intro!: diff_less_mono2 smaller_child_less)

declare siftdown.simps [simp del] siftup_loop.simps [simp del]

definition heappush :: "('a \<Rightarrow> 'a \<Rightarrow> bool) \<Rightarrow> 'a list \<Rightarrow> 'a \<Rightarrow> 'a list" where
  "heappush lt heap item = siftdown lt (heap @ [item]) (length heap) item"

text \<open>\<open>heappop\<close> of an empty list raises \<open>IndexError\<close>.\<close>

definition heappop :: "('a \<Rightarrow> 'a \<Rightarrow> bool) \<Rightarrow> 'a list \<Rightarrow> ('a \<times> 'a list) option" where
  "heappop lt heap =
     (case heap of
        [] \<Rightarrow> None
      | _ \<Rightarrow>
          let lastelt = last heap; heap = butlast heap
          in if heap = [] then Some (lastelt, [])
             else let (h, pos) = siftup_loop lt (heap[0 := lastelt]) 0
                  in Some (heap ! 0, siftdown lt h pos lastelt))"

section \<open>Items\<close>

lemma length_siftdown [simp]: "length (siftdown lt heap pos x) = length heap"
  by (induction lt heap pos x rule: siftdown.induct) (subst siftdown.simps, simp)

lemma length_siftup [simp]: "length (fst (siftup_loop lt heap pos)) = length heap"
  by (induction lt heap pos rule: siftup_loop.induct) (subst siftup_loop.simps, simp add: Let_def)

lemma swap_hole:
  assumes "i < length h" and "j < length h" and "i \<noteq> j"
  shows "mset ((h[i := h ! j])[j := x]) = mset (h[i := x])"
proof -
  have "(h[i := h ! j])[j := x] = (h[i := x])[i := (h[i := x]) ! j, j := (h[i := x]) ! i]"
    using assms by simp
  also have "mset \<dots> = mset (h[i := x])" using assms by (intro mset_swap) simp_all
  finally show ?thesis .
qed

lemma mset_siftdown: "pos < length heap \<Longrightarrow> mset (siftdown lt heap pos x) = mset (heap[pos := x])"
proof (induction lt heap pos x rule: siftdown.induct)
  case (1 lt heap pos x)
  show ?case
  proof (cases "0 < pos \<and> lt x (heap ! parent_pos pos)")
    case True
    then have "parent_pos pos < pos" by simp
    with 1 True show ?thesis by (subst siftdown.simps) (simp add: swap_hole)
  qed (subst siftdown.simps, auto)
qed

lemma siftup_loop_pos: "pos < length heap \<Longrightarrow> snd (siftup_loop lt heap pos) < length heap"
proof (induction lt heap pos rule: siftup_loop.induct)
  case (1 lt heap pos)
  then show ?case
    by (subst siftup_loop.simps) (simp add: Let_def smaller_child_length)
qed

lemma mset_siftup:
  "pos < length heap \<Longrightarrow> siftup_loop lt heap pos = (h, p) \<Longrightarrow> mset (h[p := x]) = mset (heap[pos := x])"
proof (induction lt heap pos rule: siftup_loop.induct)
  case (1 lt heap pos)
  show ?case
  proof (cases "2 * pos + 1 < length heap")
    case True
    let ?c = "smaller_child lt heap pos"
    have c: "?c < length heap" "pos < ?c" using True by (simp_all add: smaller_child_length smaller_child_less)
    have "siftup_loop lt (heap[pos := heap ! ?c]) ?c = (h, p)"
      using "1.prems"(2) True by (subst (asm) siftup_loop.simps) (simp add: Let_def)
    with 1 True c show ?thesis by (simp add: swap_hole)
  next
    case False
    with "1.prems"(2) show ?thesis by (auto simp: siftup_loop.simps [of lt heap pos])
  qed
qed

section \<open>The heap property\<close>

definition is_heap :: "('a \<Rightarrow> 'a \<Rightarrow> bool) \<Rightarrow> 'a list \<Rightarrow> bool" where
  "is_heap lt h \<longleftrightarrow> (\<forall>i. 0 < i \<and> i < length h \<longrightarrow> \<not> lt (h ! i) (h ! parent_pos i))"

text \<open>
  A heap but for the item at \<open>pos\<close>, which may be smaller than its ancestors (\<open>sinking\<close>), and a heap with a
  hole at \<open>pos\<close>, whose item does not matter (\<open>holed\<close>).
\<close>

definition sinking :: "('a \<Rightarrow> 'a \<Rightarrow> bool) \<Rightarrow> 'a list \<Rightarrow> nat \<Rightarrow> bool" where
  "sinking lt h pos \<longleftrightarrow> (\<forall>i. 0 < i \<and> i < length h \<longrightarrow>
     (i \<noteq> pos \<longrightarrow> \<not> lt (h ! i) (h ! parent_pos i)) \<and>
     (parent_pos i = pos \<and> 0 < pos \<longrightarrow> \<not> lt (h ! i) (h ! parent_pos pos)))"

definition holed :: "('a \<Rightarrow> 'a \<Rightarrow> bool) \<Rightarrow> 'a list \<Rightarrow> nat \<Rightarrow> bool" where
  "holed lt h pos \<longleftrightarrow> (\<forall>i. 0 < i \<and> i < length h \<longrightarrow>
     (i \<noteq> pos \<and> parent_pos i \<noteq> pos \<longrightarrow> \<not> lt (h ! i) (h ! parent_pos i)) \<and>
     (parent_pos i = pos \<and> 0 < pos \<longrightarrow> \<not> lt (h ! i) (h ! parent_pos pos)))"

lemma parent_child: "0 < i \<Longrightarrow> parent_pos i = pos \<longleftrightarrow> i = 2 * pos + 1 \<or> i = 2 * pos + 2"
  by (auto simp: parent_pos_def)

locale weak_order =
  fixes lt :: "'a \<Rightarrow> 'a \<Rightarrow> bool"
  assumes asym: "lt a b \<Longrightarrow> \<not> lt b a"
    and neg_trans: "\<not> lt b a \<Longrightarrow> \<not> lt c b \<Longrightarrow> \<not> lt c a"
begin

lemma irrefl: "\<not> lt a a"
  using asym by blast

lemma root_least: "is_heap lt h \<Longrightarrow> i < length h \<Longrightarrow> \<not> lt (h ! i) (h ! 0)"
proof (induction i rule: less_induct)
  case (less i)
  show ?case
  proof (cases "i = 0")
    case False
    then have "\<not> lt (h ! parent_pos i) (h ! 0)" using less parent_less [of i] by (meson less_trans neq0_conv)
    moreover have "\<not> lt (h ! i) (h ! parent_pos i)" using less.prems False by (simp add: is_heap_def)
    ultimately show ?thesis by (rule neg_trans)
  qed (simp add: irrefl)
qed

lemma sinking_parent:
  assumes "0 < pos" and "pos < length h" and "lt x (h ! parent_pos pos)" and "sinking lt (h[pos := x]) pos"
  shows "sinking lt ((h[pos := h ! parent_pos pos])[parent_pos pos := x]) (parent_pos pos)"
proof -
  let ?p = "parent_pos pos"
  let ?g = "(h[pos := h ! ?p])[?p := x]"
  have p: "?p < pos" using assms(1) by simp
  have old: "i \<noteq> pos \<Longrightarrow> \<not> lt (h ! i) (h[pos := x] ! parent_pos i)"
      "parent_pos i = pos \<Longrightarrow> \<not> lt (h ! i) (h ! ?p)" if "0 < i" "i < length h" for i
    using assms(4) [unfolded sinking_def, rule_format, of i] that p parent_less [OF that(1)] assms(1)
    by (auto simp: nth_list_update)
  have above: "\<not> lt (h ! ?p) (h ! parent_pos ?p)" if "0 < ?p"
    using old(1) [of ?p] that p less_trans [OF parent_less [OF that] p] assms(2) by (auto simp: nth_list_update)
  have sibling: "\<not> lt (h ! i) (h ! ?p)" if "0 < i" "i < length h" "i \<noteq> pos" "parent_pos i = ?p" for i
    using old(1) [OF that(1-3)] that p by simp
  have px: "\<not> lt (h ! ?p) x" using assms(3) by (rule asym)
  show ?thesis
    unfolding sinking_def
  proof (intro allI impI conjI)
    fix i assume i: "0 < i \<and> i < length ?g" and ne: "i \<noteq> ?p"
    then have i': "0 < i" "i < length h" by simp_all
    show "\<not> lt (?g ! i) (?g ! parent_pos i)"
      using i' ne p px assms(2) old [OF i'] neg_trans [OF px sibling [OF i']]
      by (cases "i = pos"; cases "parent_pos i = pos"; cases "parent_pos i = ?p")
        (auto simp: nth_list_update dest: parent_less)
  next
    fix i assume i: "0 < i \<and> i < length ?g" and c: "parent_pos i = ?p \<and> 0 < ?p"
    then have i': "0 < i" "i < length h" by simp_all
    from c have "parent_pos ?p < ?p" by simp
    with c p have "parent_pos ?p \<noteq> ?p" "parent_pos ?p \<noteq> pos" by linarith+
    then show "\<not> lt (?g ! i) (?g ! parent_pos ?p)"
      using i' c p above neg_trans [OF above sibling [OF i']] parent_less [OF i'(1)] assms(2)
      by (cases "i = pos") (auto simp: nth_list_update)
  qed
qed

lemma siftdown_heap:
  "pos < length h \<Longrightarrow> sinking lt (h[pos := x]) pos \<Longrightarrow> is_heap lt (siftdown lt h pos x)"
proof (induction pos arbitrary: h rule: less_induct)
  case (less pos)
  show ?case
  proof (cases "0 < pos \<and> lt x (h ! parent_pos pos)")
    case True
    then have "parent_pos pos < pos" by simp
    with less True sinking_parent [of pos h x] show ?thesis by (subst siftdown.simps) simp
  next
    case False
    then have "is_heap lt (h[pos := x])"
      using less.prems parent_less [of pos] unfolding sinking_def is_heap_def
      by (metis length_list_update nth_list_update_eq nth_list_update_neq less_irrefl)
    with False show ?thesis by (subst siftdown.simps) auto
  qed
qed

lemma smaller_child_least:
  assumes "2 * pos + 1 < length h" and "0 < i" and "i < length h" and "parent_pos i = pos"
  shows "\<not> lt (h ! i) (h ! smaller_child lt h pos)"
  using assms asym irrefl by (auto simp: parent_child smaller_child_def Let_def)

lemma holed_child:
  assumes "2 * pos + 1 < length h" and "holed lt h pos"
  shows "holed lt (h[pos := h ! smaller_child lt h pos]) (smaller_child lt h pos)"
proof -
  let ?c = "smaller_child lt h pos"
  have c: "pos < ?c" "?c < length h" "parent_pos ?c = pos"
    using smaller_child_less smaller_child_length [OF assms(1)] smaller_child_cases [of lt h pos]
    by (auto simp: parent_child)
  have old: "i \<noteq> pos \<Longrightarrow> parent_pos i \<noteq> pos \<Longrightarrow> \<not> lt (h ! i) (h ! parent_pos i)"
      "parent_pos i = pos \<Longrightarrow> 0 < pos \<Longrightarrow> \<not> lt (h ! i) (h ! parent_pos pos)" if "0 < i" "i < length h" for i
    using assms(2) that unfolding holed_def by blast+
  show ?thesis
    unfolding holed_def
  proof (intro allI impI conjI)
    fix i assume "0 < i \<and> i < length (h[pos := h ! ?c])" and ne: "i \<noteq> ?c \<and> parent_pos i \<noteq> ?c"
    then have i: "0 < i" "i < length h" by simp_all
    show "\<not> lt (h[pos := h ! ?c] ! i) (h[pos := h ! ?c] ! parent_pos i)"
      using i c old [OF i] old(2) [of ?c] smaller_child_least [OF assms(1) i] parent_less [OF i(1)]
      by (cases "i = pos"; cases "parent_pos i = pos") (auto simp: nth_list_update)
  next
    fix i assume "0 < i \<and> i < length (h[pos := h ! ?c])" and e: "parent_pos i = ?c \<and> 0 < ?c"
    then have i: "0 < i" "i < length h" by simp_all
    show "\<not> lt (h[pos := h ! ?c] ! i) (h[pos := h ! ?c] ! parent_pos ?c)"
      using i c e old(1) [OF i] parent_less [OF i(1)] by (auto simp: nth_list_update)
  qed
qed

lemma siftup_holed:
  "pos < length h \<Longrightarrow> holed lt h pos \<Longrightarrow> siftup_loop lt h pos = (h', p) \<Longrightarrow>
   holed lt h' p \<and> length h' \<le> 2 * p + 1 \<and> length h' = length h \<and> p < length h"
proof (induction "length h - pos" arbitrary: h pos rule: less_induct)
  case less
  show ?case
  proof (cases "2 * pos + 1 < length h")
    case True
    let ?c = "smaller_child lt h pos"
    have c: "?c < length h" "pos < ?c" using True by (simp_all add: smaller_child_length smaller_child_less)
    have "siftup_loop lt (h[pos := h ! ?c]) ?c = (h', p)"
      using less.prems(3) True by (subst (asm) siftup_loop.simps) (simp add: Let_def)
    with less.hyps [of "h[pos := h ! ?c]" ?c] c holed_child [OF True less.prems(2)] show ?thesis
      by (simp add: diff_less_mono2)
  next
    case False
    with less.prems(3) have "h' = h" "p = pos" by (auto simp: siftup_loop.simps [of lt h pos])
    with False less.prems show ?thesis by simp
  qed
qed

lemma holed_leaf:
  assumes "holed lt h p" and "length h \<le> 2 * p + 1"
  shows "sinking lt (h[p := x]) p"
proof -
  have no: "parent_pos i \<noteq> p" if "0 < i" "i < length h" for i using assms(2) that by (auto simp: parent_child)
  then have "h[p := x] ! parent_pos i = h ! parent_pos i" if "0 < i" "i < length h" for i
    using that by (metis nth_list_update_neq)
  with assms(1) no show ?thesis unfolding holed_def sinking_def by simp
qed

lemma heappush_heap: "is_heap lt h \<Longrightarrow> is_heap lt (heappush lt h x)"
  unfolding heappush_def
  by (rule siftdown_heap) (auto simp: sinking_def is_heap_def nth_append parent_child dest: parent_less)

lemma is_heap_butlast: "is_heap lt h \<Longrightarrow> holed lt ((butlast h)[0 := x]) 0"
  unfolding is_heap_def holed_def
  by (auto simp: nth_butlast nth_list_update dest: parent_less)

text \<open>\<open>heappop\<close> on a heap that is not empty: it returns a least item, and the others are a heap again.\<close>

lemma heappop_heap:
  assumes "is_heap lt h" and "h \<noteq> []"
  shows "\<exists>h'. heappop lt h = Some (h ! 0, h') \<and> is_heap lt h' \<and> mset h = add_mset (h ! 0) (mset h') \<and>
    (\<forall>y \<in> set h. \<not> lt y (h ! 0))"
proof -
  have least: "\<forall>y \<in> set h. \<not> lt y (h ! 0)" using root_least [OF assms(1)] by (auto simp: in_set_conv_nth)
  obtain b l where h: "h = b @ [l]" using assms(2) by (cases h rule: rev_cases) auto
  show ?thesis
  proof (cases "b = []")
    case True
    with h least show ?thesis by (auto simp: heappop_def is_heap_def)
  next
    case False
    obtain h' p where up: "siftup_loop lt (b[0 := l]) 0 = (h', p)" by (cases "siftup_loop lt (b[0 := l]) 0")
    have "holed lt (b[0 := l]) 0" using is_heap_butlast [OF assms(1), of l] by (simp add: h)
    with siftup_holed [OF _ _ up] False
    have hole: "holed lt h' p" "length h' \<le> 2 * p + 1" "length h' = length b" "p < length b" by auto
    have heap: "is_heap lt (siftdown lt h' p l)"
      using hole siftdown_heap [of p h' l] holed_leaf [of h' p l] by simp
    have "mset (siftdown lt h' p l) = mset (b[0 := l])"
      using hole mset_siftup [OF _ up, of l] False by (simp add: mset_siftdown)
    also have "\<dots> = mset h - {# h ! 0 #}" using False by (cases b) (simp_all add: h)
    finally have "mset h = add_mset (h ! 0) (mset (siftdown lt h' p l))"
      using assms(2) by simp
    moreover have "heappop lt h = Some (h ! 0, siftdown lt h' p l)"
      using False up by (cases b) (simp_all add: heappop_def h Let_def butlast_append)
    ultimately show ?thesis using heap least by blast
  qed
qed

end

lemma mset_heappush: "mset (heappush lt h x) = add_mset x (mset h)"
  by (simp add: heappush_def mset_siftdown)

lemma heappop_Nil [simp]: "heappop lt [] = None"
  by (simp add: heappop_def)

lemma heappop_None: "heappop lt h = None \<longleftrightarrow> h = []"
  by (auto simp: heappop_def Let_def split: list.split prod.split)

end
