(* ===== verification/Task_Queues.thy ===== *)
theory Task_Queues
  imports Py_Heapq Float64
begin

text \<open>
  The queues of the Python scheduler (\<open>src/scheduler/priority_queue.py\<close>): the multi-level queue over
  four heaps, round robin, shortest job first and first in first out, and the choice between them.
  What queues promise their clients is the locale \<open>task_queue\<close>, and \<open>ordered_queue\<close> where tasks come out in an
  order. Tasks are values: the only field that is assigned later is the priority, by \<open>demote\<close>,
  which returns the task that the caller holds then.
\<close>

section \<open>Tasks\<close>

datatype py_error = IndexError | KeyError string | AttributeError string | ZeroDivisionError

record PyTask =
  pt_priority :: int
  pt_submitted_at :: float64
  pt_task_id :: string
  pt_command :: string
  pt_cpu_request :: float64
  pt_memory_request :: float64
  pt_estimated_duration :: int
  pt_burst_remaining :: int

text \<open>
  The order and the equality that \<open>dataclass(order=True)\<close> makes from the fields that are compared,
  priority and time of submission.
\<close>

definition py_task_key :: "PyTask \<Rightarrow> int \<times> float64" where
  "py_task_key t = (pt_priority t, pt_submitted_at t)"

definition task_lt :: "PyTask \<Rightarrow> PyTask \<Rightarrow> bool" where
  "task_lt a b \<longleftrightarrow> pt_priority a < pt_priority b \<or> pt_priority a = pt_priority b \<and> pt_submitted_at a < pt_submitted_at b"

definition task_eq :: "PyTask \<Rightarrow> PyTask \<Rightarrow> bool" where
  "task_eq a b \<longleftrightarrow> py_task_key a = py_task_key b"

interpretation tasks: weak_order task_lt
  by unfold_locales (auto simp: task_lt_def)

text \<open>Indexing a list of length \<open>n\<close>; a negative index counts from the end.\<close>

definition py_index :: "nat \<Rightarrow> int \<Rightarrow> nat option" where
  "py_index n i = (if 0 \<le> i \<and> i < int n then Some (nat i)
     else if - int n \<le> i \<and> i < 0 then Some (nat (int n + i)) else None)"

section \<open>The multi-level queue\<close>

type_synonym MLFQueue = "PyTask list list"

definition LEVELS :: nat where "LEVELS = 4"

definition MLFQ_new :: MLFQueue where
  "MLFQ_new = replicate LEVELS []"

definition push_level :: "int \<Rightarrow> PyTask \<Rightarrow> MLFQueue \<Rightarrow> py_error + MLFQueue" where
  "push_level level task queues =
     (case py_index (length queues) level of
        None \<Rightarrow> Inl IndexError
      | Some i \<Rightarrow> Inr (queues[i := heappush task_lt (queues ! i) task]))"

definition MLFQ_enqueue :: "MLFQueue \<Rightarrow> PyTask \<Rightarrow> py_error + MLFQueue" where
  "MLFQ_enqueue queues task = push_level (pt_priority task) task queues"

fun MLFQ_dequeue :: "MLFQueue \<Rightarrow> (PyTask \<times> MLFQueue) option" where
  "MLFQ_dequeue [] = None"
| "MLFQ_dequeue (queue # queues) =
     (case heappop task_lt queue of
        Some (task, queue') \<Rightarrow> Some (task, queue' # queues)
      | None \<Rightarrow> map_option (\<lambda>(task, queues'). (task, queue # queues')) (MLFQ_dequeue queues))"

definition MLFQ_demote :: "MLFQueue \<Rightarrow> PyTask \<Rightarrow> PyTask \<times> (py_error + MLFQueue)" where
  "MLFQ_demote queues task =
     (let new_level = min (pt_priority task + 1) (int LEVELS - 1); task = task\<lparr>pt_priority := new_level\<rparr>
      in (task, push_level new_level task queues))"

definition MLFQ_stats :: "MLFQueue \<Rightarrow> (nat \<times> nat) list" where
  "MLFQ_stats queues = zip [0..<length queues] (map length queues)"

section \<open>Round robin\<close>

record RoundRobinScheduler =
  rr_queue :: "PyTask list"
  rr_index :: int

definition RR_new :: RoundRobinScheduler where
  "RR_new = \<lparr>rr_queue = [], rr_index = 0\<rparr>"

definition RR_enqueue :: "RoundRobinScheduler \<Rightarrow> PyTask \<Rightarrow> RoundRobinScheduler" where
  "RR_enqueue s task = s\<lparr>rr_queue := rr_queue s @ [task]\<rparr>"

definition RR_next_task :: "RoundRobinScheduler \<Rightarrow> PyTask option \<times> RoundRobinScheduler" where
  "RR_next_task s =
     (if rr_queue s = [] then (None, s)
      else (Some (rr_queue s ! nat (rr_index s mod int (length (rr_queue s)))), s\<lparr>rr_index := rr_index s + 1\<rparr>))"

text \<open>\<open>list.remove\<close> removes the first item that is equal to its argument.\<close>

fun py_remove :: "PyTask \<Rightarrow> PyTask list \<Rightarrow> PyTask list" where
  "py_remove task [] = []"
| "py_remove task (t # ts) = (if task_eq t task then ts else t # py_remove task ts)"

definition RR_complete :: "RoundRobinScheduler \<Rightarrow> PyTask \<Rightarrow> RoundRobinScheduler" where
  "RR_complete s task =
     (if list_ex (\<lambda>t. task_eq t task) (rr_queue s) then s\<lparr>rr_queue := py_remove task (rr_queue s)\<rparr> else s)"

definition RR_stats :: "RoundRobinScheduler \<Rightarrow> nat" where
  "RR_stats s = length (rr_queue s)"

section \<open>Shortest job first, and first in first out\<close>

definition SJF_enqueue :: "PyTask list \<Rightarrow> PyTask \<Rightarrow> PyTask list" where
  "SJF_enqueue queue task = sort_key pt_estimated_duration (queue @ [task])"

definition FIFO_enqueue :: "PyTask list \<Rightarrow> PyTask \<Rightarrow> PyTask list" where
  "FIFO_enqueue queue task = queue @ [task]"

definition pop_front :: "PyTask list \<Rightarrow> (PyTask \<times> PyTask list) option" where
  "pop_front queue = (case queue of [] \<Rightarrow> None | t # ts \<Rightarrow> Some (t, ts))"

section \<open>The choice of a scheduler\<close>

datatype py_scheduler = MLFQ MLFQueue | RR RoundRobinScheduler | SJF "PyTask list" | FIFO "PyTask list"

definition get_scheduler :: "string \<Rightarrow> py_scheduler" where
  "get_scheduler algorithm =
     (if algorithm = ''mlfq'' then MLFQ MLFQ_new
      else if algorithm = ''rr'' then RR RR_new
      else if algorithm = ''sjf'' then SJF []
      else if algorithm = ''fifo'' then FIFO []
      else MLFQ MLFQ_new)"

fun scheduler_enqueue :: "py_scheduler \<Rightarrow> PyTask \<Rightarrow> py_error + py_scheduler" where
  "scheduler_enqueue (MLFQ q) t = map_sum id MLFQ (MLFQ_enqueue q t)"
| "scheduler_enqueue (RR s) t = Inr (RR (RR_enqueue s t))"
| "scheduler_enqueue (SJF q) t = Inr (SJF (SJF_enqueue q t))"
| "scheduler_enqueue (FIFO q) t = Inr (FIFO (FIFO_enqueue q t))"

text \<open>The round robin scheduler has no method \<open>dequeue\<close>.\<close>

fun scheduler_dequeue :: "py_scheduler \<Rightarrow> py_error + PyTask option \<times> py_scheduler" where
  "scheduler_dequeue (MLFQ q) =
     Inr (case MLFQ_dequeue q of None \<Rightarrow> (None, MLFQ q) | Some (t, q') \<Rightarrow> (Some t, MLFQ q'))"
| "scheduler_dequeue (RR s) = Inl (AttributeError ''dequeue'')"
| "scheduler_dequeue (SJF q) = Inr (case pop_front q of None \<Rightarrow> (None, SJF q) | Some (t, q') \<Rightarrow> (Some t, SJF q'))"
| "scheduler_dequeue (FIFO q) = Inr (case pop_front q of None \<Rightarrow> (None, FIFO q) | Some (t, q') \<Rightarrow> (Some t, FIFO q'))"

fun scheduler_stats :: "py_scheduler \<Rightarrow> (string \<times> nat) list" where
  "scheduler_stats (MLFQ q) =
     zip [''level_0'', ''level_1'', ''level_2'', ''level_3''] (map snd (MLFQ_stats q))"
| "scheduler_stats (RR s) = [(''queue_size'', RR_stats s)]"
| "scheduler_stats (SJF q) = [(''queue_size'', length q)]"
| "scheduler_stats (FIFO q) = [(''queue_size'', length q)]"

section \<open>What queues promise\<close>

text \<open>Taking tasks off a queue until it is empty or \<open>n\<close> are taken, and putting a list of tasks on it.\<close>

fun drain :: "('q \<Rightarrow> ('t \<times> 'q) option) \<Rightarrow> nat \<Rightarrow> 'q \<Rightarrow> 't list" where
  "drain deq 0 q = []"
| "drain deq (Suc n) q = (case deq q of None \<Rightarrow> [] | Some (t, q') \<Rightarrow> t # drain deq n q')"

fun enqueue_all :: "('q \<Rightarrow> 't \<Rightarrow> py_error + 'q) \<Rightarrow> 'q \<Rightarrow> 't list \<Rightarrow> py_error + 'q" where
  "enqueue_all enq q [] = Inr q"
| "enqueue_all enq q (t # ts) = (case enq q t of Inl e \<Rightarrow> Inl e | Inr q' \<Rightarrow> enqueue_all enq q' ts)"

locale task_queue =
  fixes enq :: "'q \<Rightarrow> 't \<Rightarrow> py_error + 'q" and deq :: "'q \<Rightarrow> ('t \<times> 'q) option"
    and content :: "'q \<Rightarrow> 't multiset" and ok :: "'q \<Rightarrow> bool" and fits :: "'t \<Rightarrow> bool"
  assumes enq_law: "ok q \<Longrightarrow> fits t \<Longrightarrow> \<exists>q'. enq q t = Inr q' \<and> ok q' \<and> content q' = add_mset t (content q)"
    and deq_empty: "ok q \<Longrightarrow> deq q = None \<longleftrightarrow> content q = {#}"
    and deq_law: "ok q \<Longrightarrow> deq q = Some (t, q') \<Longrightarrow> ok q' \<and> content q = add_mset t (content q')"
begin

lemma enqueue_all_law:
  assumes "ok q" and "list_all fits ts"
  shows "\<exists>q'. enqueue_all enq q ts = Inr q' \<and> ok q' \<and> content q' = mset ts + content q"
  using assms
proof (induction ts arbitrary: q)
  case (Cons t ts)
  then obtain q1 where q1: "enq q t = Inr q1" "ok q1" "content q1 = add_mset t (content q)"
    using enq_law by force
  from Cons.IH [OF q1(2)] Cons.prems(2) q1 show ?case by auto
qed simp

lemma drain_content: "ok q \<Longrightarrow> size (content q) \<le> n \<Longrightarrow> mset (drain deq n q) = content q"
proof (induction n arbitrary: q)
  case (Suc n)
  show ?case
  proof (cases "deq q")
    case (Some r)
    obtain t q' where r: "r = (t, q')" by (cases r)
    with Some Suc.prems deq_law have "ok q'" "content q = add_mset t (content q')" by blast+
    with Suc Some r show ?thesis by simp
  next
    case None
    with Suc.prems(1) deq_empty have "content q = {#}" by blast
    with None show ?thesis by simp
  qed
qed simp

text \<open>No task is lost and none comes twice.\<close>

lemma all_come_out:
  assumes "ok q" and "content q = {#}" and "list_all fits ts"
  shows "\<exists>q'. enqueue_all enq q ts = Inr q' \<and> mset (drain deq (length ts) q') = mset ts"
proof -
  from enqueue_all_law [OF assms(1,3)] assms(2)
  obtain q' where "enqueue_all enq q ts = Inr q'" "ok q'" "content q' = mset ts" by auto
  with drain_content [of q' "length ts"] show ?thesis by simp
qed

end

locale ordered_queue = task_queue enq deq content ok fits
  for enq :: "'q \<Rightarrow> 't \<Rightarrow> py_error + 'q" and deq :: "'q \<Rightarrow> ('t \<times> 'q) option"
    and content :: "'q \<Rightarrow> 't multiset" and ok :: "'q \<Rightarrow> bool" and fits :: "'t \<Rightarrow> bool" +
  fixes before :: "'t \<Rightarrow> 't \<Rightarrow> bool"
  assumes deq_first: "ok q \<Longrightarrow> deq q = Some (t, q') \<Longrightarrow> u \<in># content q \<Longrightarrow> before t u"
begin

lemma drain_ordered: "ok q \<Longrightarrow> size (content q) \<le> n \<Longrightarrow> sorted_wrt before (drain deq n q)"
proof (induction n arbitrary: q)
  case (Suc n)
  show ?case
  proof (cases "deq q")
    case (Some r)
    obtain t q' where r: "r = (t, q')" by (cases r)
    with Some Suc.prems deq_law have q': "ok q'" "content q = add_mset t (content q')" by blast+
    then have "set (drain deq n q') = set_mset (content q')"
      using drain_content [of q' n] Suc.prems by (metis add_le_cancel_right set_mset_mset size_add_mset plus_1_eq_Suc add.commute)
    with Suc q' Some r deq_first [OF Suc.prems(1)] show ?thesis by simp
  qed simp
qed simp

lemma drained_in_order:
  assumes "ok q" and "content q = {#}" and "list_all fits ts"
  shows "\<exists>q'. enqueue_all enq q ts = Inr q' \<and> mset (drain deq (length ts) q') = mset ts \<and>
    sorted_wrt before (drain deq (length ts) q')"
proof -
  from enqueue_all_law [OF assms(1,3)] assms(2)
  obtain q' where "enqueue_all enq q ts = Inr q'" "ok q'" "content q' = mset ts" by auto
  with drain_content [of q' "length ts"] drain_ordered [of q' "length ts"] show ?thesis by simp
qed

end

section \<open>Queues that keep the promise\<close>

subsection \<open>The multi-level queue\<close>

text \<open>Every level is a heap, and holds the tasks of its own priority.\<close>

definition mlfq_ok :: "MLFQueue \<Rightarrow> bool" where
  "mlfq_ok qs \<longleftrightarrow> length qs = LEVELS \<and>
     (\<forall>l < length qs. is_heap task_lt (qs ! l) \<and> (\<forall>t \<in> set (qs ! l). pt_priority t = int l))"

definition mlfq_content :: "MLFQueue \<Rightarrow> PyTask multiset" where
  "mlfq_content qs = mset (concat qs)"

definition mlfq_fits :: "PyTask \<Rightarrow> bool" where
  "mlfq_fits t \<longleftrightarrow> 0 \<le> pt_priority t \<and> pt_priority t < int LEVELS"

definition task_before :: "PyTask \<Rightarrow> PyTask \<Rightarrow> bool" where
  "task_before a b \<longleftrightarrow> \<not> task_lt b a"

lemma content_Cons: "mlfq_content (q # qs) = mset q + mlfq_content qs" "mlfq_content [] = {#}"
  by (simp_all add: mlfq_content_def)

lemma content_update:
  "i < length qs \<Longrightarrow> mlfq_content (qs[i := q]) + mset (qs ! i) = mlfq_content qs + mset q"
proof (induction qs arbitrary: i)
  case (Cons p qs)
  then show ?case by (cases i) (auto simp: mlfq_content_def)
qed simp

lemma mlfq_enqueue_law:
  assumes "mlfq_ok qs" and "mlfq_fits t"
  shows "\<exists>qs'. MLFQ_enqueue qs t = Inr qs' \<and> mlfq_ok qs' \<and> mlfq_content qs' = add_mset t (mlfq_content qs)"
proof -
  define l where "l = nat (pt_priority t)"
  let ?q = "heappush task_lt (qs ! l) t"
  have "length qs = LEVELS" "0 \<le> pt_priority t" "pt_priority t < int LEVELS"
    using assms unfolding mlfq_ok_def mlfq_fits_def by blast+
  then have l: "l < length qs" "pt_priority t = int l" by (simp_all add: l_def)
  then have enq: "MLFQ_enqueue qs t = Inr (qs[l := ?q])" by (simp add: MLFQ_enqueue_def push_level_def py_index_def)
  have old: "is_heap task_lt (qs ! k)" "u \<in> set (qs ! k) \<Longrightarrow> pt_priority u = int k" if "k < length qs" for k u
    using assms(1) that unfolding mlfq_ok_def by blast+
  have m: "mset ?q = add_mset t (mset (qs ! l))" by (rule mset_heappush)
  then have "set_mset (mset ?q) = insert t (set_mset (mset (qs ! l)))" by simp
  then have q: "set ?q = insert t (set (qs ! l))" by simp
  have "mlfq_ok (qs[l := ?q])"
    unfolding mlfq_ok_def
  proof (intro conjI allI impI ballI)
    show "length (qs[l := ?q]) = LEVELS" using \<open>length qs = LEVELS\<close> by simp
  next
    fix k assume "k < length (qs[l := ?q])"
    then have k: "k < length qs" by simp
    from old [OF l(1)] old [OF k] show "is_heap task_lt (qs[l := ?q] ! k)"
      by (cases "k = l") (simp_all add: l(1) tasks.heappush_heap)
    fix u assume "u \<in> set (qs[l := ?q] ! k)"
    then show "pt_priority u = int k"
      using old(2) [OF k, of u] l q by (cases "k = l") auto
  qed
  moreover have "mlfq_content (qs[l := ?q]) = add_mset t (mlfq_content qs)"
    using content_update [OF l(1), of ?q] m by simp
  ultimately show ?thesis using enq by blast
qed

text \<open>\<open>dequeue\<close> takes from the first level that is not empty, on every suffix of the levels.\<close>

definition levels_ok :: "nat \<Rightarrow> MLFQueue \<Rightarrow> bool" where
  "levels_ok n qs \<longleftrightarrow>
     (\<forall>l < length qs. is_heap task_lt (qs ! l) \<and> (\<forall>t \<in> set (qs ! l). pt_priority t = int (n + l)))"

lemma levels_Cons:
  "levels_ok n (q # qs) \<longleftrightarrow> is_heap task_lt q \<and> (\<forall>t \<in> set q. pt_priority t = int n) \<and> levels_ok (Suc n) qs"
  by (auto simp: levels_ok_def nth_Cons less_Suc_eq_0_disj)

lemma mlfq_levels: "mlfq_ok qs \<longleftrightarrow> length qs = LEVELS \<and> levels_ok 0 qs"
  by (simp add: mlfq_ok_def levels_ok_def)

lemma later_levels: "levels_ok n qs \<Longrightarrow> t \<in># mlfq_content qs \<Longrightarrow> int n \<le> pt_priority t"
proof (induction qs arbitrary: n)
  case (Cons q qs)
  then show ?case by (force simp: levels_Cons mlfq_content_def)
qed (simp add: mlfq_content_def)

lemma mlfq_dequeue_None: "MLFQ_dequeue qs = None \<longleftrightarrow> mlfq_content qs = {#}"
  by (induction qs) (auto simp: mlfq_content_def heappop_None split: option.split)

lemma mlfq_dequeue_Some:
  "levels_ok n qs \<Longrightarrow> MLFQ_dequeue qs = Some (t, qs') \<Longrightarrow>
   length qs' = length qs \<and> levels_ok n qs' \<and> mlfq_content qs = add_mset t (mlfq_content qs') \<and>
   (\<forall>u. u \<in># mlfq_content qs \<longrightarrow> task_before t u)"
proof (induction qs arbitrary: n qs')
  case (Cons q qs)
  show ?case
  proof (cases "q = []")
    case True
    with Cons.prems obtain qs1 where rest: "MLFQ_dequeue qs = Some (t, qs1)" "qs' = q # qs1"
      by (auto simp: heappop_def)
    with Cons.IH [of "Suc n" qs1] Cons.prems True show ?thesis by (auto simp: levels_Cons content_Cons)
  next
    case False
    obtain q1 where pop: "heappop task_lt q = Some (q ! 0, q1)" "is_heap task_lt q1"
        "mset q = add_mset (q ! 0) (mset q1)" "\<forall>y \<in> set q. \<not> task_lt y (q ! 0)"
      using tasks.heappop_heap [OF _ False] Cons.prems(1) by (auto simp: levels_Cons)
    then have t: "t = q ! 0" "qs' = q1 # qs" using Cons.prems(2) by auto
    have "set_mset (mset q) = insert t (set_mset (mset q1))" using pop(3) t(1) by simp
    then have set: "set q = insert t (set q1)" by simp
    from Cons.prems(1) have lv: "\<forall>t \<in> set q. pt_priority t = int n" "levels_ok (Suc n) qs" by (simp_all add: levels_Cons)
    have "task_before t u" if "u \<in># mlfq_content (q # qs)" for u
    proof (cases "u \<in> set q")
      case True
      with pop(4) t(1) show ?thesis by (simp add: task_before_def)
    next
      case False
      with that later_levels [OF lv(2), of u] have "int n < pt_priority u" by (simp add: content_Cons)
      moreover have "pt_priority t = int n" using lv(1) set by blast
      ultimately show ?thesis by (simp add: task_before_def task_lt_def)
    qed
    moreover have "levels_ok n qs'" using lv pop(2) set t(2) by (simp add: levels_Cons)
    moreover have "mlfq_content (q # qs) = add_mset t (mlfq_content qs')" using pop(3) t by (simp add: content_Cons)
    ultimately show ?thesis using t(2) by simp
  qed
qed simp

interpretation mlfq: ordered_queue MLFQ_enqueue MLFQ_dequeue mlfq_content mlfq_ok mlfq_fits task_before
  using mlfq_enqueue_law mlfq_dequeue_None mlfq_dequeue_Some [of 0]
  by unfold_locales (auto simp: mlfq_levels)

lemma mlfq_new_ok: "mlfq_ok MLFQ_new" "mlfq_content MLFQ_new = {#}"
  by (auto simp: mlfq_ok_def MLFQ_new_def mlfq_content_def is_heap_def)

subsection \<open>Shortest job first\<close>

definition sjf_ok :: "PyTask list \<Rightarrow> bool" where
  "sjf_ok q \<longleftrightarrow> sorted (map pt_estimated_duration q)"

definition shorter :: "PyTask \<Rightarrow> PyTask \<Rightarrow> bool" where
  "shorter a b \<longleftrightarrow> pt_estimated_duration a \<le> pt_estimated_duration b"

lemma sjf_pop:
  assumes "sjf_ok q" and "pop_front q = Some (t, q')"
  shows "sjf_ok q'" and "mset q = add_mset t (mset q')" and "u \<in># mset q \<Longrightarrow> shorter t u"
  using assms by (auto simp: pop_front_def sjf_ok_def shorter_def split: list.splits)

interpretation sjf: ordered_queue "\<lambda>q t. Inr (SJF_enqueue q t)" pop_front mset sjf_ok "\<lambda>t. True" shorter
  using sjf_pop by unfold_locales (auto simp: SJF_enqueue_def sjf_ok_def pop_front_def split: list.splits)

subsection \<open>First in, first out\<close>

interpretation fifo: task_queue "\<lambda>q t. Inr (FIFO_enqueue q t)" pop_front mset "\<lambda>q. True" "\<lambda>t. True"
  by unfold_locales (auto simp: FIFO_enqueue_def pop_front_def split: list.splits)

section \<open>Properties\<close>

text \<open>The operations of a multi-level queue in any order, on tasks of the four priorities.\<close>

datatype mlfq_op = Enqueued PyTask | Dequeued PyTask | Demoted PyTask

inductive mlfq_run :: "mlfq_op list \<Rightarrow> MLFQueue \<Rightarrow> bool" where
  new: "mlfq_run [] MLFQ_new"
| enqueue: "mlfq_run ops q \<Longrightarrow> mlfq_fits t \<Longrightarrow> MLFQ_enqueue q t = Inr q' \<Longrightarrow> mlfq_run (ops @ [Enqueued t]) q'"
| dequeue: "mlfq_run ops q \<Longrightarrow> MLFQ_dequeue q = Some (t, q') \<Longrightarrow> mlfq_run (ops @ [Dequeued t]) q'"
| demote: "mlfq_run ops q \<Longrightarrow> mlfq_fits t \<Longrightarrow> MLFQ_demote q t = (t', Inr q') \<Longrightarrow> mlfq_run (ops @ [Demoted t']) q'"

fun arrived :: "mlfq_op \<Rightarrow> PyTask list" where
  "arrived (Enqueued t) = [t]"
| "arrived (Dequeued t) = []"
| "arrived (Demoted t) = [t]"

fun departed :: "mlfq_op \<Rightarrow> PyTask list" where
  "departed (Dequeued t) = [t]"
| "departed _ = []"

lemma demote_enqueues:
  assumes "mlfq_fits t"
  shows "MLFQ_demote q t = (t\<lparr>pt_priority := min (pt_priority t + 1) 3\<rparr>, MLFQ_enqueue q (t\<lparr>pt_priority := min (pt_priority t + 1) 3\<rparr>))"
    and "mlfq_fits (t\<lparr>pt_priority := min (pt_priority t + 1) 3\<rparr>)"
  using assms by (auto simp: MLFQ_demote_def MLFQ_enqueue_def LEVELS_def mlfq_fits_def Let_def)

lemma mlfq_run_content:
  "mlfq_run ops q \<Longrightarrow> mlfq_ok q \<and> mlfq_content q + mset (concat (map departed ops)) = mset (concat (map arrived ops))"
proof (induction rule: mlfq_run.induct)
  case (enqueue ops q t q')
  with mlfq_enqueue_law [of q t] show ?case by auto
next
  case (dequeue ops q t q')
  with mlfq.deq_law [of q t q'] show ?case by simp
next
  case (demote ops q t t' q')
  with mlfq_enqueue_law [of q t'] demote_enqueues [of t] show ?case by auto
qed (simp add: mlfq_new_ok)


text \<open>Tasks of the four priorities that are put on a new multi-level queue all come out again, once each, ordered
  by priority and time of submission.\<close>

theorem mlfq_drains_in_order:
  assumes "list_all mlfq_fits ts"
  shows "\<exists>q. enqueue_all MLFQ_enqueue MLFQ_new ts = Inr q \<and>
    mset (drain MLFQ_dequeue (length ts) q) = mset ts \<and> sorted_wrt task_before (drain MLFQ_dequeue (length ts) q)"
  by (rule mlfq.drained_in_order [OF mlfq_new_ok assms])

lemma stable_filter: "filter (\<lambda>x. k = f x) (sort_key f xs) = filter (\<lambda>x. k = f x) xs"
proof -
  have "(\<lambda>x. k = f x) = (\<lambda>x. f x = k)" by auto
  then show ?thesis by (simp add: sort_key_stable)
qed

text \<open>A queue of shortest jobs first holds its tasks in the order of their estimated durations, those of equal
  duration in the order they came: it is the stable sort of the arrivals.\<close>

theorem sjf_is_stable_sort:
  "enqueue_all (\<lambda>q t. Inr (SJF_enqueue q t)) (sort_key pt_estimated_duration old) ts =
   Inr (sort_key pt_estimated_duration (old @ ts))"
proof (induction ts arbitrary: old)
  case (Cons t ts)
  have "sort_key pt_estimated_duration (sort_key pt_estimated_duration old @ [t]) = sort_key pt_estimated_duration (old @ [t])"
    by (rule properties_for_sort_key) (simp_all add: stable_filter)
  with Cons.IH [of "old @ [t]"] show ?case by (simp add: SJF_enqueue_def)
qed simp

text \<open>Calls of \<open>next_task\<close> one after the other.\<close>

fun rr_served :: "nat \<Rightarrow> RoundRobinScheduler \<Rightarrow> PyTask option list" where
  "rr_served 0 s = []"
| "rr_served (Suc n) s = (let (t, s') = RR_next_task s in t # rr_served n s')"

lemma rr_served_nth:
  "rr_queue s \<noteq> [] \<Longrightarrow> i < n \<Longrightarrow>
   rr_served n s ! i = Some (rr_queue s ! nat ((rr_index s + int i) mod int (length (rr_queue s))))"
proof (induction n arbitrary: s i)
  case (Suc n)
  then show ?case by (cases i) (auto simp: RR_next_task_def Let_def add.commute add.left_commute)
qed simp

lemma length_rr_served [simp]: "length (rr_served n s) = n"
  by (induction n arbitrary: s) (auto simp: Let_def split: prod.split)

text \<open>C38. Round robin is fair: with \<open>n\<close> tasks in the queue, any \<open>n\<close> calls one after the other serve every task once, in
  the order of the queue from where the last round ended.\<close>

theorem rr_round_is_rotation:
  "rr_served (length (rr_queue s)) s =
   map Some (rotate (nat (rr_index s mod int (length (rr_queue s)))) (rr_queue s))"
proof (cases "rr_queue s = []")
  case False
  let ?n = "length (rr_queue s)"
  have n: "0 < int ?n" using False by simp
  show ?thesis
  proof (rule nth_equalityI)
    fix i assume "i < length (rr_served ?n s)"
    then have i: "i < ?n" by simp
    have "nat ((rr_index s + int i) mod int ?n) = (nat (rr_index s mod int ?n) + i) mod ?n"
      using n by (intro nat_int_comparison(1) [THEN iffD2]) (simp add: zmod_int mod_add_left_eq)
    with i False show "rr_served ?n s ! i = map Some (rotate (nat (rr_index s mod int ?n)) (rr_queue s)) ! i"
      by (simp add: rr_served_nth nth_rotate)
  qed simp
qed simp

lemma py_remove_nth:
  "distinct (map py_task_key q) \<Longrightarrow> i < length q \<Longrightarrow> py_remove (q ! i) q = take i q @ drop (Suc i) q"
proof (induction q arbitrary: i)
  case (Cons t q)
  show ?case
  proof (cases i)
    case (Suc k)
    with Cons.prems have "py_task_key t \<noteq> py_task_key (q ! k)" by (metis Suc_less_eq distinct.simps(2) length_Cons length_map list.simps(9) nth_map nth_mem)
    with Suc Cons show ?thesis by (simp add: task_eq_def)
  qed (simp add: task_eq_def)
qed simp

text \<open>Round robin is not fair to tasks next to one that completes: in the first round, when a task completes
  right after it was served, its successor is passed over, and the task after that one is served next.\<close>

theorem rr_completion_skips:
  assumes "rr_index s = int i" and "i + 2 < length (rr_queue s)" and "distinct (map py_task_key (rr_queue s))"
  shows "fst (RR_next_task s) = Some (rr_queue s ! i) \<and>
    fst (RR_next_task (RR_complete (snd (RR_next_task s)) (rr_queue s ! i))) = Some (rr_queue s ! (i + 2))"
proof -
  let ?q = "rr_queue s"
  have i: "i < length ?q" and ne: "?q \<noteq> []" using assms(2) by auto
  have "list_ex (\<lambda>t. task_eq t (?q ! i)) ?q" using i by (auto simp: list_ex_iff task_eq_def)
  then have "RR_complete (snd (RR_next_task s)) (?q ! i) = s\<lparr>rr_queue := take i ?q @ drop (Suc i) ?q, rr_index := int i + 1\<rparr>"
    using ne assms(1) py_remove_nth [OF assms(3) i] by (simp add: RR_next_task_def RR_complete_def)
  moreover have "length (take i ?q @ drop (Suc i) ?q) = length ?q - 1" using i by simp
  moreover have "(int i + 1) mod int (length ?q - 1) = int i + 1" using assms(2) by simp
  moreover have "(take i ?q @ drop (Suc i) ?q) ! Suc i = ?q ! (i + 2)" using assms(2) by (simp add: nth_append)
  moreover have "nat (int i + 1) = Suc i" by simp
  ultimately show ?thesis using ne assms(1,2) by (auto simp: RR_next_task_def)
qed

section \<open>Witnesses\<close>

definition sample_py_task :: "int \<Rightarrow> float64 \<Rightarrow> string \<Rightarrow> PyTask" where
  "sample_py_task p t n = \<lparr>pt_priority = p, pt_submitted_at = t, pt_task_id = n, pt_command = ''true'',
     pt_cpu_request = 1 / 2, pt_memory_request = 256, pt_estimated_duration = 30, pt_burst_remaining = 30\<rparr>"

definition sample_queue :: MLFQueue where
  "sample_queue = [[], [sample_py_task 1 5 ''b''], [sample_py_task 2 3 ''a''], []]"

lemma sample_run: "mlfq_run [Enqueued (sample_py_task 2 3 ''a''), Enqueued (sample_py_task 1 5 ''b'')] sample_queue"
proof -
  have "mlfq_run ([] @ [Enqueued (sample_py_task 2 3 ''a'')]) [[], [], [sample_py_task 2 3 ''a''], []]"
    by (rule mlfq_run.enqueue [OF mlfq_run.new]) (simp_all add: mlfq_fits_def LEVELS_def sample_py_task_def
      MLFQ_enqueue_def push_level_def py_index_def MLFQ_new_def heappush_def siftdown.simps numeral_nat)
  then have "mlfq_run (([] @ [Enqueued (sample_py_task 2 3 ''a'')]) @ [Enqueued (sample_py_task 1 5 ''b'')]) sample_queue"
    by (rule mlfq_run.enqueue) (simp_all add: mlfq_fits_def LEVELS_def sample_py_task_def sample_queue_def
      MLFQ_enqueue_def push_level_def py_index_def heappush_def siftdown.simps)
  then show ?thesis by simp
qed


theorem mlfq_drains_in_order_witness:
  "\<exists>q. enqueue_all MLFQ_enqueue MLFQ_new [sample_py_task 2 3 ''a'', sample_py_task 0 7 ''c''] = Inr q \<and>
     sorted_wrt task_before (drain MLFQ_dequeue 2 q)"
  using mlfq_drains_in_order [of "[sample_py_task 2 3 ''a'', sample_py_task 0 7 ''c'']"]
  by (auto simp: mlfq_fits_def LEVELS_def sample_py_task_def numeral_2_eq_2)

definition sample_round :: RoundRobinScheduler where
  "sample_round = \<lparr>rr_queue = [sample_py_task 2 3 ''a'', sample_py_task 1 5 ''b'', sample_py_task 0 7 ''c''], rr_index = 0\<rparr>"

theorem rr_completion_skips_witness:
  "fst (RR_next_task (RR_complete (snd (RR_next_task sample_round)) (sample_py_task 2 3 ''a''))) = Some (sample_py_task 0 7 ''c'')"
  using rr_completion_skips [of sample_round 0]
  by (simp add: sample_round_def sample_py_task_def py_task_key_def)

end
