(* ===== verification/Resource_Allocator.thy ===== *)
theory Resource_Allocator
  imports Task_Queues "HOL-Library.AList"
begin

text \<open>
  The resource allocator of the Python scheduler (\<open>src/scheduler/resource_allocator.py\<close>): nodes with CPU and
  memory as floats, kept in a dictionary in the order they were added, the three strategies of
  placement, releasing and the statistics. A node that was chosen is changed in its place.
\<close>

section \<open>Nodes\<close>

record Node =
  nd_node_id :: string
  nd_total_cpu :: float64
  nd_total_memory :: float64
  nd_used_cpu :: float64
  nd_used_memory :: float64

definition available_cpu :: "Node \<Rightarrow> float64" where
  "available_cpu n = fl (nd_total_cpu n - nd_used_cpu n)"

definition available_memory :: "Node \<Rightarrow> float64" where
  "available_memory n = fl (nd_total_memory n - nd_used_memory n)"

definition percent :: "float64 \<Rightarrow> float64 \<Rightarrow> py_error + float64" where
  "percent used whole = (if whole = 0 then Inl ZeroDivisionError else Inr (fl (fl (used / whole) * 100)))"

definition cpu_percent :: "Node \<Rightarrow> py_error + float64" where
  "cpu_percent n = percent (nd_used_cpu n) (nd_total_cpu n)"

definition memory_percent :: "Node \<Rightarrow> py_error + float64" where
  "memory_percent n = percent (nd_used_memory n) (nd_total_memory n)"

section \<open>The allocator\<close>

record AllocationResult =
  ar_success :: bool
  ar_node_id :: "string option"
  ar_message :: string

record ResourceAllocator =
  al_nodes :: "(string \<times> Node) list"
  al_allocations :: "string \<rightharpoonup> string"

definition new_allocator :: ResourceAllocator where
  "new_allocator = \<lparr>al_nodes = [], al_allocations = Map.empty\<rparr>"

definition add_node :: "string \<Rightarrow> float64 \<Rightarrow> float64 \<Rightarrow> ResourceAllocator \<Rightarrow> ResourceAllocator" where
  "add_node node_id cpu memory al =
     al\<lparr>al_nodes := AList.update node_id
       \<lparr>nd_node_id = node_id, nd_total_cpu = cpu, nd_total_memory = memory, nd_used_cpu = 0, nd_used_memory = 0\<rparr>
       (al_nodes al)\<rparr>"

definition node_fits :: "float64 \<Rightarrow> float64 \<Rightarrow> Node \<Rightarrow> bool" where
  "node_fits cpu memory n \<longleftrightarrow> cpu \<le> available_cpu n \<and> memory \<le> available_memory n"

definition slack :: "float64 \<Rightarrow> float64 \<Rightarrow> Node \<Rightarrow> float64" where
  "slack cpu memory n = fl (fl (fl (available_cpu n - cpu) + available_memory n) - memory)"

definition free_sum :: "Node \<Rightarrow> float64" where
  "free_sum n = fl (available_cpu n + available_memory n)"

text \<open>\<open>min\<close> and \<open>max\<close> with a key return the first item with the least or greatest key.\<close>

definition choose_node :: "string \<Rightarrow> float64 \<Rightarrow> float64 \<Rightarrow> (string \<times> Node) list \<Rightarrow> string \<times> Node" where
  "choose_node strategy cpu memory candidates =
     (if strategy = ''first_fit'' then hd candidates
      else if strategy = ''best_fit'' then arg_min_list (\<lambda>(k, n). slack cpu memory n) candidates
      else arg_min_list (\<lambda>(k, n). - free_sum n) candidates)"

definition charge :: "float64 \<Rightarrow> float64 \<Rightarrow> Node \<Rightarrow> Node" where
  "charge cpu memory n =
     n\<lparr>nd_used_cpu := fl (nd_used_cpu n + cpu), nd_used_memory := fl (nd_used_memory n + memory)\<rparr>"

definition allocate ::
  "string \<Rightarrow> float64 \<Rightarrow> float64 \<Rightarrow> string \<Rightarrow> ResourceAllocator \<Rightarrow> AllocationResult \<times> ResourceAllocator" where
  "allocate task_id cpu memory strategy al =
     (let candidates = filter (\<lambda>(k, n). node_fits cpu memory n) (al_nodes al)
      in if candidates = []
         then (\<lparr>ar_success = False, ar_node_id = None, ar_message = ''No node has enough resources for '' @ task_id\<rparr>, al)
         else let (k, chosen) = choose_node strategy cpu memory candidates
              in (\<lparr>ar_success = True, ar_node_id = Some (nd_node_id chosen), ar_message = ''Allocated to '' @ nd_node_id chosen\<rparr>,
                  al\<lparr>al_nodes := AList.update k (charge cpu memory chosen) (al_nodes al),
                     al_allocations := (al_allocations al)(task_id \<mapsto> nd_node_id chosen)\<rparr>))"

definition deallocate :: "string \<Rightarrow> float64 \<Rightarrow> float64 \<Rightarrow> ResourceAllocator \<Rightarrow> py_error option \<times> ResourceAllocator" where
  "deallocate task_id cpu memory al =
     (case al_allocations al task_id of
        None \<Rightarrow> (None, al)
      | Some node_id \<Rightarrow>
          let al = al\<lparr>al_allocations := (al_allocations al)(task_id := None)\<rparr>
          in case map_of (al_nodes al) node_id of
               None \<Rightarrow> (Some (KeyError node_id), al)
             | Some n \<Rightarrow> (None, al\<lparr>al_nodes := AList.update node_id (charge (- cpu) (- memory) n) (al_nodes al)\<rparr>))"

text \<open>\<open>round(x, n)\<close> rounds the exact value of a float to \<open>n\<close> decimals, ties to even.\<close>

definition py_round :: "float64 \<Rightarrow> nat \<Rightarrow> float64" where
  "py_round x n = fl (of_int (round_even (x * 10 ^ n)) / 10 ^ n)"

record NodeStats =
  ns_cpu_used :: float64
  ns_cpu_available :: float64
  ns_cpu_percent :: float64
  ns_memory_used :: float64
  ns_memory_available :: float64
  ns_memory_percent :: float64

definition node_stats :: "Node \<Rightarrow> py_error + NodeStats" where
  "node_stats n =
     (case cpu_percent n of
        Inl e \<Rightarrow> Inl e
      | Inr c \<Rightarrow>
          (case memory_percent n of
             Inl e \<Rightarrow> Inl e
           | Inr m \<Rightarrow> Inr \<lparr>ns_cpu_used = py_round (nd_used_cpu n) 2, ns_cpu_available = py_round (available_cpu n) 2,
               ns_cpu_percent = py_round c 1, ns_memory_used = py_round (nd_used_memory n) 2,
               ns_memory_available = py_round (available_memory n) 2, ns_memory_percent = py_round m 1\<rparr>))"

fun cluster_stats :: "(string \<times> Node) list \<Rightarrow> py_error + (string \<times> NodeStats) list" where
  "cluster_stats [] = Inr []"
| "cluster_stats ((nid, n) # nodes) =
     (case node_stats n of
        Inl e \<Rightarrow> Inl e
      | Inr s \<Rightarrow> map_sum id (Cons (nid, s)) (cluster_stats nodes))"

section \<open>Placement\<close>

lemma find_filter: "find P xs = (if filter P xs = [] then None else Some (hd (filter P xs)))"
  by (induction xs) auto

lemma arg_min_least: "x \<in> set xs \<Longrightarrow> f (arg_min_list f xs) \<le> f x"
  using f_arg_min_list_f [of xs f] by (metis Min_le empty_iff empty_set finite_imageI finite_set image_eqI)

lemma choose_in:
  assumes "candidates \<noteq> []"
  shows "choose_node strategy cpu memory candidates \<in> set candidates"
  using assms by (simp add: choose_node_def arg_min_list_in)

lemma choose_best:
  assumes "choose_node strategy cpu memory candidates = (k, n)" and "(k', n') \<in> set candidates"
  shows "strategy = ''best_fit'' \<Longrightarrow> slack cpu memory n \<le> slack cpu memory n'"
    and "strategy \<notin> {''first_fit'', ''best_fit''} \<Longrightarrow> free_sum n' \<le> free_sum n"
  using assms arg_min_least [OF assms(2), of "\<lambda>(k, n). slack cpu memory n"]
    arg_min_least [OF assms(2), of "\<lambda>(k, n). - free_sum n"]
  by (auto simp: choose_node_def)

text \<open>What a successful allocation does: a node is chosen among those that fit, and charged.\<close>

definition placed :: "string \<Rightarrow> float64 \<Rightarrow> float64 \<Rightarrow> (string \<times> Node) list \<Rightarrow> string \<Rightarrow> Node \<Rightarrow> bool" where
  "placed strategy cpu memory nodes k n \<longleftrightarrow>
     (k, n) \<in> set nodes \<and> node_fits cpu memory n \<and>
     (strategy = ''first_fit'' \<longrightarrow> find (\<lambda>(k, n). node_fits cpu memory n) nodes = Some (k, n)) \<and>
     (\<forall>(k', n') \<in> set nodes. node_fits cpu memory n' \<longrightarrow>
        (strategy = ''best_fit'' \<longrightarrow> slack cpu memory n \<le> slack cpu memory n') \<and>
        (strategy \<notin> {''first_fit'', ''best_fit''} \<longrightarrow> free_sum n' \<le> free_sum n))"

lemma allocate_run:
  assumes "allocate task_id cpu memory strategy al = (r, al')"
  shows "(ar_success r \<longleftrightarrow> (\<exists>(k, n) \<in> set (al_nodes al). node_fits cpu memory n)) \<and>
    (if ar_success r
     then \<exists>k n. placed strategy cpu memory (al_nodes al) k n \<and> ar_node_id r = Some (nd_node_id n) \<and>
       al_nodes al' = AList.update k (charge cpu memory n) (al_nodes al) \<and>
       al_allocations al' = (al_allocations al)(task_id \<mapsto> nd_node_id n)
     else al' = al)"
proof (cases "filter (\<lambda>(k, n). node_fits cpu memory n) (al_nodes al) = []")
  case True
  with assms show ?thesis by (auto simp: allocate_def Let_def filter_empty_conv)
next
  case False
  let ?c = "filter (\<lambda>(k, n). node_fits cpu memory n) (al_nodes al)"
  obtain k n where kn: "choose_node strategy cpu memory ?c = (k, n)" by force
  with choose_in [OF False, of strategy cpu memory]
  have n: "(k, n) \<in> set (al_nodes al)" "node_fits cpu memory n" by auto
  moreover have "strategy = ''first_fit'' \<Longrightarrow> find (\<lambda>(k, n). node_fits cpu memory n) (al_nodes al) = Some (k, n)"
    using kn False by (simp add: find_filter choose_node_def)
  ultimately have "placed strategy cpu memory (al_nodes al) k n"
    using choose_best [OF kn] by (auto simp: placed_def)
  moreover have "ar_success r" "ar_node_id r = Some (nd_node_id n)"
      "al_nodes al' = AList.update k (charge cpu memory n) (al_nodes al)"
      "al_allocations al' = (al_allocations al)(task_id \<mapsto> nd_node_id n)"
    using assms False kn by (auto simp: allocate_def Let_def)
  moreover have "\<exists>(k, n) \<in> set (al_nodes al). node_fits cpu memory n" using n by blast
  ultimately show ?thesis by auto
qed


section \<open>Capacity\<close>

text \<open>
  With nodes of capacity \<open>t\<close> of which \<open>u\<close> is used, a request that the code finds to fit makes the use at most
  \<open>t\<close>, up to the rounding of the two operations. The excess is real (\<open>capacity_exceeded\<close>).
\<close>

lemma capacity_exceeded:
  "2 ^ 52 + 4 \<le> fl (2 ^ 52 + 5 - 3 / 2)" "2 ^ 52 + 5 < fl (3 / 2 + (2 ^ 52 + 4))"
  by code_simp+

definition in_capacity :: "float64 \<Rightarrow> float64 \<Rightarrow> bool" where
  "in_capacity u t \<longleftrightarrow> 0 \<le> u \<and> u \<le> t * (1 + 1 / 2 ^ 53) ^ 2"

lemma fl_upper:
  assumes "0 \<le> x"
  shows "fl x \<le> x * (1 + 1 / 2 ^ 53)"
proof -
  have "fl x - x \<le> x / 2 ^ 53" using fl_error [of x] assms by linarith
  then show ?thesis by (simp add: distrib_left)
qed

lemma fl_neg: "x < 0 \<Longrightarrow> fl x < 0"
  using fl_pos_pos [of "- x"] by (simp add: fl_def)

lemma charge_within:
  assumes "in_capacity u t" and "0 \<le> t" and "0 \<le> c" and "c \<le> fl (t - u)"
  shows "in_capacity (fl (u + c)) t"
proof -
  define e :: rat where "e = 1 / 2 ^ 53"
  have e: "0 \<le> e" by (simp add: e_def)
  have up: "0 \<le> x \<Longrightarrow> fl x \<le> x * (1 + e)" for x using fl_upper [of x] by (simp add: e_def)
  have u: "0 \<le> u" using assms(1) by (simp add: in_capacity_def)
  have ut: "u \<le> t" using assms(3,4) fl_neg [of "t - u"] by force
  then have "c \<le> (t - u) * (1 + e)" using assms(4) up [of "t - u"] by linarith
  then have "u + c \<le> t + (t - u) * e" by (simp add: algebra_simps)
  also have "\<dots> \<le> t * (1 + e)" using u e by (simp add: algebra_simps)
  finally have uc: "u + c \<le> t * (1 + e)" .
  have "fl (u + c) \<le> (u + c) * (1 + e)" using u assms(3) by (intro up) simp
  also have "\<dots> \<le> t * (1 + e) * (1 + e)" using uc e by (intro mult_right_mono) auto
  finally have "fl (u + c) \<le> t * (1 + e) ^ 2" by (simp add: power2_eq_square mult.assoc)
  with fl_nonneg [of "u + c"] u assms(3) show ?thesis by (simp add: in_capacity_def e_def)
qed

definition node_ok :: "Node \<Rightarrow> bool" where
  "node_ok n \<longleftrightarrow> 0 \<le> nd_total_cpu n \<and> 0 \<le> nd_total_memory n \<and>
     in_capacity (nd_used_cpu n) (nd_total_cpu n) \<and> in_capacity (nd_used_memory n) (nd_total_memory n)"

definition allocator_ok :: "ResourceAllocator \<Rightarrow> bool" where
  "allocator_ok al \<longleftrightarrow> (\<forall>(k, n) \<in> set (al_nodes al). node_ok n)"

lemma charge_ok: "node_ok n \<Longrightarrow> node_fits cpu memory n \<Longrightarrow> 0 \<le> cpu \<Longrightarrow> 0 \<le> memory \<Longrightarrow> node_ok (charge cpu memory n)"
  by (simp add: node_ok_def node_fits_def charge_def available_cpu_def available_memory_def charge_within)

lemma set_update: "set (AList.update k v xs) \<subseteq> insert (k, v) (set xs)"
  by (induction xs) auto

lemma allocate_ok:
  assumes "allocator_ok al" and "0 \<le> cpu" and "0 \<le> memory" and "allocate task_id cpu memory strategy al = (r, al')"
  shows "allocator_ok al'"
proof (cases "ar_success r")
  case True
  then obtain k n where kn: "placed strategy cpu memory (al_nodes al) k n"
      "al_nodes al' = AList.update k (charge cpu memory n) (al_nodes al)"
    using allocate_run [OF assms(4)] by auto
  then have "node_ok (charge cpu memory n)" using assms(1-3) by (intro charge_ok) (auto simp: allocator_ok_def placed_def)
  with assms(1) kn(2) set_update [of k "charge cpu memory n" "al_nodes al"] show ?thesis
    by (auto simp: allocator_ok_def)
qed (use allocate_run [OF assms(4)] assms(1) in simp)

section \<open>Exhaustion\<close>

text \<open>Charging a node never makes it fit more, as long as its uses are floats and requests are not negative.\<close>

definition node_float :: "Node \<Rightarrow> bool" where
  "node_float n \<longleftrightarrow> fl (nd_used_cpu n) = nd_used_cpu n \<and> fl (nd_used_memory n) = nd_used_memory n"

lemma charge_float: "node_float (charge cpu memory n)"
  by (simp add: node_float_def charge_def)

lemma charge_fits:
  assumes "node_float n" and "0 \<le> c" and "0 \<le> m" and "node_fits cpu memory (charge c m n)"
  shows "node_fits cpu memory n"
proof -
  have "nd_used_cpu n \<le> fl (nd_used_cpu n + c)" "nd_used_memory n \<le> fl (nd_used_memory n + m)"
    using fl_mono [of "nd_used_cpu n" "nd_used_cpu n + c"] fl_mono [of "nd_used_memory n" "nd_used_memory n + m"] assms(1-3)
    by (simp_all add: node_float_def)
  then have "fl (nd_total_cpu n - fl (nd_used_cpu n + c)) \<le> fl (nd_total_cpu n - nd_used_cpu n)"
      "fl (nd_total_memory n - fl (nd_used_memory n + m)) \<le> fl (nd_total_memory n - nd_used_memory n)"
    by (intro fl_mono; simp)+
  with assms(4) show ?thesis by (simp add: node_fits_def available_cpu_def available_memory_def charge_def)
qed

definition none_fits :: "float64 \<Rightarrow> float64 \<Rightarrow> ResourceAllocator \<Rightarrow> bool" where
  "none_fits cpu memory al \<longleftrightarrow> (\<forall>(k, n) \<in> set (al_nodes al). node_float n \<and> \<not> node_fits cpu memory n)"

lemma allocate_none_fits:
  assumes "none_fits cpu memory al" and "0 \<le> c" and "0 \<le> m" and "allocate task_id c m strategy al = (r, al')"
  shows "none_fits cpu memory al'"
proof (cases "ar_success r")
  case True
  then obtain k n where kn: "placed strategy c m (al_nodes al) k n"
      "al_nodes al' = AList.update k (charge c m n) (al_nodes al)"
    using allocate_run [OF assms(4)] by auto
  then have "node_float n" "\<not> node_fits cpu memory n" using assms(1) by (auto simp: none_fits_def placed_def)
  with charge_fits [OF _ assms(2,3)] have "\<not> node_fits cpu memory (charge c m n)" by blast
  with assms(1) kn(2) charge_float set_update [of k "charge c m n" "al_nodes al"] show ?thesis
    by (auto simp: none_fits_def)
qed (use allocate_run [OF assms(4)] assms(1) in simp)

section \<open>Witness\<close>

definition sample_nodes :: ResourceAllocator where
  "sample_nodes = add_node ''node-2'' 8 8192 (add_node ''node-1'' 4 4096 new_allocator)"


end
