(* ===== verification/Deadlock_Detector.thy ===== *)
theory Deadlock_Detector
  imports Main "HOL-Library.Sublist"
begin

text \<open>
  The deadlock detector of the Python scheduler (\<open>src/scheduler/deadlock_detector.py\<close>). An edge leads from a task
  to a task it depends on. The graphs are those of the library networkx, a parameter; what its
  documentation says of the operations that are used is the hypothesis \<open>digraphs\<close>, and \<open>mem_nx\<close> is an
  implementation that meets it.
\<close>

section \<open>The library of graphs\<close>

text \<open>
  \<open>find_cycle\<close> with the original orientation returns the edges of a cycle, each with its direction, which
  is left out here, or raises an exception, which is \<open>None\<close>.
\<close>

record 'g networkx =
  nx_DiGraph :: 'g
  nx_add_node :: "string \<Rightarrow> 'g \<Rightarrow> 'g"
  nx_add_edge :: "string \<Rightarrow> string \<Rightarrow> 'g \<Rightarrow> 'g"
  nx_remove_node :: "string \<Rightarrow> 'g \<Rightarrow> 'g"
  nx_has_node :: "'g \<Rightarrow> string \<Rightarrow> bool"
  nx_nodes :: "'g \<Rightarrow> string list"
  nx_edges :: "'g \<Rightarrow> (string \<times> string) list"
  nx_successors :: "'g \<Rightarrow> string \<Rightarrow> string list"
  nx_find_cycle :: "'g \<Rightarrow> (string \<times> string) list option"
  nx_topological_sort :: "'g \<Rightarrow> string list"

section \<open>The detector\<close>

definition add_task :: "'g networkx \<Rightarrow> string \<Rightarrow> string list \<Rightarrow> 'g \<Rightarrow> 'g" where
  "add_task nx task_id depends_on g =
     fold (\<lambda>dep g. nx_add_edge nx task_id dep (nx_add_node nx dep g)) depends_on (nx_add_node nx task_id g)"

definition remove_task :: "'g networkx \<Rightarrow> string \<Rightarrow> 'g \<Rightarrow> 'g" where
  "remove_task nx task_id g = (if nx_has_node nx g task_id then nx_remove_node nx task_id g else g)"

definition has_deadlock :: "'g networkx \<Rightarrow> 'g \<Rightarrow> bool" where
  "has_deadlock nx g \<longleftrightarrow> nx_find_cycle nx g \<noteq> None"

definition get_cycle :: "'g networkx \<Rightarrow> 'g \<Rightarrow> string list option" where
  "get_cycle nx g = map_option (map fst) (nx_find_cycle nx g)"

definition get_execution_order :: "'g networkx \<Rightarrow> 'g \<Rightarrow> string list option" where
  "get_execution_order nx g = (if has_deadlock nx g then None else Some (rev (nx_topological_sort nx g)))"

definition get_ready_tasks :: "'g networkx \<Rightarrow> string list \<Rightarrow> 'g \<Rightarrow> string list" where
  "get_ready_tasks nx completed g =
     filter (\<lambda>node. node \<notin> set completed \<and> list_all (\<lambda>dep. dep \<in> set completed) (nx_successors nx g node)) (nx_nodes nx g)"

record graph_view =
  gv_nodes :: "string list"
  gv_edges :: "(string \<times> string) list"
  gv_has_deadlock :: bool
  gv_cycle :: "string list option"
  gv_execution_order :: "string list option"

definition visualize :: "'g networkx \<Rightarrow> 'g \<Rightarrow> graph_view" where
  "visualize nx g = \<lparr>gv_nodes = nx_nodes nx g, gv_edges = nx_edges nx g, gv_has_deadlock = has_deadlock nx g,
     gv_cycle = get_cycle nx g, gv_execution_order = get_execution_order nx g\<rparr>"

section \<open>What the library documents\<close>

definition closed_walk :: "(string \<times> string) list \<Rightarrow> bool" where
  "closed_walk c \<longleftrightarrow> c \<noteq> [] \<and> map snd c = tl (map fst c) @ [fst (hd c)]"

definition digraphs :: "'g networkx \<Rightarrow> bool" where
  "digraphs nx \<longleftrightarrow>
     nx_nodes nx (nx_DiGraph nx) = [] \<and> nx_edges nx (nx_DiGraph nx) = [] \<and>
     (\<forall>g x. set (nx_nodes nx (nx_add_node nx x g)) = insert x (set (nx_nodes nx g)) \<and>
       set (nx_edges nx (nx_add_node nx x g)) = set (nx_edges nx g)) \<and>
     (\<forall>g x y. set (nx_nodes nx (nx_add_edge nx x y g)) = insert x (insert y (set (nx_nodes nx g))) \<and>
       set (nx_edges nx (nx_add_edge nx x y g)) = insert (x, y) (set (nx_edges nx g))) \<and>
     (\<forall>g x. set (nx_nodes nx (nx_remove_node nx x g)) = set (nx_nodes nx g) - {x} \<and>
       set (nx_edges nx (nx_remove_node nx x g)) = {(u, v) \<in> set (nx_edges nx g). u \<noteq> x \<and> v \<noteq> x}) \<and>
     (\<forall>g x. nx_has_node nx g x \<longleftrightarrow> x \<in> set (nx_nodes nx g)) \<and>
     (\<forall>g x. set (nx_successors nx g x) = {y. (x, y) \<in> set (nx_edges nx g)}) \<and>
     (\<forall>g. (case nx_find_cycle nx g of
        None \<Rightarrow> acyclic (set (nx_edges nx g))
      | Some c \<Rightarrow> closed_walk c \<and> set c \<subseteq> set (nx_edges nx g))) \<and>
     (\<forall>g. acyclic (set (nx_edges nx g)) \<longrightarrow>
        distinct (nx_topological_sort nx g) \<and> set (nx_topological_sort nx g) = set (nx_nodes nx g) \<and>
        sorted_wrt (\<lambda>u v. (v, u) \<notin> set (nx_edges nx g)) (nx_topological_sort nx g))"

lemma digraphsD:
  assumes "digraphs nx"
  shows "nx_nodes nx (nx_DiGraph nx) = []" and "nx_edges nx (nx_DiGraph nx) = []"
    and "\<forall>g x. set (nx_nodes nx (nx_add_node nx x g)) = insert x (set (nx_nodes nx g)) \<and>
       set (nx_edges nx (nx_add_node nx x g)) = set (nx_edges nx g)"
    and "\<forall>g x y. set (nx_nodes nx (nx_add_edge nx x y g)) = insert x (insert y (set (nx_nodes nx g))) \<and>
       set (nx_edges nx (nx_add_edge nx x y g)) = insert (x, y) (set (nx_edges nx g))"
    and "\<forall>g x. set (nx_nodes nx (nx_remove_node nx x g)) = set (nx_nodes nx g) - {x} \<and>
       set (nx_edges nx (nx_remove_node nx x g)) = {(u, v) \<in> set (nx_edges nx g). u \<noteq> x \<and> v \<noteq> x}"
    and "\<forall>g x. nx_has_node nx g x \<longleftrightarrow> x \<in> set (nx_nodes nx g)"
    and "\<forall>g x. set (nx_successors nx g x) = {y. (x, y) \<in> set (nx_edges nx g)}"
    and "\<forall>g. (case nx_find_cycle nx g of
        None \<Rightarrow> acyclic (set (nx_edges nx g))
      | Some c \<Rightarrow> closed_walk c \<and> set c \<subseteq> set (nx_edges nx g))"
    and "\<forall>g. acyclic (set (nx_edges nx g)) \<longrightarrow>
        distinct (nx_topological_sort nx g) \<and> set (nx_topological_sort nx g) = set (nx_nodes nx g) \<and>
        sorted_wrt (\<lambda>u v. (v, u) \<notin> set (nx_edges nx g)) (nx_topological_sort nx g)"
  using assms unfolding digraphs_def by - (elim conjE, assumption)+

text \<open>A graph whose edges join its nodes, as every graph that is built by the operations.\<close>

definition joined :: "'g networkx \<Rightarrow> 'g \<Rightarrow> bool" where
  "joined nx g \<longleftrightarrow> set (nx_edges nx g) \<subseteq> set (nx_nodes nx g) \<times> set (nx_nodes nx g)"

lemma walk_trancl:
  assumes "c \<noteq> []" and "map snd c = tl (map fst c) @ [y]" and "set c \<subseteq> r"
  shows "(fst (hd c), y) \<in> r\<^sup>+"
  using assms
proof (induction c)
  case (Cons e c)
  show ?case
  proof (cases c)
    case (Cons f c')
    with Cons.prems have "map snd c = tl (map fst c) @ [y]" "snd e = fst (hd c)" by auto
    with Cons.IH Cons.prems Cons have "(fst (hd c), y) \<in> r\<^sup>+" by auto
    moreover have "(fst e, fst (hd c)) \<in> r" using Cons.prems(3) \<open>snd e = fst (hd c)\<close> by (metis list.set_intros(1) prod.collapse subsetD)
    ultimately show ?thesis by (simp add: trancl_into_trancl2)
  qed (use Cons.prems in \<open>auto simp: prod_eq_iff intro!: r_into_trancl\<close>)
qed simp

lemma closed_walk_cycle: "closed_walk c \<Longrightarrow> set c \<subseteq> r \<Longrightarrow> \<not> acyclic r"
  using walk_trancl [of c "fst (hd c)" r] by (auto simp: closed_walk_def acyclic_def)

lemma find_cycle_iff:
  assumes "digraphs nx"
  shows "nx_find_cycle nx g = None \<longleftrightarrow> acyclic (set (nx_edges nx g))"
proof -
  have "case nx_find_cycle nx g of None \<Rightarrow> acyclic (set (nx_edges nx g))
      | Some c \<Rightarrow> closed_walk c \<and> set c \<subseteq> set (nx_edges nx g)"
    using digraphsD(8) [OF assms] by (rule spec)
  then show ?thesis using closed_walk_cycle by (auto split: option.splits)
qed

lemma has_deadlock_iff: "digraphs nx \<Longrightarrow> has_deadlock nx g \<longleftrightarrow> \<not> acyclic (set (nx_edges nx g))"
  by (simp add: has_deadlock_def find_cycle_iff)

lemma graph_steps:
  assumes "digraphs nx"
  shows "set (nx_nodes nx (nx_add_node nx x g)) = insert x (set (nx_nodes nx g))"
    and "set (nx_edges nx (nx_add_node nx x g)) = set (nx_edges nx g)"
    and "set (nx_nodes nx (nx_add_edge nx x y g)) = insert x (insert y (set (nx_nodes nx g)))"
    and "set (nx_edges nx (nx_add_edge nx x y g)) = insert (x, y) (set (nx_edges nx g))"
    and "set (nx_nodes nx (nx_remove_node nx x g)) = set (nx_nodes nx g) - {x}"
    and "set (nx_edges nx (nx_remove_node nx x g)) = {(u, v) \<in> set (nx_edges nx g). u \<noteq> x \<and> v \<noteq> x}"
    and "nx_has_node nx g x \<longleftrightarrow> x \<in> set (nx_nodes nx g)"
    and "set (nx_successors nx g x) = {y. (x, y) \<in> set (nx_edges nx g)}"
  by (simp_all add: digraphsD(3-7) [OF assms, rule_format])

lemma topological_sort_law:
  assumes "digraphs nx" and "acyclic (set (nx_edges nx g))"
  shows "distinct (nx_topological_sort nx g)" and "set (nx_topological_sort nx g) = set (nx_nodes nx g)"
    and "sorted_wrt (\<lambda>u v. (v, u) \<notin> set (nx_edges nx g)) (nx_topological_sort nx g)"
  using digraphsD(9) [OF assms(1), rule_format, OF assms(2)] by simp_all

section \<open>Adding and removing tasks\<close>

lemma add_task_graph:
  assumes "digraphs nx"
  shows "set (nx_nodes nx (add_task nx t ds g)) = insert t (set ds \<union> set (nx_nodes nx g)) \<and>
    set (nx_edges nx (add_task nx t ds g)) = {t} \<times> set ds \<union> set (nx_edges nx g)"
proof -
  let ?f = "\<lambda>dep g. nx_add_edge nx t dep (nx_add_node nx dep g)"
  have "set (nx_nodes nx (fold ?f ds h)) = (if ds = [] then {} else {t}) \<union> set ds \<union> set (nx_nodes nx h) \<and>
      set (nx_edges nx (fold ?f ds h)) = {t} \<times> set ds \<union> set (nx_edges nx h)" for h
    by (induction ds arbitrary: h) (auto simp: graph_steps [OF assms])
  from this [of "nx_add_node nx t g"] show ?thesis by (auto simp: add_task_def graph_steps [OF assms])
qed

lemma remove_task_graph:
  assumes "digraphs nx" and "joined nx g"
  shows "set (nx_nodes nx (remove_task nx t g)) = set (nx_nodes nx g) - {t} \<and>
    set (nx_edges nx (remove_task nx t g)) = {(u, v) \<in> set (nx_edges nx g). u \<noteq> t \<and> v \<noteq> t}"
  using assms(2) by (auto simp: remove_task_def graph_steps [OF assms(1)] joined_def)

lemma joined_add: "digraphs nx \<Longrightarrow> joined nx g \<Longrightarrow> joined nx (add_task nx t ds g)"
  by (auto simp: joined_def add_task_graph)

lemma joined_remove: "digraphs nx \<Longrightarrow> joined nx g \<Longrightarrow> joined nx (remove_task nx t g)"
  using remove_task_graph [of nx g t] by (auto simp: joined_def)

text \<open>A task that is added and removed again takes its old edges with it.\<close>

lemma undone_task:
  assumes "digraphs nx" and "joined nx g"
  shows "set (nx_edges nx (remove_task nx t (add_task nx t ds g))) = {(u, v) \<in> set (nx_edges nx g). u \<noteq> t \<and> v \<noteq> t}"
  using remove_task_graph [OF assms(1) joined_add [OF assms]] add_task_graph [OF assms(1)] by auto

section \<open>Order and progress\<close>

lemma execution_order:
  assumes "digraphs nx"
  shows "case get_execution_order nx g of
      None \<Rightarrow> \<not> acyclic (set (nx_edges nx g))
    | Some order \<Rightarrow> acyclic (set (nx_edges nx g)) \<and> distinct order \<and> set order = set (nx_nodes nx g) \<and>
        sorted_wrt (\<lambda>u v. (u, v) \<notin> set (nx_edges nx g)) order"
  using topological_sort_law [OF assms, of g]
  by (simp add: get_execution_order_def has_deadlock_iff [OF assms] sorted_wrt_rev)

lemma ready_iff:
  assumes "digraphs nx"
  shows "x \<in> set (get_ready_tasks nx completed g) \<longleftrightarrow>
    x \<in> set (nx_nodes nx g) \<and> x \<notin> set completed \<and> (\<forall>y. (x, y) \<in> set (nx_edges nx g) \<longrightarrow> y \<in> set completed)"
  using graph_steps(8) [OF assms, of g x] by (auto simp: get_ready_tasks_def list_all_iff)

lemma ready_progress:
  assumes "digraphs nx" and "joined nx g" and "acyclic (set (nx_edges nx g))"
    and "x \<in> set (nx_nodes nx g)" and "x \<notin> set completed"
  shows "get_ready_tasks nx completed g \<noteq> []"
proof -
  let ?r = "set (nx_edges nx g)"
  let ?q = "set (nx_nodes nx g) - set completed"
  have "wf (?r\<inverse>)" using assms(3) by (intro finite_acyclic_wf_converse) simp_all
  moreover have "x \<in> ?q" using assms(4,5) by simp
  ultimately obtain z where z: "z \<in> ?q" and min: "\<And>y. (y, z) \<in> ?r\<inverse> \<Longrightarrow> y \<notin> ?q" by (rule wfE_min) blast
  have "z \<in> set (get_ready_tasks nx completed g)"
    using z min assms(2) by (auto simp: ready_iff [OF assms(1)] joined_def)
  then show ?thesis by auto
qed

lemma sorted_wrt_if_all: "(\<And>u v. u \<in> set xs \<Longrightarrow> v \<in> set xs \<Longrightarrow> P u v) \<Longrightarrow> sorted_wrt P xs"
  by (induction xs) auto

text \<open>Rounds in which all tasks that are ready run to completion.\<close>

fun run_rounds :: "'g networkx \<Rightarrow> 'g \<Rightarrow> nat \<Rightarrow> string list \<Rightarrow> string list" where
  "run_rounds nx g 0 completed = completed"
| "run_rounds nx g (Suc n) completed = run_rounds nx g n (completed @ get_ready_tasks nx completed g)"

definition left :: "'g networkx \<Rightarrow> 'g \<Rightarrow> string list \<Rightarrow> string set" where
  "left nx g completed = set (nx_nodes nx g) - set completed"

lemma run_rounds_complete:
  assumes "digraphs nx" and "joined nx g" and "acyclic (set (nx_edges nx g))"
  shows "card (left nx g completed) \<le> n \<Longrightarrow> left nx g (run_rounds nx g n completed) = {}"
proof (induction n arbitrary: completed)
  case 0
  then show ?case by (simp add: left_def)
next
  case (Suc n)
  let ?c = "completed @ get_ready_tasks nx completed g"
  show ?case
  proof (cases "left nx g completed = {}")
    case True
    then have "left nx g ?c = {}" by (auto simp: left_def)
    with Suc.IH [of ?c] show ?thesis by simp
  next
    case False
    then obtain x where "x \<in> set (nx_nodes nx g)" "x \<notin> set completed" by (auto simp: left_def)
    from ready_progress [OF assms this] obtain z where "z \<in> set (get_ready_tasks nx completed g)"
      by (metis list.set_intros(1) neq_Nil_conv)
    then have "z \<in> left nx g completed - left nx g ?c" by (auto simp: left_def ready_iff [OF assms(1)])
    then have "left nx g ?c \<subset> left nx g completed" by (auto simp: left_def)
    then have "card (left nx g ?c) < card (left nx g completed)" by (intro psubset_card_mono) (auto simp: left_def)
    with Suc show ?thesis by simp
  qed
qed

lemma run_rounds_ordered:
  assumes "digraphs nx"
  shows "\<lbrakk>\<And>u v. u \<in> set completed \<Longrightarrow> (u, v) \<in> set (nx_edges nx g) \<Longrightarrow> v \<in> set completed;
      sorted_wrt (\<lambda>u v. (u, v) \<notin> set (nx_edges nx g)) completed\<rbrakk> \<Longrightarrow>
    sorted_wrt (\<lambda>u v. (u, v) \<notin> set (nx_edges nx g)) (run_rounds nx g n completed)"
proof (induction n arbitrary: completed)
  case (Suc n)
  let ?r = "get_ready_tasks nx completed g"
  have new: "v \<notin> set completed" "(v, w) \<in> set (nx_edges nx g) \<Longrightarrow> w \<in> set completed" if "v \<in> set ?r" for v w
    using that by (auto simp: ready_iff [OF assms])
  have "sorted_wrt (\<lambda>u v. (u, v) \<notin> set (nx_edges nx g)) ?r"
    using new by (auto intro!: sorted_wrt_if_all)
  then have "sorted_wrt (\<lambda>u v. (u, v) \<notin> set (nx_edges nx g)) (completed @ ?r)"
    using Suc.prems new by (auto simp: sorted_wrt_append)
  moreover have "v \<in> set (completed @ ?r)" if "u \<in> set (completed @ ?r)" "(u, v) \<in> set (nx_edges nx g)" for u v
    using that Suc.prems(1) new(2) by auto
  ultimately have "sorted_wrt (\<lambda>u v. (u, v) \<notin> set (nx_edges nx g)) (run_rounds nx g n (completed @ ?r))"
    by (intro Suc.IH)
  then show ?case by simp
qed simp

section \<open>Graphs in memory\<close>

text \<open>Graphs as lists of nodes and edges: a cycle is searched up to the number of edges, and a node without
  an edge from those that are left comes first.\<close>

type_synonym edges = "(string \<times> string) list"

fun first_some :: "('a \<Rightarrow> 'b option) \<Rightarrow> 'a list \<Rightarrow> 'b option" where
  "first_some f [] = None"
| "first_some f (x # xs) = (case f x of None \<Rightarrow> first_some f xs | Some y \<Rightarrow> Some y)"

lemma first_some_None: "first_some f xs = None \<longleftrightarrow> (\<forall>x \<in> set xs. f x = None)"
  by (induction xs) (auto split: option.split)

lemma first_some_Some: "first_some f xs = Some y \<Longrightarrow> \<exists>x \<in> set xs. f x = Some y"
  by (induction xs) (auto split: option.splits)

fun path_to :: "nat \<Rightarrow> edges \<Rightarrow> string \<Rightarrow> string \<Rightarrow> edges option" where
  "path_to 0 es x y = None"
| "path_to (Suc n) es x y =
     (if (x, y) \<in> set es then Some [(x, y)]
      else first_some (\<lambda>(u, z). if u = x then map_option (Cons (x, z)) (path_to n es z y) else None) es)"

fun topo :: "nat \<Rightarrow> string list \<Rightarrow> edges \<Rightarrow> string list" where
  "topo 0 ns es = []"
| "topo (Suc n) ns es =
     (case find (\<lambda>x. list_all (\<lambda>(u, v). v = x \<longrightarrow> u \<notin> set ns) es) ns of
        None \<Rightarrow> []
      | Some x \<Rightarrow> x # topo n (removeAll x ns) es)"

definition add_new :: "'a \<Rightarrow> 'a list \<Rightarrow> 'a list" where
  "add_new x xs = (if x \<in> set xs then xs else xs @ [x])"

definition mem_nx :: "(string list \<times> edges) networkx" where
  "mem_nx = \<lparr>nx_DiGraph = ([], []),
     nx_add_node = (\<lambda>x (ns, es). (add_new x ns, es)),
     nx_add_edge = (\<lambda>x y (ns, es). (add_new y (add_new x ns), add_new (x, y) es)),
     nx_remove_node = (\<lambda>x (ns, es). (removeAll x ns, filter (\<lambda>(u, v). u \<noteq> x \<and> v \<noteq> x) es)),
     nx_has_node = (\<lambda>(ns, es) x. x \<in> set ns),
     nx_nodes = fst,
     nx_edges = snd,
     nx_successors = (\<lambda>(ns, es) x. map snd (filter (\<lambda>(u, v). u = x) es)),
     nx_find_cycle = (\<lambda>(ns, es). first_some (\<lambda>(u, v). path_to (length es) es u u) es),
     nx_topological_sort = (\<lambda>(ns, es). topo (length ns) ns es)\<rparr>"

lemma path_to_Some:
  "path_to n es x y = Some p \<Longrightarrow>
   p \<noteq> [] \<and> fst (hd p) = x \<and> map snd p = tl (map fst p) @ [y] \<and> set p \<subseteq> set es"
proof (induction n arbitrary: x p)
  case (Suc n)
  show ?case
  proof (cases "(x, y) \<in> set es")
    case False
    with Suc.prems obtain z q where q: "(x, z) \<in> set es" "path_to n es z y = Some q" "p = (x, z) # q"
      by (auto dest!: first_some_Some split: if_splits)
    with Suc.IH [OF q(2)] show ?thesis by (cases q) auto
  qed (use Suc.prems in auto)
qed simp

lemma path_to_None: "path_to n es x y = None \<Longrightarrow> 0 < k \<Longrightarrow> k \<le> n \<Longrightarrow> (x, y) \<notin> set es ^^ k"
proof (induction n arbitrary: x k)
  case (Suc n)
  from Suc.prems(1) have none: "(x, y) \<notin> set es" "\<And>z. (x, z) \<in> set es \<Longrightarrow> path_to n es z y = None"
    by (auto simp: first_some_None split: if_splits)
  show ?case
  proof (cases "k = 1")
    case False
    with Suc.prems obtain j where j: "k = Suc j" "0 < j" "j \<le> n" by (cases k) auto
    show ?thesis
    proof
      assume "(x, y) \<in> set es ^^ k"
      then obtain z where "(x, z) \<in> set es" "(z, y) \<in> set es ^^ j" unfolding j(1) by (meson relpow_Suc_D2)
      with Suc.IH [OF none(2) j(2,3)] show False by blast
    qed
  qed (use none in simp)
qed simp

lemma mem_find_cycle:
  "case first_some (\<lambda>(u, v). path_to (length es) es u u) es of
     None \<Rightarrow> acyclic (set es)
   | Some c \<Rightarrow> closed_walk c \<and> set c \<subseteq> set es"
proof (cases "first_some (\<lambda>(u, v). path_to (length es) es u u) es")
  case None
  have "(x, x) \<notin> (set es)\<^sup>+" for x
  proof
    assume c: "(x, x) \<in> (set es)\<^sup>+"
    then obtain z where "(x, z) \<in> set es" by (meson tranclD)
    with None have none: "path_to (length es) es x x = None" by (auto simp: first_some_None)
    from c obtain k where "0 < k" "k \<le> card (set es)" "(x, x) \<in> set es ^^ k"
      by (auto simp: trancl_finite_eq_relpow)
    with path_to_None [OF none] card_length [of es] show False by (meson le_trans)
  qed
  with None show ?thesis by (simp add: acyclic_def)
next
  case (Some c)
  then obtain u where "path_to (length es) es u u = Some c" by (auto dest!: first_some_Some)
  from path_to_Some [OF this] Some show ?thesis by (auto simp: closed_walk_def)
qed

lemma topo_law:
  assumes "acyclic (set es)"
  shows "length ns \<le> n \<Longrightarrow>
    distinct (topo n ns es) \<and> set (topo n ns es) = set ns \<and> sorted_wrt (\<lambda>u v. (v, u) \<notin> set es) (topo n ns es)"
proof (induction n arbitrary: ns)
  case (Suc n)
  let ?P = "\<lambda>x. list_all (\<lambda>(u, v). v = x \<longrightarrow> u \<notin> set ns) es"
  show ?case
  proof (cases "find ?P ns")
    case None
    have "ns = []"
    proof (rule ccontr)
      assume "ns \<noteq> []"
      then obtain x where "x \<in> set ns" by (cases ns) auto
      moreover have "wf (set es)" using assms by (intro finite_acyclic_wf) simp_all
      ultimately obtain z where "z \<in> set ns" "\<And>y. (y, z) \<in> set es \<Longrightarrow> y \<notin> set ns" by (meson wfE_min)
      with None show False by (force simp: find_None_iff list_all_iff)
    qed
    with None show ?thesis by simp
  next
    case (Some x)
    then have x: "x \<in> set ns" "?P x" by (auto simp: find_Some_iff)
    then have "length (removeAll x ns) \<le> n" using Suc.prems length_removeAll_less [OF x(1)] by linarith
    with Suc.IH [of "removeAll x ns"] x Some show ?thesis by (auto simp: list_all_iff)
  qed
qed simp

lemma mem_nx_simps [simp]:
  "nx_DiGraph mem_nx = ([], [])" "nx_add_node mem_nx x (ns, es) = (add_new x ns, es)"
  "nx_add_edge mem_nx x y (ns, es) = (add_new y (add_new x ns), add_new (x, y) es)"
  "nx_remove_node mem_nx x (ns, es) = (removeAll x ns, filter (\<lambda>(u, v). u \<noteq> x \<and> v \<noteq> x) es)"
  "nx_has_node mem_nx (ns, es) x \<longleftrightarrow> x \<in> set ns" "nx_nodes mem_nx (ns, es) = ns" "nx_edges mem_nx (ns, es) = es"
  "nx_successors mem_nx (ns, es) x = map snd (filter (\<lambda>(u, v). u = x) es)"
  "nx_find_cycle mem_nx (ns, es) = first_some (\<lambda>(u, v). path_to (length es) es u u) es"
  "nx_topological_sort mem_nx (ns, es) = topo (length ns) ns es"
  by (simp_all add: mem_nx_def)

lemma set_add_new [simp]: "set (add_new x xs) = insert x (set xs)"
  by (auto simp: add_new_def)

lemma mem_digraphs: "digraphs mem_nx"
  unfolding digraphs_def split_paired_All
  using mem_find_cycle by (auto simp: topo_law image_iff cong: option.case_cong)

end
