(* ===== verification/Scheduler_Api.thy ===== *)
theory Scheduler_Api
  imports Resource_Allocator Deadlock_Detector Go_Text
begin

text \<open>
  The API of the Python scheduler (\<open>src/scheduler/scheduler_api.py\<close>) over its queues, allocator and detector,
  whose instances are the state. A request is served as a whole; the time and what Redis answers are
  part of it. Priorities are lowered as ASCII text.
\<close>

section \<open>Requests and replies\<close>

record SchedulerRequest =
  pr_task_id :: string
  pr_command :: string
  pr_priority :: string
  pr_algorithm :: string
  pr_cpu_request :: float64
  pr_memory_request :: float64
  pr_estimated_duration :: int
  pr_depends_on :: "string list"

record queue_message =
  qm_task_id :: string
  qm_command :: string
  qm_priority :: string
  qm_algorithm :: string
  qm_node :: "string option"

datatype redis_push = NoRedis | Pushed | PushFails

datatype api_detail = CycleDetail "string list option" | TextDetail string

datatype api_reply =
    TaskQueued string "string option" string string "queue_message option"
  | TaskNext string string int int
  | ExecutionOrder "string list"
  | Statistics "(string \<times> nat) list" "(string \<times> NodeStats) list" graph_view
  | ClusterStatistics "(string \<times> NodeStats) list"
  | AlgorithmChanged string
  | Healthy
  | HttpError nat api_detail
  | ServerError py_error
  | RedisError

record 'g scheduler_app =
  sa_scheduler :: py_scheduler
  sa_detector :: 'g
  sa_allocator :: ResourceAllocator

definition start_app :: "'g networkx \<Rightarrow> 'g scheduler_app" where
  "start_app nx = \<lparr>sa_scheduler = get_scheduler ''mlfq'', sa_detector = nx_DiGraph nx,
     sa_allocator = add_node ''node-3'' 8 8192 (add_node ''node-2'' 4 4096 (add_node ''node-1'' 4 4096 new_allocator))\<rparr>"

section \<open>Endpoints\<close>

definition priority_number :: "string \<Rightarrow> int" where
  "priority_number s =
     (let p = ToLower s
      in if p = ''critical'' then 0 else if p = ''high'' then 1 else if p = ''medium'' then 2
         else if p = ''low'' then 3 else 2)"

definition request_py_task :: "float64 \<Rightarrow> SchedulerRequest \<Rightarrow> PyTask" where
  "request_py_task now req =
     \<lparr>pt_priority = priority_number (pr_priority req), pt_submitted_at = now, pt_task_id = pr_task_id req,
      pt_command = pr_command req, pt_cpu_request = pr_cpu_request req, pt_memory_request = pr_memory_request req,
      pt_estimated_duration = pr_estimated_duration req, pt_burst_remaining = 30\<rparr>"

definition pushed_message :: "SchedulerRequest \<Rightarrow> string option \<Rightarrow> queue_message" where
  "pushed_message req node = \<lparr>qm_task_id = pr_task_id req, qm_command = pr_command req, qm_priority = pr_priority req,
     qm_algorithm = pr_algorithm req, qm_node = node\<rparr>"

definition submit_task ::
  "'g networkx \<Rightarrow> float64 \<Rightarrow> redis_push \<Rightarrow> SchedulerRequest \<Rightarrow> 'g scheduler_app \<Rightarrow> api_reply \<times> 'g scheduler_app" where
  "submit_task nx now redis req app =
     (let g = add_task nx (pr_task_id req) (pr_depends_on req) (sa_detector app)
      in if has_deadlock nx g
         then let g = remove_task nx (pr_task_id req) g
              in (HttpError 400 (CycleDetail (get_cycle nx g)), app\<lparr>sa_detector := g\<rparr>)
         else let (result, al) = allocate (pr_task_id req) (pr_cpu_request req) (pr_memory_request req) ''best_fit'' (sa_allocator app);
                  app = app\<lparr>sa_detector := g, sa_allocator := al\<rparr>
              in if \<not> ar_success result then (HttpError 507 (TextDetail (ar_message result)), app)
                 else case scheduler_enqueue (get_scheduler (pr_algorithm req)) (request_py_task now req) of
                   Inl e \<Rightarrow> (ServerError e, app)
                 | Inr sched \<Rightarrow>
                     (if redis = PushFails then (RedisError, app)
                      else (TaskQueued (pr_task_id req) (ar_node_id result) (pr_priority req) (pr_algorithm req)
                              (if redis = Pushed then Some (pushed_message req (ar_node_id result)) else None), app)))"

definition get_next_task :: "'g scheduler_app \<Rightarrow> api_reply \<times> 'g scheduler_app" where
  "get_next_task app =
     (case scheduler_dequeue (sa_scheduler app) of
        Inl e \<Rightarrow> (ServerError e, app)
      | Inr (t, s) \<Rightarrow>
          (case t of
             None \<Rightarrow> HttpError 404 (TextDetail ''No tasks in queue'')
           | Some t \<Rightarrow> TaskNext (pt_task_id t) (pt_command t) (pt_priority t) (pt_estimated_duration t),
           app\<lparr>sa_scheduler := s\<rparr>))"

definition api_scheduler_stats :: "'g networkx \<Rightarrow> 'g scheduler_app \<Rightarrow> api_reply" where
  "api_scheduler_stats nx app =
     (case cluster_stats (al_nodes (sa_allocator app)) of
        Inl e \<Rightarrow> ServerError e
      | Inr c \<Rightarrow> Statistics (scheduler_stats (sa_scheduler app)) c (visualize nx (sa_detector app)))"

definition api_execution_order :: "'g networkx \<Rightarrow> 'g scheduler_app \<Rightarrow> api_reply" where
  "api_execution_order nx app =
     (case get_execution_order nx (sa_detector app) of
        None \<Rightarrow> HttpError 400 (TextDetail ''Deadlock detected!'')
      | Some order \<Rightarrow> ExecutionOrder order)"

definition change_algorithm :: "string \<Rightarrow> 'g scheduler_app \<Rightarrow> api_reply \<times> 'g scheduler_app" where
  "change_algorithm algorithm app = (AlgorithmChanged algorithm, app\<lparr>sa_scheduler := get_scheduler algorithm\<rparr>)"

definition api_cluster_stats :: "'g scheduler_app \<Rightarrow> api_reply" where
  "api_cluster_stats app =
     (case cluster_stats (al_nodes (sa_allocator app)) of Inl e \<Rightarrow> ServerError e | Inr c \<Rightarrow> ClusterStatistics c)"

datatype api_call =
    Submit float64 redis_push SchedulerRequest
  | Next
  | Stats
  | Order
  | Change string
  | Cluster
  | Health

fun api_serve :: "'g networkx \<Rightarrow> api_call \<Rightarrow> 'g scheduler_app \<Rightarrow> api_reply \<times> 'g scheduler_app" where
  "api_serve nx (Submit now redis req) app = submit_task nx now redis req app"
| "api_serve nx Next app = get_next_task app"
| "api_serve nx Stats app = (api_scheduler_stats nx app, app)"
| "api_serve nx Order app = (api_execution_order nx app, app)"
| "api_serve nx (Change algorithm) app = change_algorithm algorithm app"
| "api_serve nx Cluster app = (api_cluster_stats app, app)"
| "api_serve nx Health app = (Healthy, app)"

fun serve_all :: "'g networkx \<Rightarrow> api_call list \<Rightarrow> 'g scheduler_app \<Rightarrow> 'g scheduler_app" where
  "serve_all nx [] app = app"
| "serve_all nx (c # cs) app = serve_all nx cs (snd (api_serve nx c app))"

section \<open>Invariants\<close>

text \<open>What a call keeps, every sequence of calls keeps.\<close>

lemma serve_all_invariant:
  assumes "\<And>c app. c \<in> set cs \<Longrightarrow> I app \<Longrightarrow> I (snd (api_serve nx c app))" and "I app"
  shows "I (serve_all nx cs app)"
  using assms by (induction cs arbitrary: app) auto

lemma submit_detector:
  "sa_detector (snd (submit_task nx now redis req app)) =
     (let g = add_task nx (pr_task_id req) (pr_depends_on req) (sa_detector app)
      in if has_deadlock nx g then remove_task nx (pr_task_id req) g else g)"
  by (simp add: submit_task_def Let_def split: prod.split sum.split)

lemma submit_allocator:
  "sa_allocator (snd (submit_task nx now redis req app)) \<in>
     {sa_allocator app, snd (allocate (pr_task_id req) (pr_cpu_request req) (pr_memory_request req) ''best_fit'' (sa_allocator app))}"
  by (simp add: submit_task_def Let_def split: prod.split sum.split)

lemma submit_scheduler: "sa_scheduler (snd (submit_task nx now redis req app)) = sa_scheduler app"
  by (simp add: submit_task_def Let_def split: prod.split sum.split)

lemma next_keeps: "sa_detector (snd (get_next_task app)) = sa_detector app" "sa_allocator (snd (get_next_task app)) = sa_allocator app"
  by (simp_all add: get_next_task_def split: prod.split sum.split)

definition detector_ok :: "'g networkx \<Rightarrow> 'g scheduler_app \<Rightarrow> bool" where
  "detector_ok nx app \<longleftrightarrow> joined nx (sa_detector app) \<and> acyclic (set (nx_edges nx (sa_detector app)))"

lemma submit_detector_ok:
  assumes "digraphs nx" and "detector_ok nx app"
  shows "detector_ok nx (snd (submit_task nx now redis req app))"
proof -
  let ?t = "pr_task_id req"
  let ?g = "add_task nx ?t (pr_depends_on req) (sa_detector app)"
  have j: "joined nx (sa_detector app)" "joined nx ?g" and a: "acyclic (set (nx_edges nx (sa_detector app)))"
    using assms by (auto simp: detector_ok_def joined_add)
  have "acyclic (set (nx_edges nx (remove_task nx ?t ?g)))"
    unfolding undone_task [OF assms(1) j(1)] by (rule acyclic_subset [OF a]) auto
  then show ?thesis
    using j by (simp add: detector_ok_def submit_detector Let_def has_deadlock_iff [OF assms(1)] joined_remove [OF assms(1)])
qed

lemma serve_detector_ok: "digraphs nx \<Longrightarrow> detector_ok nx app \<Longrightarrow> detector_ok nx (snd (api_serve nx c app))"
  by (cases c) (simp_all add: submit_detector_ok detector_ok_def [of nx "snd (get_next_task app)"] next_keeps,
    simp_all add: detector_ok_def change_algorithm_def)

lemma start_detector_ok: "digraphs nx \<Longrightarrow> detector_ok nx (start_app nx)"
  by (simp add: detector_ok_def start_app_def joined_def digraphsD(1,2) acyclic_def)

lemma reached_detector_ok:
  assumes "digraphs nx"
  shows "detector_ok nx (serve_all nx cs (start_app nx))"
  by (rule serve_all_invariant) (simp_all add: serve_detector_ok start_detector_ok assms)

section \<open>Dependencies\<close>

text \<open>C11. Whatever requests are served, the graph of dependencies never has a cycle: the execution order exists, holds
  every task once, and puts no task before one that it depends on.\<close>

theorem dependencies_stay_acyclic:
  assumes "digraphs nx"
  shows "\<exists>order. api_execution_order nx (serve_all nx cs (start_app nx)) = ExecutionOrder order \<and>
    distinct order \<and> set order = set (nx_nodes nx (sa_detector (serve_all nx cs (start_app nx)))) \<and>
    sorted_wrt (\<lambda>u v. (u, v) \<notin> set (nx_edges nx (sa_detector (serve_all nx cs (start_app nx))))) order"
proof -
  let ?g = "sa_detector (serve_all nx cs (start_app nx))"
  have "acyclic (set (nx_edges nx ?g))" using reached_detector_ok [OF assms] by (simp add: detector_ok_def)
  with execution_order [OF assms, of ?g] show ?thesis
    by (auto simp: api_execution_order_def split: option.splits)
qed

text \<open>C19. From every state the API reaches, running all tasks that are ready, round after round, completes every task
  of the graph, at the latest after as many rounds as there are tasks, and none before one that it
  depends on.\<close>

theorem ready_rounds_complete:
  assumes "digraphs nx" and "g = sa_detector (serve_all nx cs (start_app nx))"
  shows "set (nx_nodes nx g) \<subseteq> set (run_rounds nx g (length (nx_nodes nx g)) []) \<and>
    sorted_wrt (\<lambda>u v. (u, v) \<notin> set (nx_edges nx g)) (run_rounds nx g (length (nx_nodes nx g)) [])"
proof -
  have g: "joined nx g" "acyclic (set (nx_edges nx g))"
    using reached_detector_ok [OF assms(1), of cs] assms(2) by (simp_all add: detector_ok_def)
  have "card (left nx g []) \<le> length (nx_nodes nx g)" by (simp add: left_def card_length)
  with run_rounds_complete [OF assms(1) g, of "[]"] run_rounds_ordered [OF assms(1), of "[]" g] show ?thesis
    by (auto simp: left_def)
qed


section \<open>Queues\<close>

definition scheduler_empty :: "'g scheduler_app \<Rightarrow> bool" where
  "scheduler_empty app \<longleftrightarrow> sa_scheduler app \<in> range get_scheduler"

lemma new_scheduler_dequeue:
  "scheduler_dequeue (get_scheduler a) \<in> {Inr (None, get_scheduler a), Inl (AttributeError ''dequeue'')}"
  by (simp add: get_scheduler_def MLFQ_new_def LEVELS_def pop_front_def numeral_eq_Suc)

lemma serve_scheduler_empty: "scheduler_empty app \<Longrightarrow> scheduler_empty (snd (api_serve nx c app))"
proof (cases c)
  case Next
  assume "scheduler_empty app"
  then obtain a where "sa_scheduler app = get_scheduler a" by (auto simp: scheduler_empty_def)
  with Next new_scheduler_dequeue [of a] show ?thesis by (auto simp: get_next_task_def scheduler_empty_def)
qed (auto simp: scheduler_empty_def submit_scheduler change_algorithm_def)

text \<open>C30. No task ever comes out: every submission puts its task on a queue of its own, which is dropped. After any
  requests, the next task is answered with 404, or, when the round robin algorithm was chosen, the
  request fails.\<close>

theorem submitted_tasks_never_served:
  "fst (api_serve nx Next (serve_all nx cs (start_app nx))) \<in>
     {HttpError 404 (TextDetail ''No tasks in queue''), ServerError (AttributeError ''dequeue'')}"
proof -
  have "scheduler_empty (serve_all nx cs (start_app nx))"
    by (rule serve_all_invariant [where I = scheduler_empty])
      (simp_all add: serve_scheduler_empty, simp add: scheduler_empty_def start_app_def)
  then obtain a where "sa_scheduler (serve_all nx cs (start_app nx)) = get_scheduler a" by (auto simp: scheduler_empty_def)
  with new_scheduler_dequeue [of a] show ?thesis by (auto simp: get_next_task_def)
qed

section \<open>Resources\<close>

text \<open>Requests for resources that are not negative.\<close>

fun sensible :: "api_call \<Rightarrow> bool" where
  "sensible (Submit now redis req) \<longleftrightarrow> 0 \<le> pr_cpu_request req \<and> 0 \<le> pr_memory_request req"
| "sensible _ \<longleftrightarrow> True"

lemma serve_allocator:
  assumes "sensible c"
    and "\<And>t cpu memory al. 0 \<le> cpu \<Longrightarrow> 0 \<le> memory \<Longrightarrow> I al \<Longrightarrow> I (snd (allocate t cpu memory ''best_fit'' al))"
    and "I (sa_allocator app)"
  shows "I (sa_allocator (snd (api_serve nx c app)))"
proof (cases c)
  case (Submit now redis req)
  with assms submit_allocator [of nx now redis req app] show ?thesis by auto
qed (use assms(3) in \<open>simp_all add: next_keeps change_algorithm_def\<close>)

text \<open>C12. As long as no request asks for a negative amount, no node is charged more than it has, up to the rounding of
  the additions.\<close>

theorem nodes_within_capacity:
  assumes "list_all sensible cs"
  shows "list_all (\<lambda>(k, n). 0 \<le> nd_used_cpu n \<and> nd_used_cpu n \<le> nd_total_cpu n * (1 + 1 / 2 ^ 53) ^ 2 \<and>
      0 \<le> nd_used_memory n \<and> nd_used_memory n \<le> nd_total_memory n * (1 + 1 / 2 ^ 53) ^ 2)
    (al_nodes (sa_allocator (serve_all nx cs (start_app nx))))"
proof -
  have "allocator_ok (sa_allocator (serve_all nx cs (start_app nx)))"
  proof (rule serve_all_invariant [where I = "\<lambda>app. allocator_ok (sa_allocator app)"])
    fix c and app :: "'a scheduler_app"
    assume c: "c \<in> set cs" and ok: "allocator_ok (sa_allocator app)"
    from c assms have "sensible c" by (auto simp: list_all_iff)
    then show "allocator_ok (sa_allocator (snd (api_serve nx c app)))"
    proof (rule serve_allocator)
      show "allocator_ok (snd (allocate t cpu memory ''best_fit'' al))" if "0 \<le> cpu" "0 \<le> memory" "allocator_ok al"
        for t cpu memory al
        using allocate_ok [OF that(3,1,2)] by (metis prod.collapse)
    qed (rule ok)
  next
    show "allocator_ok (sa_allocator (start_app nx))"
      by (simp add: start_app_def add_node_def new_allocator_def allocator_ok_def node_ok_def in_capacity_def)
  qed
  then show ?thesis by (auto simp: list_all_iff allocator_ok_def node_ok_def in_capacity_def)
qed

definition floats :: "ResourceAllocator \<Rightarrow> bool" where
  "floats al \<longleftrightarrow> (\<forall>(k, n) \<in> set (al_nodes al). node_float n)"

lemma allocate_floats: "floats al \<Longrightarrow> floats (snd (allocate t cpu memory strategy al))"
proof (cases "allocate t cpu memory strategy al")
  case (Pair r al')
  assume f: "floats al"
  show ?thesis
  proof (cases "ar_success r")
    case True
    then obtain k n where "al_nodes al' = AList.update k (charge cpu memory n) (al_nodes al)"
      using allocate_run [OF Pair] by auto
    with f Pair charge_float set_update [of k "charge cpu memory n" "al_nodes al"] show ?thesis by (auto simp: floats_def)
  qed (use allocate_run [OF Pair] f Pair in simp)
qed

lemma reached_floats: "floats (sa_allocator (serve_all nx cs (start_app nx)))"
proof (rule serve_all_invariant [where I = "\<lambda>app. floats (sa_allocator app)"])
  fix c and app :: "'a scheduler_app"
  assume f: "floats (sa_allocator app)"
  show "floats (sa_allocator (snd (api_serve nx c app)))"
  proof (cases c)
    case (Submit now redis req)
    with f submit_allocator [of nx now redis req app] allocate_floats [OF f] show ?thesis by auto
  qed (use f in \<open>simp_all add: next_keeps change_algorithm_def\<close>)
qed (simp add: start_app_def add_node_def new_allocator_def floats_def node_float_def)

lemma submit_507:
  assumes "submit_task nx now redis req app = (HttpError 507 detail, app')"
  shows "\<forall>(k, n) \<in> set (al_nodes (sa_allocator app)). \<not> node_fits (pr_cpu_request req) (pr_memory_request req) n"
    and "sa_allocator app' = sa_allocator app"
proof -
  let ?a = "allocate (pr_task_id req) (pr_cpu_request req) (pr_memory_request req) ''best_fit'' (sa_allocator app)"
  obtain r al where a: "?a = (r, al)" by force
  with assms have "\<not> ar_success r" "sa_allocator app' = al"
    by (auto simp: submit_task_def Let_def split: if_splits sum.splits)
  with allocate_run [OF a] show "sa_allocator app' = sa_allocator app"
    and "\<forall>(k, n) \<in> set (al_nodes (sa_allocator app)). \<not> node_fits (pr_cpu_request req) (pr_memory_request req) n"
    by auto
qed

lemma submit_none_fits:
  assumes "none_fits cpu memory (sa_allocator app)" and "cpu \<le> pr_cpu_request req" and "memory \<le> pr_memory_request req"
  shows "\<exists>code detail. fst (submit_task nx now redis req app) = HttpError code detail"
proof -
  let ?a = "allocate (pr_task_id req) (pr_cpu_request req) (pr_memory_request req) ''best_fit'' (sa_allocator app)"
  obtain r al where a: "?a = (r, al)" by force
  have "\<not> node_fits (pr_cpu_request req) (pr_memory_request req) n" if "(k, n) \<in> set (al_nodes (sa_allocator app))" for k n
    using assms that by (force simp: none_fits_def node_fits_def)
  with allocate_run [OF a] have "\<not> ar_success r" by auto
  with a show ?thesis by (simp add: submit_task_def Let_def)
qed

text \<open>C32. Resources are never given back: once a request was refused for lack of resources, every later request for as
  much is refused as well, whatever is served in between, as long as nobody asks for a negative
  amount.\<close>

theorem exhausted_for_good:
  assumes "list_all sensible cs'" and "submit_task nx now redis req (serve_all nx cs (start_app nx)) = (HttpError 507 detail, app)"
    and "pr_cpu_request req \<le> pr_cpu_request req'" and "pr_memory_request req \<le> pr_memory_request req'"
  shows "\<exists>code d. fst (submit_task nx now' redis' req' (serve_all nx cs' app)) = HttpError code d"
proof -
  let ?I = "none_fits (pr_cpu_request req) (pr_memory_request req)"
  have "?I (sa_allocator app)"
    using submit_507 [OF assms(2)] reached_floats [of nx cs] by (auto simp: none_fits_def floats_def)
  have "?I (sa_allocator (serve_all nx cs' app))"
  proof (rule serve_all_invariant [where I = "\<lambda>app. ?I (sa_allocator app)"])
    fix c and app :: "'a scheduler_app"
    assume c: "c \<in> set cs'" and ok: "?I (sa_allocator app)"
    from c assms(1) have "sensible c" by (auto simp: list_all_iff)
    then show "?I (sa_allocator (snd (api_serve nx c app)))"
    proof (rule serve_allocator)
      show "?I (snd (allocate t cpu memory ''best_fit'' al))" if "0 \<le> cpu" "0 \<le> memory" "?I al" for t cpu memory al
        using allocate_none_fits [OF that(3,1,2)] by (metis prod.collapse)
    qed (rule ok)
  qed fact
  then show ?thesis using assms(3,4) by (rule submit_none_fits)
qed

section \<open>Witnesses\<close>

definition sample_request :: "string \<Rightarrow> string list \<Rightarrow> rat \<Rightarrow> SchedulerRequest" where
  "sample_request t ds cpu = \<lparr>pr_task_id = t, pr_command = ''true'', pr_priority = ''medium'', pr_algorithm = ''mlfq'',
     pr_cpu_request = cpu, pr_memory_request = 256, pr_estimated_duration = 30, pr_depends_on = ds\<rparr>"

definition sample_calls :: "api_call list" where
  "sample_calls = [Submit 1 NoRedis (sample_request ''train'' [''clean''] 1), Order]"

lemma sample_detector:
  "sa_detector (serve_all mem_nx sample_calls (start_app mem_nx)) = ([''train'', ''clean''], [(''train'', ''clean'')])"
  by (simp add: sample_calls_def sample_request_def submit_detector start_app_def add_task_def add_new_def has_deadlock_def)

theorem dependencies_stay_acyclic_witness:
  "\<exists>order. api_execution_order mem_nx (serve_all mem_nx sample_calls (start_app mem_nx)) = ExecutionOrder order \<and>
     distinct order \<and> set order = {''train'', ''clean''} \<and> sorted_wrt (\<lambda>u v. (u, v) \<notin> {(''train'', ''clean'')}) order"
  using dependencies_stay_acyclic [OF mem_digraphs, of sample_calls] by (simp add: sample_detector)

theorem ready_rounds_complete_witness:
  "{''train'', ''clean''} \<subseteq> set (run_rounds mem_nx ([''train'', ''clean''], [(''train'', ''clean'')]) 2 [])"
  using ready_rounds_complete [OF mem_digraphs sample_detector [symmetric]] by (simp add: numeral_2_eq_2)


theorem nodes_within_capacity_witness:
  "list_all (\<lambda>(k, n). nd_used_cpu n \<le> nd_total_cpu n * (1 + 1 / 2 ^ 53) ^ 2)
     (al_nodes (sa_allocator (serve_all mem_nx sample_calls (start_app mem_nx))))"
proof -
  have "list_all sensible sample_calls" by (simp add: sample_calls_def sample_request_def)
  from nodes_within_capacity [OF this, of mem_nx] show ?thesis by (auto simp: list_all_iff)
qed

lemma too_large: "\<not> node_fits 9 256 \<lparr>nd_node_id = k, nd_total_cpu = 4, nd_total_memory = m, nd_used_cpu = 0, nd_used_memory = 0\<rparr>"
  "\<not> node_fits 9 256 \<lparr>nd_node_id = k, nd_total_cpu = 8, nd_total_memory = m, nd_used_cpu = 0, nd_used_memory = 0\<rparr>"
  using fl_of_int [of 4] fl_of_int [of 8] by (simp_all add: node_fits_def available_cpu_def)

theorem exhausted_for_good_witness:
  "\<exists>code d. fst (submit_task mem_nx 3 Pushed (sample_request ''big2'' [] 9) (serve_all mem_nx sample_calls
     (snd (submit_task mem_nx 2 NoRedis (sample_request ''big'' [] 9) (serve_all mem_nx [] (start_app mem_nx)))))) = HttpError code d"
proof -
  let ?s = "submit_task mem_nx 2 NoRedis (sample_request ''big'' [] 9) (serve_all mem_nx [] (start_app mem_nx))"
  have "fst ?s = HttpError 507 (TextDetail ''No node has enough resources for big'')"
    by (simp add: submit_task_def start_app_def add_task_def add_new_def has_deadlock_def sample_request_def
      allocate_def add_node_def new_allocator_def too_large)
  then have s: "?s = (HttpError 507 (TextDetail ''No node has enough resources for big''), snd ?s)" by (metis prod.collapse)
  have "list_all sensible sample_calls" by (simp add: sample_calls_def sample_request_def)
  from exhausted_for_good [OF this s, of "sample_request ''big2'' [] 9"] show ?thesis by (simp add: sample_request_def)
qed

end
