(* ===== verification/Token_Bucket.thy ===== *)
theory Token_Bucket
  imports Resource_Allocator
begin

text \<open>
  The rate limiter of the Python gateway (\<open>src/gateway/rate_limit.py\<close>): a token bucket per client, refilled
  with floats from the readings of a monotonic clock, which are a parameter of every operation. The
  limits of the roles are positive, so the division in \<open>reset_in\<close> has a result.
\<close>

section \<open>Buckets\<close>

record TokenBucket =
  tb_capacity :: float64
  tb_refill_rate :: float64
  tb_tokens :: float64
  tb_last_refill :: float64

definition new_bucket :: "float64 \<Rightarrow> int \<Rightarrow> float64 \<Rightarrow> TokenBucket" where
  "new_bucket now capacity refill_rate =
     \<lparr>tb_capacity = fl (of_int capacity), tb_refill_rate = refill_rate, tb_tokens = fl (of_int capacity), tb_last_refill = now\<rparr>"

definition refill :: "float64 \<Rightarrow> TokenBucket \<Rightarrow> TokenBucket" where
  "refill now b =
     (let elapsed = fl (now - tb_last_refill b)
      in b\<lparr>tb_tokens := min (tb_capacity b) (fl (tb_tokens b + fl (elapsed * tb_refill_rate b))), tb_last_refill := now\<rparr>)"

definition consume :: "float64 \<Rightarrow> int \<Rightarrow> TokenBucket \<Rightarrow> bool \<times> TokenBucket" where
  "consume now tokens b =
     (let b = refill now b
      in if of_int tokens \<le> tb_tokens b then (True, b\<lparr>tb_tokens := fl (tb_tokens b - of_int tokens)\<rparr>) else (False, b))"

definition remaining :: "float64 \<Rightarrow> TokenBucket \<Rightarrow> int \<times> TokenBucket" where
  "remaining now b = (let b = refill now b in (trunc (tb_tokens b), b))"

definition reset_in :: "float64 \<Rightarrow> TokenBucket \<Rightarrow> float64 \<times> TokenBucket" where
  "reset_in now b =
     (let b = refill now b; deficit = fl (tb_capacity b - tb_tokens b)
      in (if deficit \<le> 0 then 0 else py_round (fl (deficit / tb_refill_rate b)) 2, b))"

section \<open>The limiter\<close>

definition ROLE_LIMITS :: "string \<rightharpoonup> int" where
  "ROLE_LIMITS = [''admin'' \<mapsto> 200, ''user'' \<mapsto> 60, ''readonly'' \<mapsto> 10]"

definition role_limit :: "string \<Rightarrow> int" where
  "role_limit role = (case ROLE_LIMITS role of None \<Rightarrow> 10 | Some l \<Rightarrow> l)"

type_synonym PyRateLimiter = "string \<rightharpoonup> TokenBucket"

definition make_bucket :: "float64 \<Rightarrow> string \<Rightarrow> TokenBucket" where
  "make_bucket now role = (let limit = role_limit role in new_bucket now limit (fl (of_int limit / 60)))"

definition get_bucket :: "float64 \<Rightarrow> string \<Rightarrow> string \<Rightarrow> PyRateLimiter \<Rightarrow> TokenBucket" where
  "get_bucket now client_id role rl = (case rl client_id of None \<Rightarrow> make_bucket now role | Some b \<Rightarrow> b)"

text \<open>The clock is read when a bucket is made and at each of the three refills.\<close>

type_synonym readings = "float64 \<times> float64 \<times> float64 \<times> float64"

fun check :: "readings \<Rightarrow> string \<Rightarrow> string \<Rightarrow> PyRateLimiter \<Rightarrow> (bool \<times> int \<times> float64) \<times> PyRateLimiter" where
  "check (t0, t1, t2, t3) client_id role rl =
     (let bucket = get_bucket t0 client_id role rl;
          (allowed, bucket) = consume t1 1 bucket;
          (rest, bucket) = remaining t2 bucket;
          (reset, bucket) = reset_in t3 bucket
      in ((allowed, rest, reset), rl(client_id \<mapsto> bucket)))"

record rate_reply =
  ry_status :: "nat option"
  ry_limit :: int
  ry_remaining :: int
  ry_reset :: float64
  ry_retry_after :: "int option"

text \<open>The dependency of a route: \<open>None\<close> lets the request through, with the values for the headers.\<close>

definition rate_limit_dependency :: "readings \<Rightarrow> string \<Rightarrow> string \<Rightarrow> PyRateLimiter \<Rightarrow> rate_reply \<times> PyRateLimiter" where
  "rate_limit_dependency ts username role rl =
     (let ((allowed, rest, reset), rl) = check ts username role rl
      in (\<lparr>ry_status = (if allowed then None else Some 429), ry_limit = role_limit role, ry_remaining = rest, ry_reset = reset,
           ry_retry_after = (if allowed then None else Some (trunc reset + 1))\<rparr>, rl))"

section \<open>One bucket\<close>

definition bucket_ok :: "TokenBucket \<Rightarrow> bool" where
  "bucket_ok b \<longleftrightarrow> fl (tb_capacity b) = tb_capacity b \<and> 0 \<le> tb_refill_rate b \<and> 0 \<le> tb_tokens b \<and> tb_tokens b \<le> tb_capacity b"

definition unit_error :: "TokenBucket \<Rightarrow> rat" where
  "unit_error b = tb_capacity b / 2 ^ 53"

lemma refill_fields [simp]:
  "tb_capacity (refill now b) = tb_capacity b" "tb_refill_rate (refill now b) = tb_refill_rate b"
  "tb_last_refill (refill now b) = now"
  by (simp_all add: refill_def Let_def)

lemma refill_ok:
  assumes "bucket_ok b" and "tb_last_refill b \<le> now"
  shows "bucket_ok (refill now b)"
proof -
  have "0 \<le> fl (now - tb_last_refill b)" using assms(2) by (intro fl_nonneg) simp
  then have "0 \<le> fl (fl (now - tb_last_refill b) * tb_refill_rate b)" using assms(1) by (intro fl_nonneg) (simp add: bucket_ok_def)
  then have "0 \<le> fl (tb_tokens b + fl (fl (now - tb_last_refill b) * tb_refill_rate b))"
    using assms(1) by (intro fl_nonneg) (simp add: bucket_ok_def)
  with assms(1) show ?thesis by (auto simp: bucket_ok_def refill_def Let_def)
qed

text \<open>The error of the three roundings of a refill, when the exact sum is at most three times the capacity.\<close>

lemma three_roundings:
  fixes e :: rat
  assumes "0 \<le> e" and "e \<le> 1 / 100" and "0 \<le> k" and "k \<le> c" and "0 \<le> d" and "d \<le> 2 * c"
  shows "(k + d * (1 + e) * (1 + e)) * (1 + e) \<le> k + d + 8 * c * e"
proof -
  have "3 * e + 3 * e\<^sup>2 + e ^ 3 \<le> 7 / 2 * e"
  proof -
    have two: "e * e \<le> e * (1 / 100)" using assms(1,2) by (intro mult_left_mono)
    have "e * e * e \<le> e * e * 1" using assms(1,2) by (intro mult_left_mono) auto
    with two assms(1) show ?thesis by (simp add: power2_eq_square power3_eq_cube)
  qed
  then have "d * (3 * e + 3 * e\<^sup>2 + e ^ 3) \<le> 2 * c * (7 / 2 * e)"
    using assms by (intro mult_mono) auto
  moreover have "k * e \<le> c * e" using assms by (intro mult_right_mono)
  ultimately show ?thesis by (simp add: algebra_simps power2_eq_square power3_eq_cube)
qed

lemma scale: "x * (1 + 1 / m) = x + x / (m :: rat)"
  by (simp add: distrib_left)

lemma refill_bound:
  assumes "bucket_ok b" and "tb_last_refill b \<le> now"
  shows "tb_tokens (refill now b) \<le> tb_tokens b + (now - tb_last_refill b) * tb_refill_rate b + 8 * unit_error b"
proof -
  define e :: rat where "e = 1 / 2 ^ 53"
  have e: "0 \<le> e" "e \<le> 1 / 100" by (simp_all add: e_def)
  have up: "0 \<le> x \<Longrightarrow> fl x \<le> x * (1 + e)" for x using fl_upper [of x] by (simp add: e_def)
  let ?k = "tb_tokens b" and ?c = "tb_capacity b" and ?r = "tb_refill_rate b" and ?t = "now - tb_last_refill b"
  let ?d = "?t * ?r"
  have b: "0 \<le> ?k" "?k \<le> ?c" "0 \<le> ?r" and t: "0 \<le> ?t" using assms by (simp_all add: bucket_ok_def)
  then have d: "0 \<le> ?d" by simp
  have "fl ?t * ?r \<le> ?t * (1 + e) * ?r" using up [OF t] b(3) by (intro mult_right_mono)
  also have "\<dots> = ?d * (1 + e)" by (simp add: algebra_simps)
  finally have one: "fl ?t * ?r \<le> ?d * (1 + e)" .
  have "fl (fl ?t * ?r) \<le> fl ?t * ?r * (1 + e)" using fl_nonneg [OF t] b(3) by (intro up) simp
  also have "\<dots> \<le> ?d * (1 + e) * (1 + e)" using one e(1) by (intro mult_right_mono) auto
  finally have two: "fl (fl ?t * ?r) \<le> ?d * (1 + e) * (1 + e)" .
  have "fl (?k + fl (fl ?t * ?r)) \<le> (?k + fl (fl ?t * ?r)) * (1 + e)"
    using fl_nonneg [OF t] b by (intro up) (simp add: fl_nonneg)
  also have "\<dots> \<le> (?k + ?d * (1 + e) * (1 + e)) * (1 + e)" using two e(1) by (intro mult_right_mono) auto
  finally have three: "fl (?k + fl (fl ?t * ?r)) \<le> (?k + ?d * (1 + e) * (1 + e)) * (1 + e)" .
  have err: "8 * unit_error b = 8 * ?c * e" by (simp add: unit_error_def e_def)
  have new: "tb_tokens (refill now b) = min ?c (fl (?k + fl (fl ?t * ?r)))" by (simp add: refill_def Let_def)
  show ?thesis
  proof (cases "?d \<le> 2 * ?c")
    case True
    from three three_roundings [OF e b(1,2) d True] new err show ?thesis by linarith
  next
    case False
    have "0 \<le> 8 * ?c * e" using b e by simp
    with False b new err show ?thesis by linarith
  qed
qed

lemma consume_fields:
  assumes "consume now n b = (a, b')"
  shows "tb_capacity b' = tb_capacity b" "tb_refill_rate b' = tb_refill_rate b" "tb_last_refill b' = now"
  using assms by (auto simp: consume_def Let_def split: if_splits)

lemma consume_one:
  assumes "bucket_ok b" and "tb_last_refill b \<le> now" and "consume now 1 b = (a, b')"
  shows "bucket_ok b'"
    and "of_bool a + tb_tokens b' \<le> tb_tokens b + (now - tb_last_refill b) * tb_refill_rate b + 9 * unit_error b"
proof -
  let ?b = "refill now b"
  have ok: "bucket_ok ?b" using refill_ok [OF assms(1,2)] .
  have bound: "tb_tokens ?b \<le> tb_tokens b + (now - tb_last_refill b) * tb_refill_rate b + 8 * unit_error b"
    by (rule refill_bound [OF assms(1,2)])
  have err: "0 \<le> unit_error b" using assms(1) by (simp add: unit_error_def bucket_ok_def)
  have "bucket_ok b' \<and> of_bool a + tb_tokens b' \<le> tb_tokens ?b + unit_error b"
  proof (cases "1 \<le> tb_tokens ?b")
    case True
    then have b': "a" "b' = ?b\<lparr>tb_tokens := fl (tb_tokens ?b - 1)\<rparr>" using assms(3) by (auto simp: consume_def Let_def)
    have "fl (tb_tokens ?b - 1) \<le> (tb_tokens ?b - 1) * (1 + 1 / 2 ^ 53)" using True by (intro fl_upper) simp
    also have "\<dots> = tb_tokens ?b - 1 + (tb_tokens ?b - 1) / 2 ^ 53" by (rule scale)
    also have "\<dots> \<le> tb_tokens ?b - 1 + unit_error b"
      using ok by (simp add: unit_error_def bucket_ok_def divide_right_mono)
    finally have le: "fl (tb_tokens ?b - 1) \<le> tb_tokens ?b - 1 + unit_error b" .
    have "fl (tb_tokens ?b - 1) \<le> fl (tb_capacity b)" using ok by (intro fl_mono) (simp add: bucket_ok_def)
    then have "bucket_ok b'" using ok b' fl_nonneg [of "tb_tokens ?b - 1"] True by (simp add: bucket_ok_def)
    with le b' show ?thesis by simp
  next
    case False
    with assms(3) ok err show ?thesis by (auto simp: consume_def Let_def)
  qed
  then show "bucket_ok b'"
    and "of_bool a + tb_tokens b' \<le> tb_tokens b + (now - tb_last_refill b) * tb_refill_rate b + 9 * unit_error b"
    using bound by linarith+
qed

section \<open>All clients\<close>

lemma check_run:
  "check (t0, t1, t2, t3) c role rl = ((a, rest, reset), rl') \<Longrightarrow>
   \<exists>b. consume t1 1 (get_bucket t0 c role rl) = (a, b) \<and> rl' = rl(c \<mapsto> refill t3 (refill t2 b))"
  by (auto simp: Let_def remaining_def reset_in_def split: prod.splits)

text \<open>A check takes at most what the bucket had and gained, up to 25 unit errors.\<close>

lemma check_bound:
  assumes "bucket_ok b" and "consume t1 1 b = (a, b1)" and "b' = refill t3 (refill t2 b1)"
    and "tb_last_refill b \<le> t1" and "t1 \<le> t2" and "t2 \<le> t3"
  shows "bucket_ok b' \<and> tb_capacity b' = tb_capacity b \<and> tb_refill_rate b' = tb_refill_rate b \<and> tb_last_refill b' = t3 \<and>
    of_bool a + tb_tokens b' \<le> tb_tokens b + (t3 - tb_last_refill b) * tb_refill_rate b + 25 * unit_error b"
proof -
  note f = consume_fields [OF assms(2)]
  have b1: "bucket_ok b1" by (rule consume_one(1) [OF assms(1,4,2)])
  have l1: "tb_last_refill b1 \<le> t2" using f(3) assms(5) by simp
  have b2: "bucket_ok (refill t2 b1)" by (rule refill_ok [OF b1 l1])
  have l2: "tb_last_refill (refill t2 b1) \<le> t3" using assms(6) by simp
  have e: "unit_error b1 = unit_error b" "unit_error (refill t2 b1) = unit_error b" using f by (simp_all add: unit_error_def)
  have "tb_tokens b' \<le> tb_tokens b1 + (t2 - t1) * tb_refill_rate b + (t3 - t2) * tb_refill_rate b + 16 * unit_error b"
    using refill_bound [OF b1 l1] refill_bound [OF b2 l2] f e assms(3) by simp
  with consume_one(2) [OF assms(1,4,2)]
  have "of_bool a + tb_tokens b' \<le> tb_tokens b + (t1 - tb_last_refill b) * tb_refill_rate b + (t2 - t1) * tb_refill_rate b +
      (t3 - t2) * tb_refill_rate b + 25 * unit_error b" by linarith
  moreover have "(t1 - tb_last_refill b) * tb_refill_rate b + (t2 - t1) * tb_refill_rate b + (t3 - t2) * tb_refill_rate b =
      (t3 - tb_last_refill b) * tb_refill_rate b" by (simp add: algebra_simps)
  ultimately have "of_bool a + tb_tokens b' \<le> tb_tokens b + (t3 - tb_last_refill b) * tb_refill_rate b + 25 * unit_error b"
    by linarith
  with refill_ok [OF b2 l2] f assms(3) show ?thesis by simp
qed

type_synonym check_call = "readings \<times> string \<times> string"

fun run_checks :: "check_call list \<Rightarrow> PyRateLimiter \<Rightarrow> (string \<times> bool) list" where
  "run_checks [] rl = []"
| "run_checks ((ts, c, role) # cs) rl =
     (let ((allowed, rest, reset), rl') = check ts c role rl in (c, allowed) # run_checks cs rl')"

fun in_time :: "rat \<Rightarrow> check_call list \<Rightarrow> bool" where
  "in_time t [] \<longleftrightarrow> True"
| "in_time t (((t0, t1, t2, t3), c, role) # cs) \<longleftrightarrow> t \<le> t0 \<and> t0 \<le> t1 \<and> t1 \<le> t2 \<and> t2 \<le> t3 \<and> in_time t3 cs"

fun end_time :: "rat \<Rightarrow> check_call list \<Rightarrow> rat" where
  "end_time t [] = t"
| "end_time t (((t0, t1, t2, t3), c, role) # cs) = end_time t3 cs"

definition admitted :: "string \<Rightarrow> (string \<times> bool) list \<Rightarrow> rat" where
  "admitted c rs = of_nat (length (filter (\<lambda>r. r = (c, True)) rs))"

definition asked :: "string \<Rightarrow> check_call list \<Rightarrow> rat" where
  "asked c cs = of_nat (length (filter (\<lambda>(ts, c', role). c' = c) cs))"

lemma end_time_ge: "in_time t cs \<Longrightarrow> t \<le> end_time t cs"
proof (induction cs arbitrary: t)
  case (Cons x cs)
  obtain t0 t1 t2 t3 c role where x: "x = ((t0, t1, t2, t3), c, role)" by (cases x) auto
  with Cons show ?case using Cons.IH [of t3] by fastforce
qed simp

text \<open>
  What the bucket of a client can still give, at time zero: a client without one gets a full bucket at
  the time of its first request. The limit and the rate are those of one role.
\<close>

definition role_rate :: "string \<Rightarrow> float64" where
  "role_rate role = fl (of_int (role_limit role) / 60)"

definition credit :: "string \<Rightarrow> string \<Rightarrow> rat \<Rightarrow> PyRateLimiter \<Rightarrow> rat \<Rightarrow> bool" where
  "credit c role t rl v \<longleftrightarrow>
     (case rl c of
        None \<Rightarrow> of_int (role_limit role) - t * role_rate role \<le> v
      | Some b \<Rightarrow> bucket_ok b \<and> tb_capacity b = of_int (role_limit role) \<and> tb_refill_rate b = role_rate role \<and>
          tb_last_refill b \<le> t \<and> tb_tokens b - tb_last_refill b * role_rate role \<le> v)"

lemma role_limit_bounds: "10 \<le> role_limit role" "role_limit role \<le> 200"
  by (auto simp: role_limit_def ROLE_LIMITS_def)

lemma role_rate_nonneg: "0 \<le> role_rate role"
  unfolding role_rate_def using role_limit_bounds(1) [of role] by (intro fl_nonneg) simp

lemma make_bucket_ok:
  "bucket_ok (make_bucket t role)" "tb_capacity (make_bucket t role) = of_int (role_limit role)"
  "tb_refill_rate (make_bucket t role) = role_rate role" "tb_last_refill (make_bucket t role) = t"
  "tb_tokens (make_bucket t role) = of_int (role_limit role)"
proof -
  have "fl (of_int (role_limit role)) = of_int (role_limit role)"
    using role_limit_bounds [of role] by (intro fl_of_int) simp
  then show "bucket_ok (make_bucket t role)" "tb_capacity (make_bucket t role) = of_int (role_limit role)"
    "tb_refill_rate (make_bucket t role) = role_rate role" "tb_last_refill (make_bucket t role) = t"
    "tb_tokens (make_bucket t role) = of_int (role_limit role)"
    using role_limit_bounds(1) [of role] role_rate_nonneg [of role]
    by (simp_all add: make_bucket_def new_bucket_def bucket_ok_def role_rate_def Let_def)
qed

lemma credit_bucket:
  assumes "credit c role t rl v" and "t \<le> t0"
  shows "credit c role t0 [c \<mapsto> get_bucket t0 c role rl] v"
proof (cases "rl c")
  case None
  have "t * role_rate role \<le> t0 * role_rate role" using assms(2) role_rate_nonneg by (rule mult_right_mono)
  with None assms(1) show ?thesis by (simp add: credit_def get_bucket_def make_bucket_ok)
qed (use assms in \<open>auto simp: credit_def get_bucket_def\<close>)

lemma credit_later: "credit c role t rl v \<Longrightarrow> t \<le> t' \<Longrightarrow> credit c role t' rl v"
  using mult_right_mono [of t t' "role_rate role"] role_rate_nonneg [of role]
  by (auto simp: credit_def split: option.splits)

lemma credit_check:
  assumes "credit c role t rl v" and "t \<le> t0" "t0 \<le> t1" "t1 \<le> t2" "t2 \<le> t3"
    and "check (t0, t1, t2, t3) c role rl = ((a, rest, reset), rl')"
  shows "credit c role t3 rl' (v - of_bool a + 25 * (of_int (role_limit role) / 2 ^ 53))"
proof -
  let ?b = "get_bucket t0 c role rl"
  from check_run [OF assms(6)] obtain b1 where b1: "consume t1 1 ?b = (a, b1)" and rl': "rl' = rl(c \<mapsto> refill t3 (refill t2 b1))"
    by blast
  have b: "bucket_ok ?b" "tb_capacity ?b = of_int (role_limit role)" "tb_refill_rate ?b = role_rate role"
      "tb_last_refill ?b \<le> t0" "tb_tokens ?b - tb_last_refill ?b * role_rate role \<le> v"
    using credit_bucket [OF assms(1,2)] by (simp_all add: credit_def)
  have "tb_last_refill ?b \<le> t1" using b(4) assms(3) by simp
  from check_bound [OF b(1) b1 refl this assms(4,5)] b rl' show ?thesis
    by (simp add: credit_def unit_error_def algebra_simps)
qed

lemma credit_other:
  assumes "credit c role t rl v" and "t \<le> t3" and "c' \<noteq> c" and "check ts c' role' rl = (r, rl')"
  shows "credit c role t3 rl' v"
proof -
  have "rl' c = rl c" using assms(3,4) by (cases ts) (auto simp: Let_def split: prod.splits)
  with credit_later [OF assms(1,2)] show ?thesis by (simp add: credit_def)
qed

lemma run_checks_bound:
  assumes "in_time t cs" and "credit c role t rl v" and "\<forall>(ts, c', role') \<in> set cs. c' = c \<longrightarrow> role' = role"
  shows "admitted c (run_checks cs rl) \<le>
    v + end_time t cs * role_rate role + asked c cs * (25 * (of_int (role_limit role) / 2 ^ 53))"
  using assms
proof (induction cs arbitrary: t rl v)
  case Nil
  then show ?case
    using mult_right_mono [of _ t "role_rate role"] role_rate_nonneg [of role] role_limit_bounds(1) [of role]
    by (force simp: admitted_def asked_def credit_def bucket_ok_def split: option.splits)
next
  case (Cons x cs)
  let ?e = "25 * (of_int (role_limit role) / 2 ^ 53) :: rat"
  obtain t0 t1 t2 t3 c' role' where x: "x = ((t0, t1, t2, t3), c', role')" by (cases x) auto
  obtain a rest reset rl' where ck: "check (t0, t1, t2, t3) c' role' rl = ((a, rest, reset), rl')"
    by (cases "check (t0, t1, t2, t3) c' role' rl") auto
  have t: "t \<le> t0" "t0 \<le> t1" "t1 \<le> t2" "t2 \<le> t3" and later: "in_time t3 cs" using Cons.prems(1) x by auto
  have roles: "\<forall>(ts, c', role') \<in> set cs. c' = c \<longrightarrow> role' = role" using Cons.prems(3) by auto
  have run: "run_checks (x # cs) rl = (c', a) # run_checks cs rl'" using ck by (simp add: x)
  show ?case
  proof (cases "c' = c")
    case True
    with Cons.prems(3) x have "role' = role" by auto
    with ck True credit_check [OF Cons.prems(2) t] have "credit c role t3 rl' (v - of_bool a + ?e)" by simp
    note rest = Cons.IH [OF later this roles]
    have "admitted c (run_checks (x # cs) rl) = of_bool a + admitted c (run_checks cs rl')"
      unfolding run using True by (simp add: admitted_def)
    moreover have "asked c (x # cs) * ?e = ?e + asked c cs * ?e"
      using True x by (simp add: asked_def distrib_right del: times_divide_eq_right)
    moreover have "end_time t (x # cs) = end_time t3 cs" by (simp add: x)
    ultimately show ?thesis using rest by (simp only:)
  next
    case False
    from credit_other [OF Cons.prems(2) _ False ck, of t3] t have "credit c role t3 rl' v" by simp
    from Cons.IH [OF later this roles] show ?thesis
      unfolding run using False x by (simp add: admitted_def asked_def)
  qed
qed

text \<open>C17. Whatever other clients do, a client with one role is admitted at most its limit, plus what is refilled in the
  time that passes, \<open>limit / 60\<close> a second. The roundings add less than \<open>2 ^ -48\<close> of the limit per request,
  which is below one request for the first \<open>2 ^ 40\<close> of them.\<close>

theorem admissions_bounded:
  assumes "in_time t cs" and "\<forall>(ts, c', role') \<in> set cs. c' = c \<longrightarrow> role' = role"
  shows "admitted c (run_checks cs Map.empty) \<le>
    of_int (role_limit role) + (end_time t cs - t) * role_rate role + asked c cs * of_int (role_limit role) / 2 ^ 48"
proof -
  let ?l = "of_int (role_limit role) :: rat"
  have "credit c role t Map.empty (?l - t * role_rate role)" by (simp add: credit_def)
  from run_checks_bound [OF assms(1) this assms(2)]
  have "admitted c (run_checks cs Map.empty) \<le>
      ?l - t * role_rate role + end_time t cs * role_rate role + asked c cs * (25 * (?l / 2 ^ 53))" .
  moreover have "asked c cs * (25 * (?l / 2 ^ 53)) \<le> asked c cs * (?l / 2 ^ 48)"
    using role_limit_bounds(1) [of role] by (intro mult_left_mono) (simp_all add: asked_def)
  ultimately show ?thesis by (simp add: algebra_simps)
qed

section \<open>Witness\<close>

theorem admissions_bounded_witness:
  "admitted ''bob'' (run_checks (replicate 20 ((1, 1, 1, 1), ''bob'', ''readonly'')) Map.empty) \<le> 11"
proof -
  let ?cs = "replicate 20 ((1, 1, 1, 1), ''bob'', ''readonly'') :: check_call list"
  have "in_time 1 ?cs" "end_time 1 ?cs = 1" by (simp_all add: numeral_eq_Suc)
  moreover have "asked ''bob'' ?cs = 20" "role_limit ''readonly'' = 10"
    by (simp_all add: asked_def role_limit_def ROLE_LIMITS_def)
  ultimately show ?thesis using admissions_bounded [of 1 ?cs "''bob''" "''readonly''"] by auto
qed

end
