(* ===== verification/Py_Auth.thy ===== *)
theory Py_Auth
  imports Prelude
begin

text \<open>
  Authentication of the Python gateway (\<open>src/gateway/auth.py\<close>) and its login route (\<open>src/gateway/main.py\<close>):
  passwords, tokens and roles. The password library and the JWT library are parameters; an exception
  of theirs that the code does not catch is an error of the server. Times are instants.
\<close>

section \<open>Libraries\<close>

record jwt_payload =
  jp_sub :: "string option"
  jp_role :: "string option"
  jp_exp :: instant

record jose =
  jo_encode :: "jwt_payload \<Rightarrow> string \<Rightarrow> string \<Rightarrow> string"
  jo_decode :: "instant \<Rightarrow> string \<Rightarrow> string \<Rightarrow> string list \<Rightarrow> jwt_payload option"

type_synonym pwd_verify = "string \<Rightarrow> string \<Rightarrow> bool option"

section \<open>Users\<close>

record UserInDB =
  us_username :: string
  us_hashed_password :: string
  us_role :: string
  us_is_active :: bool

type_synonym user_db = "string \<rightharpoonup> UserInDB"

definition FAKE_USERS_DB :: "(string \<Rightarrow> string) \<Rightarrow> user_db" where
  "FAKE_USERS_DB hash =
     [''admin'' \<mapsto> \<lparr>us_username = ''admin'', us_hashed_password = hash ''adminpass'', us_role = ''admin'', us_is_active = True\<rparr>,
      ''alice'' \<mapsto> \<lparr>us_username = ''alice'', us_hashed_password = hash ''alicepass'', us_role = ''user'', us_is_active = True\<rparr>,
      ''bob'' \<mapsto> \<lparr>us_username = ''bob'', us_hashed_password = hash ''bobpass'', us_role = ''readonly'', us_is_active = True\<rparr>]"

definition dummy_hash :: string where
  "dummy_hash = ''$2b$12$dummyhashtopreventtimingattacks000''"

text \<open>\<open>None\<close>: the library raised.\<close>

definition authenticate_user :: "pwd_verify \<Rightarrow> user_db \<Rightarrow> string \<Rightarrow> string \<Rightarrow> UserInDB option option" where
  "authenticate_user verify db username password =
     (case db username of
        None \<Rightarrow> map_option (\<lambda>_. None) (verify password dummy_hash)
      | Some user \<Rightarrow>
          (case verify password (us_hashed_password user) of
             None \<Rightarrow> None
           | Some ok \<Rightarrow> if \<not> ok then Some None else if \<not> us_is_active user then Some None else Some (Some user)))"

definition ALGORITHM :: string where "ALGORITHM = ''HS256''"

definition ACCESS_TOKEN_EXPIRE_MINUTES :: int where "ACCESS_TOKEN_EXPIRE_MINUTES = 30"

definition create_access_token :: "jose \<Rightarrow> string \<Rightarrow> instant \<Rightarrow> string \<Rightarrow> string \<Rightarrow> int \<Rightarrow> string" where
  "create_access_token jo key now sub role minutes =
     jo_encode jo \<lparr>jp_sub = Some sub, jp_role = Some role, jp_exp = now + minutes * 60 * 10 ^ 9\<rparr> key ALGORITHM"

text \<open>\<open>Forbidden\<close> is the reply 403 that names the roles required and the user's role.\<close>

datatype auth_reply = AuthError nat string | Forbidden "string list" string | Authorized UserInDB | AccessToken string | AuthFailure

definition get_current_user :: "jose \<Rightarrow> string \<Rightarrow> user_db \<Rightarrow> instant \<Rightarrow> string \<Rightarrow> auth_reply" where
  "get_current_user jo key db now token =
     (case jo_decode jo now token key [ALGORITHM] of
        None \<Rightarrow> AuthError 401 ''Could not validate credentials''
      | Some payload \<Rightarrow>
          (case jp_sub payload of
             None \<Rightarrow> AuthError 401 ''Could not validate credentials''
           | Some username \<Rightarrow>
               (case db username of
                  None \<Rightarrow> AuthError 401 ''Could not validate credentials''
                | Some user \<Rightarrow> if \<not> us_is_active user then AuthError 400 ''Inactive user'' else Authorized user)))"

definition require_role :: "string list \<Rightarrow> auth_reply \<Rightarrow> auth_reply" where
  "require_role roles current =
     (case current of
        Authorized user \<Rightarrow> if us_role user \<notin> set roles then Forbidden roles (us_role user) else Authorized user
      | r \<Rightarrow> r)"

definition login :: "jose \<Rightarrow> pwd_verify \<Rightarrow> string \<Rightarrow> user_db \<Rightarrow> instant \<Rightarrow> string \<Rightarrow> string \<Rightarrow> auth_reply" where
  "login jo verify key db now username password =
     (case authenticate_user verify db username password of
        None \<Rightarrow> AuthFailure
      | Some None \<Rightarrow> AuthError 401 ''Incorrect username or password''
      | Some (Some user) \<Rightarrow>
          AccessToken (create_access_token jo key now (us_username user) (us_role user) ACCESS_TOKEN_EXPIRE_MINUTES))"

section \<open>Roles\<close>

text \<open>A token that was encoded decodes to its subject until the second it expires in.\<close>

definition signs_tokens :: "jose \<Rightarrow> bool" where
  "signs_tokens jo \<longleftrightarrow> (\<forall>p s key alg now. jp_sub p = Some s \<longrightarrow> now < jp_exp p - 10 ^ 9 \<longrightarrow>
     (\<exists>p'. jo_decode jo now (jo_encode jo p key alg) key [alg] = Some p' \<and> jp_sub p' = Some s))"

definition named_users :: "user_db \<Rightarrow> bool" where
  "named_users db \<longleftrightarrow> (\<forall>k u. db k = Some u \<longrightarrow> us_username u = k)"

text \<open>A login with a password that verifies gives a token with which the user, and no other, is let through by
  every route whose roles contain the role that the database holds, and refused with 403 by every
  other route, for half an hour but for the second in which it expires.\<close>

theorem login_grants_role:
  assumes "signs_tokens jo" and "named_users db" and "db username = Some user" and "us_is_active user"
    and "verify password (us_hashed_password user) = Some True" and "now' < now + 30 * 60 * 10 ^ 9 - 10 ^ 9"
  shows "\<exists>token. login jo verify key db now username password = AccessToken token \<and>
    require_role roles (get_current_user jo key db now' token) =
      (if us_role user \<in> set roles then Authorized user else Forbidden roles (us_role user))"
proof -
  let ?p = "\<lparr>jp_sub = Some (us_username user), jp_role = Some (us_role user), jp_exp = now + 30 * 60 * 10 ^ 9\<rparr>"
  obtain p' where "jo_decode jo now' (jo_encode jo ?p key ALGORITHM) key [ALGORITHM] = Some p'" "jp_sub p' = jp_sub ?p"
    using assms(1) [unfolded signs_tokens_def, rule_format, of ?p "us_username user" now' key ALGORITHM] assms(6) by auto
  moreover have "us_username user = username" using assms(2,3) by (simp add: named_users_def)
  ultimately show ?thesis
    using assms(3-5) by (simp add: login_def authenticate_user_def create_access_token_def ACCESS_TOKEN_EXPIRE_MINUTES_def
      get_current_user_def require_role_def)
qed

text \<open>Roles are those of the database at the time of the request: whatever a token says of its role, a request is
  let through exactly as the user's own role allows, and a user who was removed or made inactive is
  refused at once.\<close>

theorem role_from_database:
  assumes "jo_decode jo now token key [ALGORITHM] = Some payload"
  shows "require_role roles (get_current_user jo key db now token) = Authorized user \<longleftrightarrow>
    (\<exists>name. jp_sub payload = Some name \<and> db name = Some user) \<and> us_is_active user \<and> us_role user \<in> set roles"
  using assms by (auto simp: require_role_def get_current_user_def split: option.splits)

section \<open>Witnesses\<close>

text \<open>Tokens that are their subjects, and hashes that are the passwords.\<close>

definition plain_jose :: jose where
  "plain_jose = \<lparr>jo_encode = (\<lambda>p key alg. (case jp_sub p of None \<Rightarrow> [] | Some s \<Rightarrow> s)),
     jo_decode = (\<lambda>now token key algs. Some \<lparr>jp_sub = Some token, jp_role = None, jp_exp = 0\<rparr>)\<rparr>"

lemma plain_signs: "signs_tokens plain_jose"
  by (simp add: signs_tokens_def plain_jose_def)

definition alice :: UserInDB where
  "alice = \<lparr>us_username = ''alice'', us_hashed_password = ''alicepass'', us_role = ''user'', us_is_active = True\<rparr>"

theorem login_grants_role_witness:
  "\<exists>token. login plain_jose (\<lambda>p h. Some (p = h)) ''key'' (FAKE_USERS_DB (\<lambda>p. p)) 0 ''alice'' ''alicepass'' = AccessToken token \<and>
     require_role [''admin''] (get_current_user plain_jose ''key'' (FAKE_USERS_DB (\<lambda>p. p)) 60 token) =
       Forbidden [''admin''] ''user''"
proof -
  have named: "named_users (FAKE_USERS_DB (\<lambda>p. p))" by (auto simp: named_users_def FAKE_USERS_DB_def split: if_splits)
  have db: "FAKE_USERS_DB (\<lambda>p. p) ''alice'' = Some alice" by (simp add: FAKE_USERS_DB_def alice_def)
  show ?thesis
    using login_grants_role [OF plain_signs named db, of "\<lambda>p h. Some (p = h)" "''alicepass''" 60 0 "''key''" "[''admin'']"]
    by (simp add: alice_def)
qed

theorem role_from_database_witness:
  "require_role [''user''] (get_current_user plain_jose ''key'' (FAKE_USERS_DB (\<lambda>p. p)) 60 ''alice'') =
     Authorized \<lparr>us_username = ''alice'', us_hashed_password = ''alicepass'', us_role = ''user'', us_is_active = True\<rparr>"
proof -
  have "jo_decode plain_jose 60 ''alice'' ''key'' [ALGORITHM] = Some \<lparr>jp_sub = Some ''alice'', jp_role = None, jp_exp = 0\<rparr>"
    by (simp add: plain_jose_def)
  from role_from_database [OF this, of "[''user'']" "FAKE_USERS_DB (\<lambda>p. p)"] show ?thesis by (simp add: FAKE_USERS_DB_def)
qed

end
