(* ===== verification/Worker_Runner.thy ===== *)
theory Worker_Runner
  imports Effects Go_Text
begin

text \<open>
  The worker (\<open>src/worker/runner.py\<close>): it runs the command of a task, logs its output to Redis and keeps the
  status of the task there. A call of Redis may raise, and so may starting the process; an action
  returns whether it went through. The subprocess is a parameter that gives the lines of its output
  and its exit code; the time in the entries is left out.
\<close>

section \<open>Calls\<close>

type_synonym task_status = "string \<times> string \<times> int option"

datatype worker_call =
    RPush string string
  | PublishLog string string
  | SetStatus task_status
  | PublishStatus task_status

datatype worker_event = Called worker_call bool | Spawned "(string list \<times> int) option"

record 'w worker_env =
  wk_redis :: "worker_call \<Rightarrow> 'w \<Rightarrow> bool \<times> 'w"
  wk_Popen :: "string \<Rightarrow> 'w \<Rightarrow> (string list \<times> int) option \<times> 'w"
  wk_traceback :: string

definition call_redis :: "'w worker_env \<Rightarrow> worker_call \<Rightarrow> ('w, worker_event, bool) act" where
  "call_redis env c = logged (wk_redis env c) (Called c)"

text \<open>\<open>a\<close> and then \<open>b\<close>, unless \<open>a\<close> raised.\<close>

definition and_then :: "('w, 'e, bool) act \<Rightarrow> ('w, 'e, bool) act \<Rightarrow> ('w, 'e, bool) act" where
  "and_then a b = do { ok \<leftarrow> a; if ok then b else State_Monad.return False }"

definition worker_log :: "'w worker_env \<Rightarrow> string \<Rightarrow> string \<Rightarrow> ('w, worker_event, bool) act" where
  "worker_log env task_id message =
     and_then (call_redis env (RPush task_id message)) (call_redis env (PublishLog task_id message))"

definition worker_set_status :: "'w worker_env \<Rightarrow> string \<Rightarrow> string \<Rightarrow> int option \<Rightarrow> ('w, worker_event, bool) act" where
  "worker_set_status env task_id status exit_code =
     and_then (call_redis env (SetStatus (task_id, status, exit_code))) (call_redis env (PublishStatus (task_id, status, exit_code)))"

section \<open>Running a task\<close>

definition py_space :: "char \<Rightarrow> bool" where
  "py_space c \<longleftrightarrow> c \<in> set [CHR '' '', CHR 0x09, CHR 0x0A, CHR 0x0B, CHR 0x0C, CHR 0x0D, CHR 0x1C, CHR 0x1D, CHR 0x1E, CHR 0x1F]"

definition py_strip :: "string \<Rightarrow> string" where
  "py_strip s = rev (dropWhile py_space (rev (dropWhile py_space s)))"

fun log_lines :: "'w worker_env \<Rightarrow> string \<Rightarrow> string list \<Rightarrow> ('w, worker_event, bool) act" where
  "log_lines env task_id [] = State_Monad.return True"
| "log_lines env task_id (l # ls) = and_then (worker_log env task_id (py_strip l)) (log_lines env task_id ls)"

definition task_outcome :: "'w worker_env \<Rightarrow> string \<Rightarrow> int \<Rightarrow> ('w, worker_event, bool) act" where
  "task_outcome env task_id exit_code =
     (if exit_code = 0
      then and_then (worker_log env task_id ''Task completed successfully'') (worker_set_status env task_id ''completed'' (Some 0))
      else and_then (worker_log env task_id (''Task failed with exit code '' @ Itoa exit_code))
             (worker_set_status env task_id ''failed'' (Some exit_code)))"

definition run_process :: "'w worker_env \<Rightarrow> string \<Rightarrow> string \<Rightarrow> ('w, worker_event, bool) act" where
  "run_process env task_id command =
     do {
       p \<leftarrow> logged (wk_Popen env command) Spawned;
       case p of
         None \<Rightarrow> State_Monad.return False
       | Some (outp, exit_code) \<Rightarrow> and_then (log_lines env task_id outp) (task_outcome env task_id exit_code)
     }"

definition task_exception :: "'w worker_env \<Rightarrow> string \<Rightarrow> ('w, worker_event, bool) act" where
  "task_exception env task_id =
     and_then (worker_log env task_id (''Exception: '' @ wk_traceback env)) (worker_set_status env task_id ''failed'' (Some 1))"

definition run_task :: "'w worker_env \<Rightarrow> string \<Rightarrow> string \<Rightarrow> ('w, worker_event, bool) act" where
  "run_task env task_id command =
     and_then (worker_log env task_id (''Starting task: '' @ command))
       (and_then (worker_set_status env task_id ''running'' None)
         (do { ok \<leftarrow> run_process env task_id command; if ok then State_Monad.return True else task_exception env task_id }))"

definition worker_main :: "(string \<Rightarrow> string option) \<Rightarrow> 'w worker_env \<Rightarrow> ('w, worker_event, bool) act" where
  "worker_main environ env =
     run_task env (case environ ''CLOUDOS_TASK_ID'' of None \<Rightarrow> ''unknown'' | Some v \<Rightarrow> v)
       (case environ ''CLOUDOS_COMMAND'' of None \<Rightarrow> ''echo '' @ [CHR 0x27] @ ''No command specified'' @ [CHR 0x27] | Some v \<Rightarrow> v)"

section \<open>Statuses\<close>

definition statuses :: "worker_event list \<Rightarrow> task_status list" where
  "statuses es = concat (map (\<lambda>ev. case ev of Called (SetStatus s) True \<Rightarrow> [s] | _ \<Rightarrow> []) es)"

lemma statuses_simps [simp]:
  "statuses [] = []" "statuses (es @ es') = statuses es @ statuses es'"
  "statuses (Spawned p # es) = statuses es" "statuses (Called (RPush k v) ok # es) = statuses es"
  "statuses (Called (PublishLog k v) ok # es) = statuses es"
  "statuses (Called (PublishStatus s) ok # es) = statuses es"
  "statuses (Called (SetStatus s) ok # es) = (if ok then [s] else []) @ statuses es"
  by (simp_all add: statuses_def split: bool.split)

text \<open>A Redis that refuses exactly the calls of a set.\<close>

definition refuses :: "'w worker_env \<Rightarrow> worker_call set \<Rightarrow> bool" where
  "refuses env bad \<longleftrightarrow> (\<forall>c w. fst (wk_redis env c w) \<longleftrightarrow> c \<notin> bad)"

definition ends_with :: "('w, worker_event, bool) act \<Rightarrow> task_status list \<Rightarrow> bool \<Rightarrow> bool" where
  "ends_with a ss ok \<longleftrightarrow> wlog a (\<lambda>es r. statuses es = ss \<and> r = ok)"

lemma ends_call:
  assumes "refuses env bad"
  shows "ends_with (call_redis env c) (case c of SetStatus s \<Rightarrow> if c \<notin> bad then [s] else [] | _ \<Rightarrow> []) (c \<notin> bad)"
  unfolding ends_with_def wlog_def
proof (intro allI)
  fix w tr
  obtain w' where "wk_redis env c w = (c \<notin> bad, w')"
    using assms [unfolded refuses_def, rule_format, of c w] by (cases "wk_redis env c w") auto
  then show "\<exists>es a w'. run_state (call_redis env c) (w, tr) = (a, (w', tr @ es)) \<and>
      statuses es = (case c of SetStatus s \<Rightarrow> if c \<notin> bad then [s] else [] | _ \<Rightarrow> []) \<and> a = (c \<notin> bad)"
    by (cases c) (simp_all add: call_redis_def run_logged)
qed

lemma ends_and:
  assumes "ends_with a ss ok" and "ok \<Longrightarrow> ends_with b ts ok'"
  shows "ends_with (and_then a b) (if ok then ss @ ts else ss) (ok \<and> ok')"
  unfolding ends_with_def and_then_def
  by (rule wlog_seq [OF assms(1) [unfolded ends_with_def]])
    (use assms(2) in \<open>auto simp: ends_with_def intro!: wlog_intros elim!: wlog_mono\<close>)

lemma ends_log:
  assumes "refuses env bad" and "RPush t m \<notin> bad" and "PublishLog t m \<notin> bad"
  shows "ends_with (worker_log env t m) [] True"
  using ends_and [OF ends_call [OF assms(1), of "RPush t m"] ends_call [OF assms(1), of "PublishLog t m"]] assms(2,3)
  by (simp add: worker_log_def)

lemma ends_status:
  assumes "refuses env bad" and "SetStatus (t, st, code) \<notin> bad"
  shows "ends_with (worker_set_status env t st code) [(t, st, code)] (PublishStatus (t, st, code) \<notin> bad)"
  using ends_and [OF ends_call [OF assms(1), of "SetStatus (t, st, code)"] ends_call [OF assms(1), of "PublishStatus (t, st, code)"]] assms(2)
  by (simp add: worker_set_status_def)

text \<open>Here only the publication of statuses may be refused.\<close>

definition publishing :: "worker_call set \<Rightarrow> bool" where
  "publishing bad \<longleftrightarrow> bad \<subseteq> range PublishStatus"

lemma ends_lines:
  assumes "refuses env bad" and "publishing bad"
  shows "ends_with (log_lines env t ls) [] True"
proof (induction ls)
  case (Cons l ls)
  have "ends_with (worker_log env t (py_strip l)) [] True"
    using assms(2) by (intro ends_log [OF assms(1)]) (auto simp: publishing_def)
  from ends_and [OF this Cons] show ?case by simp
qed (simp add: ends_with_def wlog_intros)

lemma ends_outcome:
  assumes "refuses env bad" and "publishing bad" and "s = (t, if code = 0 then ''completed'' else ''failed'', Some code)"
  shows "ends_with (task_outcome env t code) [s] (PublishStatus s \<notin> bad)"
proof -
  have l: "ends_with (worker_log env t m) [] True" for m
    using assms(2) by (intro ends_log [OF assms(1)]) (auto simp: publishing_def)
  have st: "ends_with (worker_set_status env t x c) [(t, x, c)] (PublishStatus (t, x, c) \<notin> bad)" for x c
    using assms(2) by (intro ends_status [OF assms(1)]) (auto simp: publishing_def)
  show ?thesis
    using ends_and [OF l st [of "''completed''" "Some 0"]] ends_and [OF l st [of "''failed''" "Some code"]] assms(3)
    by (simp add: task_outcome_def)
qed

lemma ends_exception:
  assumes "refuses env bad" and "publishing bad"
  shows "ends_with (task_exception env t) [(t, ''failed'', Some 1)] (PublishStatus (t, ''failed'', Some 1) \<notin> bad)"
proof -
  have "ends_with (worker_log env t (''Exception: '' @ wk_traceback env)) [] True"
    using assms(2) by (intro ends_log [OF assms(1)]) (auto simp: publishing_def)
  moreover have "ends_with (worker_set_status env t ''failed'' (Some 1)) [(t, ''failed'', Some 1)] (PublishStatus (t, ''failed'', Some 1) \<notin> bad)"
    using assms(2) by (intro ends_status [OF assms(1)]) (auto simp: publishing_def)
  ultimately show ?thesis using ends_and by (fastforce simp: task_exception_def)
qed

definition final_status :: "string \<Rightarrow> int \<Rightarrow> task_status" where
  "final_status t code = (t, if code = 0 then ''completed'' else ''failed'', Some code)"

definition recorded :: "worker_call set \<Rightarrow> string \<Rightarrow> (string list \<times> int) option \<Rightarrow> task_status list" where
  "recorded bad t p =
     (case p of
        None \<Rightarrow> [(t, ''failed'', Some 1)]
      | Some (outp, code) \<Rightarrow>
          if PublishStatus (final_status t code) \<in> bad then [final_status t code, (t, ''failed'', Some 1)]
          else [final_status t code])"

lemma process_ends:
  assumes "refuses env bad" and "publishing bad"
  shows "wlog (run_process env t command) (\<lambda>es r. \<exists>p. Spawned p \<in> set es \<and>
    (case p of
       None \<Rightarrow> statuses es = [] \<and> \<not> r
     | Some (outp, code) \<Rightarrow> statuses es = [final_status t code] \<and> (r \<longleftrightarrow> PublishStatus (final_status t code) \<notin> bad)))"
  unfolding run_process_def
proof (intro wlog_bind wlog_logged, goal_cases)
  case (1 p)
  show ?case
  proof (cases p)
    case None
    then show ?thesis by (auto intro!: wlog_intros)
  next
    case (Some q)
    obtain outp code where q: "q = (outp, code)" by force
    have "ends_with (and_then (log_lines env t outp) (task_outcome env t code)) [final_status t code]
        (PublishStatus (final_status t code) \<notin> bad)"
      using ends_and [OF ends_lines [OF assms] ends_outcome [OF assms final_status_def]] by simp
    then show ?thesis using Some q by (auto simp: ends_with_def elim!: wlog_mono)
  qed
qed

lemma and_then_wlog:
  assumes "ends_with a ss True" and "wlog b (\<lambda>es r. P (ss @ statuses es) (set es) r)"
    and "\<And>xs S S' r. P xs S r \<Longrightarrow> S \<subseteq> S' \<Longrightarrow> P xs S' r"
  shows "wlog (and_then a b) (\<lambda>es r. P (statuses es) (set es) r)"
  unfolding and_then_def
  by (rule wlog_seq [OF assms(1) [unfolded ends_with_def]]) (use assms(2,3) in \<open>auto elim!: wlog_mono\<close>)


section \<open>Witness\<close>

definition losing_publish :: "unit worker_env" where
  "losing_publish = \<lparr>wk_redis = (\<lambda>c w. (c \<noteq> PublishStatus (''t'', ''completed'', Some 0), w)),
     wk_Popen = (\<lambda>c w. (Some ([''ok''], 0), w)), wk_traceback = ''redis.exceptions.ConnectionError''\<rparr>"


end
