(* ===== verification/Py_Metrics.thy ===== *)
theory Py_Metrics
  imports Float64
begin

text \<open>The counters and gauges of the Python services (\<open>src/storage/metrics.py\<close>): dictionaries from names to values,
  where a name that is not there counts as zero. The rendering as text and the uptime are left out.\<close>

record py_metrics =
  pm_counters :: "string \<rightharpoonup> int"
  pm_gauges :: "string \<rightharpoonup> float64"

definition new_py_metrics :: py_metrics where
  "new_py_metrics = \<lparr>pm_counters = Map.empty, pm_gauges = Map.empty\<rparr>"

definition dict_get :: "(string \<rightharpoonup> 'v) \<Rightarrow> string \<Rightarrow> 'v \<Rightarrow> 'v" where
  "dict_get m k d = (case m k of None \<Rightarrow> d | Some v \<Rightarrow> v)"

definition increment :: "string \<Rightarrow> int \<Rightarrow> py_metrics \<Rightarrow> py_metrics" where
  "increment name v m = m\<lparr>pm_counters := (pm_counters m)(name \<mapsto> dict_get (pm_counters m) name 0 + v)\<rparr>"

definition set_gauge :: "string \<Rightarrow> float64 \<Rightarrow> py_metrics \<Rightarrow> py_metrics" where
  "set_gauge name v m = m\<lparr>pm_gauges := (pm_gauges m)(name \<mapsto> v)\<rparr>"

definition record_task_submitted :: "string \<Rightarrow> string \<Rightarrow> py_metrics \<Rightarrow> py_metrics" where
  "record_task_submitted algorithm priority m =
     increment (''tasks_by_priority_'' @ priority) 1
       (increment (''tasks_by_algorithm_'' @ algorithm) 1 (increment ''tasks_submitted_total'' 1 m))"

definition record_task_completed :: "float64 \<Rightarrow> py_metrics \<Rightarrow> py_metrics" where
  "record_task_completed duration m =
     (let m = increment ''tasks_completed_total'' 1 m;
          current_avg = dict_get (pm_gauges m) ''avg_task_duration'' 0;
          n = dict_get (pm_counters m) ''tasks_completed_total'' 1
      in set_gauge ''avg_task_duration'' (fl (fl (fl (current_avg * fl (of_int (n - 1))) + duration) / fl (of_int n))) m)"

definition record_task_failed :: "py_metrics \<Rightarrow> py_metrics" where
  "record_task_failed m = increment ''tasks_failed_total'' 1 m"

definition set_queue_depth :: "int \<Rightarrow> py_metrics \<Rightarrow> py_metrics" where
  "set_queue_depth depth m = set_gauge ''queue_depth'' (of_int depth) m"

definition set_active_workers :: "int \<Rightarrow> py_metrics \<Rightarrow> py_metrics" where
  "set_active_workers count m = set_gauge ''active_workers'' (of_int count) m"

section \<open>Counts\<close>

datatype py_event = Submitted string string | Completed float64 | Failed

fun record_event :: "py_event \<Rightarrow> py_metrics \<Rightarrow> py_metrics" where
  "record_event (Submitted a p) m = record_task_submitted a p m"
| "record_event (Completed d) m = record_task_completed d m"
| "record_event Failed m = record_task_failed m"

definition counter :: "py_metrics \<Rightarrow> string \<Rightarrow> int" where
  "counter m k = dict_get (pm_counters m) k 0"

lemma counter_increment [simp]: "counter (increment k v m) k' = counter m k' + (if k' = k then v else 0)"
  by (simp add: counter_def increment_def dict_get_def)

lemma counter_gauge [simp]: "counter (set_gauge k v m) k' = counter m k'"
  by (simp add: counter_def set_gauge_def)

lemma counter_new [simp]: "counter new_py_metrics k = 0"
  by (simp add: counter_def new_py_metrics_def dict_get_def)

text \<open>The totals and the counters by algorithm and by priority count the events, whatever names are used for
  algorithms and priorities: no two of them share a key.\<close>

theorem events_counted:
  "m = fold record_event es new_py_metrics \<Longrightarrow>
     counter m ''tasks_submitted_total'' = int (length (filter (\<lambda>e. \<exists>a p. e = Submitted a p) es)) \<and>
     counter m (''tasks_by_algorithm_'' @ a) = int (length (filter (\<lambda>e. \<exists>p. e = Submitted a p) es)) \<and>
     counter m (''tasks_by_priority_'' @ q) = int (length (filter (\<lambda>e. \<exists>a. e = Submitted a q) es)) \<and>
     counter m ''tasks_completed_total'' = int (length (filter (\<lambda>e. \<exists>d. e = Completed d) es)) \<and>
     counter m ''tasks_failed_total'' = int (length (filter (\<lambda>e. e = Failed) es))"
proof (induction es arbitrary: m rule: rev_induct)
  case (snoc e es)
  then show ?case
    by (cases e) (auto simp: record_task_submitted_def record_task_completed_def record_task_failed_def Let_def)
qed simp

end
