(* ===== verification/Spec2Isabelle.thy ===== *)
theory Spec2Isabelle
  imports CloudTask_Properties TaskJob_Properties Keda_Scaler Module1_Properties Module1_Stubs Router_Properties
    Gateway_Properties Gateway_Metrics Metrics_Collector Postgres_Properties Scenario_Runner PubSub_Properties
    Scheduler_Api Token_Bucket Py_Auth Worker_Runner Py_Metrics
begin

text \<open>
  \<^bold>\<open>Verification of the CloudOS operator\<close>

  \<^bold>\<open>The program.\<close> The repository holds two Kubernetes operators and the services around them. The
  orchestrator (\<open>src/module2-orchestrator\<close>) runs \<open>CloudTask\<close> resources. It has two HTTP APIs for tenants
  with signed tokens: the task handlers behind the router of \<open>pkg/api/router.go\<close>, which check a request
  and create the resource, but which no program of the repository starts; and the server of
  \<open>pkg/api/handlers.go\<close>, which \<open>cmd/api-gateway\<close> serves. The admission webhook fills defaults and refuses
  bad specs; the controller turns a task into a pod, mirrors the pod's phase into the status, retries
  and cleans up behind a finalizer. Scalers compute numbers of replicas from queue depth and load, and
  a gRPC client with a circuit breaker talks to an external scheduler, for which there is a mock
  service. Executions are stored in PostgreSQL, and events pass through Redis. The operator at the top
  level (\<open>src/internal/controller\<close>) runs \<open>TaskJob\<close> resources with dependencies on one another. Separate
  Python services are a scheduler with an HTTP API, a gateway with logins and rate limits, and a worker
  that runs one command.

  \<^bold>\<open>Conventions.\<close> Go's integers are words of their width, read by \<open>sint\<close>; \<open>float64\<close> is a rational number
  rounded after each operation; strings are lists of characters; instants are nanoseconds; a pointer
  that may be nil is an option. A fallible call returns an error or a value as a sum, and a panic is a
  value of \<open>outcome\<close>. The Kubernetes API server, Redis, gRPC, the JWT library, the JSON decoder and the
  clock are parameters: records of functions on a world of any type, so that a theorem holds for all of
  their behaviours, interference between two calls included. Where a property needs documented
  behaviour of one of them, that is a named hypothesis (\<open>quiet_server\<close>, \<open>job_server\<close>, \<open>counting\<close>,
  \<open>scan_ends\<close>, \<open>checks_signatures\<close>, \<open>signs_and_parses\<close>, \<open>refusing\<close>, \<open>runs_updates\<close>, \<open>stores_keys\<close>,
  \<open>digraphs\<close>, \<open>signs_tokens\<close>, \<open>refuses\<close>), and a concrete instance in memory shows that it can hold.
  Python's integers are \<open>int\<close>, its floats are rounded like \<open>float64\<close>. Messages to loggers are left out,
  except where the request logger of the gateway is the subject.

  \<^bold>\<open>Foundations.\<close>
  \<^item> \<open>Prelude\<close>: widths, wrap-around and division, errors, panics, instants and durations.
  \<^item> \<open>Float64\<close>: rounding to double precision and conversions. \<open>Go_Text\<close>: \<open>strconv\<close> and \<open>strings\<close>.
    \<open>Go_Time\<close>: \<open>ParseDuration\<close>, \<open>Duration.String\<close>, \<open>Seconds\<close> and \<open>Since\<close>. \<open>Regex\<close>: regular expressions,
    with a matcher proved equal to the language.
  \<^item> \<open>Effects\<close>: programs over a world with a log of their calls, in the state monad. \<open>wlog\<close> states what
    the log satisfies whatever the world does; \<open>triple\<close> is a Hoare triple on the world.
  \<^item> \<open>Kube_Client\<close>: pods and the Kubernetes client. \<open>Mem_Cluster\<close>: a server in memory for witnesses.
  \<^item> \<open>Http\<close>: requests, responses and the status wrapper of \<open>pkg/api/router.go\<close>, which is transparent.

  \<^bold>\<open>CloudTask.\<close>
  \<^item> \<open>CloudTask_Types\<close> (\<open>api/v1/cloudtask_types.go\<close>, \<open>cloudtask_webhook.go\<close>): the resource, its schema, and
    the webhook \<open>Default\<close>, \<open>ValidateCreate\<close>, \<open>ValidateUpdate\<close>, \<open>ValidateDelete\<close>.
  \<^item> \<open>Validators\<close> (\<open>pkg/api/validators/task_validator.go\<close>): every validator. Images are characterised by a
    reference parser, timeouts exactly, and the two name validators share the contract \<open>name_validator\<close>.
  \<^item> \<open>CloudTask_Controller\<close> (\<open>controllers/cloudtask_controller.go\<close>): \<open>Reconcile\<close>, split where the source
    has its stages, with \<open>constructPod\<close> and \<open>updateStatusFromPod\<close>.
  \<^item> \<open>CloudTask_Properties\<close>: every status written is a step of the specification \<open>status_step\<close>; the
    finalizer is released only after the pod; pods are created only when missing; the retry budget
    holds; the deadline of a validated timeout; and two stuck states, after a retry and after a lost pod.

  \<^bold>\<open>TaskJob.\<close> \<open>TaskJob_Controller\<close> (\<open>api/v1/taskjob_types.go\<close>, \<open>internal/controller/taskjob_controller.go\<close>)
  and \<open>TaskJob_Properties\<close>: a pod only after all dependencies completed, completion only from the pod,
  final phases stay, cycles never run, and when building the pod panics.

  \<^bold>\<open>API.\<close>
  \<^item> \<open>Auth\<close> (\<open>pkg/auth/jwt.go\<close>, \<open>middleware.go\<close>): tokens. The algorithm is pinned, and generation and
    validation are a round trip.
  \<^item> \<open>Rate_Limiter\<close> (\<open>pkg/auth/ratelimiter.go\<close>): \<open>Allow\<close> admits exactly the quota per calendar minute and
    hour; resetting a tenant ends. The loop over cursors is a partial function, since a server may
    keep it going; the theorem shows that it returns when scans make progress.
  \<^item> \<open>Task_Handler\<close> and \<open>Task_Handler_Properties\<close> (\<open>pkg/api/handlers/task_handler.go\<close>): the five handlers;
    pages, admission of created tasks, and replies that panic.
  \<^item> \<open>Router\<close> and \<open>Router_Properties\<close> (\<open>pkg/api/router.go\<close>, \<open>handlers/health_handler.go\<close>): middleware, chains
    and routes; no call without a valid token, isolation of tenants over the whole chain, and what the
    order of the middleware does to rate limiting and the health endpoints. These are theorems about
    the routes of \<open>SetupRoutes\<close>, not about those of \<open>cmd/api-gateway\<close>, which has its own chain.

  \<^bold>\<open>Scaling and the scheduler.\<close>
  \<^item> \<open>Queue_Scaler\<close>: the contract of a scaler by queue depth, with bounds, monotonicity and sufficiency.
    \<open>Hpa_Calculator\<close> (\<open>pkg/scaling/hpa_calculator.go\<close>) and \<open>Keda_Scaler\<close> (\<open>pkg/scaling/keda_scaler.go\<close>) meet
    it, and so agree. The publisher of the latter is a step relation over starts, stops and turns.
  \<^item> \<open>Module1_Client\<close> and \<open>Module1_Properties\<close> (\<open>pkg/grpc/module1_client.go\<close>): retries are bounded and back
    off, the breaker opens in time and fails fast, and what wrongly counts as a failure.
  \<^item> \<open>Module1_Stubs\<close> (\<open>pkg/grpc/client.go\<close>, \<open>mock_client.go\<close>): the two other clients and their contract
    \<open>scheduler_client\<close>.

  \<^bold>\<open>Gateway, storage and mock scheduler.\<close>
  \<^item> \<open>Request_Logger\<close>, \<open>Api_Server\<close> and \<open>Gateway_Properties\<close> (\<open>pkg/logger\<close>, \<open>pkg/api/handlers.go\<close>,
    \<open>cmd/api-gateway\<close>): the chain of the served routes. Tokens are required, the quota is the token's
    tenant's, but a task is submitted for whichever tenant the body names.
  \<^item> \<open>Gateway_Metrics\<close> (\<open>pkg/middleware\<close>): what requests add to the metrics, and what a panic misses.
    \<open>Metrics_Collector\<close> (\<open>pkg/scaling/metrics.go\<close>): the collector as a step relation; it reports zero.
  \<^item> \<open>Postgres_Store\<close> and \<open>Postgres_Properties\<close> (\<open>pkg/storage/postgres.go\<close>): statements have fixed texts
    with values as arguments; what is recorded on completion; connecting.
  \<^item> \<open>Redis_PubSub\<close> and \<open>PubSub_Properties\<close> (\<open>pkg/pubsub\<close>): slices of subscribers over shared arrays refine
    lists, and a publication reaches every subscriber with room.
  \<^item> \<open>Mock_Scheduler\<close>, \<open>Mock_Properties\<close> and \<open>Scenario_Runner\<close> (\<open>pkg/mock\<close>, \<open>cmd/mock-scheduler\<close>): the
    service with its goroutines as steps, its type invariant and the accounting of its queue depth.

  \<^bold>\<open>Python services.\<close>
  \<^item> \<open>Py_Heapq\<close>: the heaps of the standard library over a weak order. \<open>Task_Queues\<close>
    (\<open>src/scheduler/priority_queue.py\<close>): the four queues; the multi-level queue refines a priority queue,
    round robin is a rotation, shortest job first a stable sort.
  \<^item> \<open>Resource_Allocator\<close> and \<open>Deadlock_Detector\<close>: placement on nodes, and the graph of dependencies with
    the graph library as a parameter. \<open>Scheduler_Api\<close> composes them: the graph stays acyclic, nodes stay
    within capacity, ready tasks can always be completed, and three defects, among them that no submitted
    task is ever served.
  \<^item> \<open>Token_Bucket\<close> (\<open>src/gateway/rate_limit.py\<close>): a bound on admissions that accounts for rounding.
    \<open>Py_Auth\<close> (\<open>src/gateway/auth.py\<close> and the login route): logins, tokens and roles.
  \<^item> \<open>Worker_Runner\<close> (\<open>src/worker/runner.py\<close>): the statuses a run leaves. \<open>Py_Metrics\<close>
    (\<open>src/storage/metrics.py\<close>): counters.

  \<^bold>\<open>Bounds.\<close> Retry loops recurse on the number of attempts left, which the configuration gives; a counter
  of attempts is not a word, and the source's would wrap only after \<open>2 ^ 63\<close> attempts. Theorems on word
  arithmetic state the range in which the source does not overflow.

  \<^bold>\<open>Not modelled.\<close> Generated code, the user interface, and the programs that only wire parts together.
  \<open>src/gateway/main.py\<close> apart from its login route, and \<open>src/scheduler/main.py\<close> with its \<open>models.py\<close>:
  they import names that the scheduler's modules do not define, so they do not start. The cached Redis
  client of \<open>src/scheduler/scheduler_api.py\<close>, whose answer is part of a request. The single calls of Redis
  and PostgreSQL in \<open>src/storage/task_store.py\<close>, and the stubs of \<open>pkg/scaling/scaler.go\<close>. JSON
  encoding is left to the values it is given, and pattern matching of routes to the library. Mutexes are
  modelled by the atomicity of the operations they protect; data races of unprotected fields are not.
\<close>

end
